(* ===== verification/Go_Base.thy ===== *)
theory Go_Base
  imports Main "HOL-Library.AList" "HOL-Library.Char_ord" "HOL-Library.List_Lexorder"
begin

text \<open>
  The prelude of the development: the parts of the Go language and of its standard
  library that the sources use everywhere.

  \<^item> A Go computation either delivers a value or panics (\<open>go\<close>); the \<open>(value, error)\<close>
    pairs of Go are sums with the error on the left (\<open>result\<close>).
  \<^item> A \<open>[]byte\<close> and a \<open>string\<close> are both sequences of bytes, so both are \<open>string\<close> here
    and the conversions between them are the identity.
  \<^item> An instant (\<open>time.Time\<close>) and a duration are numbers of nanoseconds, of type \<open>int\<close>.
  \<^item> \<open>encoding/hex\<close>, \<open>strings\<close>, \<open>strconv\<close> and slicing are written out and executable.

  The lemma bundle \<open>go_Val\<close> turns "this computation returned" into the values of its
  parts; the collection \<open>go_defs\<close> holds the definitions to unfold in a handler.
\<close>

named_theorems go_defs

section \<open>Values, errors and panics\<close>

type_synonym bytes = string
type_synonym time = int
type_synonym duration = int
type_synonym 'a result = "string + 'a"

datatype 'a go = Val 'a | Panic string

fun go_bind :: "'a go \<Rightarrow> ('a \<Rightarrow> 'b go) \<Rightarrow> 'b go" where
  "go_bind (Val x) f = f x"
| "go_bind (Panic e) f = Panic e"

abbreviation second :: duration where "second \<equiv> 1000000000"
abbreviation minute :: duration where "minute \<equiv> 60000000000"

text \<open>\<open>Time.Unix()\<close> and \<open>time.Unix(s, 0)\<close>; a duration's whole seconds (\<open>int64(d.Seconds())\<close>
  truncates towards zero).\<close>

definition unix :: "time \<Rightarrow> int" where
  "unix t = t div second"

definition of_unix :: "int \<Rightarrow> time" where
  "of_unix s = s * second"

text \<open>The zero value of \<open>time.Time\<close>, midnight of the first of January of the year 1.\<close>

definition zero_time :: time where
  "zero_time = - 62135596800 * second"

definition trunc_seconds :: "duration \<Rightarrow> int" where
  "trunc_seconds d = sgn d * (\<bar>d\<bar> div second)"

section \<open>Slicing\<close>

text \<open>\<open>s[:n]\<close> panics when \<open>n\<close> is past the end.\<close>

definition slice_to :: "nat \<Rightarrow> string \<Rightarrow> string go" where
  "slice_to n s = (if n \<le> length s then Val (take n s)
                   else Panic ''slice bounds out of range'')"

section \<open>encoding/hex\<close>

definition hex_digit :: "nat \<Rightarrow> char" where
  "hex_digit n = (if n < 10 then char_of (48 + n) else char_of (87 + n))"

fun hex_encode :: "bytes \<Rightarrow> string" where
  "hex_encode [] = []"
| "hex_encode (c # cs) =
     hex_digit (of_char c div 16) # hex_digit (of_char c mod 16) # hex_encode cs"

definition hex_val :: "char \<Rightarrow> nat option" where
  "hex_val c = (let n = (of_char c :: nat) in
     if 48 \<le> n \<and> n < 58 then Some (n - 48)
     else if 97 \<le> n \<and> n < 103 then Some (n - 87)
     else if 65 \<le> n \<and> n < 71 then Some (n - 55)
     else None)"

text \<open>\<open>hex.DecodeString\<close> returns the bytes decoded before an error together with the
  error; the flag is \<open>True\<close> when there was one.\<close>

fun hex_decode :: "string \<Rightarrow> bytes \<times> bool" where
  "hex_decode [] = ([], False)"
| "hex_decode [c] = ([], True)"
| "hex_decode (a # b # cs) =
     (case (hex_val a, hex_val b) of
        (Some x, Some y) \<Rightarrow> (let (r, e) = hex_decode cs in (char_of (16 * x + y) # r, e))
      | _ \<Rightarrow> ([], True))"

section \<open>strings\<close>

definition has_prefix :: "string \<Rightarrow> string \<Rightarrow> bool" where
  "has_prefix s p \<longleftrightarrow> take (length p) s = p"

definition has_suffix :: "string \<Rightarrow> string \<Rightarrow> bool" where
  "has_suffix s p \<longleftrightarrow> length p \<le> length s \<and> drop (length s - length p) s = p"

definition trim_prefix :: "string \<Rightarrow> string \<Rightarrow> string" where
  "trim_prefix s p = (if has_prefix s p then drop (length p) s else s)"

fun contains :: "string \<Rightarrow> string \<Rightarrow> bool" where
  "contains [] p \<longleftrightarrow> p = []"
| "contains (c # cs) p \<longleftrightarrow> has_prefix (c # cs) p \<or> contains cs p"

text \<open>\<open>strings.Split\<close> and \<open>strings.Join\<close> with a separator of one byte, and
  \<open>strings.SplitN(s, sep, 2)\<close>.\<close>

fun split_on :: "char \<Rightarrow> string \<Rightarrow> string list" where
  "split_on d [] = [[]]"
| "split_on d (c # cs) =
     (if c = d then [] # split_on d cs
      else (case split_on d cs of [] \<Rightarrow> [[c]] | w # ws \<Rightarrow> (c # w) # ws))"

fun join :: "char \<Rightarrow> string list \<Rightarrow> string" where
  "join d [] = []"
| "join d [w] = w"
| "join d (w # ws) = w @ d # join d ws"

definition split2 :: "char \<Rightarrow> string \<Rightarrow> string list" where
  "split2 d s = (let w = takeWhile (\<lambda>c. c \<noteq> d) s; r = dropWhile (\<lambda>c. c \<noteq> d) s in
     (case r of [] \<Rightarrow> [s] | _ # r' \<Rightarrow> [w, r']))"

section \<open>strconv: decimal integers (\<open>%d\<close>)\<close>

fun dec_nat :: "nat \<Rightarrow> string" where
  "dec_nat n = (if n < 10 then [char_of (48 + n)]
                else dec_nat (n div 10) @ [char_of (48 + n mod 10)])"

declare dec_nat.simps [simp del]

definition dec_int :: "int \<Rightarrow> string" where
  "dec_int i = (if i < 0 then CHR ''-'' # dec_nat (nat (- i)) else dec_nat (nat i))"

section \<open>Integer conversions\<close>

text \<open>\<open>int32(i)\<close> and \<open>int64\<close> arithmetic keep the low bits, read in two's complement.\<close>

definition int32 :: "int \<Rightarrow> int" where
  "int32 i = (i + 2 ^ 31) mod 2 ^ 32 - 2 ^ 31"

definition int64 :: "int \<Rightarrow> int" where
  "int64 i = (i + 2 ^ 63) mod 2 ^ 64 - 2 ^ 63"

section \<open>Go maps that are ranged over or counted\<close>

text \<open>
  A map whose entries are ranged over or counted is an association list with distinct
  keys; its order stands for Go's unspecified iteration order, and no theorem fixes it.
\<close>

definition keys_distinct :: "('k \<times> 'v) list \<Rightarrow> bool" where
  "keys_distinct m \<longleftrightarrow> distinct (map fst m)"


section \<open>Shared lemmas\<close>

subsection \<open>Bytes and hexadecimal text\<close>

lemma hex_val_digit [simp]: "n < 16 \<Longrightarrow> hex_val (hex_digit n) = Some n"
  by (auto simp: hex_val_def hex_digit_def Let_def)

lemma hex_decode_encode [simp]: "hex_decode (hex_encode bs) = (bs, False)"
proof (induction bs)
  case Nil
  then show ?case by simp
next
  case (Cons c cs)
  have "(of_char c :: nat) div 16 < 16"
    using nat_of_char_less_256 [of c] by arith
  moreover have "16 * (of_char c div 16) + of_char c mod 16 = (of_char c :: nat)"
    by simp
  ultimately show ?case
    using Cons.IH by (simp add: mult.commute)
qed

lemma hex_encode_inject [simp]: "hex_encode a = hex_encode b \<longleftrightarrow> a = b"
  by (metis Pair_inject hex_decode_encode)

lemma length_hex_encode [simp]: "length (hex_encode bs) = 2 * length bs"
  by (induction bs) simp_all

lemma hex_encode_Nil_iff [simp]: "hex_encode bs = [] \<longleftrightarrow> bs = []"
  by (cases bs) simp_all

definition is_hex_char :: "char \<Rightarrow> bool" where
  "is_hex_char c \<longleftrightarrow> c \<in> set ''0123456789abcdef''"

lemma hex_digit_char: "n < 16 \<Longrightarrow> is_hex_char (hex_digit n)"
proof -
  assume "n < 16"
  then have "n \<in> set [0..<16]" by simp
  moreover have "list_all (\<lambda>n. is_hex_char (hex_digit n)) [0..<16]"
    by code_simp
  ultimately show ?thesis by (simp only: list_all_iff)
qed

lemma hex_encode_chars: "c \<in> set (hex_encode bs) \<Longrightarrow> is_hex_char c"
proof (induction bs)
  case Nil
  then show ?case by simp
next
  case (Cons b bs)
  have "(of_char b :: nat) div 16 < 16"
    using nat_of_char_less_256 [of b] by arith
  with Cons show ?case
    by (auto simp: hex_digit_char)
qed

subsection \<open>Prefixes, splitting and joining\<close>

lemma has_prefix_append [simp]: "has_prefix (p @ s) p"
  by (simp add: has_prefix_def)

lemma has_prefixE: "has_prefix s p \<Longrightarrow> (\<And>r. s = p @ r \<Longrightarrow> thesis) \<Longrightarrow> thesis"
  by (metis append_take_drop_id has_prefix_def)

lemma has_prefix_char [simp]: "has_prefix s [c] \<longleftrightarrow> (\<exists>r. s = c # r)"
  by (cases s) (auto simp: has_prefix_def)

lemma has_suffix_append [simp]: "has_suffix (s @ p) p"
  by (simp add: has_suffix_def)

lemma trim_prefix_append [simp]: "trim_prefix (p @ s) p = s"
  by (simp add: trim_prefix_def)

lemma split_on_nonempty [simp]: "split_on d s \<noteq> []"
  by (induction s) (auto split: list.splits)

lemma split_on_free: "d \<notin> set w \<Longrightarrow> split_on d w = [w]"
  by (induction w) auto

lemma split_on_append: "d \<notin> set w \<Longrightarrow> split_on d (w @ d # s) = w # split_on d s"
  by (induction w) auto

lemma split_on_join:
  "ws \<noteq> [] \<Longrightarrow> \<forall>w \<in> set ws. d \<notin> set w \<Longrightarrow> split_on d (join d ws) = ws"
  by (induction d ws rule: join.induct) (auto simp: split_on_free split_on_append)

lemma split2_append: "d \<notin> set w \<Longrightarrow> split2 d (w @ d # s) = [w, s]"
proof -
  assume d: "d \<notin> set w"
  then have "takeWhile (\<lambda>c. c \<noteq> d) (w @ d # s) = w"
    by (subst takeWhile_append2) auto
  moreover from d have "dropWhile (\<lambda>c. c \<noteq> d) (w @ d # s) = d # s"
    by (subst dropWhile_append2) auto
  ultimately show ?thesis by (simp add: split2_def)
qed

text \<open>Two texts cut at the first separator agree exactly when both halves do.\<close>

lemma sep_append_eq:
  "d \<notin> set a \<Longrightarrow> d \<notin> set b \<Longrightarrow> a @ d # s = b @ d # t \<longleftrightarrow> a = b \<and> s = t"
  by (auto simp: append_eq_Cons_conv Cons_eq_append_conv append_eq_append_conv2)

subsection \<open>Decimal numbers\<close>

lemma dec_nat_nonempty [simp]: "dec_nat n \<noteq> []"
  by (subst dec_nat.simps) simp

lemma dec_digit_range: "c \<in> set (dec_nat n) \<Longrightarrow> 48 \<le> (of_char c :: nat) \<and> (of_char c :: nat) < 58"
proof (induction n rule: dec_nat.induct)
  case (1 n)
  show ?case
  proof (cases "n < 10")
    case True
    with "1.prems" show ?thesis by (subst (asm) dec_nat.simps) auto
  next
    case False
    from "1.prems" consider "c \<in> set (dec_nat (n div 10))" | "c = char_of (48 + n mod 10)"
      using False by (subst (asm) dec_nat.simps) auto
    then show ?thesis
    proof cases
      case 1
      with "1.IH" False show ?thesis by blast
    next
      case 2
      have "48 + n mod 10 < 256" by simp
      with 2 show ?thesis by simp
    qed
  qed
qed

lemma length_dec_nat_1: "length (dec_nat n) = 1 \<longleftrightarrow> n < 10"
  by (subst dec_nat.simps) simp

lemma dec_nat_inject: "dec_nat m = dec_nat n \<Longrightarrow> m = n"
proof (induction m arbitrary: n rule: dec_nat.induct)
  case (1 m)
  have step: "dec_nat k = (if k < 10 then [char_of (48 + k)]
      else dec_nat (k div 10) @ [char_of (48 + k mod 10)])" for k
    by (rule dec_nat.simps)
  have dig: "char_of (48 + a) = (char_of (48 + b) :: char) \<Longrightarrow> a < 10 \<Longrightarrow> b < 10 \<Longrightarrow> a = b"
    for a b :: nat
    by (simp add: char_of_eq_iff take_bit_eq_mod)
  have same: "m < 10 \<longleftrightarrow> n < 10"
    using "1.prems" length_dec_nat_1 by metis
  show ?case
  proof (cases "m < 10")
    case True
    with same have "n < 10" by blast
    have "[char_of (48 + m)] = ([char_of (48 + n)] :: string)"
      using "1.prems" step [of m] step [of n] \<open>m < 10\<close> \<open>n < 10\<close> by metis
    then have "char_of (48 + m) = (char_of (48 + n) :: char)"
      by (rule list.inject [THEN iffD1, THEN conjunct1])
    then show ?thesis using \<open>m < 10\<close> \<open>n < 10\<close> by (rule dig)
  next
    case False
    with same have "\<not> n < 10" by blast
    have eq: "dec_nat (m div 10) @ [char_of (48 + m mod 10)]
        = dec_nat (n div 10) @ [char_of (48 + n mod 10)]"
      using "1.prems" step [of m] step [of n] False \<open>\<not> n < 10\<close> by metis
    then have "dec_nat (m div 10) = dec_nat (n div 10)"
      by (rule append1_eq_conv [THEN iffD1, THEN conjunct1])
    moreover have last: "char_of (48 + m mod 10) = (char_of (48 + n mod 10) :: char)"
      using eq by (rule append1_eq_conv [THEN iffD1, THEN conjunct2])
    ultimately have "m div 10 = n div 10" using "1.IH" False by blast
    moreover have "m mod 10 = n mod 10" using last by (rule dig) simp_all
    ultimately show ?thesis by (metis div_mult_mod_eq)
  qed
qed

lemma dec_nat_no_minus: "CHR ''-'' \<notin> set (dec_nat n)"
  using dec_digit_range [of "CHR ''-''" n] by auto

lemma dec_int_inject [simp]: "dec_int i = dec_int j \<longleftrightarrow> i = j"
proof
  assume eq: "dec_int i = dec_int j"
  have hd: "CHR ''-'' # xs \<noteq> dec_nat n" "dec_nat n \<noteq> CHR ''-'' # xs" for xs n
    using dec_nat_no_minus [of n] by (metis list.set_intros(1))+
  from eq show "i = j"
    by (auto simp: dec_int_def hd dest: dec_nat_inject split: if_splits)
qed simp

lemma dec_int_no_bar: "CHR ''|'' \<notin> set (dec_int i)"
  using dec_digit_range [of "CHR ''|''"] by (auto simp: dec_int_def)

lemma int32_id: "- (2 ^ 31) \<le> i \<Longrightarrow> i < 2 ^ 31 \<Longrightarrow> int32 i = i"
  by (simp add: int32_def)

lemma int64_id: "- (2 ^ 63) \<le> i \<Longrightarrow> i < 2 ^ 63 \<Longrightarrow> int64 i = i"
  by (simp add: int64_def)

subsection \<open>Association lists\<close>

lemma keys_distinct_Nil [simp]: "keys_distinct []"
  by (simp add: keys_distinct_def)

lemma keys_distinct_update [simp]: "keys_distinct m \<Longrightarrow> keys_distinct (AList.update k v m)"
  by (simp add: keys_distinct_def distinct_update)

lemma keys_distinct_delete [simp]: "keys_distinct m \<Longrightarrow> keys_distinct (AList.delete k m)"
  by (simp add: keys_distinct_def distinct_delete)

lemma keys_distinct_map_snd [simp]:
  "keys_distinct (map (\<lambda>(k, v). (k, f k v)) m) \<longleftrightarrow> keys_distinct m"
  by (simp add: keys_distinct_def case_prod_beta comp_def)

lemma length_card_dom: "keys_distinct m \<Longrightarrow> length m = card (dom (map_of m))"
  by (metis dom_map_of_conv_image_fst distinct_card keys_distinct_def length_map set_map)

lemma map_of_map_snd: "map_of (map (\<lambda>(k, v). (k, f k v)) m) k = map_option (f k) (map_of m k)"
  by (induction m) auto

section \<open>Reasoning about computations\<close>

lemma slice_to_ok [simp]: "n \<le> length s \<Longrightarrow> slice_to n s = Val (take n s)"
  by (simp add: slice_to_def)

lemma go_bind_Val: "go_bind m f = Val y \<longleftrightarrow> (\<exists>x. m = Val x \<and> f x = Val y)"
  by (cases m) auto

lemma slice_to_Val: "slice_to n s = Val t \<longleftrightarrow> n \<le> length s \<and> t = take n s"
  by (auto simp: slice_to_def)

lemmas go_Val = go_bind_Val slice_to_Val Let_def

lemma map_of_delete [simp]: "map_of (AList.delete k m) = (map_of m)(k := None)"
  by (simp add: delete_conv')

lemma length_delete_present:
  assumes "keys_distinct m" "map_of m k = Some v"
  shows "Suc (length (AList.delete k m)) = length m"
proof -
  have "card (dom ((map_of m)(k := None))) = card (dom (map_of m)) - 1"
    using assms(2) by (simp add: finite_dom_map_of domI)
  moreover have "0 < card (dom (map_of m))"
    using assms(2) by (auto simp: card_gt_0_iff finite_dom_map_of)
  ultimately show ?thesis
    using assms(1) length_card_dom [of m] length_card_dom [of "AList.delete k m"] by simp
qed

lemma length_update:
  assumes "keys_distinct m"
  shows "length (AList.update k v m) = (if map_of m k = None then Suc (length m) else length m)"
  using assms length_card_dom [of m] length_card_dom [of "AList.update k v m"]
  by (auto simp: update_conv' finite_dom_map_of domIff insert_absorb)

end
