(* ===== verification/Machine.thy ===== *)
theory Machine
  imports Go_Base
begin

text \<open>
  State machines: the states a component can reach when its operations run in any order,
  and the rule that an invariant of the initial states and of every step holds in all of
  them. The relay, the channel server, the stream registry and the rate limiter are
  instances.
\<close>

inductive reachable :: "('s \<Rightarrow> bool) \<Rightarrow> ('s \<Rightarrow> 's \<Rightarrow> bool) \<Rightarrow> 's \<Rightarrow> bool"
  for init :: "'s \<Rightarrow> bool" and step :: "'s \<Rightarrow> 's \<Rightarrow> bool" where
  start: "init s \<Longrightarrow> reachable init step s"
| move: "reachable init step s \<Longrightarrow> step s t \<Longrightarrow> reachable init step t"

locale machine =
  fixes init :: "'s \<Rightarrow> bool" and step :: "'s \<Rightarrow> 's \<Rightarrow> bool" and inv :: "'s \<Rightarrow> bool"
  assumes init_inv: "init s \<Longrightarrow> inv s"
    and step_inv: "inv s \<Longrightarrow> step s t \<Longrightarrow> inv t"
begin

lemma reachable_inv: "reachable init step s \<Longrightarrow> inv s"
  by (induction rule: reachable.induct) (auto intro: init_inv step_inv)

text \<open>A property that every step from an invariant state establishes or keeps holds for
  ever after: a ban that is never lifted, a counter that never goes back.\<close>

lemma stays:
  assumes "reachable ((=) s) step t" "inv s" "P s"
    and "\<And>u v. inv u \<Longrightarrow> step u v \<Longrightarrow> P u \<Longrightarrow> P v"
  shows "inv t \<and> P t"
  using assms(1)
proof (induction rule: reachable.induct)
  case (start t)
  then show ?case using assms(2,3) by simp
next
  case (move u v)
  then show ?case using step_inv assms(4) by blast
qed

end

end
