(* ===== verification/Go_Chan.thy ===== *)
theory Go_Chan
  imports Go_Base
begin

text \<open>
  Buffered Go channels, as the relay's sessions and the event streams use them: a queue
  of bounded capacity that can be closed once. The senders use \<open>select\<close> with a
  \<open>default\<close> branch, so a send on a full channel is dropped; a send on a closed channel
  and a second close panic; a receive on a closed and drained channel delivers the zero
  value at once. A receiver that waits takes the value as soon as it is queued, so
  direct hand-over is not a case of its own.
\<close>

record 'a chan =
  buf :: "'a list"
  cap :: nat
  closed :: bool

datatype 'a send = Sent "'a chan" | WouldBlock | SendOnClosed

datatype 'a recv = Received 'a "'a chan" | ReceivedZero | Blocked

definition make_chan :: "nat \<Rightarrow> 'a chan" where
  "make_chan n = \<lparr>buf = [], cap = n, closed = False\<rparr>"

definition try_send :: "'a \<Rightarrow> 'a chan \<Rightarrow> 'a send" where
  "try_send x c =
     (if closed c then SendOnClosed
      else if length (buf c) < cap c then Sent (c\<lparr>buf := buf c @ [x]\<rparr>)
      else WouldBlock)"

definition chan_recv :: "'a chan \<Rightarrow> 'a recv" where
  "chan_recv c =
     (case buf c of
        x # xs \<Rightarrow> Received x (c\<lparr>buf := xs\<rparr>)
      | [] \<Rightarrow> if closed c then ReceivedZero else Blocked)"

definition close_chan :: "'a chan \<Rightarrow> 'a chan go" where
  "close_chan c = (if closed c then Panic ''close of closed channel''
                   else Val (c\<lparr>closed := True\<rparr>))"

definition chan_ok :: "'a chan \<Rightarrow> bool" where
  "chan_ok c \<longleftrightarrow> length (buf c) \<le> cap c"

definition chan_live :: "nat \<Rightarrow> 'a chan \<Rightarrow> bool" where
  "chan_live n c \<longleftrightarrow> chan_ok c \<and> cap c = n \<and> \<not> closed c"

lemma chan_ok_make [simp]: "chan_ok (make_chan n)"
  by (simp add: chan_ok_def make_chan_def)

lemma chan_live_make [simp]: "chan_live n (make_chan n)"
  by (simp add: chan_live_def make_chan_def chan_ok_def)

lemma buf_make [simp]: "buf (make_chan n) = []"
  by (simp add: make_chan_def)

text \<open>On a live channel a send either appends or drops; it never panics.\<close>

lemma try_send_live:
  assumes "chan_live n c"
  shows "try_send x c = (if length (buf c) < n then Sent (c\<lparr>buf := buf c @ [x]\<rparr>) else WouldBlock)"
  using assms by (simp add: try_send_def chan_live_def)

lemma chan_live_append:
  "chan_live n c \<Longrightarrow> length (buf c) < n \<Longrightarrow> chan_live n (c\<lparr>buf := buf c @ [x]\<rparr>)"
  by (simp add: chan_live_def chan_ok_def)

lemma close_live: "chan_live n c \<Longrightarrow> close_chan c = Val (c\<lparr>closed := True\<rparr>)"
  by (simp add: close_chan_def chan_live_def)

text \<open>What is received was sent, in order: receiving after a send on an empty queue
  returns the value sent.\<close>

lemma recv_head: "buf c = x # xs \<Longrightarrow> chan_recv c = Received x (c\<lparr>buf := xs\<rparr>)"
  by (simp add: chan_recv_def)

lemma recv_drained: "buf c = [] \<Longrightarrow> closed c \<Longrightarrow> chan_recv c = ReceivedZero"
  by (simp add: chan_recv_def)

end
