(* ===== verification/Json.thy ===== *)
theory Json
  imports Go_Base
begin

text \<open>
  \<open>encoding/json\<close> as the sources use it: \<open>json.Marshal\<close> of structs whose fields are
  strings, byte slices, integers, booleans, nested structs and slices of these, and
  \<open>json.Unmarshal\<close> back. Values are of type \<open>json\<close>; \<open>json_text\<close> is the compact text
  that \<open>Marshal\<close> writes, with its escapes, and \<open>json_parse\<close> reads a text (blanks
  included) back. A \<open>[]byte\<close> field is base64 text. Numbers are integers: no struct the
  sources marshal has a floating-point field. Strings are bytes of valid UTF-8, which
  \<open>Marshal\<close> copies; a \<open>\u\<close> escape of a surrogate is not accepted.

  The main lemma, \<open>json_parse_text\<close>, is the round trip of the two functions; the struct
  codecs of the component theories rest on it.
\<close>

datatype json = JNull | JBool bool | JInt int | JStr string
  | JArr "json list" | JObj "(string \<times> json) list"

section \<open>Writing\<close>

definition esc_char :: "char \<Rightarrow> string" where
  "esc_char c =
     (if c = CHR 0x22 then [CHR 0x5C, CHR 0x22]
      else if c = CHR 0x5C then [CHR 0x5C, CHR 0x5C]
      else if c = CHR 0x0A then [CHR 0x5C, CHR ''n'']
      else if c = CHR 0x0D then [CHR 0x5C, CHR ''r'']
      else if c = CHR 0x09 then [CHR 0x5C, CHR ''t'']
      else if (of_char c :: nat) < 32 \<or> c \<in> {CHR ''<'', CHR ''>'', CHR ''&''}
        then [CHR 0x5C, CHR ''u'', CHR ''0'', CHR ''0'',
              hex_digit (of_char c div 16), hex_digit (of_char c mod 16)]
      else [c])"

definition esc :: "string \<Rightarrow> string" where
  "esc s = concat (map esc_char s)"

definition quote :: "string \<Rightarrow> string" where
  "quote s = CHR 0x22 # esc s @ [CHR 0x22]"

fun json_text :: "json \<Rightarrow> string"
  and elems_text :: "json list \<Rightarrow> string"
  and members_text :: "(string \<times> json) list \<Rightarrow> string" where
  "json_text JNull = ''null''"
| "json_text (JBool b) = (if b then ''true'' else ''false'')"
| "json_text (JInt i) = dec_int i"
| "json_text (JStr s) = quote s"
| "json_text (JArr js) = CHR ''['' # elems_text js"
| "json_text (JObj ms) = CHR ''{'' # members_text ms"
| "elems_text [] = '']''"
| "elems_text [j] = json_text j @ '']''"
| "elems_text (j # js) = json_text j @ CHR '','' # elems_text js"
| "members_text [] = ''}''"
| "members_text [(k, j)] = quote k @ CHR '':'' # json_text j @ ''}''"
| "members_text ((k, j) # ms) = quote k @ CHR '':'' # json_text j @ CHR '','' # members_text ms"

section \<open>Reading\<close>

definition is_blank :: "char \<Rightarrow> bool" where
  "is_blank c \<longleftrightarrow> c \<in> {CHR '' '', CHR 0x09, CHR 0x0A, CHR 0x0D}"

definition skip :: "string \<Rightarrow> string" where
  "skip s = dropWhile is_blank s"

definition is_digit :: "char \<Rightarrow> bool" where
  "is_digit c \<longleftrightarrow> 48 \<le> (of_char c :: nat) \<and> (of_char c :: nat) < 58"

definition digits_val :: "string \<Rightarrow> nat" where
  "digits_val s = foldl (\<lambda>n c. 10 * n + (of_char c - 48)) 0 s"

definition utf8 :: "nat \<Rightarrow> string option" where
  "utf8 n = (if n < 128 then Some [char_of n]
     else if n < 2048 then Some [char_of (192 + n div 64), char_of (128 + n mod 64)]
     else if 55296 \<le> n \<and> n < 57344 then None
     else Some [char_of (224 + n div 4096), char_of (128 + n div 64 mod 64),
                char_of (128 + n mod 64)])"

definition simple_escape :: "char \<Rightarrow> char option" where
  "simple_escape c =
     (if c = CHR 0x22 \<or> c = CHR 0x5C \<or> c = CHR ''/'' then Some c
      else if c = CHR ''n'' then Some (CHR 0x0A)
      else if c = CHR ''r'' then Some (CHR 0x0D)
      else if c = CHR ''t'' then Some (CHR 0x09)
      else if c = CHR ''b'' then Some (CHR 0x08)
      else if c = CHR ''f'' then Some (CHR 0x0C)
      else None)"

fun parse_str :: "string \<Rightarrow> (string \<times> string) option" where
  "parse_str [] = None"
| "parse_str (c # s) =
     (if c = CHR 0x22 then Some ([], s)
      else if (of_char c :: nat) < 32 then None
      else if c \<noteq> CHR 0x5C then map_option (\<lambda>(t, r). (c # t, r)) (parse_str s)
      else (case s of
          [] \<Rightarrow> None
        | e # s' \<Rightarrow>
            (case simple_escape e of
               Some d \<Rightarrow> map_option (\<lambda>(t, r). (d # t, r)) (parse_str s')
             | None \<Rightarrow>
                 if e \<noteq> CHR ''u'' then None
                 else (case s' of
                     h1 # h2 # h3 # h4 # s'' \<Rightarrow>
                       (case (hex_val h1, hex_val h2, hex_val h3, hex_val h4) of
                          (Some a, Some b, Some x, Some y) \<Rightarrow>
                            (case utf8 (4096 * a + 256 * b + 16 * x + y) of
                               None \<Rightarrow> None
                             | Some u \<Rightarrow> map_option (\<lambda>(t, r). (u @ t, r)) (parse_str s''))
                        | _ \<Rightarrow> None)
                   | _ \<Rightarrow> None))))"

definition parse_num :: "string \<Rightarrow> (json \<times> string) option" where
  "parse_num s =
     (let neg = (case s of c # _ \<Rightarrow> c = CHR ''-'' | [] \<Rightarrow> False);
          t = (if neg then tl s else s);
          ds = takeWhile is_digit t; r = dropWhile is_digit t
      in if ds = [] \<or> (hd ds = CHR ''0'' \<and> length ds > 1)
            \<or> (case r of c # _ \<Rightarrow> c \<in> {CHR ''.'', CHR ''e'', CHR ''E''} | [] \<Rightarrow> False)
         then None
         else Some (JInt (if neg then - int (digits_val ds) else int (digits_val ds)), r))"

definition strip :: "string \<Rightarrow> string \<Rightarrow> string option" where
  "strip p s = (if has_prefix s p then Some (drop (length p) s) else None)"

text \<open>The reader is a recursive descent over the text, with fuel for the nesting and the
  number of members; a text of length \<open>n\<close> never needs more than \<open>n + 1\<close>.\<close>

fun parse_val :: "nat \<Rightarrow> string \<Rightarrow> (json \<times> string) option"
  and parse_elems :: "nat \<Rightarrow> string \<Rightarrow> (json list \<times> string) option"
  and parse_members :: "nat \<Rightarrow> string \<Rightarrow> ((string \<times> json) list \<times> string) option" where
  "parse_val 0 s = None"
| "parse_val (Suc n) s =
     (case skip s of
        [] \<Rightarrow> None
      | c # t \<Rightarrow>
          if c = CHR 0x22 then map_option (\<lambda>(x, r). (JStr x, r)) (parse_str t)
          else if c = CHR ''['' then
            (case skip t of
               d # r \<Rightarrow> if d = CHR '']'' then Some (JArr [], r)
                        else map_option (\<lambda>(js, r). (JArr js, r)) (parse_elems n t)
             | [] \<Rightarrow> None)
          else if c = CHR ''{'' then
            (case skip t of
               d # r \<Rightarrow> if d = CHR ''}'' then Some (JObj [], r)
                        else map_option (\<lambda>(ms, r). (JObj ms, r)) (parse_members n t)
             | [] \<Rightarrow> None)
          else (case strip ''null'' (c # t) of
              Some r \<Rightarrow> Some (JNull, r)
            | None \<Rightarrow> (case strip ''true'' (c # t) of
                Some r \<Rightarrow> Some (JBool True, r)
              | None \<Rightarrow> (case strip ''false'' (c # t) of
                  Some r \<Rightarrow> Some (JBool False, r)
                | None \<Rightarrow> parse_num (c # t)))))"
| "parse_elems 0 s = None"
| "parse_elems (Suc n) s =
     (case parse_val n s of
        None \<Rightarrow> None
      | Some (j, r) \<Rightarrow>
          (case skip r of
             [] \<Rightarrow> None
           | c # r' \<Rightarrow>
               if c = CHR '']'' then Some ([j], r')
               else if c = CHR '','' then map_option (\<lambda>(js, q). (j # js, q)) (parse_elems n r')
               else None))"
| "parse_members 0 s = None"
| "parse_members (Suc n) s =
     (case skip s of
        [] \<Rightarrow> None
      | q # t \<Rightarrow>
          if q \<noteq> CHR 0x22 then None
          else (case parse_str t of
              None \<Rightarrow> None
            | Some (k, r) \<Rightarrow>
                (case skip r of
                   [] \<Rightarrow> None
                 | c # r' \<Rightarrow>
                     if c \<noteq> CHR '':'' then None
                     else (case parse_val n r' of
                         None \<Rightarrow> None
                       | Some (j, u) \<Rightarrow>
                           (case skip u of
                              [] \<Rightarrow> None
                            | d # u' \<Rightarrow>
                                if d = CHR ''}'' then Some ([(k, j)], u')
                                else if d = CHR '','' then
                                  map_option (\<lambda>(ms, w). ((k, j) # ms, w)) (parse_members n u')
                                else None)))))"

definition json_parse :: "string \<Rightarrow> json option" where
  "json_parse s =
     (case parse_val (Suc (length s)) s of
        Some (j, r) \<Rightarrow> if skip r = [] then Some j else None
      | None \<Rightarrow> None)"


section \<open>Base64, the text of a byte slice\<close>

definition b64_char :: "nat \<Rightarrow> char" where
  "b64_char n = (if n < 26 then char_of (65 + n) else if n < 52 then char_of (71 + n)
     else if n < 62 then char_of (n - 4) else if n = 62 then CHR ''+'' else CHR ''/'')"

definition b64_val :: "char \<Rightarrow> nat option" where
  "b64_val c = (let n = (of_char c :: nat) in
     if 65 \<le> n \<and> n < 91 then Some (n - 65) else if 97 \<le> n \<and> n < 123 then Some (n - 71)
     else if 48 \<le> n \<and> n < 58 then Some (n + 4) else if n = 43 then Some 62
     else if n = 47 then Some 63 else None)"

definition b64_group :: "nat \<Rightarrow> nat \<Rightarrow> nat \<Rightarrow> string" where
  "b64_group a b c = [b64_char (a div 4), b64_char (a mod 4 * 16 + b div 16),
     b64_char (b mod 16 * 4 + c div 64), b64_char (c mod 64)]"

fun b64_encode :: "bytes \<Rightarrow> string" where
  "b64_encode [] = []"
| "b64_encode [a] = take 2 (b64_group (of_char a) 0 0) @ ''==''"
| "b64_encode [a, b] = take 3 (b64_group (of_char a) (of_char b) 0) @ ''=''"
| "b64_encode (a # b # c # r) = b64_group (of_char a) (of_char b) (of_char c) @ b64_encode r"

fun b64_decode :: "string \<Rightarrow> bytes option" where
  "b64_decode [] = Some []"
| "b64_decode (p # q # x # y # r) =
     (case (b64_val p, b64_val q) of
        (Some a, Some b) \<Rightarrow>
          if x = CHR ''='' \<and> y = CHR ''='' \<and> r = [] then Some [char_of (a * 4 + b div 16)]
          else (case b64_val x of
              None \<Rightarrow> None
            | Some c \<Rightarrow>
                if y = CHR ''='' \<and> r = []
                then Some [char_of (a * 4 + b div 16), char_of (b mod 16 * 16 + c div 4)]
                else (case b64_val y of
                    None \<Rightarrow> None
                  | Some d \<Rightarrow> map_option (\<lambda>t. char_of (a * 4 + b div 16)
                      # char_of (b mod 16 * 16 + c div 4) # char_of (c mod 4 * 64 + d) # t)
                      (b64_decode r)))
      | _ \<Rightarrow> None)"
| "b64_decode _ = None"

section \<open>Struct fields\<close>

text \<open>
  \<open>Unmarshal\<close> matches a member with a field of the same name, upper and lower case
  alike, a later member overriding an earlier one; a missing or \<open>null\<close> member leaves the
  zero value and a member of another kind is an error (\<open>None\<close>).
\<close>

definition lower :: "string \<Rightarrow> string" where
  "lower s = map (\<lambda>c. if 65 \<le> (of_char c :: nat) \<and> (of_char c :: nat) < 91
                       then char_of ((of_char c :: nat) + 32) else c) s"

definition jfield :: "string \<Rightarrow> (string \<times> json) list \<Rightarrow> json" where
  "jfield n ms = (case filter (\<lambda>m. lower (fst m) = lower n) ms of
     [] \<Rightarrow> JNull | vs \<Rightarrow> snd (last vs))"

fun as_str :: "json \<Rightarrow> string option" where
  "as_str (JStr s) = Some s" | "as_str JNull = Some []" | "as_str _ = None"

fun as_int :: "json \<Rightarrow> int option" where
  "as_int (JInt i) = Some i" | "as_int JNull = Some 0" | "as_int _ = None"

fun as_bool :: "json \<Rightarrow> bool option" where
  "as_bool (JBool b) = Some b" | "as_bool JNull = Some False" | "as_bool _ = None"

fun as_bytes :: "json \<Rightarrow> bytes option" where
  "as_bytes (JStr s) = b64_decode s" | "as_bytes JNull = Some []" | "as_bytes _ = None"

fun all_some :: "'a option list \<Rightarrow> 'a list option" where
  "all_some [] = Some []"
| "all_some (None # _) = None"
| "all_some (Some x # xs) = map_option (Cons x) (all_some xs)"

fun as_list :: "(json \<Rightarrow> 'a option) \<Rightarrow> json \<Rightarrow> 'a list option" where
  "as_list f (JArr js) = all_some (map f js)" | "as_list f JNull = Some []" | "as_list f _ = None"

text \<open>Members with the tag \<open>omitempty\<close>, and the decoding of an object.\<close>

definition omit_str :: "string \<Rightarrow> string \<Rightarrow> (string \<times> json) list" where
  "omit_str k s = (if s = [] then [] else [(k, JStr s)])"

definition omit_bytes :: "string \<Rightarrow> bytes \<Rightarrow> (string \<times> json) list" where
  "omit_bytes k s = (if s = [] then [] else [(k, JStr (b64_encode s))])"

definition omit_int :: "string \<Rightarrow> int \<Rightarrow> (string \<times> json) list" where
  "omit_int k i = (if i = 0 then [] else [(k, JInt i)])"

definition in_int32 :: "int \<Rightarrow> bool" where
  "in_int32 i \<longleftrightarrow> - (2 ^ 31) \<le> i \<and> i < 2 ^ 31"

definition in_int64 :: "int \<Rightarrow> bool" where
  "in_int64 i \<longleftrightarrow> - (2 ^ 63) \<le> i \<and> i < 2 ^ 63"

definition as_int32 :: "json \<Rightarrow> int option" where
  "as_int32 j = (case as_int j of Some i \<Rightarrow> if in_int32 i then Some i else None | None \<Rightarrow> None)"

definition as_int64 :: "json \<Rightarrow> int option" where
  "as_int64 j = (case as_int j of Some i \<Rightarrow> if in_int64 i then Some i else None | None \<Rightarrow> None)"

definition unmarshal_obj :: "((string \<times> json) list \<Rightarrow> 'a option) \<Rightarrow> bytes \<Rightarrow> 'a option" where
  "unmarshal_obj f s = (case json_parse s of Some (JObj ms) \<Rightarrow> f ms | Some JNull \<Rightarrow> f [] | _ \<Rightarrow> None)"

section \<open>The round trip\<close>

subsection \<open>Strings\<close>

lemma utf8_ascii: "n < 128 \<Longrightarrow> utf8 n = Some [char_of n]"
  by (simp add: utf8_def)

lemma hex_val_0 [simp]: "hex_val (CHR ''0'') = Some 0"
  by (simp add: hex_val_def)

lemma hex_pair: "16 * (of_char c div 16) + of_char c mod 16 = (of_char c :: nat)"
  by simp

lemma esc_char_u:
  assumes "(of_char c :: nat) < 128"
  shows "parse_str ([CHR 0x5C, CHR ''u'', CHR ''0'', CHR ''0'',
      hex_digit (of_char c div 16), hex_digit (of_char c mod 16)] @ t)
    = map_option (\<lambda>(u, r). (c # u, r)) (parse_str t)"
proof -
  have "(of_char c :: nat) div 16 < 16" and "(of_char c :: nat) mod 16 < 16"
    using assms by simp_all
  then show ?thesis
    using assms by (simp add: simple_escape_def hex_pair utf8_ascii)
qed

lemma parse_str_esc_char:
  "parse_str (esc_char c @ t) = map_option (\<lambda>(u, r). (c # u, r)) (parse_str t)"
proof (cases "(of_char c :: nat) < 32 \<or> c \<in> {CHR ''<'', CHR ''>'', CHR ''&''}")
  case True
  then have "(of_char c :: nat) < 128" by auto
  show ?thesis
  proof (cases "c \<in> {CHR 0x0A, CHR 0x0D, CHR 0x09, CHR 0x22, CHR 0x5C}")
    case True
    then show ?thesis by (auto simp: esc_char_def simple_escape_def)
  next
    case False
    with \<open>(of_char c :: nat) < 32 \<or> _\<close> have "esc_char c = [CHR 0x5C, CHR ''u'', CHR ''0'', CHR ''0'',
        hex_digit (of_char c div 16), hex_digit (of_char c mod 16)]"
      by (simp add: esc_char_def)
    then show ?thesis
      using esc_char_u [OF \<open>(of_char c :: nat) < 128\<close>, of t] by simp
  qed
next
  case False
  then show ?thesis by (auto simp: esc_char_def simple_escape_def)
qed

lemma parse_str_esc: "parse_str (esc s @ CHR 0x22 # r) = Some (s, r)"
  by (induction s) (simp_all add: esc_def parse_str_esc_char)

lemma parse_quote: "parse_str (tl (quote s @ r)) = Some (s, r)"
  by (simp add: quote_def parse_str_esc)

lemma quote_cons: "quote s @ r = CHR 0x22 # tl (quote s @ r)"
  by (simp add: quote_def)

subsection \<open>Numbers\<close>

lemma is_digit_dec_nat: "c \<in> set (dec_nat n) \<Longrightarrow> is_digit c"
  using dec_digit_range by (simp add: is_digit_def)

lemma digits_val_snoc: "digits_val (s @ [c]) = 10 * digits_val s + (of_char c - 48)"
  by (simp add: digits_val_def)

lemma digits_val_dec_nat: "digits_val (dec_nat n) = n"
proof (induction n rule: dec_nat.induct)
  case (1 n)
  show ?case
  proof (cases "n < 10")
    case True
    then have "dec_nat n = [char_of (48 + n)]" by (subst dec_nat.simps) simp
    with True show ?thesis by (simp add: digits_val_def)
  next
    case False
    then have "dec_nat n = dec_nat (n div 10) @ [char_of (48 + n mod 10)]"
      by (subst dec_nat.simps) simp
    with "1.IH" False show ?thesis by (simp add: digits_val_snoc)
  qed
qed

lemma dec_nat_leading: "n > 0 \<Longrightarrow> hd (dec_nat n) \<noteq> CHR ''0''"
proof (induction n rule: dec_nat.induct)
  case (1 n)
  show ?case
  proof (cases "n < 10")
    case True
    then have "dec_nat n = [char_of (48 + n)]" by (subst dec_nat.simps) simp
    moreover have "(of_char (char_of (48 + n) :: char) :: nat) \<noteq> of_char (CHR ''0'')"
      using True "1.prems" by simp
    ultimately show ?thesis by (metis list.sel(1))
  next
    case False
    then have "dec_nat n = dec_nat (n div 10) @ [char_of (48 + n mod 10)]"
      by (subst dec_nat.simps) simp
    with "1.IH" False show ?thesis by simp
  qed
qed

definition num_end :: "string \<Rightarrow> bool" where
  "num_end r \<longleftrightarrow> (case r of c # _ \<Rightarrow> \<not> is_digit c \<and> c \<notin> {CHR ''.'', CHR ''e'', CHR ''E''}
     | [] \<Rightarrow> True)"

lemma num_end_simps [simp]: "num_end []" "num_end (CHR '','' # r)" "num_end (CHR '']'' # r)"
  "num_end (CHR ''}'' # r)"
  by (simp_all add: num_end_def is_digit_def)

lemma take_digits: "num_end r \<Longrightarrow> takeWhile is_digit (dec_nat n @ r) = dec_nat n"
  by (subst takeWhile_append2)
    (auto simp: is_digit_dec_nat num_end_def split: list.splits)

lemma drop_digits: "num_end r \<Longrightarrow> dropWhile is_digit (dec_nat n @ r) = r"
  by (subst dropWhile_append2)
    (auto simp: is_digit_dec_nat num_end_def split: list.splits)

lemma dec_nat_canonical: "\<not> (hd (dec_nat n) = CHR ''0'' \<and> length (dec_nat n) > 1)"
  using dec_nat_leading [of n] length_dec_nat_1 [of n] by auto

lemma dec_nat_head: "\<exists>c t. dec_nat n = c # t \<and> is_digit c"
  by (metis dec_nat_nonempty is_digit_dec_nat list.set_intros(1) neq_Nil_conv)

lemma digit_not_minus: "is_digit c \<Longrightarrow> c \<noteq> CHR ''-''"
  by (auto simp: is_digit_def)

lemma parse_num_dec_int:
  assumes "num_end r"
  shows "parse_num (dec_int i @ r) = Some (JInt i, r)"
proof (cases "i < 0")
  case True
  then have "dec_int i @ r = CHR ''-'' # dec_nat (nat (- i)) @ r"
    by (simp add: dec_int_def)
  with True assms show ?thesis
    using dec_nat_canonical [of "nat (- i)"]
    by (auto simp: parse_num_def Let_def take_digits drop_digits digits_val_dec_nat
        num_end_def split: list.splits)
next
  case False
  obtain c t where ct: "dec_nat (nat i) = c # t" "is_digit c"
    using dec_nat_head by blast
  from False have "dec_int i @ r = dec_nat (nat i) @ r"
    by (simp add: dec_int_def)
  moreover have "(case dec_nat (nat i) @ r of c # _ \<Rightarrow> c = CHR ''-'' | [] \<Rightarrow> False) = False"
    using ct digit_not_minus by auto
  ultimately show ?thesis
    using False assms dec_nat_canonical [of "nat i"]
    by (auto simp: parse_num_def Let_def take_digits drop_digits digits_val_dec_nat
        num_end_def split: list.splits)
qed

subsection \<open>Values\<close>

definition plain_start :: "char \<Rightarrow> bool" where
  "plain_start c \<longleftrightarrow> \<not> is_blank c \<and> c \<noteq> CHR '']'' \<and> c \<noteq> CHR ''}''"

lemma digit_start: "is_digit c \<Longrightarrow> plain_start c \<and> c \<noteq> CHR 0x22 \<and> c \<noteq> CHR ''['' \<and>
    c \<noteq> CHR ''{'' \<and> c \<noteq> CHR ''n'' \<and> c \<noteq> CHR ''t'' \<and> c \<noteq> CHR ''f''"
  by (auto simp: is_digit_def plain_start_def is_blank_def)

lemma dec_int_start: "\<exists>c t. dec_int i = c # t \<and> plain_start c \<and> c \<noteq> CHR 0x22 \<and> c \<noteq> CHR ''['' \<and>
    c \<noteq> CHR ''{'' \<and> c \<noteq> CHR ''n'' \<and> c \<noteq> CHR ''t'' \<and> c \<noteq> CHR ''f''"
proof (cases "i < 0")
  case True
  then show ?thesis by (auto simp: dec_int_def plain_start_def is_blank_def)
next
  case False
  then show ?thesis
    using dec_nat_head [of "nat i"] digit_start by (auto simp: dec_int_def)
qed

lemma json_text_start: "\<exists>c t. json_text j = c # t \<and> plain_start c"
proof (cases j)
  case (JInt i)
  then show ?thesis using dec_int_start [of i] by auto
qed (auto simp: quote_def plain_start_def is_blank_def)

lemma skip_plain [simp]: "plain_start c \<Longrightarrow> skip (c # t) = c # t"
  by (simp add: skip_def plain_start_def)

lemma skip_punct [simp]: "skip (CHR '','' # t) = CHR '','' # t" "skip (CHR '']'' # t) = CHR '']'' # t"
  "skip (CHR ''}'' # t) = CHR ''}'' # t" "skip (CHR '':'' # t) = CHR '':'' # t"
  "skip (CHR 0x22 # t) = CHR 0x22 # t" "skip [] = []"
  by (simp_all add: skip_def is_blank_def)

lemma skip_json_text [simp]: "skip (json_text j @ r) = json_text j @ r"
  using json_text_start [of j] by auto

lemma skip_quote [simp]: "skip (quote s @ r) = quote s @ r"
  by (simp add: quote_def)

lemma parse_val_int:
  assumes "num_end r"
  shows "parse_val (Suc n) (dec_int i @ r) = Some (JInt i, r)"
proof -
  obtain c t where ct: "dec_int i = c # t" "plain_start c" "c \<noteq> CHR 0x22" "c \<noteq> CHR ''[''"
      "c \<noteq> CHR ''{''" "c \<noteq> CHR ''n''" "c \<noteq> CHR ''t''" "c \<noteq> CHR ''f''"
    using dec_int_start by blast
  then have "parse_val (Suc n) (dec_int i @ r) = parse_num (dec_int i @ r)"
    by (simp add: strip_def has_prefix_def)
  then show ?thesis using parse_num_dec_int [OF assms] by simp
qed


lemma elems_text_start: "js \<noteq> [] \<Longrightarrow> \<exists>c t. elems_text js @ r = c # t \<and> plain_start c"
proof (cases js)
  case (Cons j ks)
  obtain c t where "json_text j = c # t" "plain_start c"
    using json_text_start by blast
  with Cons show ?thesis by (cases ks) auto
qed simp

lemma members_text_start: "ms \<noteq> [] \<Longrightarrow> \<exists>t. members_text ms @ r = CHR 0x22 # t"
proof (cases ms)
  case (Cons m ns)
  then show ?thesis by (cases m; cases ns) (auto simp: quote_def)
qed simp

lemma parse_arr:
  assumes "js \<noteq> []" and "parse_elems n (elems_text js @ r) = Some (js, r)"
  shows "parse_val (Suc n) (CHR ''['' # elems_text js @ r) = Some (JArr js, r)"
proof -
  obtain c t where ct: "elems_text js @ r = c # t" "plain_start c"
    using elems_text_start [OF assms(1)] by blast
  then have "c \<noteq> CHR '']''" by (simp add: plain_start_def)
  with ct assms(2) show ?thesis by (simp add: skip_def [of "CHR ''['' # _"] is_blank_def)
qed

lemma parse_obj:
  assumes "ms \<noteq> []" and "parse_members n (members_text ms @ r) = Some (ms, r)"
  shows "parse_val (Suc n) (CHR ''{'' # members_text ms @ r) = Some (JObj ms, r)"
proof -
  obtain t where "members_text ms @ r = CHR 0x22 # t"
    using members_text_start [OF assms(1)] by blast
  with assms(2) show ?thesis by (simp add: skip_def [of "CHR ''{'' # _"] is_blank_def)
qed

lemma parse_member:
  assumes "parse_val n (json_text j @ u) = Some (j, u)"
  shows "parse_members (Suc n) (quote k @ CHR '':'' # json_text j @ u) =
    (case skip u of
       [] \<Rightarrow> None
     | d # u' \<Rightarrow> if d = CHR ''}'' then Some ([(k, j)], u')
               else if d = CHR '','' then
                 map_option (\<lambda>(ms, w). ((k, j) # ms, w)) (parse_members n u')
               else None)"
  using assms by (simp add: quote_def parse_str_esc)

lemma len_pos [simp]: "0 < length (json_text j)" "json_text j \<noteq> []"
  using json_text_start [of j] by auto

text \<open>Fuel of the length of the text is enough, for values, elements and members alike.\<close>

lemma parse_text:
  shows "length (json_text j) \<le> n \<Longrightarrow> num_end r \<Longrightarrow> parse_val n (json_text j @ r) = Some (j, r)"
    and "js \<noteq> [] \<Longrightarrow> length (elems_text js) \<le> n \<Longrightarrow> parse_elems n (elems_text js @ r) = Some (js, r)"
    and "ms \<noteq> [] \<Longrightarrow> length (members_text ms) \<le> n \<Longrightarrow>
      parse_members n (members_text ms @ r) = Some (ms, r)"
proof (induction j and js and ms arbitrary: n r and n r and n r
    rule: json_text_elems_text_members_text.induct)
  case 1
  then show ?case by (cases n) (auto simp: strip_def has_prefix_def skip_def is_blank_def)
next
  case (2 b)
  then show ?case by (cases n; cases b) (auto simp: strip_def has_prefix_def skip_def is_blank_def)
next
  case (3 i)
  then obtain m where "n = Suc m" using len_pos(1) [of "JInt i"] by (cases n) auto
  with 3 show ?case using parse_val_int by simp
next
  case (4 s)
  then obtain m where "n = Suc m" by (cases n) (auto simp: quote_def)
  then show ?case by (simp add: quote_def parse_str_esc)
next
  case (5 js)
  then obtain m where n: "n = Suc m" and m: "length (elems_text js) \<le> m"
    by (cases n) auto
  show ?case
  proof (cases "js = []")
    case True
    with n show ?thesis by (simp add: skip_def is_blank_def)
  next
    case False
    with 5 m have "parse_elems m (elems_text js @ r) = Some (js, r)" by blast
    with False n show ?thesis using parse_arr by simp
  qed
next
  case (6 ms)
  then obtain m where n: "n = Suc m" and m: "length (members_text ms) \<le> m"
    by (cases n) auto
  show ?case
  proof (cases "ms = []")
    case True
    with n show ?thesis by (simp add: skip_def is_blank_def)
  next
    case False
    with 6 m have "parse_members m (members_text ms @ r) = Some (ms, r)" by blast
    with False n show ?thesis using parse_obj by simp
  qed
next
  case 7
  then show ?case by simp
next
  case (8 j)
  then obtain m where n: "n = Suc m" by (cases n) auto
  with 8 have "parse_val m (json_text j @ CHR '']'' # r) = Some (j, CHR '']'' # r)" by simp
  with n show ?case by simp
next
  case (9 j k ks)
  then obtain m where n: "n = Suc m" by (cases n) auto
  with 9 have "parse_val m (json_text j @ CHR '','' # elems_text (k # ks) @ r)
      = Some (j, CHR '','' # elems_text (k # ks) @ r)"
    by simp
  moreover from 9 n have "parse_elems m (elems_text (k # ks) @ r) = Some (k # ks, r)" by simp
  ultimately show ?case using n by simp
next
  case 10
  then show ?case by simp
next
  case (11 k j)
  then obtain m where n: "n = Suc m" by (cases n) (auto simp: quote_def)
  with 11 have "parse_val m (json_text j @ CHR ''}'' # r) = Some (j, CHR ''}'' # r)"
    by (simp add: quote_def)
  from parse_member [OF this] n show ?case by simp
next
  case (12 k j m' ms)
  then obtain m where n: "n = Suc m" by (cases n) (auto simp: quote_def)
  with 12 have "parse_val m (json_text j @ CHR '','' # members_text (m' # ms) @ r)
      = Some (j, CHR '','' # members_text (m' # ms) @ r)"
    by (simp add: quote_def)
  moreover from 12 n have "parse_members m (members_text (m' # ms) @ r) = Some (m' # ms, r)"
    by (simp add: quote_def)
  ultimately show ?case using n parse_member by simp
qed

theorem json_parse_text [simp]: "json_parse (json_text j) = Some j"
  using parse_text(1) [of j "Suc (length (json_text j))" "[]"]
  by (simp add: json_parse_def)


lemma unmarshal_obj_text [simp]: "unmarshal_obj f (json_text (JObj ms)) = f ms"
  by (simp add: unmarshal_obj_def del: json_text.simps)

subsection \<open>Base64\<close>

lemma b64_val_char [simp]: "n < 64 \<Longrightarrow> b64_val (b64_char n) = Some n"
  by (auto simp: b64_val_def b64_char_def Let_def)

lemma b64_char_not_pad [simp]: "n < 64 \<Longrightarrow> b64_char n \<noteq> CHR ''=''"
  by (auto simp: b64_char_def char_of_eq_iff take_bit_eq_mod)

lemma radix_split: "(y :: nat) < k \<Longrightarrow> (x * k + y) div k = x" "(y :: nat) < k \<Longrightarrow> (x * k + y) mod k = y"
  by simp_all

lemma b64_sextets:
  fixes a b c :: nat
  assumes "a < 256" "b < 256" "c < 256"
  shows "a div 4 < 64" "a mod 4 * 16 + b div 16 < 64" "b mod 16 * 4 + c div 64 < 64" "c mod 64 < 64"
    "a div 4 * 4 + (a mod 4 * 16 + b div 16) div 16 = a"
    "(a mod 4 * 16 + b div 16) mod 16 * 16 + (b mod 16 * 4 + c div 64) div 4 = b"
    "(b mod 16 * 4 + c div 64) mod 4 * 64 + c mod 64 = c"
proof -
  have lt: "b div 16 < 16" "c div 64 < 4" "a mod 4 < 4" "b mod 16 < 16" "a div 4 < 64"
    using assms by simp_all
  then show "a div 4 < 64" "a mod 4 * 16 + b div 16 < 64" "b mod 16 * 4 + c div 64 < 64"
      "c mod 64 < 64"
    by simp_all
  show "a div 4 * 4 + (a mod 4 * 16 + b div 16) div 16 = a"
    by (simp only: radix_split(1) [OF lt(1)] div_mult_mod_eq)
  show "(a mod 4 * 16 + b div 16) mod 16 * 16 + (b mod 16 * 4 + c div 64) div 4 = b"
    by (simp only: radix_split(1) [OF lt(2)] radix_split(2) [OF lt(1)] div_mult_mod_eq)
  show "(b mod 16 * 4 + c div 64) mod 4 * 64 + c mod 64 = c"
    by (simp only: radix_split(2) [OF lt(2)] div_mult_mod_eq)
qed

lemma b64_decode_1: "p < 64 \<Longrightarrow> q < 64 \<Longrightarrow>
    b64_decode [b64_char p, b64_char q, CHR ''='', CHR ''=''] = Some [char_of (p * 4 + q div 16)]"
  by simp

lemma b64_decode_2: "p < 64 \<Longrightarrow> q < 64 \<Longrightarrow> x < 64 \<Longrightarrow>
    b64_decode [b64_char p, b64_char q, b64_char x, CHR ''='']
      = Some [char_of (p * 4 + q div 16), char_of (q mod 16 * 16 + x div 4)]"
  by simp

lemma b64_decode_3: "p < 64 \<Longrightarrow> q < 64 \<Longrightarrow> x < 64 \<Longrightarrow> y < 64 \<Longrightarrow>
    b64_decode (b64_char p # b64_char q # b64_char x # b64_char y # r)
      = map_option (\<lambda>t. char_of (p * 4 + q div 16) # char_of (q mod 16 * 16 + x div 4)
          # char_of (x mod 4 * 64 + y) # t) (b64_decode r)"
  by simp

lemma b64_decode_encode [simp]: "b64_decode (b64_encode bs) = Some bs"
proof (induction bs rule: b64_encode.induct)
  case 1
  then show ?case by simp
next
  case (2 a)
  note h = b64_sextets [OF nat_of_char_less_256 [of a], of 0 0]
  have "b64_encode [a] = [b64_char (of_char a div 4), b64_char (of_char a mod 4 * 16 + 0 div 16),
      CHR ''='', CHR ''='']"
    by (simp add: b64_group_def)
  then show ?case
    using b64_decode_1 [OF h(1,2)] h(5) by (simp only: char_of_char)
next
  case (3 a b)
  note h = b64_sextets [OF nat_of_char_less_256 [of a] nat_of_char_less_256 [of b], of 0]
  have "b64_encode [a, b] = [b64_char (of_char a div 4),
      b64_char (of_char a mod 4 * 16 + of_char b div 16),
      b64_char (of_char b mod 16 * 4 + 0 div 64), CHR ''='']"
    by (simp add: b64_group_def)
  then show ?case
    using b64_decode_2 [OF h(1,2,3)] h(5,6) by (simp only: char_of_char)
next
  case (4 a b c r)
  note h = b64_sextets [OF nat_of_char_less_256 [of a] nat_of_char_less_256 [of b]
      nat_of_char_less_256 [of c]]
  have "b64_encode (a # b # c # r) = b64_char (of_char a div 4)
      # b64_char (of_char a mod 4 * 16 + of_char b div 16)
      # b64_char (of_char b mod 16 * 4 + of_char c div 64) # b64_char (of_char c mod 64)
      # b64_encode r"
    by (simp add: b64_group_def)
  then show ?case
    using b64_decode_3 [OF h(1,2,3,4), of "b64_encode r"] h(5,6,7) "4.IH"
    by (simp only: char_of_char option.map)
qed

subsection \<open>Fields\<close>

lemma all_some_map_Some [simp]: "all_some (map (\<lambda>x. Some (f x)) xs) = Some (map f xs)"
  by (induction xs) simp_all

lemma as_list_map [simp]: "(\<And>x. f (g x) = Some x) \<Longrightarrow> as_list f (JArr (map g xs)) = Some xs"
  by (simp add: comp_def)

lemma as_str_JStr_list [simp]: "as_list as_str (JArr (map JStr xs)) = Some xs"
  by (rule as_list_map) simp

lemma jfield_Nil [simp]: "jfield n [] = JNull"
  by (simp add: jfield_def)

lemma jfield_snoc: "jfield n (ms @ [(k, v)]) = (if lower k = lower n then v else jfield n ms)"
  by (cases "filter (\<lambda>m. lower (fst m) = lower n) ms") (simp_all add: jfield_def)

lemma jfield_hit: "lower k = lower n \<Longrightarrow> jfield n (ms @ [(k, v)]) = v"
  by (simp add: jfield_snoc)

lemma jfield_append: "\<forall>m \<in> set ns. lower (fst m) \<noteq> lower n \<Longrightarrow> jfield n (ms @ ns) = jfield n ms"
  by (induction ns rule: rev_induct) (auto simp: jfield_snoc append_assoc [symmetric]
      simp del: append_assoc)

text \<open>Looking a field up in a concatenation of optional members.\<close>

definition free_of :: "string \<Rightarrow> (string \<times> json) list \<Rightarrow> bool" where
  "free_of n ms \<longleftrightarrow> (\<forall>m \<in> set ms. lower (fst m) \<noteq> n)"

lemma free_of_simps [simp]:
  "free_of n []"
  "free_of n (a @ b) \<longleftrightarrow> free_of n a \<and> free_of n b"
  "free_of n ((k, v) # b) \<longleftrightarrow> lower k \<noteq> n \<and> free_of n b"
  "lower k \<noteq> n \<Longrightarrow> free_of n (omit_str k s)"
  "lower k \<noteq> n \<Longrightarrow> free_of n (omit_bytes k s)"
  "lower k \<noteq> n \<Longrightarrow> free_of n (omit_int k i)"
  "free_of n (case t of None \<Rightarrow> [] | Some x \<Rightarrow> [(k, f x)]) \<longleftrightarrow> t = None \<or> lower k \<noteq> n"
  by (auto simp: free_of_def omit_str_def omit_bytes_def omit_int_def split: option.splits)

lemma jfield_left: "free_of (lower n) b \<Longrightarrow> jfield n (a @ b) = jfield n a"
  by (rule jfield_append) (simp add: free_of_def)

lemma jfield_right: "free_of (lower n) a \<Longrightarrow> jfield n (a @ b) = jfield n b"
  by (simp add: jfield_def free_of_def)

lemma jfield_Cons_other: "lower k \<noteq> lower n \<Longrightarrow> jfield n ((k, v) # b) = jfield n b"
  by (simp add: jfield_def)

lemma jfield_Cons_hit: "lower k = lower n \<Longrightarrow> free_of (lower n) b \<Longrightarrow> jfield n ((k, v) # b) = v"
  using jfield_left [of n b "[(k, v)]"] by (simp add: jfield_def)

lemma jfield_omit [simp]:
  "jfield k (omit_str k s) = (if s = [] then JNull else JStr s)"
  "jfield k (omit_bytes k s) = (if s = [] then JNull else JStr (b64_encode s))"
  "jfield k (omit_int k i) = (if i = 0 then JNull else JInt i)"
  "jfield k (case t of None \<Rightarrow> [] | Some x \<Rightarrow> [(k, f x)]) = (case t of None \<Rightarrow> JNull | Some x \<Rightarrow> f x)"
  by (auto simp: jfield_def omit_str_def omit_bytes_def omit_int_def split: option.splits)

lemma as_omitted [simp]:
  "as_str (if s = [] then JNull else JStr s) = Some s"
  "as_bytes (if s = [] then JNull else JStr (b64_encode s)) = Some s"
  "as_int (if i = 0 then JNull else JInt i) = Some i"
  by auto

lemma as_int32_omitted [simp]: "in_int32 i \<Longrightarrow> as_int32 (if i = 0 then JNull else JInt i) = Some i"
  unfolding as_int32_def by simp

lemma as_int64_omitted [simp]: "in_int64 i \<Longrightarrow> as_int64 (if i = 0 then JNull else JInt i) = Some i"
  unfolding as_int64_def by simp

section \<open>Codecs of structs\<close>

text \<open>What the users of a struct codec rely on: decoding the members of a value that satisfies
  \<open>ok\<close> gives the value back; then so does \<open>Unmarshal\<close> of the text that \<open>Marshal\<close> wrote.\<close>

locale codec =
  fixes members :: "'a \<Rightarrow> (string \<times> json) list"
    and of_members :: "(string \<times> json) list \<Rightarrow> 'a option"
    and ok :: "'a \<Rightarrow> bool"
  assumes of_members_members: "ok x \<Longrightarrow> of_members (members x) = Some x"
begin

lemma decode_encode: "ok x \<Longrightarrow> unmarshal_obj of_members (json_text (JObj (members x))) = Some x"
  by (simp add: of_members_members del: json_text.simps)

end

text \<open>A nested struct, and a slice of structs, nil when empty.\<close>

definition as_obj :: "((string \<times> json) list \<Rightarrow> 'a option) \<Rightarrow> json \<Rightarrow> 'a option" where
  "as_obj f j = (case j of JObj ms \<Rightarrow> f ms | JNull \<Rightarrow> f [] | _ \<Rightarrow> None)"

definition list_json :: "('a \<Rightarrow> json) \<Rightarrow> 'a list \<Rightarrow> json" where
  "list_json f xs = (if xs = [] then JNull else JArr (map f xs))"

lemma all_some_map: "(\<And>x. x \<in> set xs \<Longrightarrow> g (f x) = Some x) \<Longrightarrow> all_some (map (\<lambda>x. g (f x)) xs) = Some xs"
  by (induction xs) simp_all

lemma as_list_list_json: "(\<And>x. x \<in> set xs \<Longrightarrow> g (f x) = Some x) \<Longrightarrow> as_list g (list_json f xs) = Some xs"
  by (simp add: list_json_def all_some_map comp_def)

end
