(* ===== verification/Relay_Transport.thy ===== *)
theory Relay_Transport
  imports Json
begin

text \<open>
  The messages of the relay and their transport: the \<open>Envelope\<close> and \<open>NodeCommand\<close>
  messages of \<^verbatim>\<open>pkg/pb/v1\<close>, the JSON text of an envelope (the struct tags of
  \<^verbatim>\<open>relay.pb.go\<close>), \<^verbatim>\<open>pkg/relay/transport.go\<close>, which wraps an envelope in a command, and
  the control command of \<^verbatim>\<open>pkg/relay/server.go\<close>. The lemmas show that an envelope survives
  the transport unchanged.
\<close>

section \<open>Messages\<close>

record Envelope =
  MessageId :: string
  SenderNodeId :: string
  TargetNodeId :: string
  EncryptedPayload :: bytes
  Nonce :: bytes
  SenderSignature :: bytes
  Timestamp :: "(int \<times> int) option"
  MessageType :: int
  TtlSeconds :: int
  Priority :: int

definition MESSAGE_TYPE_CHAT :: int where "MESSAGE_TYPE_CHAT = 1"
definition MESSAGE_TYPE_CONTROL :: int where "MESSAGE_TYPE_CONTROL = 6"

record NodeCommand =
  CommandId :: string
  CommandType :: string
  Payload :: bytes

section \<open>JSON of an envelope\<close>

definition timestamp_json :: "int \<times> int \<Rightarrow> json" where
  "timestamp_json t = JObj (omit_int ''seconds'' (fst t) @ omit_int ''nanos'' (snd t))"

fun as_timestamp :: "json \<Rightarrow> (int \<times> int) option option" where
  "as_timestamp JNull = Some None"
| "as_timestamp (JObj ms) =
     (case (as_int64 (jfield ''seconds'' ms), as_int32 (jfield ''nanos'' ms)) of
        (Some s, Some n) \<Rightarrow> Some (Some (s, n)) | _ \<Rightarrow> None)"
| "as_timestamp _ = None"

definition envelope_members :: "Envelope \<Rightarrow> (string \<times> json) list" where
  "envelope_members e =
     omit_str ''message_id'' (MessageId e) @
     omit_str ''sender_node_id'' (SenderNodeId e) @
     omit_str ''target_node_id'' (TargetNodeId e) @
     omit_bytes ''encrypted_payload'' (EncryptedPayload e) @
     omit_bytes ''nonce'' (Nonce e) @
     omit_bytes ''sender_signature'' (SenderSignature e) @
     (case Timestamp e of None \<Rightarrow> [] | Some t \<Rightarrow> [(''timestamp'', timestamp_json t)]) @
     omit_int ''message_type'' (MessageType e) @
     omit_int ''ttl_seconds'' (TtlSeconds e) @
     omit_int ''priority'' (Priority e)"

definition envelope_of :: "(string \<times> json) list \<Rightarrow> Envelope option" where
  "envelope_of ms =
     (case (as_str (jfield ''message_id'' ms), as_str (jfield ''sender_node_id'' ms),
            as_str (jfield ''target_node_id'' ms), as_bytes (jfield ''encrypted_payload'' ms),
            as_bytes (jfield ''nonce'' ms), as_bytes (jfield ''sender_signature'' ms),
            as_timestamp (jfield ''timestamp'' ms), as_int32 (jfield ''message_type'' ms),
            as_int32 (jfield ''ttl_seconds'' ms), as_int32 (jfield ''priority'' ms)) of
        (Some mid, Some sdr, Some tgt, Some pay, Some non, Some sig, Some ts, Some ty,
         Some ttl, Some pri) \<Rightarrow>
          Some \<lparr>MessageId = mid, SenderNodeId = sdr, TargetNodeId = tgt, EncryptedPayload = pay,
                Nonce = non, SenderSignature = sig, Timestamp = ts, MessageType = ty,
                TtlSeconds = ttl, Priority = pri\<rparr>
      | _ \<Rightarrow> None)"

section \<open>pkg/relay/transport.go\<close>

definition CommandTypeEnvelope :: string where
  "CommandTypeEnvelope = ''envelope''"

text \<open>A nil envelope is \<open>None\<close>: marshalling it succeeds (\<open>null\<close>), reading its
  \<open>MessageId\<close> afterwards dereferences nil.\<close>

definition EnvelopeToCommand :: "Envelope option \<Rightarrow> NodeCommand go" where
  "EnvelopeToCommand env =
     (case env of
        None \<Rightarrow> Panic ''nil pointer dereference''
      | Some e \<Rightarrow> Val \<lparr>CommandId = MessageId e, CommandType = CommandTypeEnvelope,
                       Payload = json_text (JObj (envelope_members e))\<rparr>)"

text \<open>\<open>CommandToEnvelope\<close> returns an error, or a nil envelope for another kind of
  command, or the envelope.\<close>

definition CommandToEnvelope :: "NodeCommand \<Rightarrow> Envelope option result" where
  "CommandToEnvelope cmd =
     (if CommandType cmd \<noteq> CommandTypeEnvelope then Inr None
      else (case unmarshal_obj envelope_of (Payload cmd) of
          None \<Rightarrow> Inl ''invalid envelope''
        | Some env \<Rightarrow> Inr (Some env)))"

section \<open>The control command\<close>

record RelayCommand =
  Command :: string
  Channel :: string

definition relay_command_members :: "RelayCommand \<Rightarrow> (string \<times> json) list" where
  "relay_command_members c = [(''command'', JStr (Command c)), (''channel'', JStr (Channel c))]"

definition relay_command_of :: "(string \<times> json) list \<Rightarrow> RelayCommand option" where
  "relay_command_of ms =
     (case (as_str (jfield ''command'' ms), as_str (jfield ''channel'' ms)) of
        (Some c, Some h) \<Rightarrow> Some \<lparr>Command = c, Channel = h\<rparr> | _ \<Rightarrow> None)"

section \<open>Lemmas\<close>

definition envelope_ok :: "Envelope \<Rightarrow> bool" where
  "envelope_ok e \<longleftrightarrow> in_int32 (MessageType e) \<and> in_int32 (TtlSeconds e) \<and> in_int32 (Priority e) \<and>
     (case Timestamp e of None \<Rightarrow> True | Some (s, n) \<Rightarrow> in_int64 s \<and> in_int32 n)"

lemma as_timestamp_json:
  assumes "case t of None \<Rightarrow> True | Some (s, n) \<Rightarrow> in_int64 s \<and> in_int32 n"
  shows "as_timestamp (case t of None \<Rightarrow> JNull | Some x \<Rightarrow> timestamp_json x) = Some t"
proof (cases t)
  case (Some x)
  obtain s n where x: "x = (s, n)" by fastforce
  have "jfield ''seconds'' (omit_int ''seconds'' s @ omit_int ''nanos'' n) = (if s = 0 then JNull else JInt s)"
    by (subst jfield_left) (simp_all add: lower_def)
  moreover have "jfield ''nanos'' (omit_int ''seconds'' s @ omit_int ''nanos'' n) = (if n = 0 then JNull else JInt n)"
    by (subst jfield_right) (simp_all add: lower_def)
  ultimately show ?thesis
    using assms Some x by (simp add: timestamp_json_def)
qed simp

lemma envelope_fields:
  "jfield ''message_id'' (envelope_members e) = (if MessageId e = [] then JNull else JStr (MessageId e))"
  "jfield ''sender_node_id'' (envelope_members e) = (if SenderNodeId e = [] then JNull else JStr (SenderNodeId e))"
  "jfield ''target_node_id'' (envelope_members e) = (if TargetNodeId e = [] then JNull else JStr (TargetNodeId e))"
  "jfield ''encrypted_payload'' (envelope_members e) =
     (if EncryptedPayload e = [] then JNull else JStr (b64_encode (EncryptedPayload e)))"
  "jfield ''nonce'' (envelope_members e) = (if Nonce e = [] then JNull else JStr (b64_encode (Nonce e)))"
  "jfield ''sender_signature'' (envelope_members e) =
     (if SenderSignature e = [] then JNull else JStr (b64_encode (SenderSignature e)))"
  "jfield ''timestamp'' (envelope_members e) =
     (case Timestamp e of None \<Rightarrow> JNull | Some t \<Rightarrow> timestamp_json t)"
  "jfield ''message_type'' (envelope_members e) = (if MessageType e = 0 then JNull else JInt (MessageType e))"
  "jfield ''ttl_seconds'' (envelope_members e) = (if TtlSeconds e = 0 then JNull else JInt (TtlSeconds e))"
  "jfield ''priority'' (envelope_members e) = (if Priority e = 0 then JNull else JInt (Priority e))"
  unfolding envelope_members_def
  by (simp_all add: jfield_left jfield_right lower_def)

lemma envelope_of_members: "envelope_ok e \<Longrightarrow> envelope_of (envelope_members e) = Some e"
  by (simp add: envelope_of_def envelope_fields as_timestamp_json envelope_ok_def)

lemma relay_command_of_members [simp]: "relay_command_of (relay_command_members c) = Some c"
  by (simp add: relay_command_of_def relay_command_members_def jfield_Cons_hit
      jfield_Cons_other lower_def)

interpretation envelope: codec envelope_members envelope_of envelope_ok
  by unfold_locales (rule envelope_of_members)

interpretation relay_command: codec relay_command_members relay_command_of "\<lambda>_. True"
  by unfold_locales simp

end
