(* ===== verification/Relay_Sessions.thy ===== *)
theory Relay_Sessions
  imports Go_Chan Relay_Transport
begin

text \<open>
  \<^verbatim>\<open>pkg/relay/session_manager.go\<close> and \<^verbatim>\<open>pkg/relay/errors.go\<close>: the sessions of the nodes
  connected to a relay, the blacklist, the subscriptions of the broadcast channels, and
  the forwarding of envelopes.

  A \<open>*Session\<close> is shared between the manager and the goroutines of its stream, so
  sessions live in a heap and are named by their address; the registry maps a node to an
  address. The log lines slice \<open>nodeID[:8]\<close>, which panics on a shorter id. The relay has
  no recovery, so a panic ends the process and carries no state.
\<close>

datatype relay_error = ErrNodeBlacklisted | ErrTargetNotConnected | ErrBufferFull
  | ErrInvalidSignature | ErrSessionNotFound

record Session =
  s_NodeID :: string
  s_PublicKey :: bytes
  s_SessionID :: string
  s_ConnectedAt :: time
  s_LastActivity :: time
  s_SendChan :: "Envelope chan"

record SessionManager =
  heap :: "nat \<rightharpoonup> Session"
  nxt :: nat
  sessions :: "(string \<times> nat) list"
  blacklist :: "string \<rightharpoonup> time"
  channels :: "string \<rightharpoonup> string list"
  activeConnections :: int
  messagesRelayed :: int

definition NewSessionManager :: SessionManager where
  "NewSessionManager = \<lparr>heap = Map.empty, nxt = 0, sessions = [], blacklist = Map.empty,
     channels = Map.empty, activeConnections = 0, messagesRelayed = 0\<rparr>"

section \<open>Session ids\<close>

text \<open>\<open>randomHex\<close> picks each letter by one reading of the clock (in nanoseconds); the
  session id is the formatted time followed by eight such letters.\<close>

definition randomHex :: "nat list \<Rightarrow> string" where
  "randomHex readings = map (\<lambda>t. ''0123456789abcdef'' ! (t mod 16)) readings"

definition generateSessionID :: "string \<Rightarrow> nat list \<Rightarrow> string" where
  "generateSessionID stamp readings = stamp @ randomHex readings"

section \<open>Registration\<close>

definition IsBlacklisted :: "SessionManager \<Rightarrow> string \<Rightarrow> bool" where
  "IsBlacklisted sm nodeID \<longleftrightarrow> blacklist sm nodeID \<noteq> None"

definition close_session :: "nat \<Rightarrow> SessionManager \<Rightarrow> SessionManager go" where
  "close_session a sm =
     (case heap sm a of
        None \<Rightarrow> Panic ''nil pointer dereference''
      | Some s \<Rightarrow> go_bind (close_chan (s_SendChan s)) (\<lambda>c.
          Val (sm\<lparr>heap := (heap sm)(a \<mapsto> s\<lparr>s_SendChan := c\<rparr>)\<rparr>)))"

definition RegisterSession ::
    "string \<Rightarrow> bytes \<Rightarrow> string \<Rightarrow> time \<Rightarrow> SessionManager \<Rightarrow> ((relay_error + nat) \<times> SessionManager) go" where
  "RegisterSession nodeID publicKey sid now sm =
     (if IsBlacklisted sm nodeID then Val (Inl ErrNodeBlacklisted, sm)
      else let a = nxt sm;
               session = \<lparr>s_NodeID = nodeID, s_PublicKey = publicKey, s_SessionID = sid,
                 s_ConnectedAt = now, s_LastActivity = now, s_SendChan = make_chan 100\<rparr>;
               sm1 = sm\<lparr>heap := (heap sm)(a \<mapsto> session), nxt := Suc a\<rparr>
           in go_bind
             (case map_of (sessions sm1) nodeID of
                Some old \<Rightarrow>
                  go_bind (close_session old
                      (sm1\<lparr>sessions := AList.delete nodeID (sessions sm1)\<rparr>)) (\<lambda>sm2.
                    go_bind (slice_to 8 nodeID) (\<lambda>_. Val sm2))
              | None \<Rightarrow> Val sm1)
             (\<lambda>sm2.
               let sm3 = sm2\<lparr>sessions := AList.update nodeID a (sessions sm2),
                             activeConnections := activeConnections sm2 + 1\<rparr>
               in go_bind (slice_to 8 nodeID) (\<lambda>_. go_bind (slice_to 8 sid) (\<lambda>_.
                    Val (Inr a, sm3)))))"

definition UnregisterSession :: "string \<Rightarrow> SessionManager \<Rightarrow> SessionManager go" where
  "UnregisterSession nodeID sm =
     (case map_of (sessions sm) nodeID of
        None \<Rightarrow> Val sm
      | Some a \<Rightarrow>
          go_bind (close_session a (sm\<lparr>sessions := AList.delete nodeID (sessions sm)\<rparr>)) (\<lambda>sm1.
            let sm2 = sm1\<lparr>activeConnections := activeConnections sm1 - 1\<rparr>
            in go_bind (slice_to 8 nodeID) (\<lambda>_. Val sm2)))"

text \<open>\<open>GetSession\<close> also refreshes the session's last activity.\<close>

definition GetSession :: "string \<Rightarrow> time \<Rightarrow> SessionManager \<Rightarrow> (nat option \<times> SessionManager) go" where
  "GetSession nodeID now sm =
     (case map_of (sessions sm) nodeID of
        None \<Rightarrow> Val (None, sm)
      | Some a \<Rightarrow>
          (case heap sm a of
             None \<Rightarrow> Panic ''nil pointer dereference''
           | Some s \<Rightarrow> Val (Some a, sm\<lparr>heap := (heap sm)(a \<mapsto> s\<lparr>s_LastActivity := now\<rparr>)\<rparr>)))"

section \<open>Channels\<close>

definition SubscribeToChannel :: "string \<Rightarrow> string \<Rightarrow> SessionManager \<Rightarrow> SessionManager go" where
  "SubscribeToChannel nodeID channelID sm =
     (let subscribers = (case channels sm channelID of None \<Rightarrow> [] | Some ns \<Rightarrow> ns);
          sm1 = sm\<lparr>channels := (channels sm)(channelID \<mapsto> List.insert nodeID subscribers)\<rparr>
      in go_bind (slice_to 8 nodeID) (\<lambda>_. Val sm1))"

definition UnsubscribeFromChannel :: "string \<Rightarrow> string \<Rightarrow> SessionManager \<Rightarrow> SessionManager go" where
  "UnsubscribeFromChannel nodeID channelID sm =
     (case channels sm channelID of
        None \<Rightarrow> Val sm
      | Some subscribers \<Rightarrow>
          let sm1 = sm\<lparr>channels := (channels sm)(channelID \<mapsto> removeAll nodeID subscribers)\<rparr>
          in go_bind (slice_to 8 nodeID) (\<lambda>_. Val sm1))"

section \<open>Forwarding\<close>

text \<open>The \<open>select\<close> that queues an envelope on a session, or drops it when the queue is
  full (\<open>False\<close>).\<close>

definition offer :: "nat \<Rightarrow> Envelope \<Rightarrow> SessionManager \<Rightarrow> (bool \<times> SessionManager) go" where
  "offer a envelope sm =
     (case heap sm a of
        None \<Rightarrow> Panic ''nil pointer dereference''
      | Some s \<Rightarrow>
          (case try_send envelope (s_SendChan s) of
             Sent c \<Rightarrow> Val (True, sm\<lparr>heap := (heap sm)(a \<mapsto> s\<lparr>s_SendChan := c\<rparr>)\<rparr>)
           | WouldBlock \<Rightarrow> Val (False, sm)
           | SendOnClosed \<Rightarrow> Panic ''send on closed channel''))"

definition session_node :: "nat \<Rightarrow> SessionManager \<Rightarrow> string" where
  "session_node a sm = (case heap sm a of None \<Rightarrow> [] | Some s \<Rightarrow> s_NodeID s)"

definition sendToSession ::
    "nat \<Rightarrow> Envelope \<Rightarrow> SessionManager \<Rightarrow> (relay_error option \<times> SessionManager) go" where
  "sendToSession a envelope sm =
     go_bind (offer a envelope sm) (\<lambda>(sent, sm1).
       if sent then
         let sm2 = sm1\<lparr>messagesRelayed := messagesRelayed sm1 + 1\<rparr>
         in go_bind (slice_to 8 (SenderNodeId envelope)) (\<lambda>_.
            go_bind (slice_to 8 (session_node a sm2)) (\<lambda>_. Val (None, sm2)))
       else go_bind (slice_to 8 (session_node a sm1)) (\<lambda>_. Val (Some ErrBufferFull, sm1)))"

text \<open>The callback of \<open>subscribers.Range\<close>, run over the subscribers, with the count of
  deliveries.\<close>

fun broadcast_loop ::
    "Envelope \<Rightarrow> time \<Rightarrow> string list \<Rightarrow> nat \<Rightarrow> SessionManager \<Rightarrow> (nat \<times> SessionManager) go" where
  "broadcast_loop envelope now [] count sm = Val (count, sm)"
| "broadcast_loop envelope now (targetNodeID # rest) count sm =
     (if targetNodeID = SenderNodeId envelope then broadcast_loop envelope now rest count sm
      else go_bind (GetSession targetNodeID now sm) (\<lambda>(found, sm1).
        (case found of
           None \<Rightarrow> broadcast_loop envelope now rest count sm1
         | Some a \<Rightarrow> go_bind (offer a envelope sm1) (\<lambda>(sent, sm2).
             broadcast_loop envelope now rest (if sent then Suc count else count) sm2))))"

definition broadcastEnvelope :: "Envelope \<Rightarrow> time \<Rightarrow> SessionManager \<Rightarrow> SessionManager go" where
  "broadcastEnvelope envelope now sm =
     (case channels sm (TargetNodeId envelope) of
        None \<Rightarrow> Val sm
      | Some subscribers \<Rightarrow>
          go_bind (broadcast_loop envelope now subscribers 0 sm) (\<lambda>(count, sm1).
            Val (sm1\<lparr>messagesRelayed := messagesRelayed sm1 + int count\<rparr>)))"

definition ForwardEnvelope ::
    "Envelope \<Rightarrow> time \<Rightarrow> SessionManager \<Rightarrow> (relay_error option \<times> SessionManager) go" where
  "ForwardEnvelope envelope now sm =
     (if IsBlacklisted sm (SenderNodeId envelope) then
        go_bind (slice_to 8 (SenderNodeId envelope)) (\<lambda>_. Val (Some ErrNodeBlacklisted, sm))
      else if TargetNodeId envelope \<noteq> [] \<and> hd (TargetNodeId envelope) = CHR ''#'' then
        go_bind (broadcastEnvelope envelope now sm) (\<lambda>sm1. Val (None, sm1))
      else go_bind (GetSession (TargetNodeId envelope) now sm) (\<lambda>(found, sm1).
        (case found of
           None \<Rightarrow> go_bind (slice_to 8 (TargetNodeId envelope)) (\<lambda>_.
             Val (Some ErrTargetNotConnected, sm1))
         | Some a \<Rightarrow> sendToSession a envelope sm1)))"

section \<open>Blacklist and statistics\<close>

definition AddToBlacklist :: "string \<Rightarrow> time \<Rightarrow> SessionManager \<Rightarrow> SessionManager go" where
  "AddToBlacklist nodeID now sm =
     (let sm1 = sm\<lparr>blacklist := (blacklist sm)(nodeID \<mapsto> now)\<rparr>
      in go_bind (slice_to 8 nodeID) (\<lambda>_. UnregisterSession nodeID sm1))"

definition RemoveFromBlacklist :: "string \<Rightarrow> SessionManager \<Rightarrow> SessionManager go" where
  "RemoveFromBlacklist nodeID sm =
     (let sm1 = sm\<lparr>blacklist := (blacklist sm)(nodeID := None)\<rparr>
      in go_bind (slice_to 8 nodeID) (\<lambda>_. Val sm1))"

definition GetConnectedNodeIDs :: "SessionManager \<Rightarrow> string list" where
  "GetConnectedNodeIDs sm = map fst (sessions sm)"

definition GetStats :: "SessionManager \<Rightarrow> int \<times> int" where
  "GetStats sm = (activeConnections sm, messagesRelayed sm)"

section \<open>Invariant and abstract view\<close>

text \<open>Every registered address is live in the heap: its session carries the node it is
  registered for and an open channel of capacity 100. A blacklisted node has no session;
  the connection counter is never below the number of sessions.\<close>

definition session_live :: "SessionManager \<Rightarrow> string \<Rightarrow> nat \<Rightarrow> bool" where
  "session_live sm n a \<longleftrightarrow>
     (case heap sm a of None \<Rightarrow> False
      | Some s \<Rightarrow> s_NodeID s = n \<and> chan_live 100 (s_SendChan s))"

definition sm_ok :: "SessionManager \<Rightarrow> bool" where
  "sm_ok sm \<longleftrightarrow>
     keys_distinct (sessions sm) \<and>
     (\<forall>n a. map_of (sessions sm) n = Some a \<longrightarrow> session_live sm n a \<and> 8 \<le> length n) \<and>
     (\<forall>a. heap sm a \<noteq> None \<longrightarrow> a < nxt sm) \<and>
     (\<forall>n. IsBlacklisted sm n \<longrightarrow> map_of (sessions sm) n = None) \<and>
     int (length (sessions sm)) \<le> activeConnections sm \<and>
     (\<forall>c ns. channels sm c = Some ns \<longrightarrow> distinct ns)"

text \<open>What a client of the relay can observe: the queue of every connected node, the
  banned nodes, the subscribers of every channel.\<close>

definition queues :: "SessionManager \<Rightarrow> string \<rightharpoonup> Envelope list" where
  "queues sm n =
     (case map_of (sessions sm) n of None \<Rightarrow> None
      | Some a \<Rightarrow> map_option (\<lambda>s. buf (s_SendChan s)) (heap sm a))"

record relay_spec =
  rs_queue :: "string \<rightharpoonup> Envelope list"
  rs_banned :: "string set"
  rs_subs :: "string \<Rightarrow> string set"
  rs_relayed :: int

definition sm_abs :: "SessionManager \<Rightarrow> relay_spec" where
  "sm_abs sm = \<lparr>rs_queue = queues sm, rs_banned = {n. IsBlacklisted sm n},
     rs_subs = (\<lambda>c. case channels sm c of None \<Rightarrow> {} | Some ns \<Rightarrow> set ns),
     rs_relayed = messagesRelayed sm\<rparr>"

section \<open>Specification of the operations\<close>

definition is_channel :: "string \<Rightarrow> bool" where
  "is_channel t \<longleftrightarrow> t \<noteq> [] \<and> hd t = CHR ''#''"

definition room :: "(string \<rightharpoonup> Envelope list) \<Rightarrow> string \<Rightarrow> bool" where
  "room Q n \<longleftrightarrow> (case Q n of None \<Rightarrow> False | Some q \<Rightarrow> length q < 100)"

definition deliver :: "Envelope \<Rightarrow> string set \<Rightarrow> (string \<rightharpoonup> Envelope list) \<Rightarrow> string \<rightharpoonup> Envelope list" where
  "deliver e targets Q n = (if n \<in> targets \<and> room Q n then Some (the (Q n) @ [e]) else Q n)"

definition spec_deliver :: "Envelope \<Rightarrow> string set \<Rightarrow> relay_spec \<Rightarrow> relay_spec" where
  "spec_deliver e targets S =
     S\<lparr>rs_queue := deliver e targets (rs_queue S),
       rs_relayed := rs_relayed S + int (card {n \<in> targets. room (rs_queue S) n})\<rparr>"

definition spec_targets :: "Envelope \<Rightarrow> relay_spec \<Rightarrow> string set" where
  "spec_targets e S =
     (if is_channel (TargetNodeId e) then rs_subs S (TargetNodeId e) - {SenderNodeId e}
      else {TargetNodeId e})"

definition spec_forward :: "Envelope \<Rightarrow> relay_spec \<Rightarrow> relay_spec" where
  "spec_forward e S =
     (if SenderNodeId e \<in> rs_banned S then S else spec_deliver e (spec_targets e S) S)"

definition spec_result :: "Envelope \<Rightarrow> relay_spec \<Rightarrow> relay_error option" where
  "spec_result e S =
     (if SenderNodeId e \<in> rs_banned S then Some ErrNodeBlacklisted
      else if is_channel (TargetNodeId e) then None
      else if rs_queue S (TargetNodeId e) = None then Some ErrTargetNotConnected
      else if room (rs_queue S) (TargetNodeId e) then None else Some ErrBufferFull)"

definition spec_connect :: "string \<Rightarrow> relay_spec \<Rightarrow> relay_spec" where
  "spec_connect n S =
     (if n \<in> rs_banned S then S else S\<lparr>rs_queue := (rs_queue S)(n \<mapsto> [])\<rparr>)"

definition spec_disconnect :: "string \<Rightarrow> relay_spec \<Rightarrow> relay_spec" where
  "spec_disconnect n S = S\<lparr>rs_queue := (rs_queue S)(n := None)\<rparr>"

definition spec_ban :: "string \<Rightarrow> relay_spec \<Rightarrow> relay_spec" where
  "spec_ban n S = spec_disconnect n (S\<lparr>rs_banned := insert n (rs_banned S)\<rparr>)"

section \<open>Lemmas\<close>

lemma NewSessionManager_ok: "sm_ok NewSessionManager"
  by (simp add: NewSessionManager_def sm_ok_def keys_distinct_def IsBlacklisted_def)

lemma sm_ok_session:
  assumes "sm_ok sm" "map_of (sessions sm) n = Some a"
  obtains s where "heap sm a = Some s" "s_NodeID s = n" "chan_live 100 (s_SendChan s)"
    "a < nxt sm" "8 \<le> length n"
proof -
  have "session_live sm n a" "8 \<le> length n" "heap sm a \<noteq> None \<longrightarrow> a < nxt sm"
    using assms unfolding sm_ok_def by blast+
  then show ?thesis by (cases "heap sm a") (auto simp: session_live_def that)
qed

lemma sm_ok_addr_inj:
  assumes "sm_ok sm" "map_of (sessions sm) n = Some a" "map_of (sessions sm) m = Some a"
  shows "n = m"
proof -
  have "session_live sm n a" "session_live sm m a" using assms unfolding sm_ok_def by blast+
  then show ?thesis by (auto simp: session_live_def split: option.splits)
qed

lemma put_session:
  assumes ok: "sm_ok sm" and a: "map_of (sessions sm) n = Some a"
    and s': "s_NodeID s' = n" "chan_live 100 (s_SendChan s')"
  shows "sm_ok (sm\<lparr>heap := (heap sm)(a \<mapsto> s')\<rparr>)"
    and "queues (sm\<lparr>heap := (heap sm)(a \<mapsto> s')\<rparr>) = (queues sm)(n \<mapsto> buf (s_SendChan s'))"
proof -
  let ?sm = "sm\<lparr>heap := (heap sm)(a \<mapsto> s')\<rparr>"
  have lt: "a < nxt sm" using ok a by (rule sm_ok_session)
  have other: "b \<noteq> a" if "map_of (sessions sm) m = Some b" "m \<noteq> n" for m b
    using sm_ok_addr_inj [OF ok a] that by blast
  have "session_live ?sm m b" if "map_of (sessions sm) m = Some b" for m b
  proof (cases "m = n")
    case True
    then show ?thesis using a s' that by (simp add: session_live_def)
  next
    case False
    then have "b \<noteq> a" "session_live sm m b" using other ok that unfolding sm_ok_def by blast+
    then show ?thesis by (simp add: session_live_def)
  qed
  then show "sm_ok ?sm" using ok lt unfolding sm_ok_def by (auto simp: IsBlacklisted_def)
  show "queues ?sm = (queues sm)(n \<mapsto> buf (s_SendChan s'))"
  proof (rule ext)
    fix m show "queues ?sm m = ((queues sm)(n \<mapsto> buf (s_SendChan s'))) m"
      using a other [of m] by (cases "m = n") (auto simp: queues_def split: option.split)
  qed
qed

lemma queues_None [simp]:
  "sm_ok sm \<Longrightarrow> queues sm n = None \<longleftrightarrow> map_of (sessions sm) n = None"
  by (auto simp: queues_def split: option.splits elim: sm_ok_session)

text \<open>\<open>GetSession\<close> finds the registered session and touches nothing observable.\<close>

lemma GetSession_spec:
  assumes "sm_ok sm"
  obtains sm' where "GetSession n now sm = Val (map_of (sessions sm) n, sm')" "sm_ok sm'"
    "queues sm' = queues sm" "sessions sm' = sessions sm" "blacklist sm' = blacklist sm"
    "channels sm' = channels sm" "messagesRelayed sm' = messagesRelayed sm"
proof (cases "map_of (sessions sm) n")
  case None
  then show ?thesis using assms by (intro that [of sm]) (simp_all add: GetSession_def)
next
  case (Some a)
  obtain s where s: "heap sm a = Some s" "s_NodeID s = n" "chan_live 100 (s_SendChan s)"
    using assms Some by (rule sm_ok_session)
  let ?s = "s\<lparr>s_LastActivity := now\<rparr>"
  have q: "queues sm n = Some (buf (s_SendChan s))" using Some s by (simp add: queues_def)
  show ?thesis
    using Some s q put_session [OF assms Some, of ?s]
    by (intro that [of "sm\<lparr>heap := (heap sm)(a \<mapsto> ?s)\<rparr>"]) (auto simp: GetSession_def)
qed

text \<open>Queueing on a registered session appends when there is room and changes nothing
  otherwise.\<close>

lemma offer_spec:
  assumes ok: "sm_ok sm" and a: "map_of (sessions sm) n = Some a"
  obtains sm' q where "queues sm n = Some q"
    "offer a e sm = Val (length q < 100, sm')" "sm_ok sm'"
    "queues sm' = (if length q < 100 then (queues sm)(n \<mapsto> q @ [e]) else queues sm)"
    "sessions sm' = sessions sm" "blacklist sm' = blacklist sm"
    "channels sm' = channels sm" "messagesRelayed sm' = messagesRelayed sm"
    "session_node a sm' = n"
proof -
  obtain s where s: "heap sm a = Some s" "s_NodeID s = n" "chan_live 100 (s_SendChan s)"
    using ok a by (rule sm_ok_session)
  let ?q = "buf (s_SendChan s)"
  let ?s = "s\<lparr>s_SendChan := (s_SendChan s)\<lparr>buf := ?q @ [e]\<rparr>\<rparr>"
  have q: "queues sm n = Some ?q" using a s by (simp add: queues_def)
  show ?thesis
  proof (cases "length ?q < 100")
    case True
    then show ?thesis
      using q s put_session [OF ok a, of ?s] chan_live_append [OF s(3) True]
      by (intro that [of ?q "sm\<lparr>heap := (heap sm)(a \<mapsto> ?s)\<rparr>"])
         (auto simp: offer_def try_send_live [OF s(3)] session_node_def)
  next
    case False
    then show ?thesis
      using q s ok
      by (intro that [of ?q sm]) (auto simp: offer_def try_send_live [OF s(3)] session_node_def)
  qed
qed

text \<open>Delivering to one target after the other is delivering to the set.\<close>

lemma deliver_empty [simp]: "deliver e {} Q = Q"
  by (simp add: deliver_def fun_eq_iff)

lemma deliver_absent: "Q n = None \<Longrightarrow> deliver e (insert n T) Q = deliver e T Q"
  by (auto simp: deliver_def room_def fun_eq_iff)

lemma deliver_insert:
  assumes "n \<notin> T"
  shows "deliver e (insert n T) Q = deliver e T (deliver e {n} Q)"
  using assms by (auto simp: deliver_def room_def fun_eq_iff split: option.splits)

lemma room_deliver_other [simp]: "n \<noteq> m \<Longrightarrow> room (deliver e {n} Q) m = room Q m"
  by (simp add: deliver_def room_def)

lemma card_room_insert:
  assumes "finite T" "n \<notin> T"
  shows "card {m \<in> insert n T. room Q m} =
    (if room Q n then 1 else 0) + card {m \<in> T. room (deliver e {n} Q) m}"
proof -
  have "{m \<in> T. room (deliver e {n} Q) m} = {m \<in> T. room Q m}"
    using assms(2) by (metis (mono_tags, lifting) room_deliver_other)
  moreover have "{m \<in> insert n T. room Q m} =
      (if room Q n then insert n {m \<in> T. room Q m} else {m \<in> T. room Q m})" by auto
  ultimately show ?thesis using assms by simp
qed

definition same_registry :: "SessionManager \<Rightarrow> SessionManager \<Rightarrow> bool" where
  "same_registry sm sm' \<longleftrightarrow> sessions sm' = sessions sm \<and> blacklist sm' = blacklist sm \<and>
     channels sm' = channels sm \<and> messagesRelayed sm' = messagesRelayed sm"

lemma same_registry_refl [simp]: "same_registry sm sm"
  by (simp add: same_registry_def)

lemma same_registry_trans: "same_registry a b \<Longrightarrow> same_registry b c \<Longrightarrow> same_registry a c"
  by (simp add: same_registry_def)

lemma offer_deliver:
  assumes "sm_ok sm" "map_of (sessions sm) n = Some a"
  obtains sm' where "offer a e sm = Val (room (queues sm) n, sm')" "sm_ok sm'"
    "queues sm' = deliver e {n} (queues sm)" "same_registry sm sm'" "session_node a sm' = n"
proof -
  obtain sm' q where o: "queues sm n = Some q" "offer a e sm = Val (length q < 100, sm')" "sm_ok sm'"
    "queues sm' = (if length q < 100 then (queues sm)(n \<mapsto> q @ [e]) else queues sm)"
    "sessions sm' = sessions sm" "blacklist sm' = blacklist sm"
    "channels sm' = channels sm" "messagesRelayed sm' = messagesRelayed sm"
    "session_node a sm' = n"
    using assms by (rule offer_spec)
  then show ?thesis
    by (intro that [of sm']) (auto simp: room_def deliver_def same_registry_def fun_eq_iff)
qed

definition delivered ::
    "Envelope \<Rightarrow> string set \<Rightarrow> nat \<Rightarrow> SessionManager \<Rightarrow> (nat \<times> SessionManager) go \<Rightarrow> bool" where
  "delivered e T c sm r \<longleftrightarrow>
     (\<exists>sm'. r = Val (c + card {n \<in> T. room (queues sm) n}, sm') \<and> sm_ok sm' \<and>
            queues sm' = deliver e T (queues sm) \<and> same_registry sm sm')"

lemma delivered_absent:
  assumes "delivered e T c sm1 r" "queues sm1 = queues sm" "same_registry sm sm1" "queues sm n = None"
  shows "delivered e (insert n T) c sm r"
proof -
  have "{m \<in> insert n T. room (queues sm) m} = {m \<in> T. room (queues sm) m}"
    using assms(4) by (auto simp: room_def)
  then show ?thesis
    using assms(1,2) same_registry_trans [OF assms(3)]
    by (auto simp: delivered_def deliver_absent [of "queues sm" n e T, OF assms(4)])
qed

lemma delivered_insert:
  assumes "delivered e T (if room (queues sm) n then Suc c else c) sm2 r"
    "queues sm2 = deliver e {n} (queues sm)" "same_registry sm sm2" "finite T" "n \<notin> T"
  shows "delivered e (insert n T) c sm r"
proof -
  obtain sm' where r: "r = Val ((if room (queues sm) n then Suc c else c) +
        card {m \<in> T. room (deliver e {n} (queues sm)) m}, sm')" "sm_ok sm'"
      "queues sm' = deliver e T (deliver e {n} (queues sm))" "same_registry sm sm'"
    using assms(1,2) same_registry_trans [OF assms(3)] by (auto simp: delivered_def)
  show ?thesis
    unfolding delivered_def card_room_insert [OF assms(4,5), of "queues sm" e]
      deliver_insert [OF assms(5)]
    by (rule exI [of _ sm']) (auto simp: r)
qed

lemma broadcast_loop_spec:
  assumes "sm_ok sm" "distinct ns"
  shows "delivered e (set ns - {SenderNodeId e}) c sm (broadcast_loop e now ns c sm)"
  using assms
proof (induction ns arbitrary: c sm)
  case Nil
  then show ?case by (simp add: delivered_def)
next
  case (Cons n ns)
  let ?T = "set ns - {SenderNodeId e}"
  note IH = Cons.IH
  show ?case
  proof (cases "n = SenderNodeId e")
    case True
    then have "set (n # ns) - {SenderNodeId e} = ?T" by auto
    with True IH [OF Cons.prems(1)] Cons.prems(2) show ?thesis by simp
  next
    case False
    then have T: "set (n # ns) - {SenderNodeId e} = insert n ?T" "n \<notin> ?T" "distinct ns"
      using Cons.prems by auto
    obtain sm1 where g: "GetSession n now sm = Val (map_of (sessions sm) n, sm1)" "sm_ok sm1"
        "queues sm1 = queues sm" "same_registry sm sm1"
      using Cons.prems(1) by (rule GetSession_spec [of _ n now]) (simp add: same_registry_def)
    show ?thesis unfolding T(1)
    proof (cases "map_of (sessions sm) n")
      case None
      then show "delivered e (insert n ?T) c sm (broadcast_loop e now (n # ns) c sm)"
        using delivered_absent [OF IH [OF g(2) T(3)] g(3,4)] Cons.prems(1) False g(1) by simp
    next
      case (Some a)
      then have "map_of (sessions sm1) n = Some a" using g(4) by (simp add: same_registry_def)
      with g(2) obtain sm2 where o: "offer a e sm1 = Val (room (queues sm1) n, sm2)" "sm_ok sm2"
          "queues sm2 = deliver e {n} (queues sm1)" "same_registry sm1 sm2"
        by (rule offer_deliver [where e = e])
      show "delivered e (insert n ?T) c sm (broadcast_loop e now (n # ns) c sm)"
        using delivered_insert [OF IH [OF o(2) T(3)] _ same_registry_trans [OF g(4) o(4)] _ T(2)]
          False Some g(1,3) o(1,3) by simp
    qed
  qed
qed

text \<open>The forwarding of an envelope implements the specification, and returns its error.\<close>

lemma relayed_frame [simp]:
  "sm_ok (sm\<lparr>messagesRelayed := c\<rparr>) = sm_ok sm"
  "queues (sm\<lparr>messagesRelayed := c\<rparr>) = queues sm"
  "session_node a (sm\<lparr>messagesRelayed := c\<rparr>) = session_node a sm"
  by (simp_all add: sm_ok_def session_live_def IsBlacklisted_def queues_def fun_eq_iff session_node_def
      cong: option.case_cong)

lemma same_registry_relayed:
  "same_registry sm sm' \<Longrightarrow> sm'\<lparr>messagesRelayed := messagesRelayed sm\<rparr> = sm'"
  by (simp add: same_registry_def)

lemma sm_abs_deliver:
  assumes "same_registry sm sm'" "queues sm' = deliver e T (queues sm)"
    "c = int (card {n \<in> T. room (queues sm) n})"
  shows "sm_abs (sm'\<lparr>messagesRelayed := messagesRelayed sm + c\<rparr>) = spec_deliver e T (sm_abs sm)"
  using assms by (simp add: sm_abs_def spec_deliver_def same_registry_def IsBlacklisted_def)

text \<open>The ids that the log lines slice are long enough.\<close>

definition ids_ok :: "Envelope \<Rightarrow> bool" where
  "ids_ok e \<longleftrightarrow> 8 \<le> length (SenderNodeId e) \<and>
     (is_channel (TargetNodeId e) \<or> 8 \<le> length (TargetNodeId e))"

definition forwards :: "Envelope \<Rightarrow> SessionManager \<Rightarrow> (relay_error option \<times> SessionManager) go \<Rightarrow> bool" where
  "forwards e sm r \<longleftrightarrow>
     (\<exists>sm'. r = Val (spec_result e (sm_abs sm), sm') \<and> sm_ok sm' \<and>
            sm_abs sm' = spec_forward e (sm_abs sm))"

lemma sm_abs_sel [simp]:
  "rs_queue (sm_abs sm) = queues sm" "n \<in> rs_banned (sm_abs sm) \<longleftrightarrow> IsBlacklisted sm n"
  "rs_subs (sm_abs sm) c = (case channels sm c of None \<Rightarrow> {} | Some ns \<Rightarrow> set ns)"
  "rs_relayed (sm_abs sm) = messagesRelayed sm"
  by (simp_all add: sm_abs_def)

lemma sendToSession_spec:
  assumes "sm_ok sm" "map_of (sessions sm) n = Some a" "8 \<le> length (SenderNodeId e)"
  shows "\<exists>sm'. sendToSession a e sm =
      Val (if room (queues sm) n then None else Some ErrBufferFull, sm') \<and> sm_ok sm' \<and>
    sm_abs sm' = spec_deliver e {n} (sm_abs sm)"
proof -
  have n: "8 \<le> length n" using assms(1,2) by (rule sm_ok_session)
  obtain sm' where o: "offer a e sm = Val (room (queues sm) n, sm')" "sm_ok sm'"
    "queues sm' = deliver e {n} (queues sm)" "same_registry sm sm'" "session_node a sm' = n"
    using assms(1,2) by (rule offer_deliver)
  have "{m \<in> {n}. room (queues sm) m} = (if room (queues sm) n then {n} else {})" by auto
  then have one: "(if room (queues sm) n then 1 else 0) = int (card {m \<in> {n}. room (queues sm) m})"
    by simp
  note abs' = sm_abs_deliver [OF o(4,3) one]
  show ?thesis
  proof (cases "room (queues sm) n")
    case True
    then show ?thesis
      using o n assms(3) abs' by (simp add: sendToSession_def same_registry_def)
  next
    case False
    then show ?thesis
      using o n abs' same_registry_relayed [OF o(4)] by (simp add: sendToSession_def)
  qed
qed

lemma broadcastEnvelope_spec:
  assumes "sm_ok sm"
  shows "\<exists>sm'. broadcastEnvelope e now sm = Val sm' \<and> sm_ok sm' \<and>
    sm_abs sm' = spec_deliver e (rs_subs (sm_abs sm) (TargetNodeId e) - {SenderNodeId e}) (sm_abs sm)"
proof (cases "channels sm (TargetNodeId e)")
  case None
  then show ?thesis using assms by (simp add: broadcastEnvelope_def spec_deliver_def)
next
  case (Some ns)
  then have "distinct ns" using assms unfolding sm_ok_def by blast
  then obtain sm' where b: "broadcast_loop e now ns 0 sm =
        Val (card {n \<in> set ns - {SenderNodeId e}. room (queues sm) n}, sm')" "sm_ok sm'"
      "queues sm' = deliver e (set ns - {SenderNodeId e}) (queues sm)" "same_registry sm sm'"
    using broadcast_loop_spec [OF assms, of ns e 0 now] by (auto simp: delivered_def)
  then show ?thesis
    using Some sm_abs_deliver [OF b(4,3) refl]
    by (simp add: broadcastEnvelope_def same_registry_def)
qed

lemma ForwardEnvelope_spec:
  assumes ok: "sm_ok sm" and ids: "ids_ok e"
  shows "forwards e sm (ForwardEnvelope e now sm)"
proof -
  let ?t = "TargetNodeId e"
  consider (banned) "IsBlacklisted sm (SenderNodeId e)"
    | (channel) "\<not> IsBlacklisted sm (SenderNodeId e)" "is_channel ?t"
    | (absent) "\<not> IsBlacklisted sm (SenderNodeId e)" "\<not> is_channel ?t" "map_of (sessions sm) ?t = None"
    | (node) a where "\<not> IsBlacklisted sm (SenderNodeId e)" "\<not> is_channel ?t"
        "map_of (sessions sm) ?t = Some a"
    by fastforce
  then show ?thesis
  proof cases
    case banned
    then show ?thesis using ids ok
      by (simp add: ForwardEnvelope_def ids_ok_def forwards_def spec_result_def spec_forward_def)
  next
    case channel
    then show ?thesis using broadcastEnvelope_spec [OF ok, of e now]
      by (auto simp: ForwardEnvelope_def forwards_def spec_result_def spec_forward_def
          spec_targets_def is_channel_def)
  next
    case absent
    obtain sm1 where g: "GetSession ?t now sm = Val (map_of (sessions sm) ?t, sm1)" "sm_ok sm1"
        "queues sm1 = queues sm" "same_registry sm sm1"
      using ok by (rule GetSession_spec [of _ ?t now]) (simp add: same_registry_def)
    have no: "queues sm ?t = None" using absent ok by simp
    then have "sm_abs sm1 = spec_deliver e {?t} (sm_abs sm)"
      using g(3,4) deliver_absent [of "queues sm" ?t e "{}"]
      by (simp add: sm_abs_def spec_deliver_def same_registry_def IsBlacklisted_def room_def cong: conj_cong)
    then show ?thesis using absent g no ids
      by (auto simp: ForwardEnvelope_def forwards_def spec_result_def spec_forward_def
          spec_targets_def is_channel_def ids_ok_def)
  next
    case (node a)
    obtain sm1 where g: "GetSession ?t now sm = Val (map_of (sessions sm) ?t, sm1)" "sm_ok sm1"
        "queues sm1 = queues sm" "same_registry sm sm1"
      using ok by (rule GetSession_spec [of _ ?t now]) (simp add: same_registry_def)
    have "map_of (sessions sm1) ?t = Some a" "sm_abs sm1 = sm_abs sm" "queues sm ?t \<noteq> None"
      using g(3,4) node ok by (simp_all add: sm_abs_def same_registry_def IsBlacklisted_def)
    then show ?thesis using sendToSession_spec [OF g(2), of ?t a e] node g ids
      by (auto simp: ForwardEnvelope_def forwards_def spec_result_def spec_forward_def
          spec_targets_def is_channel_def ids_ok_def)
  qed
qed

text \<open>Registering, leaving, banning.\<close>

lemma close_session_spec:
  assumes ok: "sm_ok sm" and a: "map_of (sessions sm) n = Some a"
  obtains s' where "heap sm a \<noteq> None"
    "close_session a (sm\<lparr>sessions := xs\<rparr>) = Val (sm\<lparr>sessions := xs, heap := (heap sm)(a \<mapsto> s')\<rparr>)"
proof -
  obtain s where s: "heap sm a = Some s" "chan_live 100 (s_SendChan s)"
    using ok a by (rule sm_ok_session)
  then show ?thesis
    by (intro that) (auto simp: close_session_def close_live)
qed

text \<open>Taking a session out of the registry (its closed channel stays on the heap).\<close>

lemma drop_session:
  assumes ok: "sm_ok sm" and a: "map_of (sessions sm) n = Some a"
  defines "sm' \<equiv> \<lambda>s' k. sm\<lparr>sessions := AList.delete n (sessions sm), heap := (heap sm)(a \<mapsto> s'),
    activeConnections := k\<rparr>"
  shows "activeConnections sm - 1 \<le> k \<Longrightarrow> sm_ok (sm' s' k)"
    and "queues (sm' s' k) = (queues sm)(n := None)"
proof -
  have lt: "a < nxt sm" using ok a by (rule sm_ok_session)
  have other: "b \<noteq> a" if "map_of (sessions sm) m = Some b" "m \<noteq> n" for m b
    using sm_ok_addr_inj [OF ok a] that by blast
  have live: "session_live (sm' s' k) m b" if "map_of (sessions sm) m = Some b" "m \<noteq> n" for m b
  proof -
    have "b \<noteq> a" "session_live sm m b" using other ok that unfolding sm_ok_def by blast+
    then show ?thesis by (simp add: session_live_def sm'_def)
  qed
  have "keys_distinct (sessions sm)" using ok by (simp add: sm_ok_def)
  note len = length_delete_present [OF this a]
  show "sm_ok (sm' s' k)" if "activeConnections sm - 1 \<le> k"
    using ok lt live len that unfolding sm_ok_def by (auto simp: sm'_def IsBlacklisted_def)
  show "queues (sm' s' k) = (queues sm)(n := None)"
  proof (rule ext)
    fix m show "queues (sm' s' k) m = ((queues sm)(n := None)) m"
      using a other [of m] by (cases "m = n") (auto simp: queues_def sm'_def split: option.split)
  qed
qed

lemma UnregisterSession_spec:
  assumes "sm_ok sm"
  shows "\<exists>sm'. UnregisterSession n sm = Val sm' \<and> sm_ok sm' \<and>
    sm_abs sm' = spec_disconnect n (sm_abs sm)"
proof (cases "map_of (sessions sm) n")
  case None
  then have "queues sm n = None" using assms by simp
  then have "(queues sm)(n := None) = queues sm" by auto
  then show ?thesis using None assms
    by (simp add: UnregisterSession_def spec_disconnect_def sm_abs_def)
next
  case (Some a)
  obtain s' where c: "close_session a (sm\<lparr>sessions := AList.delete n (sessions sm)\<rparr>) =
      Val (sm\<lparr>sessions := AList.delete n (sessions sm), heap := (heap sm)(a \<mapsto> s')\<rparr>)"
    using assms Some by (rule close_session_spec)
  have "8 \<le> length n" using assms Some by (rule sm_ok_session)
  then show ?thesis
    using Some c drop_session [OF assms Some, of "activeConnections sm - 1" s']
    by (simp add: UnregisterSession_def spec_disconnect_def sm_abs_def IsBlacklisted_def)
qed

lemma add_session:
  assumes ok: "sm_ok sm" and no: "map_of (sessions sm) n = None" "\<not> IsBlacklisted sm n"
    and s: "s_NodeID s = n" "chan_live 100 (s_SendChan s)" and n: "8 \<le> length n"
    and a: "nxt sm \<le> a" "a < k"
  defines "sm' \<equiv> sm\<lparr>heap := (heap sm)(a \<mapsto> s), nxt := k, sessions := AList.update n a (sessions sm),
    activeConnections := activeConnections sm + 1\<rparr>"
  shows "sm_ok sm'" and "queues sm' = (queues sm)(n \<mapsto> buf (s_SendChan s))"
proof -
  have other: "b \<noteq> a" if "map_of (sessions sm) m = Some b" for m b
  proof -
    have "b < nxt sm" using ok that by (rule sm_ok_session)
    then show ?thesis using a by simp
  qed
  have live: "session_live sm' m b" if "map_of (sessions sm) m = Some b" for m b
  proof -
    have "session_live sm m b" using ok that unfolding sm_ok_def by blast
    then show ?thesis using other [OF that] by (simp add: session_live_def sm'_def)
  qed
  have new: "session_live sm' n a" using s by (simp add: session_live_def sm'_def)
  have kd: "keys_distinct (sessions sm)" using ok by (simp add: sm_ok_def)
  have hp: "c < k" if "heap sm c \<noteq> None" for c
  proof -
    have "c < nxt sm" using ok that unfolding sm_ok_def by blast
    then show ?thesis using a by simp
  qed
  have "\<forall>m b. map_of (sessions sm') m = Some b \<longrightarrow> session_live sm' m b \<and> 8 \<le> length m"
    using live new n ok unfolding sm_ok_def by (auto simp: sm'_def update_conv')
  moreover have "\<forall>m. IsBlacklisted sm' m \<longrightarrow> map_of (sessions sm') m = None"
    using ok no unfolding sm_ok_def by (auto simp: sm'_def update_conv' IsBlacklisted_def)
  moreover have "\<forall>c. heap sm' c \<noteq> None \<longrightarrow> c < nxt sm'" using hp a by (simp add: sm'_def)
  moreover have "int (length (sessions sm')) \<le> activeConnections sm'"
    using ok no by (simp add: sm'_def length_update [OF kd] sm_ok_def)
  ultimately show "sm_ok sm'" using ok kd by (simp add: sm_ok_def sm'_def)
  show "queues sm' = (queues sm)(n \<mapsto> buf (s_SendChan s))"
  proof (rule ext)
    fix m show "queues sm' m = ((queues sm)(n \<mapsto> buf (s_SendChan s))) m"
      using other [of m] by (cases "m = n") (auto simp: queues_def sm'_def update_conv' split: option.split)
  qed
qed

lemma nxt_heap: "sm\<lparr>nxt := k, heap := h\<rparr> = sm\<lparr>heap := h, nxt := k\<rparr>"
  by simp

lemma RegisterSession_spec:
  assumes ok: "sm_ok sm" and nb: "\<not> IsBlacklisted sm n" and len: "8 \<le> length n" "8 \<le> length sid"
  shows "\<exists>sm'. RegisterSession n pk sid now sm = Val (Inr (nxt sm), sm') \<and> sm_ok sm' \<and>
    sm_abs sm' = spec_connect n (sm_abs sm) \<and> map_of (sessions sm') n = Some (nxt sm)"
proof -
  let ?a = "nxt sm"
  let ?s = "\<lparr>s_NodeID = n, s_PublicKey = pk, s_SessionID = sid, s_ConnectedAt = now,
    s_LastActivity = now, s_SendChan = make_chan 100\<rparr>"
  show ?thesis
  proof (cases "map_of (sessions sm) n")
    case None
    then show ?thesis
      using nb len add_session [OF ok None nb, of ?s ?a "Suc ?a"]
      by (simp add: RegisterSession_def Let_def sm_abs_def spec_connect_def update_conv' IsBlacklisted_def)
  next
    case (Some b)
    obtain s where s: "heap sm b = Some s" "chan_live 100 (s_SendChan s)" "b < nxt sm"
      using ok Some by (rule sm_ok_session)
    let ?s' = "s\<lparr>s_SendChan := (s_SendChan s)\<lparr>closed := True\<rparr>\<rparr>"
    let ?sm1 = "sm\<lparr>sessions := AList.delete n (sessions sm), heap := (heap sm)(b \<mapsto> ?s'),
      activeConnections := activeConnections sm\<rparr>"
    have d: "sm_ok ?sm1" "queues ?sm1 = (queues sm)(n := None)"
      using drop_session [OF ok Some, of "activeConnections sm" ?s'] by simp_all
    show ?thesis
      using add_session [OF d(1), of n ?s ?a "Suc ?a"] d(2) nb len Some s
      by (simp add: RegisterSession_def Let_def close_session_def close_live sm_abs_def
          spec_connect_def update_conv' IsBlacklisted_def fun_upd_twist nxt_heap)
  qed
qed

lemma RegisterSession_banned:
  "IsBlacklisted sm n \<Longrightarrow> RegisterSession n pk sid now sm = Val (Inl ErrNodeBlacklisted, sm)"
  by (simp add: RegisterSession_def)

text \<open>Subscriptions and the end of a ban touch no queue.\<close>

lemma frame_channels [simp]:
  "queues (sm\<lparr>channels := C\<rparr>) = queues sm" "queues (sm\<lparr>blacklist := B\<rparr>) = queues sm"
  by (simp_all add: queues_def fun_eq_iff cong: option.case_cong)

lemma sm_abs_ban:
  assumes "queues sm' = (queues sm)(n := None)" "blacklist sm' = (blacklist sm)(n \<mapsto> now)"
    "channels sm' = channels sm" "messagesRelayed sm' = messagesRelayed sm"
  shows "sm_abs sm' = spec_ban n (sm_abs sm)"
proof -
  have "{m. IsBlacklisted sm' m} = insert n {m. IsBlacklisted sm m}"
    using assms(2) by (auto simp: IsBlacklisted_def)
  then show ?thesis using assms by (simp add: sm_abs_def spec_ban_def spec_disconnect_def)
qed

lemma AddToBlacklist_spec:
  assumes ok: "sm_ok sm" and len: "8 \<le> length n"
  shows "\<exists>sm'. AddToBlacklist n now sm = Val sm' \<and> sm_ok sm' \<and> sm_abs sm' = spec_ban n (sm_abs sm)"
proof (cases "map_of (sessions sm) n")
  case None
  let ?sm = "sm\<lparr>blacklist := (blacklist sm)(n \<mapsto> now)\<rparr>"
  have "queues sm n = None" using ok None by simp
  then have "(queues sm)(n := None) = queues sm" by auto
  then have "sm_abs ?sm = spec_ban n (sm_abs sm)" by (intro sm_abs_ban) simp_all
  moreover have "sm_ok ?sm"
    using ok None by (auto simp: sm_ok_def session_live_def IsBlacklisted_def)
  ultimately show ?thesis using None len by (simp add: AddToBlacklist_def UnregisterSession_def)
next
  case (Some a)
  obtain s where s: "heap sm a = Some s" "chan_live 100 (s_SendChan s)"
    using ok Some by (rule sm_ok_session)
  let ?s' = "s\<lparr>s_SendChan := (s_SendChan s)\<lparr>closed := True\<rparr>\<rparr>"
  let ?sm = "sm\<lparr>sessions := AList.delete n (sessions sm), heap := (heap sm)(a \<mapsto> ?s'),
    activeConnections := activeConnections sm - 1\<rparr>"
  let ?sm' = "?sm\<lparr>blacklist := (blacklist sm)(n \<mapsto> now)\<rparr>"
  have d: "sm_ok ?sm" "queues ?sm = (queues sm)(n := None)"
    using drop_session [OF ok Some, of "activeConnections sm - 1" ?s'] by simp_all
  then have "sm_ok ?sm'"
    by (auto simp: sm_ok_def session_live_def IsBlacklisted_def)
  moreover have "sm_abs ?sm' = spec_ban n (sm_abs sm)"
    using d(2) by (intro sm_abs_ban) simp_all
  moreover have "AddToBlacklist n now sm = Val ?sm'"
    using Some s len
    by (simp add: AddToBlacklist_def UnregisterSession_def close_session_def close_live Let_def)
  ultimately show ?thesis by blast
qed

lemma SubscribeToChannel_spec:
  assumes "sm_ok sm" "8 \<le> length n"
  shows "\<exists>sm'. SubscribeToChannel n c sm = Val sm' \<and> sm_ok sm' \<and>
    sm_abs sm' = (sm_abs sm)\<lparr>rs_subs := (rs_subs (sm_abs sm))(c := insert n (rs_subs (sm_abs sm) c))\<rparr>"
  using assms
  by (auto simp: SubscribeToChannel_def Let_def sm_ok_def session_live_def IsBlacklisted_def sm_abs_def
      fun_eq_iff split: option.splits)

lemma UnsubscribeFromChannel_spec:
  assumes "sm_ok sm" "8 \<le> length n"
  shows "\<exists>sm'. UnsubscribeFromChannel n c sm = Val sm' \<and> sm_ok sm' \<and>
    sm_abs sm' = (sm_abs sm)\<lparr>rs_subs := (rs_subs (sm_abs sm))(c := rs_subs (sm_abs sm) c - {n})\<rparr>"
  using assms
  by (auto simp: UnsubscribeFromChannel_def Let_def sm_ok_def session_live_def IsBlacklisted_def
      sm_abs_def fun_eq_iff distinct_removeAll split: option.splits)

lemma RemoveFromBlacklist_spec:
  assumes "sm_ok sm" "8 \<le> length n"
  shows "\<exists>sm'. RemoveFromBlacklist n sm = Val sm' \<and> sm_ok sm' \<and>
    sm_abs sm' = (sm_abs sm)\<lparr>rs_banned := rs_banned (sm_abs sm) - {n}\<rparr>"
  using assms
  by (auto simp: RemoveFromBlacklist_def Let_def sm_ok_def session_live_def IsBlacklisted_def sm_abs_def)

section \<open>Addresses keep their node\<close>

text \<open>No operation frees an address or gives it to another node, so the goroutines of a
  stream always find the session of their own node.\<close>

definition keeps :: "SessionManager \<Rightarrow> SessionManager \<Rightarrow> bool" where
  "keeps sm sm' \<longleftrightarrow>
     (\<forall>a s. heap sm a = Some s \<longrightarrow> (\<exists>s'. heap sm' a = Some s' \<and> s_NodeID s' = s_NodeID s))"

lemma keeps_refl [simp]: "keeps sm sm"
  by (simp add: keeps_def)

lemma keeps_trans [trans]: "keeps a b \<Longrightarrow> keeps b c \<Longrightarrow> keeps a c"
  unfolding keeps_def by metis

lemma keeps_heap: "heap sm' = heap sm \<Longrightarrow> keeps sm sm'"
  by (simp add: keeps_def)

lemma keeps_put:
  "heap sm' = (heap sm)(a \<mapsto> s') \<Longrightarrow> heap sm a = Some s \<Longrightarrow> s_NodeID s' = s_NodeID s \<Longrightarrow> keeps sm sm'"
  by (simp add: keeps_def)

lemma close_session_keeps: "close_session a sm = Val sm' \<Longrightarrow> keeps sm sm'"
  by (auto simp: close_session_def go_Val split: option.splits intro!: keeps_put)

lemma UnregisterSession_keeps: "UnregisterSession n sm = Val sm' \<Longrightarrow> keeps sm sm'"
  by (fastforce simp: UnregisterSession_def go_Val keeps_def dest: close_session_keeps
      split: option.splits)

lemma GetSession_keeps: "GetSession n now sm = Val (r, sm') \<Longrightarrow> keeps sm sm'"
  by (auto simp: GetSession_def split: option.splits intro!: keeps_put)

lemma offer_keeps: "offer a e sm = Val (r, sm') \<Longrightarrow> keeps sm sm'"
  by (auto simp: offer_def split: option.splits send.splits intro!: keeps_put)

lemma broadcast_loop_keeps: "broadcast_loop e now ns c sm = Val (k, sm') \<Longrightarrow> keeps sm sm'"
proof (induction ns arbitrary: c sm)
  case (Cons n ns)
  then show ?case
    by (fastforce simp: go_Val split: if_splits option.splits prod.splits
        dest: GetSession_keeps offer_keeps intro: keeps_trans)
qed simp

lemma sendToSession_keeps: "sendToSession a e sm = Val (r, sm') \<Longrightarrow> keeps sm sm'"
  by (fastforce simp: sendToSession_def go_Val keeps_def dest: offer_keeps split: if_splits prod.splits)

lemma broadcastEnvelope_keeps: "broadcastEnvelope e now sm = Val sm' \<Longrightarrow> keeps sm sm'"
  by (fastforce simp: broadcastEnvelope_def go_Val keeps_def dest: broadcast_loop_keeps
      split: option.splits prod.splits)

lemma ForwardEnvelope_keeps: "ForwardEnvelope e now sm = Val (r, sm') \<Longrightarrow> keeps sm sm'"
  by (fastforce simp: ForwardEnvelope_def go_Val split: if_splits option.splits prod.splits
      dest: GetSession_keeps sendToSession_keeps broadcastEnvelope_keeps intro: keeps_trans)

lemma channel_ops_keep:
  "SubscribeToChannel n c sm = Val sm' \<Longrightarrow> keeps sm sm'"
  "UnsubscribeFromChannel n c sm = Val sm' \<Longrightarrow> keeps sm sm'"
  "RemoveFromBlacklist n sm = Val sm' \<Longrightarrow> keeps sm sm'"
  by (auto simp: SubscribeToChannel_def UnsubscribeFromChannel_def RemoveFromBlacklist_def go_Val
      split: option.splits intro!: keeps_heap)

lemma AddToBlacklist_keeps: "AddToBlacklist n now sm = Val sm' \<Longrightarrow> keeps sm sm'"
  by (fastforce simp: AddToBlacklist_def go_Val keeps_def dest: UnregisterSession_keeps)

text \<open>A registration leaves the old addresses alone and returns a new one of the node.\<close>

lemma RegisterSession_Val:
  assumes "RegisterSession n pk sid now sm = Val (Inr a, sm')"
  shows "\<not> IsBlacklisted sm n" "8 \<le> length n" "8 \<le> length sid"
  using assms by (auto simp: RegisterSession_def go_Val split: if_splits)

lemma RegisterSession_keeps:
  assumes ok: "sm_ok sm" and r: "RegisterSession n pk sid now sm = Val (Inr a, sm')"
  shows "keeps sm sm'" "\<exists>s. heap sm' a = Some s \<and> s_NodeID s = n"
proof -
  have fresh: "heap sm (nxt sm) = None" using ok unfolding sm_ok_def by blast
  have lt: "b < nxt sm" if "map_of (sessions sm) n = Some b" for b
    using ok that by (rule sm_ok_session)
  show "keeps sm sm'" "\<exists>s. heap sm' a = Some s \<and> s_NodeID s = n"
    using r fresh lt
    by (auto simp: RegisterSession_def go_Val close_session_def keeps_def split: if_splits option.splits)
qed

text \<open>What a forwarding that returns has done, whatever the length of the target.\<close>

lemma ForwardEnvelope_Val:
  assumes ok: "sm_ok sm" and snd: "8 \<le> length (SenderNodeId e)"
    and r: "ForwardEnvelope e now sm = Val (res, sm')"
  shows "sm_ok sm' \<and> sm_abs sm' = spec_forward e (sm_abs sm) \<and> res = spec_result e (sm_abs sm)"
proof (cases "ids_ok e")
  case True
  then show ?thesis using ForwardEnvelope_spec [OF ok True, of now] r by (auto simp: forwards_def)
next
  case False
  then have short: "\<not> is_channel (TargetNodeId e)" "length (TargetNodeId e) < 8"
    using snd by (auto simp: ids_ok_def)
  then have "map_of (sessions sm) (TargetNodeId e) = None"
    using ok unfolding sm_ok_def by (metis linorder_not_less not_None_eq)
  then show ?thesis using r short ok
    by (auto simp: ForwardEnvelope_def GetSession_def go_Val is_channel_def spec_forward_def
        spec_result_def split: if_splits)
qed

text \<open>Writing a session back in place, registered or not.\<close>

lemma put_heap:
  assumes ok: "sm_ok sm" and s: "heap sm a = Some s" and s': "s_NodeID s' = s_NodeID s"
    and live: "chan_live 100 (s_SendChan s) \<Longrightarrow> chan_live 100 (s_SendChan s')"
  shows "sm_ok (sm\<lparr>heap := (heap sm)(a \<mapsto> s')\<rparr>)"
proof (cases "\<exists>n. map_of (sessions sm) n = Some a")
  case True
  then obtain n where n: "map_of (sessions sm) n = Some a" by blast
  then have "s_NodeID s = n" "chan_live 100 (s_SendChan s)"
    using ok s unfolding sm_ok_def session_live_def by force+
  then show ?thesis using put_session(1) [OF ok n] s' live by simp
next
  case False
  then have "session_live (sm\<lparr>heap := (heap sm)(a \<mapsto> s')\<rparr>) m b = session_live sm m b"
    if "map_of (sessions sm) m = Some b" for m b
    using that by (auto simp: session_live_def)
  then show ?thesis using ok s unfolding sm_ok_def by (auto simp: IsBlacklisted_def)
qed

section \<open>Bans are lifted by \<open>RemoveFromBlacklist\<close> only\<close>

lemma close_session_bans: "close_session a sm = Val sm' \<Longrightarrow> blacklist sm' = blacklist sm"
  by (auto simp: close_session_def go_Val split: option.splits)

lemma UnregisterSession_bans: "UnregisterSession n sm = Val sm' \<Longrightarrow> blacklist sm' = blacklist sm"
  by (auto simp: UnregisterSession_def go_Val dest!: close_session_bans split: option.splits)

lemma RegisterSession_bans:
  "RegisterSession n pk sid now sm = Val (r, sm') \<Longrightarrow> blacklist sm' = blacklist sm"
  by (auto simp: RegisterSession_def go_Val dest!: close_session_bans split: option.splits if_splits)

lemma GetSession_bans:
  "GetSession n now sm = Val (r, sm') \<Longrightarrow> blacklist sm' = blacklist sm \<and> sessions sm' = sessions sm"
  by (auto simp: GetSession_def split: option.splits)

lemma offer_bans:
  "offer a e sm = Val (r, sm') \<Longrightarrow> blacklist sm' = blacklist sm \<and> sessions sm' = sessions sm"
  by (auto simp: offer_def split: option.splits send.splits)

lemma broadcast_loop_bans:
  "broadcast_loop e now ns c sm = Val (k, sm') \<Longrightarrow> blacklist sm' = blacklist sm \<and> sessions sm' = sessions sm"
proof (induction ns arbitrary: c sm)
  case (Cons n ns)
  then show ?case
    by (fastforce simp: go_Val split: if_splits option.splits dest: GetSession_bans offer_bans)
qed simp

lemma ForwardEnvelope_bans:
  "ForwardEnvelope e now sm = Val (r, sm') \<Longrightarrow> blacklist sm' = blacklist sm \<and> sessions sm' = sessions sm"
  by (fastforce simp: ForwardEnvelope_def broadcastEnvelope_def sendToSession_def go_Val
      split: if_splits option.splits dest: GetSession_bans offer_bans broadcast_loop_bans)

lemma AddToBlacklist_bans:
  "AddToBlacklist n now sm = Val sm' \<Longrightarrow> blacklist sm' = (blacklist sm)(n \<mapsto> now)"
  by (auto simp: AddToBlacklist_def go_Val dest!: UnregisterSession_bans)

lemmas op_bans = UnregisterSession_bans RegisterSession_bans GetSession_bans ForwardEnvelope_bans
  AddToBlacklist_bans

end
