(* ===== verification/Relay_Server.thy ===== *)
theory Relay_Server
  imports Machine Relay_Sessions
begin

text \<open>
  \<^verbatim>\<open>pkg/relay/server.go\<close>: the gRPC service of the relay. A stream is served by two
  goroutines that share the session of its node: the handler, which receives commands and
  forwards their envelopes, and the sender, which drains the session's queue. Here they are
  the events of a state machine over the session manager, so that every interleaving of
  several streams is a run of it. A panic anywhere ends the process: it is no state of the
  machine.
\<close>

section \<open>Unary calls\<close>

definition relay_error_msg :: "relay_error \<Rightarrow> string" where
  "relay_error_msg e = (case e of
      ErrNodeBlacklisted \<Rightarrow> ''node is blacklisted''
    | ErrTargetNotConnected \<Rightarrow> ''target node not connected to this relay''
    | ErrBufferFull \<Rightarrow> ''message buffer full''
    | ErrInvalidSignature \<Rightarrow> ''invalid signature''
    | ErrSessionNotFound \<Rightarrow> ''session not found'')"

record ConnectResponse =
  cr_Success :: bool
  cr_Message :: string
  cr_SessionId :: string
  cr_ConnectedNodeIds :: "string list"

definition ConnectToRelay ::
    "string \<Rightarrow> bytes \<Rightarrow> string \<Rightarrow> time \<Rightarrow> SessionManager \<Rightarrow> (ConnectResponse \<times> SessionManager) go" where
  "ConnectToRelay nodeId publicKey sid now sm =
     (if nodeId = [] then
        Val (\<lparr>cr_Success = False, cr_Message = ''NodeID required'', cr_SessionId = [],
              cr_ConnectedNodeIds = []\<rparr>, sm)
      else go_bind (RegisterSession nodeId publicKey sid now sm) (\<lambda>(r, sm1).
        (case r of
           Inl err \<Rightarrow> Val (\<lparr>cr_Success = False, cr_Message = relay_error_msg err,
                             cr_SessionId = [], cr_ConnectedNodeIds = []\<rparr>, sm1)
         | Inr a \<Rightarrow>
             (case heap sm1 a of
                None \<Rightarrow> Panic ''nil pointer dereference''
              | Some s \<Rightarrow> Val (\<lparr>cr_Success = True, cr_Message = ''Connected to Relay'',
                  cr_SessionId = s_SessionID s, cr_ConnectedNodeIds = GetConnectedNodeIDs sm1\<rparr>, sm1)))))"

definition IsNodeConnected ::
    "string \<Rightarrow> time \<Rightarrow> SessionManager \<Rightarrow> ((bool \<times> time option) \<times> SessionManager) go" where
  "IsNodeConnected nodeId now sm =
     go_bind (GetSession nodeId now sm) (\<lambda>(found, sm1).
       (case found of
          None \<Rightarrow> Val ((False, None), sm1)
        | Some a \<Rightarrow> Val ((True, map_option s_LastActivity (heap sm1 a)), sm1)))"

section \<open>Control commands\<close>

definition handleRelayCommand :: "nat \<Rightarrow> Envelope \<Rightarrow> SessionManager \<Rightarrow> SessionManager go" where
  "handleRelayCommand a envelope sm =
     (let nodeID = session_node a sm in
      (case unmarshal_obj relay_command_of (EncryptedPayload envelope) of
         None \<Rightarrow> go_bind (slice_to 8 nodeID) (\<lambda>_. Val sm)
       | Some cmd \<Rightarrow>
           if Command cmd = ''subscribe'' then
             (if Channel cmd \<noteq> [] \<and> hd (Channel cmd) = CHR ''#''
              then SubscribeToChannel nodeID (Channel cmd) sm else Val sm)
           else if Command cmd = ''unsubscribe'' then
             UnsubscribeFromChannel nodeID (Channel cmd) sm
           else go_bind (slice_to 8 nodeID) (\<lambda>_. Val sm)))"

section \<open>The stream\<close>

datatype received = Cmd NodeCommand | EOF | RecvError string

text \<open>Up to the receive loop: the first command names the node; \<open>Inl\<close> is the error the
  handler returns, \<open>Inr\<close> the node and the address of its session.\<close>

definition stream_open ::
    "received \<Rightarrow> string \<Rightarrow> time \<Rightarrow> SessionManager \<Rightarrow> ((string + (string \<times> nat)) \<times> SessionManager) go" where
  "stream_open first sid now sm =
     (case first of
        EOF \<Rightarrow> Val (Inl ''EOF'', sm)
      | RecvError err \<Rightarrow> Val (Inl err, sm)
      | Cmd cmd \<Rightarrow>
          (case CommandToEnvelope cmd of
             Inl err \<Rightarrow> Val (Inl err, sm)
           | Inr None \<Rightarrow> Panic ''nil pointer dereference''
           | Inr (Some firstEnv) \<Rightarrow>
               let nodeID = SenderNodeId firstEnv in
               if nodeID = [] then Val (Inl ''sender_node_id required in first message'', sm)
               else go_bind (RegisterSession nodeID [] sid now sm) (\<lambda>(r, sm1).
                 (case r of
                    Inl err \<Rightarrow> Val (Inl (relay_error_msg err), sm1)
                  | Inr a \<Rightarrow> go_bind (slice_to 8 nodeID) (\<lambda>_.
                      if EncryptedPayload firstEnv \<noteq> [] then
                        go_bind (ForwardEnvelope firstEnv now sm1) (\<lambda>(_, sm2).
                          Val (Inr (nodeID, a), sm2))
                      else Val (Inr (nodeID, a), sm1))))))"

text \<open>One round of the receive loop on a command; \<open>touch\<close> is the assignment to
  \<open>session.LastActivity\<close>.\<close>

definition touch :: "nat \<Rightarrow> time \<Rightarrow> SessionManager \<Rightarrow> SessionManager go" where
  "touch a now sm =
     (case heap sm a of
        None \<Rightarrow> Panic ''nil pointer dereference''
      | Some s \<Rightarrow> Val (sm\<lparr>heap := (heap sm)(a \<mapsto> s\<lparr>s_LastActivity := now\<rparr>)\<rparr>))"

definition stream_recv :: "string \<Rightarrow> nat \<Rightarrow> NodeCommand \<Rightarrow> time \<Rightarrow> SessionManager \<Rightarrow> SessionManager go" where
  "stream_recv nodeID a cmd now sm =
     (case CommandToEnvelope cmd of
        Inl _ \<Rightarrow> Val sm
      | Inr None \<Rightarrow> Val sm
      | Inr (Some envelope) \<Rightarrow>
          if SenderNodeId envelope \<noteq> nodeID then Val sm
          else go_bind (touch a now sm) (\<lambda>sm1.
            if TargetNodeId envelope = ''RELAY'' then handleRelayCommand a envelope sm1
            else go_bind (ForwardEnvelope envelope now sm1) (\<lambda>(_, sm2). Val sm2)))"

text \<open>The handler's loop, to the end of the stream, with the deferred
  \<open>UnregisterSession\<close>; it returns the error of the RPC. The list holds what the stream
  delivers; a list that ends before an end of stream is a stream that is still open.\<close>

fun recv_loop ::
    "string \<Rightarrow> nat \<Rightarrow> time \<Rightarrow> received list \<Rightarrow> SessionManager \<Rightarrow> (string option option \<times> SessionManager) go" where
  "recv_loop nodeID a now [] sm = Val (None, sm)"
| "recv_loop nodeID a now (r # rs) sm =
     (case r of
        EOF \<Rightarrow> go_bind (UnregisterSession nodeID sm) (\<lambda>sm1. Val (Some None, sm1))
      | RecvError err \<Rightarrow> go_bind (UnregisterSession nodeID sm) (\<lambda>sm1. Val (Some (Some err), sm1))
      | Cmd cmd \<Rightarrow> go_bind (stream_recv nodeID a cmd now sm) (\<lambda>sm1. recv_loop nodeID a now rs sm1))"

text \<open>One round of the sender: it takes the next envelope of the session, waits
  (\<open>None\<close>), or takes the nil of a closed queue.\<close>

definition stream_send :: "nat \<Rightarrow> SessionManager \<Rightarrow> (NodeCommand option \<times> SessionManager) go" where
  "stream_send a sm =
     (case heap sm a of
        None \<Rightarrow> Panic ''nil pointer dereference''
      | Some s \<Rightarrow>
          (case chan_recv (s_SendChan s) of
             Blocked \<Rightarrow> Val (None, sm)
           | ReceivedZero \<Rightarrow> go_bind (EnvelopeToCommand None) (\<lambda>cmd. Val (Some cmd, sm))
           | Received env c \<Rightarrow> go_bind (EnvelopeToCommand (Some env)) (\<lambda>cmd.
               Val (Some cmd, sm\<lparr>heap := (heap sm)(a \<mapsto> s\<lparr>s_SendChan := c\<rparr>)\<rparr>))))"

section \<open>The relay as a state machine\<close>

record stream =
  st_node :: string
  st_addr :: nat
  st_receiving :: bool
  st_sending :: bool

record relay =
  rl_sm :: SessionManager
  rl_streams :: "nat \<rightharpoonup> stream"
  rl_out :: "(nat \<times> NodeCommand) list"

datatype relay_event =
    StreamOpened nat received string "nat list" time
  | StreamReceived nat received time
  | StreamSent nat bool
  | StreamCancelled nat
  | Connected string bytes string "nat list" time
  | Queried string time
  | Blacklisted string time
  | Pardoned string

definition relay_do :: "relay_event \<Rightarrow> relay \<Rightarrow> relay go" where
  "relay_do ev r =
     (case ev of
        StreamOpened i first stamp readings now \<Rightarrow>
          if rl_streams r i \<noteq> None then Val r
          else go_bind (stream_open first (generateSessionID stamp readings) now (rl_sm r)) (\<lambda>(res, sm1).
            (case res of
               Inl _ \<Rightarrow> Val (r\<lparr>rl_sm := sm1\<rparr>)
             | Inr (nodeID, a) \<Rightarrow> Val (r\<lparr>rl_sm := sm1, rl_streams := (rl_streams r)(i \<mapsto>
                 \<lparr>st_node = nodeID, st_addr = a, st_receiving = True, st_sending = True\<rparr>)\<rparr>)))
      | StreamReceived i x now \<Rightarrow>
          (case rl_streams r i of
             None \<Rightarrow> Val r
           | Some st \<Rightarrow>
               if \<not> st_receiving st then Val r
               else (case x of
                   Cmd cmd \<Rightarrow> go_bind (stream_recv (st_node st) (st_addr st) cmd now (rl_sm r)) (\<lambda>sm1.
                     Val (r\<lparr>rl_sm := sm1\<rparr>))
                 | _ \<Rightarrow> go_bind (UnregisterSession (st_node st) (rl_sm r)) (\<lambda>sm1.
                     Val (r\<lparr>rl_sm := sm1,
                            rl_streams := (rl_streams r)(i \<mapsto> st\<lparr>st_receiving := False\<rparr>)\<rparr>))))
      | StreamSent i ok \<Rightarrow>
          (case rl_streams r i of
             None \<Rightarrow> Val r
           | Some st \<Rightarrow>
               if \<not> st_sending st then Val r
               else go_bind (stream_send (st_addr st) (rl_sm r)) (\<lambda>(out, sm1).
                 (case out of
                    None \<Rightarrow> Val (r\<lparr>rl_sm := sm1\<rparr>)
                  | Some cmd \<Rightarrow>
                      if ok then Val (r\<lparr>rl_sm := sm1, rl_out := rl_out r @ [(i, cmd)]\<rparr>)
                      else Val (r\<lparr>rl_sm := sm1,
                             rl_streams := (rl_streams r)(i \<mapsto> st\<lparr>st_sending := False\<rparr>)\<rparr>))))
      | StreamCancelled i \<Rightarrow>
          (case rl_streams r i of
             None \<Rightarrow> Val r
           | Some st \<Rightarrow> Val (r\<lparr>rl_streams := (rl_streams r)(i \<mapsto> st\<lparr>st_sending := False\<rparr>)\<rparr>))
      | Connected nodeId publicKey stamp readings now \<Rightarrow>
          go_bind (ConnectToRelay nodeId publicKey (generateSessionID stamp readings) now (rl_sm r))
            (\<lambda>(_, sm1). Val (r\<lparr>rl_sm := sm1\<rparr>))
      | Queried nodeId now \<Rightarrow>
          go_bind (IsNodeConnected nodeId now (rl_sm r)) (\<lambda>(_, sm1). Val (r\<lparr>rl_sm := sm1\<rparr>))
      | Blacklisted nodeId now \<Rightarrow>
          go_bind (AddToBlacklist nodeId now (rl_sm r)) (\<lambda>sm1. Val (r\<lparr>rl_sm := sm1\<rparr>))
      | Pardoned nodeId \<Rightarrow>
          go_bind (RemoveFromBlacklist nodeId (rl_sm r)) (\<lambda>sm1. Val (r\<lparr>rl_sm := sm1\<rparr>)))"

definition relay_init :: relay where
  "relay_init = \<lparr>rl_sm = NewSessionManager, rl_streams = Map.empty, rl_out = []\<rparr>"

fun relay_run :: "relay_event list \<Rightarrow> relay \<Rightarrow> relay go" where
  "relay_run [] r = Val r"
| "relay_run (ev # evs) r = go_bind (relay_do ev r) (relay_run evs)"

inductive relay_step :: "relay \<Rightarrow> relay \<Rightarrow> bool" where
  "relay_do ev r = Val r' \<Longrightarrow> relay_step r r'"

section \<open>Invariant\<close>

definition stream_ok :: "SessionManager \<Rightarrow> stream \<Rightarrow> bool" where
  "stream_ok sm st \<longleftrightarrow> 8 \<le> length (st_node st) \<and>
     (case heap sm (st_addr st) of None \<Rightarrow> False | Some s \<Rightarrow> s_NodeID s = st_node st)"

definition relay_ok :: "relay \<Rightarrow> bool" where
  "relay_ok r \<longleftrightarrow> sm_ok (rl_sm r) \<and> (\<forall>i st. rl_streams r i = Some st \<longrightarrow> stream_ok (rl_sm r) st)"

lemma stream_ok_keeps: "stream_ok sm st \<Longrightarrow> keeps sm sm' \<Longrightarrow> stream_ok sm' st"
  by (auto simp: stream_ok_def keeps_def split: option.splits) fastforce+

definition good :: "SessionManager \<Rightarrow> SessionManager \<Rightarrow> bool" where
  "good sm sm' \<longleftrightarrow> sm_ok sm' \<and> keeps sm sm'"

lemma good_trans: "good a b \<Longrightarrow> good b c \<Longrightarrow> good a c"
  unfolding good_def by (meson keeps_trans)

lemma good_refl [simp]: "sm_ok sm \<Longrightarrow> good sm sm"
  by (simp add: good_def)

lemma good_relay:
  assumes "relay_ok r" "good (rl_sm r) sm'"
  shows "relay_ok (r\<lparr>rl_sm := sm'\<rparr>)"
  using assms stream_ok_keeps by (fastforce simp: relay_ok_def good_def)

lemma relay_ok_stream:
  assumes "relay_ok r" "stream_ok (rl_sm r) st"
  shows "relay_ok (r\<lparr>rl_streams := (rl_streams r)(i \<mapsto> st)\<rparr>)"
  using assms by (simp add: relay_ok_def)

lemma relay_ok_out: "relay_ok r \<Longrightarrow> relay_ok (r\<lparr>rl_out := out\<rparr>)"
  by (simp add: relay_ok_def)

lemma good_relay_stream:
  assumes "relay_ok r" "good (rl_sm r) sm'" "stream_ok (rl_sm r) st"
  shows "relay_ok (r\<lparr>rl_sm := sm', rl_streams := (rl_streams r)(i \<mapsto> st)\<rparr>)"
  using relay_ok_stream [OF good_relay [OF assms(1,2)], of st i] assms(2,3) stream_ok_keeps
  by (auto simp: good_def)

lemma good_relay_out:
  assumes "relay_ok r" "good (rl_sm r) sm'"
  shows "relay_ok (r\<lparr>rl_sm := sm', rl_out := out\<rparr>)"
  using relay_ok_out [OF good_relay [OF assms]] by simp

text \<open>Every operation, if it returns, keeps the invariant.\<close>

lemma Unregister_good: "sm_ok sm \<Longrightarrow> UnregisterSession n sm = Val sm' \<Longrightarrow> good sm sm'"
  using UnregisterSession_spec [of sm n] UnregisterSession_keeps by (auto simp: good_def)

lemma Register_good:
  assumes "sm_ok sm" "RegisterSession n pk sid now sm = Val (Inr a, sm')"
  shows "good sm sm'"
  using assms RegisterSession_spec [OF assms(1) RegisterSession_Val [OF assms(2)], of pk now]
    RegisterSession_keeps [OF assms]
  by (auto simp: good_def)

lemma Register_error:
  "RegisterSession n pk sid now sm = Val (Inl err, sm') \<Longrightarrow> sm' = sm \<and> err = ErrNodeBlacklisted"
  by (auto simp: RegisterSession_def go_Val split: if_splits)

lemma Forward_good:
  assumes "sm_ok sm" "8 \<le> length (SenderNodeId e)" "ForwardEnvelope e now sm = Val (res, sm')"
  shows "good sm sm'"
  using ForwardEnvelope_Val [OF assms] ForwardEnvelope_keeps [OF assms(3)] by (simp add: good_def)

lemma touch_good: "sm_ok sm \<Longrightarrow> touch a now sm = Val sm' \<Longrightarrow> good sm sm'"
  by (auto simp: touch_def good_def split: option.splits intro!: put_heap intro: keeps_put)

lemma session_node_ok: "stream_ok sm st \<Longrightarrow> session_node (st_addr st) sm = st_node st"
  by (auto simp: stream_ok_def session_node_def split: option.splits)

lemma subscriptions_good:
  assumes "sm_ok sm" "8 \<le> length n"
  shows "SubscribeToChannel n c sm = Val sm' \<Longrightarrow> good sm sm'"
    and "UnsubscribeFromChannel n c sm = Val sm' \<Longrightarrow> good sm sm'"
  using SubscribeToChannel_spec [OF assms, of c] UnsubscribeFromChannel_spec [OF assms, of c]
    channel_ops_keep(1,2) [of n c sm sm']
  by (auto simp: good_def)

lemma handleRelayCommand_good:
  assumes "sm_ok sm" "8 \<le> length (session_node a sm)" "handleRelayCommand a e sm = Val sm'"
  shows "good sm sm'"
proof (cases "unmarshal_obj relay_command_of (EncryptedPayload e)")
  case None
  then show ?thesis using assms by (simp add: handleRelayCommand_def)
next
  case (Some cmd)
  then show ?thesis
    using assms subscriptions_good [OF assms(1,2), of "Channel cmd" sm']
    by (simp add: handleRelayCommand_def Let_def split: if_splits)
qed

lemma stream_recv_good:
  assumes "sm_ok sm" "stream_ok sm st" "stream_recv (st_node st) (st_addr st) cmd now sm = Val sm'"
  shows "good sm sm'"
proof -
  show ?thesis
  proof (cases "\<exists>e. CommandToEnvelope cmd = Inr (Some e) \<and> SenderNodeId e = st_node st")
    case False
    then show ?thesis using assms(1,3)
      by (auto simp: stream_recv_def split: sum.splits option.splits if_splits)
  next
    case True
    then obtain e sm1 where e: "CommandToEnvelope cmd = Inr (Some e)" "SenderNodeId e = st_node st"
        and t: "touch (st_addr st) now sm = Val sm1"
      using assms(3) by (auto simp: stream_recv_def go_Val)
    have g1: "good sm sm1" using assms(1) t by (rule touch_good)
    then have st1: "sm_ok sm1" "stream_ok sm1 st"
      using assms(2) stream_ok_keeps by (auto simp: good_def)
    have len: "8 \<le> length (st_node st)" using assms(2) by (simp add: stream_ok_def)
    have "good sm1 sm'"
      using assms(3) e t len session_node_ok [OF st1(2)]
        handleRelayCommand_good [OF st1(1), of "st_addr st" e sm'] Forward_good [OF st1(1), of e now _ sm']
      by (auto simp: stream_recv_def go_Val split: if_splits prod.splits)
    with g1 show ?thesis by (rule good_trans)
  qed
qed

lemma stream_send_good:
  assumes "sm_ok sm" "stream_send a sm = Val (out, sm')"
  shows "good sm sm'"
  using assms
  by (auto simp: stream_send_def go_Val good_def EnvelopeToCommand_def chan_recv_def
      chan_live_def chan_ok_def split: option.splits recv.splits list.splits if_splits
      intro!: put_heap intro: keeps_put)

lemma stream_open_good:
  assumes ok: "sm_ok sm" and o: "stream_open first sid now sm = Val (res, sm')"
  shows "good sm sm' \<and> (\<forall>n a b c. res = Inr (n, a) \<longrightarrow>
    stream_ok sm' \<lparr>st_node = n, st_addr = a, st_receiving = b, st_sending = c\<rparr>)"
proof (cases res)
  case (Inl err)
  then show ?thesis using o ok
    by (auto simp: stream_open_def go_Val split_sum_ex dest!: Register_error
        split: received.splits sum.splits option.splits if_splits prod.splits)
next
  case (Inr na)
  then obtain e a sm1 where e: "RegisterSession (SenderNodeId e) [] sid now sm = Val (Inr a, sm1)"
      "na = (SenderNodeId e, a)" "EncryptedPayload e = [] \<longrightarrow> sm' = sm1"
      "EncryptedPayload e \<noteq> [] \<longrightarrow> (\<exists>res. ForwardEnvelope e now sm1 = Val (res, sm'))"
    using o
    by (auto simp: stream_open_def go_Val split_sum_ex split: received.splits sum.splits option.splits if_splits prod.splits)
  have g1: "good sm sm1" using ok e(1) by (rule Register_good)
  have len: "8 \<le> length (SenderNodeId e)" using e(1) by (rule RegisterSession_Val)
  have g2: "good sm1 sm'"
    using e(3,4) g1 Forward_good [OF _ len] by (cases "EncryptedPayload e = []") (auto simp: good_def)
  have "stream_ok sm1 \<lparr>st_node = SenderNodeId e, st_addr = a, st_receiving = b, st_sending = c\<rparr>" for b c
    using RegisterSession_keeps(2) [OF ok e(1)] len by (auto simp: stream_ok_def)
  then show ?thesis using Inr e(2) g2 good_trans [OF g1 g2]
    by (auto simp: good_def intro: stream_ok_keeps [of sm1])
qed

lemma unary_good:
  assumes "sm_ok sm"
  shows "ConnectToRelay n pk sid now sm = Val (res, sm') \<Longrightarrow> good sm sm'"
    and "IsNodeConnected n now sm = Val (res', sm') \<Longrightarrow> good sm sm'"
    and "AddToBlacklist n now sm = Val sm' \<Longrightarrow> good sm sm'"
    and "RemoveFromBlacklist n sm = Val sm' \<Longrightarrow> good sm sm'"
proof -
  show "ConnectToRelay n pk sid now sm = Val (res, sm') \<Longrightarrow> good sm sm'"
    using assms
    by (auto simp: ConnectToRelay_def go_Val split_sum_ex dest!: Register_error
        intro: Register_good split: if_splits option.splits)
  show "IsNodeConnected n now sm = Val (res', sm') \<Longrightarrow> good sm sm'"
    using assms GetSession_keeps
    by (fastforce simp: IsNodeConnected_def go_Val good_def split: option.splits
        elim: GetSession_spec [of _ n now])
  show "good sm sm'" if b: "AddToBlacklist n now sm = Val sm'"
  proof -
    have "8 \<le> length n" using b by (auto simp: AddToBlacklist_def go_Val)
    then show ?thesis using AddToBlacklist_spec [OF assms, of n now] AddToBlacklist_keeps [OF b] b
      by (auto simp: good_def)
  qed
  show "good sm sm'" if b: "RemoveFromBlacklist n sm = Val sm'"
  proof -
    have "8 \<le> length n" using b by (auto simp: RemoveFromBlacklist_def go_Val)
    then show ?thesis using RemoveFromBlacklist_spec [OF assms, of n] channel_ops_keep(3) [OF b] b
      by (auto simp: good_def)
  qed
qed

lemma relay_do_ok:
  assumes ok: "relay_ok r" and d: "relay_do ev r = Val r'"
  shows "relay_ok r'"
proof -
  have sm: "sm_ok (rl_sm r)" using ok by (simp add: relay_ok_def)
  have st: "stream_ok (rl_sm r) st" if "rl_streams r i = Some st" for i st
    using ok that by (auto simp: relay_ok_def)
  have upd: "stream_ok m st \<Longrightarrow> stream_ok m (st\<lparr>st_receiving := b\<rparr>)"
    "stream_ok m st \<Longrightarrow> stream_ok m (st\<lparr>st_sending := b\<rparr>)" for m st b
    by (simp_all add: stream_ok_def cong: option.case_cong)
  note g = good_relay [OF ok] and gs = good_relay_stream [OF ok] and go = good_relay_out [OF ok]
  show ?thesis
  proof (cases ev)
    case (StreamOpened i first stamp readings now)
    show ?thesis
    proof (cases "rl_streams r i")
      case (Some s)
      then show ?thesis using d ok StreamOpened by (simp add: relay_do_def)
    next
      case None
      then obtain res sm1 where o: "stream_open first (generateSessionID stamp readings) now (rl_sm r) =
          Val (res, sm1)"
        using d StreamOpened by (auto simp: relay_do_def go_Val)
      note so = stream_open_good [OF sm o]
      show ?thesis
        using d StreamOpened None o so g [of sm1] relay_ok_stream [of "r\<lparr>rl_sm := sm1\<rparr>"]
        by (auto simp: relay_do_def split: sum.splits)
    qed
  next
    case (StreamReceived i x now)
    show ?thesis
    proof (cases "rl_streams r i")
      case None
      then show ?thesis using d ok StreamReceived by (simp add: relay_do_def)
    next
      case (Some s)
      show ?thesis
        using d ok StreamReceived Some
        by (auto simp: relay_do_def go_Val split: if_splits received.splits
            intro!: g gs upd st [OF Some] intro: stream_recv_good [OF sm st [OF Some]] Unregister_good [OF sm])
    qed
  next
    case (StreamSent i b)
    show ?thesis
    proof (cases "rl_streams r i")
      case None
      then show ?thesis using d ok StreamSent by (simp add: relay_do_def)
    next
      case (Some s)
      show ?thesis
        using d ok StreamSent Some
        by (auto simp: relay_do_def go_Val split: if_splits option.splits
            intro!: g gs go upd st [OF Some] intro: stream_send_good [OF sm])
    qed
  next
    case (StreamCancelled i)
    then show ?thesis using d ok st upd
      by (auto simp: relay_do_def split: option.splits intro: relay_ok_stream)
  qed (use d unary_good [OF sm] g in \<open>fastforce simp: relay_do_def go_Val\<close>)+
qed

interpretation relay: machine "\<lambda>r. r = relay_init" relay_step relay_ok
proof
  show "relay_ok s" if "s = relay_init" for s
    using that NewSessionManager_ok by (simp add: relay_ok_def relay_init_def)
  show "relay_ok t" if "relay_ok s" "relay_step s t" for s t
    using that(2,1) by cases (rule relay_do_ok)
qed

section \<open>Delivery\<close>

definition env_command :: "Envelope \<Rightarrow> NodeCommand" where
  "env_command e = \<lparr>CommandId = MessageId e, CommandType = CommandTypeEnvelope,
     Payload = json_text (JObj (envelope_members e))\<rparr>"

lemma EnvelopeToCommand_Some: "EnvelopeToCommand (Some e) = Val (env_command e)"
  by (simp add: EnvelopeToCommand_def env_command_def)

lemma env_command_decodes: "envelope_ok e \<Longrightarrow> CommandToEnvelope (env_command e) = Inr (Some e)"
  by (simp add: CommandToEnvelope_def env_command_def envelope_of_members del: json_text.simps)

lemma queues_touch:
  assumes "sm_ok sm" "heap sm a = Some s"
  shows "queues (sm\<lparr>heap := (heap sm)(a \<mapsto> s\<lparr>s_LastActivity := now\<rparr>)\<rparr>) = queues sm"
  using assms(2) by (auto simp: queues_def fun_eq_iff split: option.splits)

lemma touch_spec:
  assumes "sm_ok sm" "stream_ok sm st"
  obtains sm' where "touch (st_addr st) now sm = Val sm'" "sm_ok sm'" "stream_ok sm' st"
    "sm_abs sm' = sm_abs sm" "sessions sm' = sessions sm"
proof -
  obtain s where s: "heap sm (st_addr st) = Some s"
    using assms(2) by (auto simp: stream_ok_def split: option.splits)
  let ?sm = "sm\<lparr>heap := (heap sm)(st_addr st \<mapsto> s\<lparr>s_LastActivity := now\<rparr>)\<rparr>"
  have t: "touch (st_addr st) now sm = Val ?sm" using s by (simp add: touch_def)
  have "good sm ?sm" using assms(1) t by (rule touch_good)
  then show ?thesis
    using t queues_touch [OF assms(1) s] assms(2) stream_ok_keeps
    by (intro that [of ?sm]) (auto simp: good_def sm_abs_def IsBlacklisted_def)
qed

text \<open>A stream of node \<open>n\<close> forwards the envelopes of \<open>n\<close> and nothing else.\<close>

lemma stream_recv_forward:
  assumes "sm_ok sm" "stream_ok sm st" "CommandToEnvelope cmd = Inr (Some e)"
    "SenderNodeId e = st_node st" "TargetNodeId e \<noteq> ''RELAY''"
    "is_channel (TargetNodeId e) \<or> 8 \<le> length (TargetNodeId e)"
  shows "\<exists>sm'. stream_recv (st_node st) (st_addr st) cmd now sm = Val sm' \<and> sm_ok sm' \<and>
    sm_abs sm' = spec_forward e (sm_abs sm) \<and> sessions sm' = sessions sm"
proof -
  obtain sm1 where t: "touch (st_addr st) now sm = Val sm1" "sm_ok sm1"
      "sm_abs sm1 = sm_abs sm" "sessions sm1 = sessions sm"
    using assms(1,2) by (rule touch_spec)
  have "ids_ok e" using assms(2,4,6) by (simp add: ids_ok_def stream_ok_def)
  then obtain res sm2 where "ForwardEnvelope e now sm1 = Val (res, sm2)" "sm_ok sm2"
      "sm_abs sm2 = spec_forward e (sm_abs sm1)"
    using ForwardEnvelope_spec [OF t(2), of e now] by (auto simp: forwards_def)
  then show ?thesis using assms(3-5) t ForwardEnvelope_bans
    by (fastforce simp: stream_recv_def)
qed

lemma stream_send_next:
  assumes ok: "sm_ok sm" and a: "map_of (sessions sm) n = Some a" and q: "queues sm n = Some (e # q)"
  shows "\<exists>sm'. stream_send a sm = Val (Some (env_command e), sm') \<and> sm_ok sm' \<and>
    queues sm' = (queues sm)(n \<mapsto> q) \<and> sessions sm' = sessions sm"
proof -
  obtain s where s: "heap sm a = Some s" "s_NodeID s = n" "chan_live 100 (s_SendChan s)"
    using ok a by (rule sm_ok_session)
  have b: "buf (s_SendChan s) = e # q" using q a s by (simp add: queues_def)
  let ?s = "s\<lparr>s_SendChan := (s_SendChan s)\<lparr>buf := q\<rparr>\<rparr>"
  have "chan_live 100 (s_SendChan ?s)" using s(3) b by (simp add: chan_live_def chan_ok_def)
  then show ?thesis using s b put_session [OF ok a, of ?s]
    by (simp add: stream_send_def recv_head EnvelopeToCommand_Some)
qed

text \<open>The sender of a stream writes the queue out in order.\<close>

lemma drain:
  assumes "sm_ok (rl_sm r)" "rl_streams r j = Some st" "st_sending st"
    "map_of (sessions (rl_sm r)) (st_node st) = Some (st_addr st)"
    "queues (rl_sm r) (st_node st) = Some q"
  shows "\<exists>r'. relay_run (replicate (length q) (StreamSent j True)) r = Val r' \<and>
    rl_out r' = rl_out r @ map (\<lambda>e. (j, env_command e)) q \<and>
    queues (rl_sm r') (st_node st) = Some []"
  using assms
proof (induction q arbitrary: r)
  case Nil
  then show ?case by simp
next
  case (Cons e q)
  obtain sm' where s: "stream_send (st_addr st) (rl_sm r) = Val (Some (env_command e), sm')" "sm_ok sm'"
      "queues sm' = (queues (rl_sm r))(st_node st \<mapsto> q)" "sessions sm' = sessions (rl_sm r)"
    using stream_send_next [OF Cons.prems(1,4,5)] by blast
  let ?r = "r\<lparr>rl_sm := sm', rl_out := rl_out r @ [(j, env_command e)]\<rparr>"
  have "relay_do (StreamSent j True) r = Val ?r" using Cons.prems s by (simp add: relay_do_def)
  then show ?case using Cons.IH [of ?r] Cons.prems s by simp
qed

lemma handleRelayCommand_queues:
  assumes "handleRelayCommand a e sm = Val sm'"
  shows "queues sm' = queues sm"
  using assms
  by (auto simp: handleRelayCommand_def SubscribeToChannel_def UnsubscribeFromChannel_def go_Val
      split: option.splits if_splits)

text \<open>Bans through the machine: only \<open>Pardoned n\<close> lifts the ban of \<open>n\<close>.\<close>

lemma handleRelayCommand_bans:
  "handleRelayCommand a e sm = Val sm' \<Longrightarrow> blacklist sm' = blacklist sm"
  by (auto simp: handleRelayCommand_def SubscribeToChannel_def UnsubscribeFromChannel_def go_Val
      split: option.splits if_splits)

lemma stream_bans:
  "stream_recv n a cmd now sm = Val sm' \<Longrightarrow> blacklist sm' = blacklist sm"
  "stream_send a sm = Val (out, sm') \<Longrightarrow> blacklist sm' = blacklist sm"
  "stream_open first sid now sm = Val (res, sm') \<Longrightarrow> blacklist sm' = blacklist sm"
  by (auto simp: stream_recv_def stream_send_def stream_open_def touch_def go_Val split_sum_ex
      split: sum.splits option.splits if_splits recv.splits received.splits
      dest!: handleRelayCommand_bans op_bans)

lemma relay_do_bans:
  assumes "relay_do ev r = Val r'" "IsBlacklisted (rl_sm r) n" "ev \<noteq> Pardoned n"
  shows "IsBlacklisted (rl_sm r') n"
  using assms
  by (cases ev)
     (auto simp: relay_do_def ConnectToRelay_def IsNodeConnected_def RemoveFromBlacklist_def
        IsBlacklisted_def go_Val split_sum_ex
        split: option.splits if_splits received.splits sum.splits dest!: stream_bans op_bans)

lemma relay_run_bans:
  assumes "relay_run evs r = Val r'" "IsBlacklisted (rl_sm r) n" "Pardoned n \<notin> set evs"
  shows "IsBlacklisted (rl_sm r') n"
  using assms by (induction evs arbitrary: r) (auto simp: go_Val dest: relay_do_bans)

lemma relay_run_ok: "relay_run evs r = Val r' \<Longrightarrow> relay_ok r \<Longrightarrow> relay_ok r'"
  by (induction evs arbitrary: r) (auto simp: go_Val dest: relay_do_ok)

section \<open>A relay with two nodes\<close>

text \<open>The instance the witnesses use: Alice and Bob are connected and listen to \<open>#go\<close>,
  Mallory is banned.\<close>

definition ex_session :: "string \<Rightarrow> Session" where
  "ex_session n = \<lparr>s_NodeID = n, s_PublicKey = [], s_SessionID = ''20240101000000deadbeef'',
     s_ConnectedAt = 0, s_LastActivity = 0, s_SendChan = make_chan 100\<rparr>"

definition ex_sm :: SessionManager where
  "ex_sm = \<lparr>heap = [0 \<mapsto> ex_session ''alice-01'', 1 \<mapsto> ex_session ''bob-0001''], nxt = 2,
     sessions = [(''alice-01'', 0), (''bob-0001'', 1)], blacklist = [''mallory-'' \<mapsto> 0],
     channels = [''#go'' \<mapsto> [''alice-01'', ''bob-0001'']], activeConnections = 2, messagesRelayed = 0\<rparr>"

definition ex_stream :: "string \<Rightarrow> nat \<Rightarrow> stream" where
  "ex_stream n a = \<lparr>st_node = n, st_addr = a, st_receiving = True, st_sending = True\<rparr>"

definition ex_relay :: relay where
  "ex_relay = \<lparr>rl_sm = ex_sm,
     rl_streams = [10 \<mapsto> ex_stream ''alice-01'' 0, 11 \<mapsto> ex_stream ''bob-0001'' 1], rl_out = []\<rparr>"

definition ex_envelope :: "string \<Rightarrow> string \<Rightarrow> Envelope" where
  "ex_envelope sdr tgt = \<lparr>MessageId = ''m1'', SenderNodeId = sdr, TargetNodeId = tgt,
     EncryptedPayload = ''hi'', Nonce = [], SenderSignature = [], Timestamp = None,
     MessageType = MESSAGE_TYPE_CHAT, TtlSeconds = 0, Priority = 0\<rparr>"

lemma ex_sm_ok: "sm_ok ex_sm"
  by (auto simp: sm_ok_def ex_sm_def keys_distinct_def session_live_def IsBlacklisted_def
      ex_session_def split: if_splits)

lemma ex_relay_ok: "relay_ok ex_relay"
  using ex_sm_ok
  by (auto simp: relay_ok_def ex_relay_def stream_ok_def ex_stream_def ex_sm_def ex_session_def
      split: if_splits)

lemma ex_envelope_ids: "ids_ok (ex_envelope ''alice-01'' ''#go'')"
  by (simp add: ids_ok_def ex_envelope_def is_channel_def)

text \<open>The state after Alice's first connection.\<close>

definition ex_first :: relay where
  "ex_first = (case relay_do (Connected ''alice-01'' [] ''20240101000000'' [1, 2, 3, 4, 5, 6, 7, 8] 5) relay_init of
     Val r \<Rightarrow> r | Panic _ \<Rightarrow> relay_init)"

lemma ex_first_step:
  "relay_do (Connected ''alice-01'' [] ''20240101000000'' [1, 2, 3, 4, 5, 6, 7, 8] 5) relay_init = Val ex_first"
  by (simp add: ex_first_def relay_do_def ConnectToRelay_def RegisterSession_def IsBlacklisted_def
      relay_init_def NewSessionManager_def slice_to_def generateSessionID_def randomHex_def)

lemma ex_first_reachable: "reachable (\<lambda>r. r = relay_init) relay_step ex_first"
proof (rule reachable.move)
  show "reachable (\<lambda>r. r = relay_init) relay_step relay_init" by (rule reachable.start) simp
  show "relay_step relay_init ex_first" using ex_first_step by (rule relay_step.intros)
qed

lemma ex_first_session: "map_of (sessions (rl_sm ex_first)) ''alice-01'' = Some 0"
  by (simp add: ex_first_def relay_do_def ConnectToRelay_def RegisterSession_def IsBlacklisted_def
      relay_init_def NewSessionManager_def slice_to_def generateSessionID_def randomHex_def)

section \<open>Properties of the relay\<close>

text \<open>C1. Forwarding an envelope implements its specification: a blacklisted sender changes
  nothing and gets an error; a channel message is appended to the queue of exactly the
  connected subscribers other than the sender that have room; a direct message to the queue
  of its target, with an error when the target is absent or full. Nothing else changes, the
  counter grows by the number of deliveries, and the call does not panic.\<close>

theorem ForwardEnvelope_refines:
  assumes "sm_ok sm" and "ids_ok e"
  shows "\<exists>sm'. ForwardEnvelope e now sm = Val (spec_result e (sm_abs sm), sm') \<and> sm_ok sm' \<and>
    sm_abs sm' = spec_forward e (sm_abs sm)"
  using ForwardEnvelope_spec [OF assms, of now] by (simp add: forwards_def)

theorem ForwardEnvelope_refines_witness:
  "\<exists>sm'. ForwardEnvelope (ex_envelope ''alice-01'' ''#go'') 7 ex_sm =
      Val (spec_result (ex_envelope ''alice-01'' ''#go'') (sm_abs ex_sm), sm') \<and> sm_ok sm' \<and>
    sm_abs sm' = spec_forward (ex_envelope ''alice-01'' ''#go'') (sm_abs ex_sm)"
  using ForwardEnvelope_refines [OF ex_sm_ok ex_envelope_ids, of 7] .

text \<open>C2. In every state the relay can reach, whatever streams open, receive, send and end in
  whatever order: each node has at most one session, its queue is open and holds at most 100
  envelopes, a blacklisted node has none, the connection counter is at least the number of
  sessions, and each stream's session is that of its own node.\<close>

theorem relay_invariant:
  assumes "reachable (\<lambda>r. r = relay_init) relay_step r"
  shows "distinct (map fst (sessions (rl_sm r))) \<and>
    (\<forall>n a. map_of (sessions (rl_sm r)) n = Some a \<longrightarrow> (\<exists>s. heap (rl_sm r) a = Some s \<and>
      s_NodeID s = n \<and> length (buf (s_SendChan s)) \<le> 100 \<and> \<not> closed (s_SendChan s))) \<and>
    (\<forall>n. IsBlacklisted (rl_sm r) n \<longrightarrow> map_of (sessions (rl_sm r)) n = None) \<and>
    int (length (sessions (rl_sm r))) \<le> activeConnections (rl_sm r) \<and>
    (\<forall>i st. rl_streams r i = Some st \<longrightarrow>
      (\<exists>s. heap (rl_sm r) (st_addr st) = Some s \<and> s_NodeID s = st_node st))"
proof -
  have ok: "relay_ok r" using assms by (rule relay.reachable_inv)
  then have sm: "sm_ok (rl_sm r)" by (simp add: relay_ok_def)
  have "\<exists>s. heap (rl_sm r) a = Some s \<and> s_NodeID s = n \<and> length (buf (s_SendChan s)) \<le> 100 \<and>
      \<not> closed (s_SendChan s)" if "map_of (sessions (rl_sm r)) n = Some a" for n a
    using sm that by (rule sm_ok_session) (simp add: chan_live_def chan_ok_def)
  moreover have "\<exists>s. heap (rl_sm r) (st_addr st) = Some s \<and> s_NodeID s = st_node st"
    if "rl_streams r i = Some st" for i st
    using ok that by (fastforce simp: relay_ok_def stream_ok_def split: option.splits)
  moreover have "distinct (map fst (sessions (rl_sm r)))"
      "\<forall>n. IsBlacklisted (rl_sm r) n \<longrightarrow> map_of (sessions (rl_sm r)) n = None"
      "int (length (sessions (rl_sm r))) \<le> activeConnections (rl_sm r)"
    using sm by (simp_all add: sm_ok_def keys_distinct_def)
  ultimately show ?thesis by blast
qed

theorem relay_invariant_witness:
  "map_of (sessions (rl_sm ex_first)) ''alice-01'' = Some 0 \<and>
   (\<exists>s. heap (rl_sm ex_first) 0 = Some s \<and> s_NodeID s = ''alice-01'' \<and>
     length (buf (s_SendChan s)) \<le> 100 \<and> \<not> closed (s_SendChan s))"
  using relay_invariant [OF ex_first_reachable] by (simp add: ex_first_session)

text \<open>C3. End-to-end delivery: an envelope that Alice's stream receives for Bob is queued
  behind Bob's pending envelopes, and as many rounds of the sender of Bob's stream write all
  of them out, oldest first; decoding the written commands gives back exactly the pending
  envelopes followed by Alice's.\<close>

theorem unicast_end_to_end:
  assumes "relay_ok r" "rl_streams r i = Some si" "st_receiving si"
    "rl_streams r j = Some sj" "st_sending sj"
    "map_of (sessions (rl_sm r)) (st_node sj) = Some (st_addr sj)"
    "queues (rl_sm r) (st_node sj) = Some q" "length q < 100"
    "EnvelopeToCommand (Some e) = Val cmd" "\<forall>x \<in> set (q @ [e]). envelope_ok x"
    "SenderNodeId e = st_node si" "TargetNodeId e = st_node sj"
    "\<not> IsBlacklisted (rl_sm r) (st_node si)" "\<not> is_channel (st_node sj)"
  shows "\<exists>r'. relay_run (StreamReceived i (Cmd cmd) now # replicate (Suc (length q)) (StreamSent j True)) r =
      Val r' \<and>
    map (\<lambda>(k, c). (k, CommandToEnvelope c)) (rl_out r') =
      map (\<lambda>(k, c). (k, CommandToEnvelope c)) (rl_out r) @ map (\<lambda>x. (j, Inr (Some x))) (q @ [e])"
proof -
  let ?n = "st_node sj"
  have ok: "sm_ok (rl_sm r)" "stream_ok (rl_sm r) si" "stream_ok (rl_sm r) sj"
    using assms(1,2,4) by (auto simp: relay_ok_def)
  have len: "8 \<le> length ?n" using ok(3) by (simp add: stream_ok_def)
  then have nr: "TargetNodeId e \<noteq> ''RELAY''" using assms(12) by auto
  have "CommandToEnvelope cmd = Inr (Some e)"
    using assms(9,10) env_command_decodes [of e] by (simp add: EnvelopeToCommand_Some)
  then obtain sm1 where s1: "stream_recv (st_node si) (st_addr si) cmd now (rl_sm r) = Val sm1" "sm_ok sm1"
      "sm_abs sm1 = spec_forward e (sm_abs (rl_sm r))" "sessions sm1 = sessions (rl_sm r)"
    using stream_recv_forward [OF ok(1,2) _ assms(11) nr, of cmd now] assms(12) len by auto
  have "rs_queue (sm_abs sm1) ?n = Some (q @ [e])"
    using assms(7,8,11-14) unfolding s1(3)
    by (simp add: spec_forward_def spec_targets_def spec_deliver_def deliver_def room_def)
  then have q: "queues sm1 ?n = Some (q @ [e])" by simp
  let ?r1 = "r\<lparr>rl_sm := sm1\<rparr>"
  obtain r' where r': "relay_run (replicate (length (q @ [e])) (StreamSent j True)) ?r1 = Val r'"
      "rl_out r' = rl_out r @ map (\<lambda>x. (j, env_command x)) (q @ [e])"
    using drain [of ?r1 j sj "q @ [e]"] s1 q assms(4-6) by auto
  moreover have "relay_do (StreamReceived i (Cmd cmd) now) r = Val ?r1"
    using assms(2,3) s1(1) by (simp add: relay_do_def)
  moreover have "map (\<lambda>x. CommandToEnvelope (env_command x)) (q @ [e]) = map (\<lambda>x. Inr (Some x)) (q @ [e])"
    using assms(10) env_command_decodes by auto
  ultimately show ?thesis by (intro exI [of _ r']) (auto simp: comp_def)
qed

theorem unicast_end_to_end_witness:
  "\<exists>r'. relay_run (StreamReceived 10 (Cmd (env_command (ex_envelope ''alice-01'' ''bob-0001''))) 7 #
      replicate 1 (StreamSent 11 True)) ex_relay = Val r' \<and>
    map (\<lambda>(k, c). (k, CommandToEnvelope c)) (rl_out r') = [(11, Inr (Some (ex_envelope ''alice-01'' ''bob-0001'')))]"
  using unicast_end_to_end [OF ex_relay_ok, of 10 "ex_stream ''alice-01'' 0" 11 "ex_stream ''bob-0001'' 1" "[]"
      "ex_envelope ''alice-01'' ''bob-0001''" _ 7]
  by (simp add: ex_relay_def ex_stream_def ex_sm_def ex_session_def queues_def EnvelopeToCommand_Some
      ex_envelope_def envelope_ok_def in_int32_def MESSAGE_TYPE_CHAT_def IsBlacklisted_def is_channel_def
      del: relay_run.simps)

text \<open>C4. No spoofing: whatever command a stream receives, every envelope that is new in any
  queue afterwards carries the node id of that stream as its sender.\<close>

theorem stream_no_spoofing:
  assumes "sm_ok sm" "stream_ok sm st"
    "stream_recv (st_node st) (st_addr st) cmd now sm = Val sm'"
    "queues sm' n = Some q'" "x \<in> set q'"
  shows "SenderNodeId x = st_node st \<or> (\<exists>q. queues sm n = Some q \<and> x \<in> set q)"
proof (cases "\<exists>e. CommandToEnvelope cmd = Inr (Some e) \<and> SenderNodeId e = st_node st")
  case False
  then have "sm' = sm" using assms(3)
    by (auto simp: stream_recv_def split: sum.splits option.splits if_splits)
  then show ?thesis using assms(4,5) by blast
next
  case True
  then obtain e where e: "CommandToEnvelope cmd = Inr (Some e)" "SenderNodeId e = st_node st" by blast
  obtain sm1 where t: "touch (st_addr st) now sm = Val sm1" "sm_ok sm1" "stream_ok sm1 st"
      "sm_abs sm1 = sm_abs sm"
    using assms(1,2) by (rule touch_spec)
  have len: "8 \<le> length (st_node st)" using assms(2) by (simp add: stream_ok_def)
  show ?thesis
  proof (cases "TargetNodeId e = ''RELAY''")
    case True
    then have "handleRelayCommand (st_addr st) e sm1 = Val sm'"
      using assms(3) e t(1) by (simp add: stream_recv_def)
    then have "queues sm' = queues sm1" by (rule handleRelayCommand_queues)
    then show ?thesis using assms(4,5) t(4) by (metis sm_abs_sel(1))
  next
    case False
    then obtain res where "ForwardEnvelope e now sm1 = Val (res, sm')"
      using assms(3) e t(1) by (auto simp: stream_recv_def go_Val)
    then have "sm_abs sm' = spec_forward e (sm_abs sm)"
      using ForwardEnvelope_Val [OF t(2)] len e(2) t(4) by metis
    then have "queues sm' n = rs_queue (spec_forward e (sm_abs sm)) n" by (metis sm_abs_sel(1))
    then show ?thesis using assms(4,5) e(2)
      by (auto simp: spec_forward_def spec_deliver_def deliver_def room_def split: if_splits option.splits)
  qed
qed

theorem stream_no_spoofing_witness:
  "\<exists>sm'. stream_recv ''alice-01'' 0 (env_command (ex_envelope ''alice-01'' ''bob-0001'')) 7 ex_sm = Val sm' \<and>
     queues sm' ''bob-0001'' = Some [ex_envelope ''alice-01'' ''bob-0001''] \<and>
     SenderNodeId (ex_envelope ''alice-01'' ''bob-0001'') = ''alice-01''"
proof -
  let ?e = "ex_envelope ''alice-01'' ''bob-0001''" and ?st = "ex_stream ''alice-01'' 0"
  have st: "stream_ok ex_sm ?st" by (simp add: stream_ok_def ex_stream_def ex_sm_def ex_session_def)
  have no: "queues ex_sm ''bob-0001'' = Some []" by (simp add: queues_def ex_sm_def ex_session_def)
  have "CommandToEnvelope (env_command ?e) = Inr (Some ?e)"
    by (rule env_command_decodes)
       (simp add: ex_envelope_def envelope_ok_def in_int32_def MESSAGE_TYPE_CHAT_def)
  then obtain sm' where r: "stream_recv (st_node ?st) (st_addr ?st) (env_command ?e) 7 ex_sm = Val sm'"
      and a: "sm_abs sm' = spec_forward ?e (sm_abs ex_sm)"
    using stream_recv_forward [OF ex_sm_ok st, of "env_command ?e" ?e 7]
    by (auto simp: ex_envelope_def ex_stream_def)
  have "rs_queue (sm_abs sm') ''bob-0001'' = Some [?e]"
    unfolding a using no
    by (simp add: spec_forward_def spec_targets_def spec_deliver_def deliver_def room_def
        ex_envelope_def is_channel_def ex_sm_def IsBlacklisted_def)
  then have q: "queues sm' ''bob-0001'' = Some [?e]" by simp
  then show ?thesis
    using r stream_no_spoofing [OF ex_sm_ok st r q, of ?e] no by (auto simp: ex_stream_def)
qed

text \<open>C5. A ban is final until it is lifted: along any run of the relay that does not pardon
  the node, a blacklisted node stays blacklisted, has no session, and every envelope in its
  name is rejected and leaves the relay unchanged.\<close>

theorem ban_is_final:
  assumes "relay_ok r" "IsBlacklisted (rl_sm r) n" "8 \<le> length n"
    "relay_run evs r = Val r'" "Pardoned n \<notin> set evs"
  shows "IsBlacklisted (rl_sm r') n \<and> map_of (sessions (rl_sm r')) n = None \<and>
    (\<forall>e now. SenderNodeId e = n \<longrightarrow>
       ForwardEnvelope e now (rl_sm r') = Val (Some ErrNodeBlacklisted, rl_sm r'))"
proof -
  have b: "IsBlacklisted (rl_sm r') n" using assms(4,2,5) by (rule relay_run_bans)
  moreover have "sm_ok (rl_sm r')" using relay_run_ok [OF assms(4,1)] by (simp add: relay_ok_def)
  ultimately show ?thesis using assms(3) by (auto simp: sm_ok_def ForwardEnvelope_def)
qed

theorem ban_is_final_witness:
  "ForwardEnvelope (ex_envelope ''mallory-'' ''bob-0001'') 7 (rl_sm ex_relay) =
     Val (Some ErrNodeBlacklisted, rl_sm ex_relay)"
  using ban_is_final [OF ex_relay_ok, of "''mallory-''" "[]" ex_relay]
  by (simp add: ex_relay_def ex_sm_def IsBlacklisted_def ex_envelope_def)

text \<open>C6. A client that half-closes its stream takes the relay down: the end of the stream
  closes the session's queue while the sender still waits on it; the sender then takes the
  nil envelope of the closed queue and dereferences it, and nothing recovers the panic.\<close>

theorem half_close_panics:
  assumes "relay_ok r" "rl_streams r i = Some st" "st_receiving st" "st_sending st"
    "map_of (sessions (rl_sm r)) (st_node st) = Some (st_addr st)"
    "queues (rl_sm r) (st_node st) = Some []"
  shows "relay_run [StreamReceived i EOF now, StreamSent i ok] r = Panic ''nil pointer dereference''"
proof -
  have sm: "sm_ok (rl_sm r)" using assms(1) by (simp add: relay_ok_def)
  obtain s where s: "heap (rl_sm r) (st_addr st) = Some s" "chan_live 100 (s_SendChan s)"
      "8 \<le> length (st_node st)"
    using sm assms(5) by (rule sm_ok_session)
  have "buf (s_SendChan s) = []" using assms(5,6) s(1) by (simp add: queues_def)
  then show ?thesis using assms(2-5) s
    by (simp add: relay_do_def UnregisterSession_def close_session_def close_live Let_def
        stream_send_def recv_drained EnvelopeToCommand_def)
qed

theorem half_close_panics_witness:
  "relay_run [StreamReceived 10 EOF 7, StreamSent 10 True] ex_relay = Panic ''nil pointer dereference''"
  using half_close_panics [OF ex_relay_ok, of 10 "ex_stream ''alice-01'' 0" 7 True]
  by (simp add: ex_relay_def ex_stream_def ex_sm_def queues_def ex_session_def)

end
