(* ===== verification/Crypto.thy ===== *)
theory Crypto
  imports Go_Base
begin

text \<open>
  \<^verbatim>\<open>internal/crypto/signature.go\<close>, \<^verbatim>\<open>relay/internal/crypto/keys.go\<close> and the identity
  part of \<^verbatim>\<open>pkg/client_sdk/client.go\<close>: node ids derived from Ed25519 public keys, the
  verification of node identities, and the verifier that holds the master keys of the
  moderators.

  SHA-256 and Ed25519 are parameters (a \<open>crypto\<close> record); \<open>crypto_ok\<close> states their
  documented sizes and that a signature verifies under the signer's public key. No
  theorem assumes that a hash has no collisions or that a signature cannot be forged.
\<close>

record crypto =
  sha256 :: "bytes \<Rightarrow> bytes"
  ed_verify :: "bytes \<Rightarrow> bytes \<Rightarrow> bytes \<Rightarrow> bool"
  ed_sign :: "bytes \<Rightarrow> bytes \<Rightarrow> bytes"
  ed_public :: "bytes \<Rightarrow> bytes"

definition crypto_ok :: "crypto \<Rightarrow> bool" where
  "crypto_ok K \<longleftrightarrow>
     (\<forall>x. length (sha256 K x) = 32) \<and>
     (\<forall>sk. length (ed_public K sk) = 32) \<and>
     (\<forall>sk m. length (ed_sign K sk m) = 64) \<and>
     (\<forall>sk m. length sk = 64 \<longrightarrow> ed_verify K (ed_public K sk) m (ed_sign K sk m))"

section \<open>internal/crypto/signature.go\<close>

datatype crypto_error = ErrInvalidPublicKey | ErrInvalidSignature | ErrSignatureInvalid
  | ErrNotMasterKey | ErrHex | ErrNodeIDMismatch | ErrInvalidPrivateKey

text \<open>\<open>ed25519.Verify\<close> panics on a public key of the wrong size and returns false on a
  signature of the wrong size.\<close>

definition ed25519_Verify :: "crypto \<Rightarrow> bytes \<Rightarrow> bytes \<Rightarrow> bytes \<Rightarrow> bool go" where
  "ed25519_Verify K pub msg sig =
     (if length pub \<noteq> 32 then Panic ''ed25519: bad public key length''
      else Val (length sig = 64 \<and> ed_verify K pub msg sig))"

definition DeriveNodeID :: "crypto \<Rightarrow> bytes \<Rightarrow> string" where
  "DeriveNodeID K publicKey = hex_encode (take 16 (sha256 K publicKey))"

record Verifier =
  masterKeys :: "string \<rightharpoonup> bytes"

fun NewVerifier_loop :: "crypto \<Rightarrow> string list \<Rightarrow> Verifier \<Rightarrow> crypto_error + Verifier" where
  "NewVerifier_loop K [] v = Inr v"
| "NewVerifier_loop K (keyHex # rest) v =
     (if keyHex = [] then NewVerifier_loop K rest v
      else (case hex_decode keyHex of
          (keyBytes, err) \<Rightarrow>
            if err then Inl ErrHex
            else if length keyBytes \<noteq> 32 then Inl ErrInvalidPublicKey
            else NewVerifier_loop K rest
              (v\<lparr>masterKeys := (masterKeys v)(DeriveNodeID K keyBytes \<mapsto> keyBytes)\<rparr>)))"

definition NewVerifier :: "crypto \<Rightarrow> string list \<Rightarrow> crypto_error + Verifier" where
  "NewVerifier K masterKeyHexList = NewVerifier_loop K masterKeyHexList \<lparr>masterKeys = Map.empty\<rparr>"

text \<open>The error results are \<open>None\<close> for \<open>nil\<close>. The length check makes the panic of
  \<open>ed25519.Verify\<close> unreachable here.\<close>

definition VerifySignature :: "crypto \<Rightarrow> bytes \<Rightarrow> bytes \<Rightarrow> bytes \<Rightarrow> crypto_error option" where
  "VerifySignature K publicKey message signature =
     (if length publicKey \<noteq> 32 then Some ErrInvalidPublicKey
      else if length signature \<noteq> 64 then Some ErrInvalidSignature
      else if ed25519_Verify K publicKey message signature \<noteq> Val True then Some ErrSignatureInvalid
      else None)"

definition VerifyNodeIdentity :: "crypto \<Rightarrow> string \<Rightarrow> bytes \<Rightarrow> bytes \<Rightarrow> crypto_error option" where
  "VerifyNodeIdentity K nodeID publicKey signature =
     (let expectedID = DeriveNodeID K publicKey in
      if nodeID \<noteq> expectedID then Some ErrNodeIDMismatch
      else VerifySignature K publicKey nodeID signature)"

text \<open>The loop \<open>for i := range masterKey\<close>, which indexes both keys.\<close>

fun same_key :: "bytes \<Rightarrow> bytes \<Rightarrow> bool go" where
  "same_key [] p = Val True"
| "same_key (m # ms) [] = Panic ''index out of range''"
| "same_key (m # ms) (p # ps) = (if m \<noteq> p then Val False else same_key ms ps)"

definition VerifyMasterSignature ::
    "crypto \<Rightarrow> Verifier \<Rightarrow> bytes \<Rightarrow> bytes \<Rightarrow> bytes \<Rightarrow> crypto_error option go" where
  "VerifyMasterSignature K v publicKey message signature =
     (if length publicKey \<noteq> 32 then Val (Some ErrInvalidPublicKey)
      else (case masterKeys v (DeriveNodeID K publicKey) of
          None \<Rightarrow> Val (Some ErrNotMasterKey)
        | Some masterKey \<Rightarrow>
            go_bind (same_key masterKey publicKey) (\<lambda>same.
              if \<not> same then Val (Some ErrNotMasterKey)
              else Val (VerifySignature K publicKey message signature))))"

definition IsMasterKey :: "crypto \<Rightarrow> Verifier \<Rightarrow> bytes \<Rightarrow> bool" where
  "IsMasterKey K v publicKey =
     (if length publicKey \<noteq> 32 then False
      else masterKeys v (DeriveNodeID K publicKey) \<noteq> None)"

definition Sign :: "crypto \<Rightarrow> bytes \<Rightarrow> bytes \<Rightarrow> crypto_error + bytes" where
  "Sign K privateKey message =
     (if length privateKey \<noteq> 64 then Inl ErrInvalidPrivateKey
      else Inr (ed_sign K privateKey message))"

section \<open>Key pairs of a relay and of a client\<close>

record KeyPair =
  kp_PrivateKey :: bytes
  kp_PublicKey :: bytes
  kp_NodeID :: string

definition deriveNodeID :: "crypto \<Rightarrow> bytes \<Rightarrow> string" where
  "deriveNodeID K pub = hex_encode (take 16 (sha256 K pub))"

definition newKeyPairFromPrivate :: "crypto \<Rightarrow> bytes \<Rightarrow> KeyPair" where
  "newKeyPairFromPrivate K priv =
     (let pub = ed_public K priv in
      \<lparr>kp_PrivateKey = priv, kp_PublicKey = pub, kp_NodeID = deriveNodeID K pub\<rparr>)"

definition KeyPair_Sign :: "crypto \<Rightarrow> KeyPair \<Rightarrow> bytes \<Rightarrow> bytes" where
  "KeyPair_Sign K kp message = ed_sign K (kp_PrivateKey kp) message"

definition SignNodeID :: "crypto \<Rightarrow> KeyPair \<Rightarrow> bytes" where
  "SignNodeID K kp = KeyPair_Sign K kp (kp_NodeID kp)"

text \<open>
  The key file: its contents, if it can be read; the outcome of generating a key; and
  whether writing succeeds. The result carries the contents written, if any.
\<close>

definition LoadOrGenerateKeyPair ::
    "crypto \<Rightarrow> bytes option \<Rightarrow> bytes result \<Rightarrow> string option \<Rightarrow> KeyPair result \<times> bytes option" where
  "LoadOrGenerateKeyPair K file gen write_err =
     (case file of
        Some data \<Rightarrow>
          if length data = 64 then (Inr (newKeyPairFromPrivate K data), None)
          else (case gen of
              Inl e \<Rightarrow> (Inl (''failed to generate key pair: '' @ e), None)
            | Inr priv \<Rightarrow>
                (case write_err of
                   Some e \<Rightarrow> (Inl (''failed to save private key: '' @ e), None)
                 | None \<Rightarrow> (Inr (newKeyPairFromPrivate K priv), Some priv)))
      | None \<Rightarrow>
          (case gen of
             Inl e \<Rightarrow> (Inl (''failed to generate key pair: '' @ e), None)
           | Inr priv \<Rightarrow>
               (case write_err of
                  Some e \<Rightarrow> (Inl (''failed to save private key: '' @ e), None)
                | None \<Rightarrow> (Inr (newKeyPairFromPrivate K priv), Some priv))))"

section \<open>Lemmas\<close>

lemma crypto_okD:
  assumes "crypto_ok K"
  shows "length (sha256 K x) = 32" and "length (ed_public K sk) = 32"
    and "length (ed_sign K sk m) = 64"
    and "length sk = 64 \<Longrightarrow> ed_verify K (ed_public K sk) m (ed_sign K sk m)"
  using assms by (auto simp: crypto_ok_def)

lemma deriveNodeID_eq [simp]: "deriveNodeID K pub = DeriveNodeID K pub"
  by (simp add: deriveNodeID_def DeriveNodeID_def)

lemma length_DeriveNodeID: "crypto_ok K \<Longrightarrow> length (DeriveNodeID K pub) = 32"
  by (simp add: DeriveNodeID_def crypto_okD)

lemma VerifySignature_None:
  "VerifySignature K pk m s = None \<longleftrightarrow> length pk = 32 \<and> length s = 64 \<and> ed_verify K pk m s"
  by (simp add: VerifySignature_def ed25519_Verify_def)

lemma VerifySignature_own:
  "crypto_ok K \<Longrightarrow> length sk = 64 \<Longrightarrow> VerifySignature K (ed_public K sk) m (ed_sign K sk m) = None"
  by (simp add: VerifySignature_None crypto_okD)

lemma VerifyNodeIdentity_None:
  "VerifyNodeIdentity K n pk s = None \<longleftrightarrow>
     n = DeriveNodeID K pk \<and> length pk = 32 \<and> length s = 64 \<and> ed_verify K pk n s"
  by (auto simp: VerifyNodeIdentity_def VerifySignature_None Let_def)

lemma same_key_eq: "length ms = length ps \<Longrightarrow> same_key ms ps = Val (ms = ps)"
  by (induction ms ps rule: same_key.induct) auto

text \<open>The invariant of a verifier: each key has 32 bytes and is filed under its own id.\<close>

definition verifier_ok :: "crypto \<Rightarrow> Verifier \<Rightarrow> bool" where
  "verifier_ok K v \<longleftrightarrow>
     (\<forall>i k. masterKeys v i = Some k \<longrightarrow> length k = 32 \<and> i = DeriveNodeID K k)"

lemma verifier_okD: "verifier_ok K v \<Longrightarrow> masterKeys v i = Some k \<Longrightarrow> length k = 32"
  by (simp add: verifier_ok_def)

lemma NewVerifier_loop_ok:
  "NewVerifier_loop K hs v = Inr v' \<Longrightarrow> verifier_ok K v \<Longrightarrow> verifier_ok K v'"
proof (induction K hs v rule: NewVerifier_loop.induct)
  case (2 K h hs v)
  obtain b e where d: "hex_decode h = (b, e)" by fastforce
  from "2.prems"(2) have upd: "length b = 32 \<Longrightarrow>
      verifier_ok K (v\<lparr>masterKeys := (masterKeys v)(DeriveNodeID K b \<mapsto> b)\<rparr>)"
    by (auto simp: verifier_ok_def)
  show ?case
    using "2.prems" "2.IH" d upd by (auto split: if_splits)
qed simp

lemma NewVerifier_ok: "NewVerifier K hs = Inr v \<Longrightarrow> verifier_ok K v"
  using NewVerifier_loop_ok [of K hs "\<lparr>masterKeys = Map.empty\<rparr>" v]
  by (simp add: NewVerifier_def verifier_ok_def)

text \<open>Every key of the verifier comes from the configured list.\<close>

lemma NewVerifier_loop_src:
  "NewVerifier_loop K hs v = Inr v' \<Longrightarrow> masterKeys v' i = Some k \<Longrightarrow>
     masterKeys v i = Some k \<or> (\<exists>h \<in> set hs. hex_decode h = (k, False))"
proof (induction K hs v rule: NewVerifier_loop.induct)
  case (2 K h hs v)
  obtain b e where "hex_decode h = (b, e)" by fastforce
  with 2 show ?case by (cases "i = DeriveNodeID K b") (auto split: if_splits)
qed simp

lemma NewVerifier_src:
  assumes "NewVerifier K hs = Inr v" and "masterKeys v i = Some k"
  shows "\<exists>h \<in> set hs. hex_decode h = (k, False)"
  using NewVerifier_loop_src [of K hs "\<lparr>masterKeys = Map.empty\<rparr>" v i k] assms by (auto simp: NewVerifier_def)

text \<open>A configured key is found under its id, unless a later one has the same id.\<close>

lemma NewVerifier_loop_keeps:
  "NewVerifier_loop K hs v = Inr v' \<Longrightarrow> masterKeys v i = Some k \<Longrightarrow>
     \<forall>h \<in> set hs. \<forall>k'. hex_decode h = (k', False) \<longrightarrow> DeriveNodeID K k' = i \<longrightarrow> k' = k \<Longrightarrow>
     masterKeys v' i = Some k"
proof (induction K hs v rule: NewVerifier_loop.induct)
  case (2 K h hs v)
  obtain b e where "hex_decode h = (b, e)" by fastforce
  with 2 show ?case by (auto split: if_splits)
qed simp

lemma NewVerifier_loop_finds:
  "NewVerifier_loop K hs v = Inr v' \<Longrightarrow> hex_encode k \<in> set hs \<Longrightarrow> k \<noteq> [] \<Longrightarrow>
     \<forall>h \<in> set hs. \<forall>k'. hex_decode h = (k', False) \<longrightarrow> DeriveNodeID K k' = DeriveNodeID K k \<longrightarrow> k' = k \<Longrightarrow>
     masterKeys v' (DeriveNodeID K k) = Some k"
proof (induction K hs v rule: NewVerifier_loop.induct)
  case (2 K h hs v)
  obtain b e where d: "hex_decode h = (b, e)" by fastforce
  show ?case
  proof (cases "h = hex_encode k")
    case True
    with "2.prems" have "NewVerifier_loop K hs
        (v\<lparr>masterKeys := (masterKeys v)(DeriveNodeID K k \<mapsto> k)\<rparr>) = Inr v'"
      by (simp split: if_splits)
    from NewVerifier_loop_keeps [OF this, of "DeriveNodeID K k" k] "2.prems"(4)
    show ?thesis by simp
  next
    case False
    with "2.prems" "2.IH" d show ?thesis by (auto split: if_splits)
  qed
qed simp

lemma VerifyMasterSignature_accept:
  assumes "verifier_ok K v"
  shows "VerifyMasterSignature K v pk m s = Val None \<longleftrightarrow>
    masterKeys v (DeriveNodeID K pk) = Some pk \<and> VerifySignature K pk m s = None"
proof (cases "masterKeys v (DeriveNodeID K pk)")
  case None
  then show ?thesis by (simp add: VerifyMasterSignature_def)
next
  case (Some k)
  with assms have "length k = 32" by (rule verifier_okD)
  with Some show ?thesis
    by (auto simp: VerifyMasterSignature_def same_key_eq VerifySignature_None)
qed

lemma VerifyMasterSignature_no_panic:
  assumes "verifier_ok K v"
  shows "\<exists>r. VerifyMasterSignature K v pk m s = Val r"
proof (cases "masterKeys v (DeriveNodeID K pk)")
  case (Some k)
  with assms have "length k = 32" by (rule verifier_okD)
  with Some show ?thesis by (simp add: VerifyMasterSignature_def same_key_eq)
qed (simp add: VerifyMasterSignature_def)

end
