(* ===== verification/Domain.thy ===== *)
theory Domain
  imports Go_Base
begin

text \<open>
  \<^verbatim>\<open>internal/domain/node.go\<close> and \<^verbatim>\<open>internal/domain/moderation.go\<close>: the nodes of the
  network, bans, alerts and moderation events. The Go enumerations are integers, and
  conversions put any integer into them, so they are integers here too.
\<close>

section \<open>Nodes\<close>

definition NodeTypeUnspecified :: int where "NodeTypeUnspecified = 0"
definition NodeTypeDesktop :: int where "NodeTypeDesktop = 1"
definition NodeTypeRelay :: int where "NodeTypeRelay = 2"
definition NodeTypeMobile :: int where "NodeTypeMobile = 3"
definition NodeTypeWeb :: int where "NodeTypeWeb = 4"

lemmas NodeType_defs = NodeTypeUnspecified_def NodeTypeDesktop_def NodeTypeRelay_def
  NodeTypeMobile_def NodeTypeWeb_def

definition NodeType_String :: "int \<Rightarrow> string" where
  "NodeType_String t =
     (if t = NodeTypeDesktop then ''desktop''
      else if t = NodeTypeRelay then ''relay''
      else if t = NodeTypeMobile then ''mobile''
      else if t = NodeTypeWeb then ''web''
      else ''unspecified'')"

definition NodeStatusUnspecified :: int where "NodeStatusUnspecified = 0"
definition NodeStatusOnline :: int where "NodeStatusOnline = 1"
definition NodeStatusAway :: int where "NodeStatusAway = 2"
definition NodeStatusBusy :: int where "NodeStatusBusy = 3"
definition NodeStatusOffline :: int where "NodeStatusOffline = 4"

lemmas NodeStatus_defs = NodeStatusUnspecified_def NodeStatusOnline_def NodeStatusAway_def
  NodeStatusBusy_def NodeStatusOffline_def

definition NodeStatus_String :: "int \<Rightarrow> string" where
  "NodeStatus_String s =
     (if s = NodeStatusOnline then ''online''
      else if s = NodeStatusAway then ''away''
      else if s = NodeStatusBusy then ''busy''
      else if s = NodeStatusOffline then ''offline''
      else ''unspecified'')"

record NodeIdentity =
  id_NodeID :: string
  id_PublicKey :: bytes
  id_Signature :: bytes

record Node =
  n_Identity :: NodeIdentity
  n_Type :: int
  n_Status :: int
  n_Endpoints :: "string list"
  n_Version :: string
  n_Capabilities :: "string list"
  n_Region :: string
  n_RegisteredAt :: time
  n_LastSeen :: time

definition IsRelay :: "Node \<Rightarrow> bool" where
  "IsRelay n \<longleftrightarrow> n_Type n = NodeTypeRelay"

definition IsDesktop :: "Node \<Rightarrow> bool" where
  "IsDesktop n \<longleftrightarrow> n_Type n = NodeTypeDesktop"

fun has_capability_loop :: "string list \<Rightarrow> string \<Rightarrow> bool" where
  "has_capability_loop [] cap = False"
| "has_capability_loop (c # cs) cap = (if c = cap then True else has_capability_loop cs cap)"

definition HasCapability :: "Node \<Rightarrow> string \<Rightarrow> bool" where
  "HasCapability n cap = has_capability_loop (n_Capabilities n) cap"

record NodeRegistration =
  reg_Identity :: NodeIdentity
  reg_Type :: int
  reg_Endpoints :: "string list"
  reg_Version :: string
  reg_Capabilities :: "string list"
  reg_Region :: string

section \<open>Moderation\<close>

definition EventTypeUnspecified :: int where "EventTypeUnspecified = 0"
definition EventTypeNodeBanned :: int where "EventTypeNodeBanned = 1"
definition EventTypeContentBanned :: int where "EventTypeContentBanned = 2"
definition EventTypeGlobalAlert :: int where "EventTypeGlobalAlert = 3"
definition EventTypeRelayOffline :: int where "EventTypeRelayOffline = 4"
definition EventTypeNetworkUpdate :: int where "EventTypeNetworkUpdate = 5"

lemmas EventType_defs = EventTypeUnspecified_def EventTypeNodeBanned_def EventTypeContentBanned_def
  EventTypeGlobalAlert_def EventTypeRelayOffline_def EventTypeNetworkUpdate_def

definition EventType_String :: "int \<Rightarrow> string" where
  "EventType_String t =
     (if t = EventTypeNodeBanned then ''node_banned''
      else if t = EventTypeContentBanned then ''content_banned''
      else if t = EventTypeGlobalAlert then ''global_alert''
      else if t = EventTypeRelayOffline then ''relay_offline''
      else if t = EventTypeNetworkUpdate then ''network_update''
      else ''unspecified'')"

record GlobalModerator =
  mod_ModeratorID :: string
  mod_PublicKey :: bytes
  mod_Name :: string
  mod_CreatedAt :: time
  mod_Active :: bool

record ModerationAction =
  act_ActionID :: string
  act_Type :: int
  act_TargetID :: string
  act_Reason :: string
  act_Duration :: duration
  act_Moderator :: GlobalModerator
  act_Signature :: bytes
  act_CreatedAt :: time

record NodeBan =
  ban_BannedNodeID :: string
  ban_Reason :: string
  ban_DurationSeconds :: int
  ban_EvidenceHash :: string
  ban_BannedAt :: time
  ban_ExpiresAt :: "time option"
  ban_ModeratorID :: string

record ContentBan =
  cb_ContentHash :: string
  cb_Reason :: string
  cb_Category :: string
  cb_BannedAt :: time
  cb_ModeratorID :: string

record GlobalAlert =
  al_AlertID :: string
  al_Title :: string
  al_Message :: string
  al_Severity :: string
  al_InfoURL :: string
  al_CreatedAt :: time

text \<open>The payload of an event is an \<open>interface{}\<close>: a ban or an alert where the event is
  made, a generic JSON value (\<open>Decoded\<close>) once it has been through the message bus.\<close>

datatype EventPayload = NodeBanPayload NodeBan | ContentBanPayload ContentBan
  | AlertPayload GlobalAlert | Decoded

record ModeratorSignature =
  ms_ModeratorID :: string
  ms_PublicKey :: bytes
  ms_Signature :: bytes
  ms_SignedAt :: time

record ModerationEvent =
  ev_EventID :: string
  ev_Type :: int
  ev_Timestamp :: time
  ev_Payload :: EventPayload
  ev_Signature :: "ModeratorSignature option"

definition IsPermanent :: "NodeBan \<Rightarrow> bool" where
  "IsPermanent b \<longleftrightarrow> ban_ExpiresAt b = None"

definition IsExpired :: "NodeBan \<Rightarrow> time \<Rightarrow> bool" where
  "IsExpired b now =
     (if IsPermanent b then False
      else (case ban_ExpiresAt b of None \<Rightarrow> False | Some t \<Rightarrow> t < now))"

section \<open>Lemmas\<close>

lemma HasCapability_iff: "HasCapability n cap \<longleftrightarrow> cap \<in> set (n_Capabilities n)"
proof -
  have "has_capability_loop cs cap \<longleftrightarrow> cap \<in> set cs" for cs by (induction cs) auto
  then show ?thesis by (simp add: HasCapability_def)
qed

lemma IsExpired_iff: "IsExpired b now \<longleftrightarrow> (\<exists>t. ban_ExpiresAt b = Some t \<and> t < now)"
  by (auto simp: IsExpired_def IsPermanent_def split: option.splits)

end
