(* ===== verification/Tables.thy ===== *)
theory Tables
  imports Go_Base
begin

text \<open>
  SQL tables with a primary key, as the PostgreSQL and SQLite statements of the sources
  use them: a list of keyed rows, \<open>INSERT\<close>, \<open>INSERT ... ON CONFLICT DO UPDATE\<close>,
  \<open>UPDATE ... WHERE key\<close>, \<open>SELECT ... ORDER BY ... LIMIT ... OFFSET\<close>. The locale
  \<open>keyed_store\<close> is the contract of every key/value access path built on them.
\<close>

text \<open>Which statements the driver fails, and how.\<close>

type_synonym faults = "string \<Rightarrow> string option"

section \<open>Statements\<close>

definition sql_insert :: "'k \<Rightarrow> 'v \<Rightarrow> ('k \<times> 'v) list \<Rightarrow> ('k \<times> 'v) list option" where
  "sql_insert k row t = (case map_of t k of None \<Rightarrow> Some (t @ [(k, row)]) | Some _ \<Rightarrow> None)"

text \<open>\<open>merge old\<close> is the row after the \<open>DO UPDATE SET\<close> clause.\<close>

definition sql_upsert :: "'k \<Rightarrow> 'v \<Rightarrow> ('v \<Rightarrow> 'v) \<Rightarrow> ('k \<times> 'v) list \<Rightarrow> ('k \<times> 'v) list" where
  "sql_upsert k row merge t =
     (case map_of t k of None \<Rightarrow> t @ [(k, row)] | Some old \<Rightarrow> AList.update k (merge old) t)"

definition sql_update :: "'k \<Rightarrow> ('v \<Rightarrow> 'v) \<Rightarrow> ('k \<times> 'v) list \<Rightarrow> ('k \<times> 'v) list" where
  "sql_update k f t = AList.map_entry k f t"

definition sql_page :: "int \<Rightarrow> int \<Rightarrow> 'a list \<Rightarrow> 'a list" where
  "sql_page limit offset rows = take (nat limit) (drop (nat offset) rows)"

text \<open>\<open>VARCHAR(n)\<close> counts characters: the bytes of the UTF-8 text that do not continue a
  character.\<close>

definition chars_of :: "string \<Rightarrow> nat" where
  "chars_of s = length (filter (\<lambda>c. of_char c div 64 \<noteq> (2 :: nat)) s)"

definition varchar :: "nat \<Rightarrow> string \<Rightarrow> bool" where
  "varchar n s \<longleftrightarrow> chars_of s \<le> n"

text \<open>\<open>TIMESTAMP WITH TIME ZONE\<close> keeps microseconds.\<close>

definition micros :: "time \<Rightarrow> time" where
  "micros t = t div 1000 * 1000"

section \<open>Lemmas\<close>

lemma map_of_upsert [simp]:
  "map_of (sql_upsert k row merge t) =
     (map_of t)(k \<mapsto> (case map_of t k of None \<Rightarrow> row | Some old \<Rightarrow> merge old))"
  by (auto simp: sql_upsert_def update_conv' map_add_def fun_eq_iff split: option.splits)

lemma map_of_update_sql [simp]:
  "map_of (sql_update k f t) = (map_of t)(k := map_option f (map_of t k))"
  by (induction t) (auto simp: sql_update_def)

lemma map_of_insert_sql:
  "sql_insert k row t = Some t' \<Longrightarrow> map_of t k = None \<and> map_of t' = (map_of t)(k \<mapsto> row)"
  by (auto simp: sql_insert_def map_add_def fun_eq_iff split: option.splits)

lemma keys_distinct_upsert [simp]: "keys_distinct t \<Longrightarrow> keys_distinct (sql_upsert k row merge t)"
  by (auto simp: sql_upsert_def keys_distinct_def distinct_update map_of_eq_None_iff split: option.splits)

lemma keys_distinct_update_sql [simp]: "keys_distinct t \<Longrightarrow> keys_distinct (sql_update k f t)"
  by (simp add: sql_update_def keys_distinct_def distinct_map_entry)

lemma length_update_sql [simp]: "length (sql_update k f t) = length t"
  unfolding sql_update_def by (induction t) auto

lemma map_entry_set:
  "(a, b) \<in> set (AList.map_entry k f t) \<Longrightarrow> \<exists>v. (a, v) \<in> set t \<and> (b = v \<or> b = f v)"
  by (induction t) (auto split: if_splits)

lemma map_entry_proj:
  assumes "\<And>v. g (f v) = g v"
  shows "map (\<lambda>x. g (snd x)) (AList.map_entry k f t) = map (\<lambda>x. g (snd x)) t"
  using assms by (induction t) auto

lemma sql_insert_Some:
  "sql_insert k row t = Some t' \<longleftrightarrow> map_of t k = None \<and> t' = t @ [(k, row)]"
  by (auto simp: sql_insert_def split: option.splits)

lemma update_set: "x \<in> set (AList.update k v t) \<Longrightarrow> x \<in> set t \<or> x = (k, v)"
  by (induction t) (auto split: if_splits)

lemma upsert_set:
  "x \<in> set (sql_upsert k row merge t) \<Longrightarrow>
     x \<in> set t \<or> x = (k, row) \<and> map_of t k = None \<or> (\<exists>old. (k, old) \<in> set t \<and> x = (k, merge old))"
  by (auto simp: sql_upsert_def dest!: update_set dest: map_of_SomeD split: option.splits)

lemma keys_distinct_snoc [simp]:
  "keys_distinct (t @ [(k, v)]) \<longleftrightarrow> keys_distinct t \<and> map_of t k = None"
  by (auto simp: keys_distinct_def map_of_eq_None_iff)

lemma varchar_short: "length s \<le> n \<Longrightarrow> varchar n s"
  unfolding varchar_def chars_of_def by (rule order_trans [OF length_filter_le])

lemma micros_le: "micros t \<le> t" "t < micros t + 1000"
  using mult_div_mod_eq [of 1000 t] pos_mod_bound [of 1000 t] pos_mod_sign [of 1000 t]
  by (simp_all add: micros_def)

lemma length_page: "length (sql_page limit offset rows) \<le> nat limit"
  by (simp add: sql_page_def)

lemma set_page: "set (sql_page limit offset rows) \<subseteq> set rows"
  by (auto simp: sql_page_def dest: in_set_takeD in_set_dropD)

section \<open>Key/value access\<close>

locale keyed_store =
  fixes put :: "'k \<Rightarrow> 'v \<Rightarrow> 's \<Rightarrow> 's" and get :: "'k \<Rightarrow> 's \<Rightarrow> 'v option"
  assumes get_put: "get k' (put k v s) = (if k' = k then Some v else get k' s)"
begin

lemma last_write_wins: "get k (put k w (put k v s)) = Some w"
  by (simp add: get_put)

lemma other_key_kept: "k' \<noteq> k \<Longrightarrow> get k' (put k v s) = get k' s"
  by (simp add: get_put)

text \<open>After any sequence of writes a key holds the last value written to it, or what it
  held before.\<close>

lemma get_puts:
  "get k (fold (\<lambda>(k, v). put k v) ws s) =
     (case map_of (rev ws) k of Some v \<Rightarrow> Some v | None \<Rightarrow> get k s)"
proof (induction ws arbitrary: s)
  case (Cons w ws)
  obtain k' v where w: "w = (k', v)" by (cases w)
  have "map_of (rev (w # ws)) k =
      (case map_of (rev ws) k of Some x \<Rightarrow> Some x | None \<Rightarrow> if k = k' then Some v else None)"
    by (simp add: w map_add_def split: option.split)
  then show ?case using Cons.IH [of "put k' v s"] by (simp add: w get_put split: option.splits)
qed simp

end

text \<open>The statement \<open>INSERT ... ON CONFLICT DO UPDATE\<close> that takes over every column is one.\<close>

interpretation replace_row: keyed_store "\<lambda>k v. sql_upsert k v (\<lambda>_. v)" "\<lambda>k t. map_of t k"
  by unfold_locales (simp split: option.split)

end
