(* ===== verification/Pg_Repo.thy ===== *)
theory Pg_Repo
  imports Domain Tables
begin

text \<open>
  \<^verbatim>\<open>internal/repository/postgres/node_repository.go\<close> and \<^verbatim>\<open>user_repository.go\<close>: the
  tables that \<open>CreateTables\<close> makes and the statements of the repository methods, with the
  constraints of the schema (primary and unique keys, \<open>VARCHAR\<close> sizes, \<open>NOT NULL\<close>, the
  references to \<open>global_moderators\<close>).

  A method may also fail for reasons outside the program (a lost connection, a cancelled
  context, an id that is no UUID): the argument \<open>fault\<close> says for each method whether it does and with which
  error; a failing statement changes nothing. \<open>nil\<close> errors are \<open>None\<close>, and the pair of a
  pointer and an error that Go returns is \<open>string + 'a option\<close>.
\<close>

section \<open>Tables\<close>

record NodeRow =
  nr_public_key :: bytes
  nr_type :: int
  nr_version :: string
  nr_region :: string
  nr_capabilities :: "string list"
  nr_first_seen_at :: time
  nr_last_seen_at :: time
  nr_total_uptime_seconds :: int
  nr_banned :: bool
  nr_ban_reason :: "string option"
  nr_ban_expires_at :: "time option"

record ActionRow =
  ar_event_type :: int
  ar_target_id :: string
  ar_reason :: string
  ar_duration_seconds :: int
  ar_moderator_id :: string
  ar_signature :: bytes
  ar_created_at :: time

record ContentRow =
  ct_reason :: string
  ct_category :: string
  ct_banned_at :: time
  ct_moderator_id :: string

record AuditRow =
  au_log_id :: nat
  au_timestamp :: time
  au_requester_id :: string
  au_action :: string
  au_target_id :: string
  au_channel_id :: string
  au_signature :: bytes
  au_created_at :: time

record ClusterPeer =
  cp_PeerID :: string
  cp_Address :: string
  cp_PublicKey :: bytes
  cp_Status :: string
  cp_LastSeen :: time

record User =
  u_ID :: string
  u_Email :: string
  u_PasswordHash :: string
  u_FullName :: string
  u_Phone :: string
  u_Nickname :: string
  u_Role :: string
  u_CreatedAt :: time

record db =
  t_nodes :: "(string \<times> NodeRow) list"
  t_global_moderators :: "(string \<times> GlobalModerator) list"
  t_moderation_actions :: "(string \<times> ActionRow) list"
  t_content_bans :: "(string \<times> ContentRow) list"
  t_governance_audit_log :: "AuditRow list"
  t_cluster_peers :: "(string \<times> ClusterPeer) list"
  t_users :: "(string \<times> User) list"

definition empty_db :: db where
  "empty_db = \<lparr>t_nodes = [], t_global_moderators = [], t_moderation_actions = [],
     t_content_bans = [], t_governance_audit_log = [], t_cluster_peers = [], t_users = []\<rparr>"

text \<open>\<open>CREATE TABLE IF NOT EXISTS\<close> makes the missing tables and keeps the others.\<close>

definition CreateTables :: "faults \<Rightarrow> db option \<Rightarrow> string option \<times> db option" where
  "CreateTables fault d =
     (case fault ''CreateTables'' of
        Some err \<Rightarrow> (Some (''failed to create tables: '' @ err), d)
      | None \<Rightarrow> (None, Some (case d of None \<Rightarrow> empty_db | Some t \<Rightarrow> t)))"

section \<open>Nodes\<close>

definition node_columns_ok :: "Node \<Rightarrow> bool" where
  "node_columns_ok node \<longleftrightarrow> varchar 64 (id_NodeID (n_Identity node)) \<and>
     id_PublicKey (n_Identity node) \<noteq> [] \<and> varchar 32 (n_Version node) \<and> varchar 32 (n_Region node)"

definition UpsertNode :: "faults \<Rightarrow> time \<Rightarrow> Node \<Rightarrow> db \<Rightarrow> string option \<times> db" where
  "UpsertNode fault now node d =
     (case fault ''UpsertNode'' of
        Some err \<Rightarrow> (Some err, d)
      | None \<Rightarrow>
          if \<not> node_columns_ok node then (Some ''value too long or null'', d)
          else (None, d\<lparr>t_nodes := sql_upsert (id_NodeID (n_Identity node))
            \<lparr>nr_public_key = id_PublicKey (n_Identity node), nr_type = n_Type node,
             nr_version = n_Version node, nr_region = n_Region node,
             nr_capabilities = n_Capabilities node, nr_first_seen_at = micros (n_RegisteredAt node),
             nr_last_seen_at = micros now, nr_total_uptime_seconds = 0, nr_banned = False,
             nr_ban_reason = None, nr_ban_expires_at = None\<rparr>
            (\<lambda>old. old\<lparr>nr_last_seen_at := micros now, nr_version := n_Version node,
               nr_region := n_Region node, nr_capabilities := n_Capabilities node\<rparr>)
            (t_nodes d)\<rparr>))"

definition node_of_row :: "string \<Rightarrow> NodeRow \<Rightarrow> Node" where
  "node_of_row nodeID row =
     \<lparr>n_Identity = \<lparr>id_NodeID = nodeID, id_PublicKey = nr_public_key row, id_Signature = []\<rparr>,
      n_Type = nr_type row, n_Status = NodeStatusUnspecified, n_Endpoints = [],
      n_Version = nr_version row, n_Capabilities = nr_capabilities row, n_Region = nr_region row,
      n_RegisteredAt = nr_first_seen_at row, n_LastSeen = nr_last_seen_at row\<rparr>"

definition pg_GetNode :: "faults \<Rightarrow> string \<Rightarrow> db \<Rightarrow> string + Node option" where
  "pg_GetNode fault nodeID d =
     (case fault ''GetNode'' of
        Some err \<Rightarrow> Inl err
      | None \<Rightarrow> Inr (map_option (node_of_row nodeID) (map_of (t_nodes d) nodeID)))"

definition UnbanNode :: "faults \<Rightarrow> string \<Rightarrow> db \<Rightarrow> string option \<times> db" where
  "UnbanNode fault nodeID d =
     (case fault ''UnbanNode'' of
        Some err \<Rightarrow> (Some err, d)
      | None \<Rightarrow> (None, d\<lparr>t_nodes := sql_update nodeID
          (\<lambda>r. r\<lparr>nr_banned := False, nr_ban_reason := None, nr_ban_expires_at := None\<rparr>) (t_nodes d)\<rparr>))"

text \<open>The ban of a node, with its reason; an expired ban is lifted on the way.\<close>

definition pg_IsNodeBanned ::
    "faults \<Rightarrow> time \<Rightarrow> string \<Rightarrow> db \<Rightarrow> (string + bool \<times> string) \<times> db" where
  "pg_IsNodeBanned fault now nodeID d =
     (case fault ''IsNodeBanned'' of
        Some err \<Rightarrow> (Inl err, d)
      | None \<Rightarrow>
          (case map_of (t_nodes d) nodeID of
             None \<Rightarrow> (Inr (False, []), d)
           | Some r \<Rightarrow>
               if nr_banned r \<and> (case nr_ban_expires_at r of None \<Rightarrow> False | Some t \<Rightarrow> t < now)
               then (Inr (False, []), snd (UnbanNode fault nodeID d))
               else (Inr (nr_banned r, (case nr_ban_reason r of None \<Rightarrow> [] | Some s \<Rightarrow> s)), d)))"

definition pg_BanNode :: "faults \<Rightarrow> NodeBan \<Rightarrow> db \<Rightarrow> string option \<times> db" where
  "pg_BanNode fault ban d =
     (case fault ''BanNode'' of
        Some err \<Rightarrow> (Some err, d)
      | None \<Rightarrow> (None, d\<lparr>t_nodes := sql_update (ban_BannedNodeID ban)
          (\<lambda>r. r\<lparr>nr_banned := True, nr_ban_reason := Some (ban_Reason ban),
                 nr_ban_expires_at := map_option micros (ban_ExpiresAt ban)\<rparr>) (t_nodes d)\<rparr>))"

section \<open>Moderation\<close>

definition SaveModerationAction :: "faults \<Rightarrow> ModerationAction \<Rightarrow> db \<Rightarrow> string option \<times> db" where
  "SaveModerationAction fault action d =
     (case fault ''SaveModerationAction'' of
        Some err \<Rightarrow> (Some err, d)
      | None \<Rightarrow>
          if \<not> varchar 64 (act_ActionID action) \<or> \<not> varchar 128 (act_TargetID action) \<or>
             \<not> varchar 64 (mod_ModeratorID (act_Moderator action)) \<or> act_Signature action = []
          then (Some ''value too long or null'', d)
          else if map_of (t_global_moderators d) (mod_ModeratorID (act_Moderator action)) = None
          then (Some ''violates foreign key constraint'', d)
          else (case sql_insert (act_ActionID action)
                 \<lparr>ar_event_type = act_Type action, ar_target_id = act_TargetID action,
                  ar_reason = act_Reason action, ar_duration_seconds = trunc_seconds (act_Duration action),
                  ar_moderator_id = mod_ModeratorID (act_Moderator action),
                  ar_signature = act_Signature action, ar_created_at = micros (act_CreatedAt action)\<rparr>
                 (t_moderation_actions d) of
              None \<Rightarrow> (Some ''duplicate key value'', d)
            | Some t \<Rightarrow> (None, d\<lparr>t_moderation_actions := t\<rparr>)))"

definition SaveContentBan :: "faults \<Rightarrow> ContentBan \<Rightarrow> db \<Rightarrow> string option \<times> db" where
  "SaveContentBan fault ban d =
     (case fault ''SaveContentBan'' of
        Some err \<Rightarrow> (Some err, d)
      | None \<Rightarrow>
          if \<not> varchar 128 (cb_ContentHash ban) \<or> \<not> varchar 64 (cb_Category ban) \<or>
             \<not> varchar 64 (cb_ModeratorID ban)
          then (Some ''value too long'', d)
          else if map_of (t_content_bans d) (cb_ContentHash ban) = None \<and>
                  map_of (t_global_moderators d) (cb_ModeratorID ban) = None
          then (Some ''violates foreign key constraint'', d)
          else (None, d\<lparr>t_content_bans := sql_upsert (cb_ContentHash ban)
            \<lparr>ct_reason = cb_Reason ban, ct_category = cb_Category ban,
             ct_banned_at = micros (cb_BannedAt ban), ct_moderator_id = cb_ModeratorID ban\<rparr>
            (\<lambda>old. old\<lparr>ct_reason := cb_Reason ban, ct_category := cb_Category ban\<rparr>)
            (t_content_bans d)\<rparr>))"

definition pg_IsContentBanned :: "faults \<Rightarrow> string \<Rightarrow> db \<Rightarrow> string + bool" where
  "pg_IsContentBanned fault contentHash d =
     (case fault ''IsContentBanned'' of
        Some err \<Rightarrow> Inl err
      | None \<Rightarrow> Inr (map_of (t_content_bans d) contentHash \<noteq> None))"

definition GetModerator :: "faults \<Rightarrow> string \<Rightarrow> db \<Rightarrow> string + GlobalModerator option" where
  "GetModerator fault moderatorID d =
     (case fault ''GetModerator'' of
        Some err \<Rightarrow> Inl err
      | None \<Rightarrow> Inr (map_of (t_global_moderators d) moderatorID))"

definition AddModerator :: "faults \<Rightarrow> GlobalModerator \<Rightarrow> db \<Rightarrow> string option \<times> db" where
  "AddModerator fault m d =
     (case fault ''AddModerator'' of
        Some err \<Rightarrow> (Some err, d)
      | None \<Rightarrow>
          if \<not> varchar 64 (mod_ModeratorID m) \<or> \<not> varchar 128 (mod_Name m) \<or> mod_PublicKey m = []
          then (Some ''value too long or null'', d)
          else if mod_PublicKey m \<in> set (map (mod_PublicKey \<circ> snd) (t_global_moderators d))
          then (Some ''duplicate key value'', d)
          else (case sql_insert (mod_ModeratorID m) (m\<lparr>mod_CreatedAt := micros (mod_CreatedAt m)\<rparr>)
                 (t_global_moderators d) of
              None \<Rightarrow> (Some ''duplicate key value'', d)
            | Some t \<Rightarrow> (None, d\<lparr>t_global_moderators := t\<rparr>)))"

definition pg_LogGovernanceAction ::
    "faults \<Rightarrow> time \<Rightarrow> string \<Rightarrow> string \<Rightarrow> string \<Rightarrow> string \<Rightarrow> bytes \<Rightarrow> db \<Rightarrow> string option \<times> db" where
  "pg_LogGovernanceAction fault now requesterID action targetID channelID signature d =
     (case fault ''LogGovernanceAction'' of
        Some err \<Rightarrow> (Some err, d)
      | None \<Rightarrow>
          if \<not> varchar 64 requesterID \<or> \<not> varchar 32 action \<or> \<not> varchar 64 targetID \<or>
             \<not> varchar 64 channelID \<or> signature = []
          then (Some ''value too long or null'', d)
          else (None, d\<lparr>t_governance_audit_log := t_governance_audit_log d @
            [\<lparr>au_log_id = Suc (length (t_governance_audit_log d)), au_timestamp = now,
              au_requester_id = requesterID, au_action = action, au_target_id = targetID,
              au_channel_id = channelID, au_signature = signature, au_created_at = micros now\<rparr>]\<rparr>))"

section \<open>Cluster peers\<close>

definition UpsertClusterPeer :: "faults \<Rightarrow> ClusterPeer \<Rightarrow> db \<Rightarrow> string option \<times> db" where
  "UpsertClusterPeer fault peer d =
     (case fault ''UpsertClusterPeer'' of
        Some err \<Rightarrow> (Some err, d)
      | None \<Rightarrow>
          if \<not> varchar 64 (cp_PeerID peer) \<or> \<not> varchar 256 (cp_Address peer) \<or>
             \<not> varchar 16 (cp_Status peer) \<or> cp_PublicKey peer = []
          then (Some ''value too long or null'', d)
          else let row = peer\<lparr>cp_LastSeen := micros (cp_LastSeen peer)\<rparr>
               in (None, d\<lparr>t_cluster_peers :=
                     sql_upsert (cp_PeerID peer) row (\<lambda>_. row) (t_cluster_peers d)\<rparr>))"

definition GetClusterPeer :: "faults \<Rightarrow> string \<Rightarrow> db \<Rightarrow> string + ClusterPeer option" where
  "GetClusterPeer fault peerID d =
     (case fault ''GetClusterPeer'' of
        Some err \<Rightarrow> Inl err
      | None \<Rightarrow> Inr (map_of (t_cluster_peers d) peerID))"

definition GetActiveClusterPeers :: "faults \<Rightarrow> db \<Rightarrow> string + ClusterPeer list" where
  "GetActiveClusterPeers fault d =
     (case fault ''GetActiveClusterPeers'' of
        Some err \<Rightarrow> Inl err
      | None \<Rightarrow> Inr (filter (\<lambda>p. cp_Status p = ''active'') (map snd (t_cluster_peers d))))"

definition UpdateClusterPeerStatus ::
    "faults \<Rightarrow> time \<Rightarrow> string \<Rightarrow> string \<Rightarrow> db \<Rightarrow> string option \<times> db" where
  "UpdateClusterPeerStatus fault now peerID status d =
     (case fault ''UpdateClusterPeerStatus'' of
        Some err \<Rightarrow> (Some err, d)
      | None \<Rightarrow>
          if \<not> varchar 16 status then (Some ''value too long'', d)
          else (None, d\<lparr>t_cluster_peers := sql_update peerID
            (\<lambda>p. p\<lparr>cp_Status := status, cp_LastSeen := micros now\<rparr>) (t_cluster_peers d)\<rparr>))"

section \<open>Listing\<close>

definition GetAllNodes :: "faults \<Rightarrow> db \<Rightarrow> string + NodeIdentity list" where
  "GetAllNodes fault d =
     (case fault ''GetAllNodes'' of
        Some err \<Rightarrow> Inl err
      | None \<Rightarrow> Inr (map (\<lambda>(k, r). \<lparr>id_NodeID = k, id_PublicKey = nr_public_key r, id_Signature = []\<rparr>)
          (t_nodes d)))"

definition pg_ListNodes ::
    "faults \<Rightarrow> int \<Rightarrow> bool \<Rightarrow> int \<Rightarrow> int \<Rightarrow> db \<Rightarrow> string + Node list \<times> nat" where
  "pg_ListNodes fault filterType onlineOnly limit offset d =
     (case fault ''ListNodes'' of
        Some err \<Rightarrow> Inl err
      | None \<Rightarrow>
          if limit < 0 \<or> offset < 0 then Inl ''LIMIT or OFFSET must not be negative''
          else Inr (map (\<lambda>(k, r). node_of_row k r)
                 (sql_page limit offset (sort_key (\<lambda>(k, r). - nr_last_seen_at r) (t_nodes d))),
               length (t_nodes d)))"

definition GetTotalNodesCount :: "faults \<Rightarrow> db \<Rightarrow> string + nat" where
  "GetTotalNodesCount fault d =
     (case fault ''GetTotalNodesCount'' of Some err \<Rightarrow> Inl err | None \<Rightarrow> Inr (length (t_nodes d)))"

section \<open>Users\<close>

text \<open>\<open>CreateUser\<close> is a transaction of two statements: it counts the users and chooses the
  role, then inserts. PostgreSQL runs it at the level READ COMMITTED, so another
  transaction can commit between the two; they are two definitions, and \<open>CreateUser\<close> is
  the run without interference. The new id and the time are PostgreSQL's.\<close>

definition genesis_role :: "db \<Rightarrow> string" where
  "genesis_role d = (if length (t_users d) = 0 then ''owner'' else ''member'')"

definition insert_user :: "faults \<Rightarrow> string \<Rightarrow> time \<Rightarrow> User \<Rightarrow> db \<Rightarrow> (string + User) \<times> db" where
  "insert_user fault newid now u d =
     (case fault ''CreateUser'' of
        Some err \<Rightarrow> (Inl (''failed to insert user: '' @ err), d)
      | None \<Rightarrow>
          if \<not> varchar 255 (u_Email u) \<or> \<not> varchar 255 (u_PasswordHash u) \<or> \<not> varchar 255 (u_FullName u) \<or>
             \<not> varchar 32 (u_Phone u) \<or> \<not> varchar 64 (u_Nickname u) \<or> \<not> varchar 16 (u_Role u)
          then (Inl ''failed to insert user: value too long'', d)
          else if u_Email u \<in> set (map (u_Email \<circ> snd) (t_users d)) \<or>
                  u_Nickname u \<in> set (map (u_Nickname \<circ> snd) (t_users d))
          then (Inl ''failed to insert user: duplicate key value'', d)
          else let u' = u\<lparr>u_ID := newid, u_CreatedAt := micros now\<rparr> in
            (case sql_insert newid u' (t_users d) of
               None \<Rightarrow> (Inl ''failed to insert user: duplicate key value'', d)
             | Some t \<Rightarrow> (Inr u', d\<lparr>t_users := t\<rparr>)))"

definition CreateUser :: "faults \<Rightarrow> string \<Rightarrow> time \<Rightarrow> User \<Rightarrow> db \<Rightarrow> (string + User) \<times> db" where
  "CreateUser fault newid now u d =
     (case fault ''CountUsers'' of
        Some err \<Rightarrow> (Inl (''failed to count users: '' @ err), d)
      | None \<Rightarrow> insert_user fault newid now (u\<lparr>u_Role := genesis_role d\<rparr>) d)"

definition GetUserByEmail :: "faults \<Rightarrow> string \<Rightarrow> db \<Rightarrow> string + User option" where
  "GetUserByEmail fault email d =
     (case fault ''GetUserByEmail'' of
        Some err \<Rightarrow> Inl err
      | None \<Rightarrow> Inr (find (\<lambda>u. u_Email u = email) (map snd (t_users d))))"

definition GetUserByID :: "faults \<Rightarrow> string \<Rightarrow> db \<Rightarrow> string + User option" where
  "GetUserByID fault i d =
     (case fault ''GetUserByID'' of Some err \<Rightarrow> Inl err | None \<Rightarrow> Inr (map_of (t_users d) i))"

definition pg_ListUsers :: "faults \<Rightarrow> int \<Rightarrow> int \<Rightarrow> db \<Rightarrow> string + User list \<times> nat" where
  "pg_ListUsers fault limit offset d =
     (case fault ''ListUsers'' of
        Some err \<Rightarrow> Inl err
      | None \<Rightarrow>
          if limit < 0 \<or> offset < 0 then Inl ''LIMIT or OFFSET must not be negative''
          else Inr (map (\<lambda>(k, u). u\<lparr>u_PasswordHash := []\<rparr>)
                 (sql_page limit offset (sort_key (\<lambda>(k, u). - u_CreatedAt u) (t_users d))),
               length (t_users d)))"

definition UpdateUserRole :: "faults \<Rightarrow> string \<Rightarrow> string \<Rightarrow> db \<Rightarrow> string option \<times> db" where
  "UpdateUserRole fault userID newRole d =
     (case fault ''UpdateUserRole'' of
        Some err \<Rightarrow> (Some err, d)
      | None \<Rightarrow>
          if \<not> varchar 16 newRole then (Some ''value too long'', d)
          else (None, d\<lparr>t_users := sql_update userID (\<lambda>u. u\<lparr>u_Role := newRole\<rparr>) (t_users d)\<rparr>))"

definition GetTotalUsers :: "faults \<Rightarrow> db \<Rightarrow> string + nat" where
  "GetTotalUsers fault d =
     (case fault ''GetTotalUsers'' of Some err \<Rightarrow> Inl err | None \<Rightarrow> Inr (length (t_users d)))"

section \<open>Invariant\<close>

definition db_ok :: "db \<Rightarrow> bool" where
  "db_ok d \<longleftrightarrow> keys_distinct (t_nodes d) \<and> keys_distinct (t_global_moderators d) \<and>
     keys_distinct (t_moderation_actions d) \<and> keys_distinct (t_content_bans d) \<and>
     keys_distinct (t_cluster_peers d) \<and> keys_distinct (t_users d) \<and>
     distinct (map (u_Email \<circ> snd) (t_users d)) \<and> distinct (map (u_Nickname \<circ> snd) (t_users d)) \<and>
     (\<forall>(k, u) \<in> set (t_users d). u_ID u = k) \<and>
     (\<forall>(k, a) \<in> set (t_moderation_actions d). map_of (t_global_moderators d) (ar_moderator_id a) \<noteq> None) \<and>
     (\<forall>(k, c) \<in> set (t_content_bans d). map_of (t_global_moderators d) (ct_moderator_id c) \<noteq> None)"

lemma empty_db_ok [simp]: "db_ok empty_db"
  by (simp add: db_ok_def empty_db_def)

text \<open>Each statement keeps the invariant.\<close>

lemma node_ops_ok:
  assumes "db_ok d"
  shows "db_ok (snd (UpsertNode fault now node d))" "db_ok (snd (UnbanNode fault n d))"
    "db_ok (snd (pg_IsNodeBanned fault now n d))" "db_ok (snd (pg_BanNode fault ban d))"
  using assms
  by (auto simp: UpsertNode_def UnbanNode_def pg_IsNodeBanned_def pg_BanNode_def db_ok_def
      split: option.splits)

lemma SaveModerationAction_ok: "db_ok d \<Longrightarrow> db_ok (snd (SaveModerationAction fault a d))"
  by (auto simp: SaveModerationAction_def db_ok_def sql_insert_Some split: option.splits)

lemma SaveContentBan_ok: "db_ok d \<Longrightarrow> db_ok (snd (SaveContentBan fault b d))"
  by (fastforce simp: SaveContentBan_def db_ok_def dest!: upsert_set split: option.splits)

lemma AddModerator_ok: "db_ok d \<Longrightarrow> db_ok (snd (AddModerator fault m d))"
  by (auto simp: AddModerator_def db_ok_def sql_insert_Some map_add_def split: option.splits)

lemma insert_user_ok: "db_ok d \<Longrightarrow> db_ok (snd (insert_user fault i now u d))"
  by (auto simp: insert_user_def db_ok_def sql_insert_Some Let_def split: option.splits)

lemma UpdateUserRole_ok: "db_ok d \<Longrightarrow> db_ok (snd (UpdateUserRole fault i r d))"
  by (fastforce simp: UpdateUserRole_def db_ok_def sql_update_def comp_def map_entry_proj
      keys_distinct_def distinct_map_entry dest!: map_entry_set split: option.splits)

lemma other_ops_ok:
  assumes "db_ok d"
  shows "db_ok (snd (pg_LogGovernanceAction fault now r a t c s d))"
    "db_ok (snd (UpsertClusterPeer fault p d))" "db_ok (snd (UpdateClusterPeerStatus fault now i st d))"
  using assms
  by (auto simp: pg_LogGovernanceAction_def UpsertClusterPeer_def UpdateClusterPeerStatus_def
      db_ok_def Let_def split: option.splits)

lemma CreateUser_ok: "db_ok d \<Longrightarrow> db_ok (snd (CreateUser fault i now u d))"
  by (simp add: CreateUser_def insert_user_ok split: option.split)

section \<open>Bans\<close>

text \<open>A node is banned at an instant when its row says so and the ban has not run out.\<close>

definition node_banned :: "db \<Rightarrow> time \<Rightarrow> string \<Rightarrow> bool" where
  "node_banned d now n \<longleftrightarrow>
     (case map_of (t_nodes d) n of
        None \<Rightarrow> False
      | Some r \<Rightarrow> nr_banned r \<and> (case nr_ban_expires_at r of None \<Rightarrow> True | Some t \<Rightarrow> now \<le> t))"

lemma pg_IsNodeBanned_result:
  assumes "fault ''IsNodeBanned'' = None"
  shows "\<exists>reason. fst (pg_IsNodeBanned fault now n d) = Inr (node_banned d now n, reason)"
  using assms by (auto simp: pg_IsNodeBanned_def node_banned_def split: option.splits)

lemma node_banned_anti: "node_banned d later n \<Longrightarrow> now \<le> later \<Longrightarrow> node_banned d now n"
  by (auto simp: node_banned_def split: option.splits)

text \<open>Looking up a ban does not change who is banned from then on.\<close>

lemma pg_IsNodeBanned_keeps:
  assumes "now \<le> later"
  shows "node_banned (snd (pg_IsNodeBanned fault now n d)) later m = node_banned d later m"
  using assms
  by (auto simp: pg_IsNodeBanned_def UnbanNode_def node_banned_def split: option.splits)

text \<open>Registering again does not lift a ban; a ban of a known node holds until it
  expires; a ban of an unknown node does nothing.\<close>

lemma UpsertNode_keeps_bans: "node_banned (snd (UpsertNode fault t node d)) now n = node_banned d now n"
  by (auto simp: UpsertNode_def node_banned_def split: option.splits)

lemma pg_BanNode_bans:
  assumes "fault ''BanNode'' = None" "map_of (t_nodes d) (ban_BannedNodeID ban) \<noteq> None"
  shows "node_banned (snd (pg_BanNode fault ban d)) now (ban_BannedNodeID ban) \<longleftrightarrow>
    (case ban_ExpiresAt ban of None \<Rightarrow> True | Some t \<Rightarrow> now \<le> micros t)"
  using assms by (auto simp: pg_BanNode_def node_banned_def split: option.splits)

lemma pg_BanNode_unknown:
  assumes "map_of (t_nodes d) (ban_BannedNodeID ban) = None"
  shows "\<not> node_banned (snd (pg_BanNode fault ban d)) now (ban_BannedNodeID ban)"
  using assms by (auto simp: pg_BanNode_def node_banned_def split: option.splits)

lemma pg_BanNode_other:
  "n \<noteq> ban_BannedNodeID ban \<Longrightarrow> node_banned (snd (pg_BanNode fault ban d)) now n = node_banned d now n"
  by (simp add: pg_BanNode_def node_banned_def split: option.split)

lemma moderation_keeps_bans [simp]:
  "node_banned (snd (SaveModerationAction fault a d)) now n = node_banned d now n"
  "node_banned (snd (SaveContentBan fault cb d)) now n = node_banned d now n"
  "node_banned (snd (pg_LogGovernanceAction fault t r ac tg c s d)) now n = node_banned d now n"
  by (simp_all add: SaveModerationAction_def SaveContentBan_def pg_LogGovernanceAction_def
      node_banned_def split: option.split)

section \<open>The first user\<close>

definition owners :: "db \<Rightarrow> string list" where
  "owners d = map fst (filter (\<lambda>(k, u). u_Role u = ''owner'') (t_users d))"

lemma CreateUser_owners:
  "owners (snd (CreateUser fault i now u d)) = owners d \<or>
   t_users d = [] \<and> owners (snd (CreateUser fault i now u d)) = [i]"
  by (auto simp: CreateUser_def insert_user_def genesis_role_def owners_def sql_insert_Some Let_def
      split: option.splits)

lemma CreateUser_nonempty: "t_users d \<noteq> [] \<Longrightarrow> t_users (snd (CreateUser fault i now u d)) \<noteq> []"
  by (auto simp: CreateUser_def insert_user_def sql_insert_Some Let_def split: option.splits)

lemma CreateUser_grows:
  "t_users (snd (CreateUser fault i now u d)) = t_users d \<or>
   (\<exists>u'. t_users (snd (CreateUser fault i now u d)) = t_users d @ [(i, u')] \<and> u_Role u' = genesis_role d)"
  by (auto simp: CreateUser_def insert_user_def sql_insert_Some Let_def split: option.splits)

definition signup :: "faults \<times> string \<times> time \<times> User \<Rightarrow> db \<Rightarrow> db" where
  "signup s d = (case s of (fault, i, now, u) \<Rightarrow> snd (CreateUser fault i now u d))"

lemma signup_apply [simp]: "signup (fault, i, now, u) d = snd (CreateUser fault i now u d)"
  by (simp add: signup_def)

lemma signups_owner:
  assumes "t_users d = (i, u0) # rest" "u_Role u0 = ''owner''" "\<forall>(k, u) \<in> set rest. u_Role u \<noteq> ''owner''"
  shows "owners (fold signup ss d) = [i]"
  using assms
proof (induction ss arbitrary: d rest)
  case Nil
  then show ?case by (auto simp: owners_def filter_empty_conv)
next
  case (Cons s ss)
  obtain fault k now u where s: "s = (fault, k, now, u)" by (cases s)
  let ?d = "snd (CreateUser fault k now u d)"
  obtain rest' where "t_users ?d = (i, u0) # rest'" "\<forall>(k, u) \<in> set rest'. u_Role u \<noteq> ''owner''"
    using CreateUser_grows [of fault k now u d] Cons.prems by (auto simp: genesis_role_def)
  then show ?case using Cons.IH [of ?d rest'] Cons.prems(2) by (simp add: s)
qed

end
