(* ===== verification/Redis_Nodes.thy ===== *)
theory Redis_Nodes
  imports Domain Json
begin

text \<open>
  \<^verbatim>\<open>internal/repository/redis/node_manager.go\<close>: the nodes that are online, kept in Redis
  under \<open>node:<id>\<close> with a time to live, and the bus of moderation events.

  The Redis server is a parameter: a record of the commands the code issues over an
  abstract state. \<open>redis_laws\<close> states what the code relies on of a server that answers:
  a value set is read back until its time to live is over, other keys are not touched, a
  deleted key is gone, and \<open>KEYS\<close> lists the keys that a \<open>GET\<close> finds. \<open>mem_redis\<close> is a
  server in memory that satisfies them.
\<close>

section \<open>The server\<close>

text \<open>\<open>r_get\<close> returns \<open>Inr None\<close> for \<open>redis.Nil\<close>; \<open>r_keys\<close> takes the prefix of the
  pattern \<open>prefix*\<close>; a \<open>None\<close> error is success.\<close>

record 'r redis =
  r_set :: "time \<Rightarrow> string \<Rightarrow> bytes \<Rightarrow> duration \<Rightarrow> 'r \<Rightarrow> string option \<times> 'r"
  r_get :: "time \<Rightarrow> string \<Rightarrow> 'r \<Rightarrow> string + bytes option"
  r_del :: "time \<Rightarrow> string \<Rightarrow> 'r \<Rightarrow> string option \<times> 'r"
  r_keys :: "time \<Rightarrow> string \<Rightarrow> 'r \<Rightarrow> string + string list"
  r_zadd :: "time \<Rightarrow> string \<Rightarrow> int \<Rightarrow> string \<Rightarrow> 'r \<Rightarrow> string option \<times> 'r"
  r_zrem :: "time \<Rightarrow> string \<Rightarrow> string \<Rightarrow> 'r \<Rightarrow> string option \<times> 'r"
  r_publish :: "string \<Rightarrow> bytes \<Rightarrow> 'r \<Rightarrow> string option \<times> 'r"
  r_ping :: "'r \<Rightarrow> string option"

definition redis_laws :: "'r redis \<Rightarrow> bool" where
  "redis_laws R \<longleftrightarrow>
     (\<forall>now k v ttl s s' later. r_set R now k v ttl s = (None, s') \<and> now \<le> later \<longrightarrow>
        (later < now + ttl \<longrightarrow> r_get R later k s' = Inr (Some v)) \<and>
        (\<forall>k'. k' \<noteq> k \<longrightarrow> r_get R later k' s' = r_get R later k' s)) \<and>
     (\<forall>now k s s' later. r_del R now k s = (None, s') \<and> now \<le> later \<longrightarrow>
        r_get R later k s' = Inr None \<and>
        (\<forall>k'. k' \<noteq> k \<longrightarrow> r_get R later k' s' = r_get R later k' s)) \<and>
     (\<forall>now z sc m s e s' later k. r_zadd R now z sc m s = (e, s') \<longrightarrow> r_get R later k s' = r_get R later k s) \<and>
     (\<forall>now z m s e s' later k. r_zrem R now z m s = (e, s') \<longrightarrow> r_get R later k s' = r_get R later k s) \<and>
     (\<forall>ch v s e s' later k. r_publish R ch v s = (e, s') \<longrightarrow> r_get R later k s' = r_get R later k s) \<and>
     (\<forall>now p s ks. r_keys R now p s = Inr ks \<longrightarrow> distinct ks \<and>
        (\<forall>k. k \<in> set ks \<longleftrightarrow> has_prefix k p \<and> r_get R now k s \<noteq> Inr None))"

section \<open>Stored nodes\<close>

definition keyPrefixNode :: string where "keyPrefixNode = ''node:''"
definition keyActiveRelays :: string where "keyActiveRelays = ''active_relays''"
definition keyModerationEvents :: string where "keyModerationEvents = ''moderation_events''"

record nodeData =
  nd_NodeID :: string
  nd_PublicKey :: bytes
  nd_Type :: int
  nd_Status :: int
  nd_Endpoints :: "string list"
  nd_Version :: string
  nd_Capabilities :: "string list"
  nd_Region :: string
  nd_RegisteredAt :: int
  nd_LastSeen :: int

text \<open>A nil slice is written as \<open>null\<close>.\<close>

definition bytes_json :: "bytes \<Rightarrow> json" where
  "bytes_json b = (if b = [] then JNull else JStr (b64_encode b))"

definition strings_json :: "string list \<Rightarrow> json" where
  "strings_json ss = (if ss = [] then JNull else JArr (map JStr ss))"

definition node_members :: "nodeData \<Rightarrow> (string \<times> json) list" where
  "node_members d =
     [(''node_id'', JStr (nd_NodeID d)), (''public_key'', bytes_json (nd_PublicKey d)),
      (''type'', JInt (nd_Type d)), (''status'', JInt (nd_Status d)),
      (''endpoints'', strings_json (nd_Endpoints d)), (''version'', JStr (nd_Version d)),
      (''capabilities'', strings_json (nd_Capabilities d)), (''region'', JStr (nd_Region d)),
      (''registered_at'', JInt (nd_RegisteredAt d)), (''last_seen'', JInt (nd_LastSeen d))]"

definition node_of :: "(string \<times> json) list \<Rightarrow> nodeData option" where
  "node_of ms =
     (case (as_str (jfield ''node_id'' ms), as_bytes (jfield ''public_key'' ms),
            as_int64 (jfield ''type'' ms), as_int64 (jfield ''status'' ms),
            as_list as_str (jfield ''endpoints'' ms), as_str (jfield ''version'' ms),
            as_list as_str (jfield ''capabilities'' ms), as_str (jfield ''region'' ms),
            as_int64 (jfield ''registered_at'' ms), as_int64 (jfield ''last_seen'' ms)) of
        (Some i, Some pk, Some ty, Some st, Some eps, Some ver, Some caps, Some reg, Some ra, Some ls) \<Rightarrow>
          Some \<lparr>nd_NodeID = i, nd_PublicKey = pk, nd_Type = ty, nd_Status = st, nd_Endpoints = eps,
                nd_Version = ver, nd_Capabilities = caps, nd_Region = reg,
                nd_RegisteredAt = ra, nd_LastSeen = ls\<rparr>
      | _ \<Rightarrow> None)"

section \<open>NodeManager\<close>

record NodeManager =
  nm_heartbeatTTL :: duration

definition addToActiveRelays :: "'r redis \<Rightarrow> time \<Rightarrow> string \<Rightarrow> string \<Rightarrow> 'r \<Rightarrow> string option \<times> 'r" where
  "addToActiveRelays R now nodeID region s = r_zadd R now keyActiveRelays (unix now) nodeID s"

definition removeFromActiveRelays :: "'r redis \<Rightarrow> time \<Rightarrow> string \<Rightarrow> 'r \<Rightarrow> string option \<times> 'r" where
  "removeFromActiveRelays R now nodeID s = r_zrem R now keyActiveRelays nodeID s"

definition NodeManager_RegisterNode ::
    "'r redis \<Rightarrow> NodeManager \<Rightarrow> time \<Rightarrow> Node \<Rightarrow> 'r \<Rightarrow> string option \<times> 'r" where
  "NodeManager_RegisterNode R m now node s =
     (let data = \<lparr>nd_NodeID = id_NodeID (n_Identity node), nd_PublicKey = id_PublicKey (n_Identity node),
            nd_Type = n_Type node, nd_Status = n_Status node, nd_Endpoints = n_Endpoints node,
            nd_Version = n_Version node, nd_Capabilities = n_Capabilities node, nd_Region = n_Region node,
            nd_RegisteredAt = unix (n_RegisteredAt node), nd_LastSeen = unix now\<rparr>;
          jsonData = json_text (JObj (node_members data));
          key = keyPrefixNode @ id_NodeID (n_Identity node)
      in (case r_set R now key jsonData (nm_heartbeatTTL m) s of
            (Some err, s1) \<Rightarrow> (Some (''failed to set node in redis: '' @ err), s1)
          | (None, s1) \<Rightarrow>
              if n_Type node = NodeTypeRelay
              then addToActiveRelays R now (id_NodeID (n_Identity node)) (n_Region node) s1
              else (None, s1)))"

definition RefreshHeartbeat ::
    "'r redis \<Rightarrow> NodeManager \<Rightarrow> time \<Rightarrow> string \<Rightarrow> int \<Rightarrow> 'r \<Rightarrow> string option \<times> 'r" where
  "RefreshHeartbeat R m now nodeID status s =
     (let key = keyPrefixNode @ nodeID in
      (case r_get R now key s of
         Inl err \<Rightarrow> (Some (''failed to get node from redis: '' @ err), s)
       | Inr None \<Rightarrow> (Some (''node not found: '' @ nodeID), s)
       | Inr (Some data) \<Rightarrow>
           (case unmarshal_obj node_of data of
              None \<Rightarrow> (Some ''failed to unmarshal node data'', s)
            | Some nd \<Rightarrow>
                let nd' = nd\<lparr>nd_Status := status, nd_LastSeen := unix now\<rparr> in
                (case r_set R now key (json_text (JObj (node_members nd'))) (nm_heartbeatTTL m) s of
                   (Some err, s1) \<Rightarrow> (Some (''failed to refresh heartbeat in redis: '' @ err), s1)
                 | (None, s1) \<Rightarrow> (None, s1)))))"

definition node_of_data :: "nodeData \<Rightarrow> Node" where
  "node_of_data nd =
     \<lparr>n_Identity = \<lparr>id_NodeID = nd_NodeID nd, id_PublicKey = nd_PublicKey nd, id_Signature = []\<rparr>,
      n_Type = nd_Type nd, n_Status = nd_Status nd, n_Endpoints = nd_Endpoints nd,
      n_Version = nd_Version nd, n_Capabilities = nd_Capabilities nd, n_Region = nd_Region nd,
      n_RegisteredAt = of_unix (nd_RegisteredAt nd), n_LastSeen = of_unix (nd_LastSeen nd)\<rparr>"

definition NodeManager_GetNode :: "'r redis \<Rightarrow> time \<Rightarrow> string \<Rightarrow> 'r \<Rightarrow> string + Node option" where
  "NodeManager_GetNode R now nodeID s =
     (case r_get R now (keyPrefixNode @ nodeID) s of
        Inl err \<Rightarrow> Inl (''failed to get node from redis: '' @ err)
      | Inr None \<Rightarrow> Inr None
      | Inr (Some data) \<Rightarrow>
          (case unmarshal_obj node_of data of
             None \<Rightarrow> Inl ''failed to unmarshal node data''
           | Some nd \<Rightarrow> Inr (Some (node_of_data nd))))"

text \<open>The loop over the keys, with the two lists it fills, and \<open>shuffleRelays\<close>, whose
  random permutation is an argument.\<close>

fun relays_loop ::
    "'r redis \<Rightarrow> time \<Rightarrow> string \<Rightarrow> string list \<Rightarrow> string list \<Rightarrow> 'r \<Rightarrow> Node list \<Rightarrow> Node list \<Rightarrow> Node list \<times> Node list" where
  "relays_loop R now preferredRegion excludeIDs [] s preferred other = (preferred, other)"
| "relays_loop R now preferredRegion excludeIDs (key # keys) s preferred other =
     (let nodeID = drop (length keyPrefixNode) key in
      if nodeID \<in> set excludeIDs
      then relays_loop R now preferredRegion excludeIDs keys s preferred other
      else (case NodeManager_GetNode R now nodeID s of
          Inr (Some node) \<Rightarrow>
            if n_Type node \<noteq> NodeTypeRelay
            then relays_loop R now preferredRegion excludeIDs keys s preferred other
            else if preferredRegion \<noteq> [] \<and> n_Region node = preferredRegion
            then relays_loop R now preferredRegion excludeIDs keys s (preferred @ [node]) other
            else relays_loop R now preferredRegion excludeIDs keys s preferred (other @ [node])
        | _ \<Rightarrow> relays_loop R now preferredRegion excludeIDs keys s preferred other))"

definition shuffleRelays :: "(Node list \<Rightarrow> Node list) \<Rightarrow> Node list \<Rightarrow> Node list" where
  "shuffleRelays perm relays = perm relays"

definition NodeManager_GetActiveRelays ::
    "'r redis \<Rightarrow> (Node list \<Rightarrow> Node list) \<Rightarrow> time \<Rightarrow> string \<Rightarrow> int \<Rightarrow> string list \<Rightarrow> 'r \<Rightarrow> string + Node list" where
  "NodeManager_GetActiveRelays R perm now preferredRegion limit excludeIDs s =
     (case r_keys R now keyPrefixNode s of
        Inl err \<Rightarrow> Inl (''failed to get relay keys: '' @ err)
      | Inr relayKeys \<Rightarrow>
          (case relays_loop R now preferredRegion excludeIDs relayKeys s [] [] of
             (preferredRelays, otherRelays) \<Rightarrow>
               let relays = shuffleRelays perm preferredRelays @ shuffleRelays perm otherRelays
               in Inr (if limit > 0 \<and> int (length relays) > limit then take (nat limit) relays
                       else relays)))"

definition NodeManager_RemoveNode :: "'r redis \<Rightarrow> time \<Rightarrow> string \<Rightarrow> 'r \<Rightarrow> string option \<times> 'r" where
  "NodeManager_RemoveNode R now nodeID s =
     (let s1 = (case NodeManager_GetNode R now nodeID s of
                  Inr (Some node) \<Rightarrow>
                    if n_Type node = NodeTypeRelay then snd (removeFromActiveRelays R now nodeID s) else s
                | _ \<Rightarrow> s)
      in r_del R now (keyPrefixNode @ nodeID) s1)"

fun count_loop :: "'r redis \<Rightarrow> time \<Rightarrow> string list \<Rightarrow> 'r \<Rightarrow> (int \<times> nat) list \<Rightarrow> (int \<times> nat) list" where
  "count_loop R now [] s counts = counts"
| "count_loop R now (key # keys) s counts =
     (case NodeManager_GetNode R now (drop (length keyPrefixNode) key) s of
        Inr (Some node) \<Rightarrow>
          count_loop R now keys s (AList.update (n_Type node)
            (Suc (case map_of counts (n_Type node) of None \<Rightarrow> 0 | Some c \<Rightarrow> c)) counts)
      | _ \<Rightarrow> count_loop R now keys s counts)"

definition GetNodeCount :: "'r redis \<Rightarrow> time \<Rightarrow> 'r \<Rightarrow> string + (int \<times> nat) list" where
  "GetNodeCount R now s =
     (case r_keys R now keyPrefixNode s of
        Inl err \<Rightarrow> Inl err
      | Inr keys \<Rightarrow> Inr (count_loop R now keys s []))"

section \<open>Moderation events\<close>

text \<open>The JSON of an event: exported field names, instants as RFC 3339 text (\<open>T\<close> formats
  and reads them).\<close>

record clock_text =
  time_text :: "time \<Rightarrow> string"
  time_of_text :: "string \<Rightarrow> time option"

definition clock_text_ok :: "clock_text \<Rightarrow> bool" where
  "clock_text_ok T \<longleftrightarrow> (\<forall>t. time_of_text T (time_text T t) = Some t)"

definition payload_json :: "clock_text \<Rightarrow> EventPayload \<Rightarrow> json" where
  "payload_json T p = (case p of
      NodeBanPayload b \<Rightarrow> JObj [(''BannedNodeID'', JStr (ban_BannedNodeID b)), (''Reason'', JStr (ban_Reason b)),
        (''DurationSeconds'', JInt (ban_DurationSeconds b)), (''EvidenceHash'', JStr (ban_EvidenceHash b)),
        (''BannedAt'', JStr (time_text T (ban_BannedAt b))),
        (''ExpiresAt'', (case ban_ExpiresAt b of None \<Rightarrow> JNull | Some t \<Rightarrow> JStr (time_text T t))),
        (''ModeratorID'', JStr (ban_ModeratorID b))]
    | ContentBanPayload b \<Rightarrow> JObj [(''ContentHash'', JStr (cb_ContentHash b)), (''Reason'', JStr (cb_Reason b)),
        (''Category'', JStr (cb_Category b)), (''BannedAt'', JStr (time_text T (cb_BannedAt b))),
        (''ModeratorID'', JStr (cb_ModeratorID b))]
    | AlertPayload a \<Rightarrow> JObj [(''AlertID'', JStr (al_AlertID a)), (''Title'', JStr (al_Title a)),
        (''Message'', JStr (al_Message a)), (''Severity'', JStr (al_Severity a)),
        (''InfoURL'', JStr (al_InfoURL a)), (''CreatedAt'', JStr (time_text T (al_CreatedAt a)))]
    | Decoded \<Rightarrow> JObj [])"

definition sign_json :: "clock_text \<Rightarrow> ModeratorSignature option \<Rightarrow> json" where
  "sign_json T sg = (case sg of
      None \<Rightarrow> JNull
    | Some g \<Rightarrow> JObj [(''ModeratorID'', JStr (ms_ModeratorID g)), (''PublicKey'', bytes_json (ms_PublicKey g)),
        (''Signature'', bytes_json (ms_Signature g)), (''SignedAt'', JStr (time_text T (ms_SignedAt g)))])"

definition event_members :: "clock_text \<Rightarrow> ModerationEvent \<Rightarrow> (string \<times> json) list" where
  "event_members T e = [(''EventID'', JStr (ev_EventID e)), (''Type'', JInt (ev_Type e)),
     (''Timestamp'', JStr (time_text T (ev_Timestamp e))), (''Payload'', payload_json T (ev_Payload e)),
     (''Signature'', sign_json T (ev_Signature e))]"

definition as_time :: "clock_text \<Rightarrow> json \<Rightarrow> time option" where
  "as_time T j = (case j of JStr s \<Rightarrow> time_of_text T s | JNull \<Rightarrow> Some 0 | _ \<Rightarrow> None)"

fun as_sign :: "clock_text \<Rightarrow> json \<Rightarrow> ModeratorSignature option option" where
  "as_sign T JNull = Some None"
| "as_sign T (JObj ms) =
     (case (as_str (jfield ''ModeratorID'' ms), as_bytes (jfield ''PublicKey'' ms),
            as_bytes (jfield ''Signature'' ms), as_time T (jfield ''SignedAt'' ms)) of
        (Some i, Some pk, Some sg, Some t) \<Rightarrow>
          Some (Some \<lparr>ms_ModeratorID = i, ms_PublicKey = pk, ms_Signature = sg, ms_SignedAt = t\<rparr>)
      | _ \<Rightarrow> None)"
| "as_sign T _ = None"

text \<open>Decoding into \<open>interface{}\<close> yields a generic value: the payload's Go type is lost.\<close>

definition event_of :: "clock_text \<Rightarrow> (string \<times> json) list \<Rightarrow> ModerationEvent option" where
  "event_of T ms =
     (case (as_str (jfield ''EventID'' ms), as_int64 (jfield ''Type'' ms),
            as_time T (jfield ''Timestamp'' ms), as_sign T (jfield ''Signature'' ms)) of
        (Some i, Some ty, Some t, Some sg) \<Rightarrow>
          Some \<lparr>ev_EventID = i, ev_Type = ty, ev_Timestamp = t, ev_Payload = Decoded, ev_Signature = sg\<rparr>
      | _ \<Rightarrow> None)"

definition PublishModerationEvent ::
    "'r redis \<Rightarrow> clock_text \<Rightarrow> ModerationEvent \<Rightarrow> 'r \<Rightarrow> string option \<times> 'r" where
  "PublishModerationEvent R T event s =
     r_publish R keyModerationEvents (json_text (JObj (event_members T event))) s"

text \<open>The subscriber's goroutine on one message of the bus: undecodable messages are
  skipped, and an event is dropped when the channel (capacity 100) is full.\<close>

definition subscriber_step ::
    "clock_text \<Rightarrow> bytes \<Rightarrow> ModerationEvent list \<Rightarrow> ModerationEvent list" where
  "subscriber_step T payload eventChan =
     (case unmarshal_obj (event_of T) payload of
        None \<Rightarrow> eventChan
      | Some event \<Rightarrow> if length eventChan < 100 then eventChan @ [event] else eventChan)"

definition NodeManager_Ping :: "'r redis \<Rightarrow> 'r \<Rightarrow> string option" where
  "NodeManager_Ping R s = r_ping R s"

section \<open>Codec lemmas\<close>

lemma as_bytes_json [simp]: "as_bytes (bytes_json b) = Some b"
  by (simp add: bytes_json_def)

lemma as_strings_json [simp]: "as_list as_str (strings_json ss) = Some ss"
  by (cases ss) (simp_all add: strings_json_def comp_def)

lemma as_int64_JInt [simp]: "in_int64 i \<Longrightarrow> as_int64 (JInt i) = Some i"
  by (simp add: as_int64_def)

definition node_data_ok :: "nodeData \<Rightarrow> bool" where
  "node_data_ok d \<longleftrightarrow> in_int64 (nd_Type d) \<and> in_int64 (nd_Status d) \<and>
     in_int64 (nd_RegisteredAt d) \<and> in_int64 (nd_LastSeen d)"

lemma node_of_members: "node_data_ok d \<Longrightarrow> node_of (node_members d) = Some d"
  by (simp add: node_of_def node_members_def jfield_Cons_hit jfield_Cons_other lower_def node_data_ok_def)

lemma as_time_text [simp]: "clock_text_ok T \<Longrightarrow> as_time T (JStr (time_text T t)) = Some t"
  by (simp add: as_time_def clock_text_ok_def)

lemma as_sign_json [simp]: "clock_text_ok T \<Longrightarrow> as_sign T (sign_json T sg) = Some sg"
  by (cases sg) (simp_all add: sign_json_def jfield_Cons_hit jfield_Cons_other lower_def)

text \<open>An event comes back from the bus with everything but the type of its payload.\<close>

lemma event_of_members:
  assumes "clock_text_ok T" "in_int64 (ev_Type e)"
  shows "event_of T (event_members T e) = Some (e\<lparr>ev_Payload := Decoded\<rparr>)"
  using assms
  by (simp add: event_of_def event_members_def jfield_Cons_hit jfield_Cons_other lower_def)

section \<open>Behaviour over a lawful server\<close>

lemma get_set:
  "redis_laws R \<Longrightarrow> r_set R now k v ttl s = (None, s') \<Longrightarrow> now \<le> later \<Longrightarrow> later < now + ttl \<Longrightarrow>
     r_get R later k s' = Inr (Some v)"
  unfolding redis_laws_def by meson

lemma get_set_other:
  "redis_laws R \<Longrightarrow> r_set R now k v ttl s = (None, s') \<Longrightarrow> now \<le> later \<Longrightarrow> k' \<noteq> k \<Longrightarrow>
     r_get R later k' s' = r_get R later k' s"
  unfolding redis_laws_def by meson

lemma get_del:
  "redis_laws R \<Longrightarrow> r_del R now k s = (None, s') \<Longrightarrow> now \<le> later \<Longrightarrow> r_get R later k s' = Inr None"
  unfolding redis_laws_def by meson

lemma get_del_other:
  "redis_laws R \<Longrightarrow> r_del R now k s = (None, s') \<Longrightarrow> now \<le> later \<Longrightarrow> k' \<noteq> k \<Longrightarrow>
     r_get R later k' s' = r_get R later k' s"
  unfolding redis_laws_def by meson

lemma get_zadd:
  "redis_laws R \<Longrightarrow> r_zadd R now z sc m s = (e, s') \<Longrightarrow> r_get R later k s' = r_get R later k s"
  unfolding redis_laws_def by meson

lemma get_zrem:
  "redis_laws R \<Longrightarrow> r_zrem R now z m s = (e, s') \<Longrightarrow> r_get R later k s' = r_get R later k s"
  unfolding redis_laws_def by meson

lemma get_publish:
  "redis_laws R \<Longrightarrow> r_publish R ch v s = (e, s') \<Longrightarrow> r_get R later k s' = r_get R later k s"
  unfolding redis_laws_def by meson

lemma keys_get:
  "redis_laws R \<Longrightarrow> r_keys R now p s = Inr ks \<Longrightarrow> distinct ks \<and>
     (\<forall>k. k \<in> set ks \<longleftrightarrow> has_prefix k p \<and> r_get R now k s \<noteq> Inr None)"
  unfolding redis_laws_def by meson

text \<open>What is stored of a node: no signature, instants in whole seconds.\<close>

definition stored_node :: "time \<Rightarrow> Node \<Rightarrow> Node" where
  "stored_node now node = node\<lparr>n_Identity := (n_Identity node)\<lparr>id_Signature := []\<rparr>,
     n_RegisteredAt := of_unix (unix (n_RegisteredAt node)), n_LastSeen := of_unix (unix now)\<rparr>"

definition node_ints_ok :: "time \<Rightarrow> Node \<Rightarrow> bool" where
  "node_ints_ok now node \<longleftrightarrow> in_int64 (n_Type node) \<and> in_int64 (n_Status node) \<and>
     in_int64 (unix (n_RegisteredAt node)) \<and> in_int64 (unix now)"

lemma RegisterNode_then_GetNode:
  assumes L: "redis_laws R" and r: "NodeManager_RegisterNode R m now node s = (None, s')"
    and t: "now \<le> later" "later < now + nm_heartbeatTTL m" and ok: "node_ints_ok now node"
  shows "NodeManager_GetNode R later (id_NodeID (n_Identity node)) s' = Inr (Some (stored_node now node))"
proof -
  let ?d = "\<lparr>nd_NodeID = id_NodeID (n_Identity node), nd_PublicKey = id_PublicKey (n_Identity node),
            nd_Type = n_Type node, nd_Status = n_Status node, nd_Endpoints = n_Endpoints node,
            nd_Version = n_Version node, nd_Capabilities = n_Capabilities node, nd_Region = n_Region node,
            nd_RegisteredAt = unix (n_RegisteredAt node), nd_LastSeen = unix now\<rparr>"
  let ?k = "keyPrefixNode @ id_NodeID (n_Identity node)"
  obtain s1 where s1: "r_set R now ?k (json_text (JObj (node_members ?d))) (nm_heartbeatTTL m) s = (None, s1)"
      "r_get R later ?k s' = r_get R later ?k s1"
    using r get_zadd [OF L]
    by (auto simp: NodeManager_RegisterNode_def addToActiveRelays_def Let_def
        split: prod.splits option.splits if_splits simp del: json_text.simps)
  have "node_of (node_members ?d) = Some ?d"
    using ok by (intro node_of_members) (simp add: node_data_ok_def node_ints_ok_def)
  then show ?thesis
    using s1(2) get_set [OF L s1(1) t]
    by (simp add: NodeManager_GetNode_def node_of_data_def stored_node_def del: json_text.simps)
qed

lemma RegisterNode_other:
  assumes L: "redis_laws R" and r: "NodeManager_RegisterNode R m now node s = (None, s')"
    and t: "now \<le> later" and n: "n \<noteq> id_NodeID (n_Identity node)"
  shows "NodeManager_GetNode R later n s' = NodeManager_GetNode R later n s"
proof -
  have "r_get R later (keyPrefixNode @ n) s' = r_get R later (keyPrefixNode @ n) s"
    using r n get_set_other [OF L _ t] get_zadd [OF L]
    by (fastforce simp: NodeManager_RegisterNode_def addToActiveRelays_def Let_def
        split: prod.splits option.splits if_splits simp del: json_text.simps)
  then show ?thesis by (simp add: NodeManager_GetNode_def)
qed

lemma RefreshHeartbeat_then_GetNode:
  assumes L: "redis_laws R" and r: "RefreshHeartbeat R m now n status s = (None, s')"
    and g: "NodeManager_GetNode R now n s = Inr (Some node)"
    and t: "now \<le> later" "later < now + nm_heartbeatTTL m" and ok: "in_int64 status" "in_int64 (unix now)"
  shows "NodeManager_GetNode R later n s' =
    Inr (Some (node\<lparr>n_Status := status, n_LastSeen := of_unix (unix now)\<rparr>))"
proof -
  let ?k = "keyPrefixNode @ n"
  obtain data nd where d: "r_get R now ?k s = Inr (Some data)" "unmarshal_obj node_of data = Some nd"
      "node = node_of_data nd"
    using g by (auto simp: NodeManager_GetNode_def split: sum.splits option.splits)
  let ?nd = "nd\<lparr>nd_Status := status, nd_LastSeen := unix now\<rparr>"
  have set: "r_set R now ?k (json_text (JObj (node_members ?nd))) (nm_heartbeatTTL m) s = (None, s')"
    using r d by (auto simp: RefreshHeartbeat_def Let_def split: prod.splits option.splits simp del: json_text.simps)
  have "in_int64 (nd_Type nd)" "in_int64 (nd_RegisteredAt nd)"
    using d(2) by (auto simp: unmarshal_obj_def node_of_def as_int64_def
        split: option.splits json.splits if_splits)
  then have "node_of (node_members ?nd) = Some ?nd"
    using ok by (intro node_of_members) (simp add: node_data_ok_def)
  then show ?thesis
    using get_set [OF L set t] d(3)
    by (simp add: NodeManager_GetNode_def node_of_data_def del: json_text.simps)
qed

lemma RemoveNode_then_GetNode:
  assumes L: "redis_laws R" and r: "NodeManager_RemoveNode R now n s = (None, s')" and t: "now \<le> later"
  shows "NodeManager_GetNode R later n s' = Inr None"
  using get_del [OF L _ t] r
  by (auto simp: NodeManager_RemoveNode_def NodeManager_GetNode_def Let_def)

section \<open>The suggested relays\<close>

text \<open>The relays that the keys lead to, in the order of the keys.\<close>

definition relay_at :: "'r redis \<Rightarrow> time \<Rightarrow> string list \<Rightarrow> 'r \<Rightarrow> string \<Rightarrow> Node option" where
  "relay_at R now excludeIDs s key =
     (let nodeID = drop (length keyPrefixNode) key in
      if nodeID \<in> set excludeIDs then None
      else (case NodeManager_GetNode R now nodeID s of
          Inr (Some node) \<Rightarrow> if n_Type node = NodeTypeRelay then Some node else None
        | _ \<Rightarrow> None))"

lemma relays_loop_eq:
  "relays_loop R now region ex keys s pre oth =
     (pre @ filter (\<lambda>n. region \<noteq> [] \<and> n_Region n = region) (List.map_filter (relay_at R now ex s) keys),
      oth @ filter (\<lambda>n. \<not> (region \<noteq> [] \<and> n_Region n = region)) (List.map_filter (relay_at R now ex s) keys))"
proof (induction keys arbitrary: pre oth)
  case Nil
  then show ?case by (simp add: List.map_filter_simps)
next
  case (Cons key keys)
  then show ?case
    by (auto simp: List.map_filter_simps relay_at_def Let_def split: sum.splits option.splits)
qed

text \<open>With \<open>perm\<close> a permutation, the answer is made of the active relays, those of the
  preferred region first, cut at the limit.\<close>

definition is_perm :: "(Node list \<Rightarrow> Node list) \<Rightarrow> bool" where
  "is_perm perm \<longleftrightarrow> (\<forall>xs. set (perm xs) = set xs \<and> length (perm xs) = length xs)"

lemma GetActiveRelays_spec:
  assumes P: "is_perm perm" and k: "r_keys R now keyPrefixNode s = Inr keys"
    and r: "NodeManager_GetActiveRelays R perm now region limit ex s = Inr relays"
  defines "found \<equiv> List.map_filter (relay_at R now ex s) keys"
  shows "set relays \<subseteq> set found"
    and "limit > 0 \<Longrightarrow> length relays = min (nat limit) (length found)"
    and "limit \<le> 0 \<or> int (length found) \<le> limit \<Longrightarrow> set relays = set found"
    and "\<exists>a b. relays = a @ b \<and> (\<forall>n \<in> set a. region \<noteq> [] \<and> n_Region n = region) \<and>
           (\<forall>n \<in> set b. \<not> (region \<noteq> [] \<and> n_Region n = region))"
proof -
  let ?p = "\<lambda>n. region \<noteq> [] \<and> n_Region n = region"
  let ?a = "perm (filter ?p found)" and ?b = "perm (filter (\<lambda>n. \<not> ?p n) found)"
  have ab: "set ?a = set (filter ?p found)" "set ?b = set (filter (\<lambda>n. \<not> ?p n) found)"
    "length ?a + length ?b = length found"
    using P sum_length_filter_compl [of ?p found] by (simp_all add: is_perm_def)
  have rel: "relays = (if limit > 0 \<and> int (length (?a @ ?b)) > limit then take (nat limit) (?a @ ?b) else ?a @ ?b)"
    using r unfolding NodeManager_GetActiveRelays_def k relays_loop_eq shuffleRelays_def found_def
    by (simp only: sum.case prod.case append_Nil Let_def sum.inject)
  have sub: "set (?a @ ?b) = set found" using ab(1,2) by auto
  have "set relays \<subseteq> set (?a @ ?b)" unfolding rel by (auto dest: in_set_takeD)
  then show "set relays \<subseteq> set found" using sub by simp
  show "length relays = min (nat limit) (length found)" if "limit > 0"
    unfolding rel using ab(3) that by (auto simp: min_def)
  show "set relays = set found" if "limit \<le> 0 \<or> int (length found) \<le> limit"
  proof -
    have "\<not> (limit > 0 \<and> int (length (?a @ ?b)) > limit)" using that ab(3) by auto
    then show ?thesis unfolding rel using sub by (simp only: if_False)
  qed
  show "\<exists>a b. relays = a @ b \<and> (\<forall>n \<in> set a. ?p n) \<and> (\<forall>n \<in> set b. \<not> ?p n)"
  proof (cases "limit > 0 \<and> int (length (?a @ ?b)) > limit")
    case True
    then have "relays = take (nat limit) ?a @ take (nat limit - length ?a) ?b" unfolding rel by simp
    moreover have "\<forall>n \<in> set (take (nat limit) ?a). ?p n" "\<forall>n \<in> set (take (nat limit - length ?a) ?b). \<not> ?p n"
      using ab(1,2) by (auto dest!: in_set_takeD)
    ultimately show ?thesis by blast
  next
    case False
    then have "relays = ?a @ ?b" unfolding rel by (simp only: if_False)
    moreover have "\<forall>n \<in> set ?a. ?p n" "\<forall>n \<in> set ?b. \<not> ?p n" using ab(1,2) by auto
    ultimately show ?thesis by blast
  qed
qed

section \<open>A server in memory\<close>

type_synonym mem = "(string \<times> bytes \<times> time) list"

definition mem_get :: "time \<Rightarrow> string \<Rightarrow> mem \<Rightarrow> bytes option" where
  "mem_get now k s = (case map_of s k of None \<Rightarrow> None | Some (v, e) \<Rightarrow> if now < e then Some v else None)"

definition mem_redis :: "mem redis" where
  "mem_redis = \<lparr>r_set = (\<lambda>now k v ttl s. (None, AList.update k (v, now + ttl) s)),
     r_get = (\<lambda>now k s. Inr (mem_get now k s)),
     r_del = (\<lambda>now k s. (None, AList.delete k s)),
     r_keys = (\<lambda>now p s. Inr (filter (\<lambda>k. has_prefix k p \<and> mem_get now k s \<noteq> None) (remdups (map fst s)))),
     r_zadd = (\<lambda>now z sc m s. (None, s)), r_zrem = (\<lambda>now z m s. (None, s)),
     r_publish = (\<lambda>ch v s. (None, s)), r_ping = (\<lambda>s. None)\<rparr>"

lemma mem_redis_laws: "redis_laws mem_redis"
proof -
  have "k \<in> fst ` set s" if "mem_get now k s \<noteq> None" for now k s
    using that by (auto simp: mem_get_def split: option.splits dest: map_of_SomeD intro: rev_image_eqI)
  then show ?thesis
    by (auto simp: redis_laws_def mem_redis_def mem_get_def update_conv' split: option.splits)
qed

end
