(* ===== verification/Node_Service.thy ===== *)
theory Node_Service
  imports Crypto Pg_Repo Redis_Nodes
begin

text \<open>
  \<^verbatim>\<open>internal/service/node_service.go\<close>: registration of nodes, heartbeats, lookup. The
  service works on the Redis store of the online nodes and on the PostgreSQL database; a
  lookup tries the first and falls back to the second.

  The record \<open>world\<close> holds what is outside the program (the cryptographic primitives, the
  Redis server, the faults of the database driver, the textual form of instants); \<open>core\<close>
  is the state the services share. A service call reads the clock once here (\<open>now\<close>); in
  the code the readings of one call differ by microseconds.
\<close>

record 'r world =
  w_crypto :: crypto
  w_redis :: "'r redis"
  w_faults :: faults
  w_text :: clock_text

record 'r core =
  c_redis :: 'r
  c_db :: db
  c_broadcasts :: "(string \<times> bytes) list"

record NodeService =
  ns_redisManager :: NodeManager
  ns_heartbeatTTL :: duration
  ns_maxRelays :: int
  ns_ClusterBroadcast :: bool

definition NewNodeService :: "NodeManager \<Rightarrow> duration \<Rightarrow> int \<Rightarrow> NodeService" where
  "NewNodeService redisManager heartbeatTTL maxRelays =
     \<lparr>ns_redisManager = redisManager, ns_heartbeatTTL = heartbeatTTL, ns_maxRelays = maxRelays,
      ns_ClusterBroadcast = False\<rparr>"

datatype service_error = ErrInvalidIdentity | ErrNodeBanned string | ErrNodeNotFound | ErrOther string

section \<open>Operations\<close>

definition NodeService_RegisterNode ::
    "'r world \<Rightarrow> NodeService \<Rightarrow> (Node list \<Rightarrow> Node list) \<Rightarrow> time \<Rightarrow> NodeRegistration \<Rightarrow> 'r core
     \<Rightarrow> (service_error + Node \<times> Node list) \<times> 'r core" where
  "NodeService_RegisterNode W svc perm now reg st =
     (let nodeID = id_NodeID (reg_Identity reg) in
      if VerifyNodeIdentity (w_crypto W) nodeID (id_PublicKey (reg_Identity reg))
           (id_Signature (reg_Identity reg)) \<noteq> None
      then (Inl ErrInvalidIdentity, st)
      else (case pg_IsNodeBanned (w_faults W) now nodeID (c_db st) of
          (Inl err, d) \<Rightarrow> (Inl (ErrOther err), st\<lparr>c_db := d\<rparr>)
        | (Inr (banned, reason), d) \<Rightarrow>
            if banned then (Inl (ErrNodeBanned reason), st\<lparr>c_db := d\<rparr>)
            else let node = \<lparr>n_Identity = reg_Identity reg, n_Type = reg_Type reg,
                       n_Status = NodeStatusOnline, n_Endpoints = reg_Endpoints reg,
                       n_Version = reg_Version reg, n_Capabilities = reg_Capabilities reg,
                       n_Region = reg_Region reg, n_RegisteredAt = now, n_LastSeen = now\<rparr>
              in (case NodeManager_RegisterNode (w_redis W) (ns_redisManager svc) now node (c_redis st) of
                    (Some err, r) \<Rightarrow> (Inl (ErrOther err), st\<lparr>c_db := d, c_redis := r\<rparr>)
                  | (None, r) \<Rightarrow>
                      let d' = snd (UpsertNode (w_faults W) now node d);
                          suggested = (case NodeManager_GetActiveRelays (w_redis W) perm now
                              (reg_Region reg) (ns_maxRelays svc) [] r of Inl _ \<Rightarrow> [] | Inr rs \<Rightarrow> rs)
                      in (Inr (node, suggested),
                          st\<lparr>c_db := d', c_redis := r,
                             c_broadcasts := (if ns_ClusterBroadcast svc
                               then c_broadcasts st @ [(nodeID, id_PublicKey (reg_Identity reg))]
                               else c_broadcasts st)\<rparr>))))"

text \<open>\<open>int(ttl.Seconds() / 2)\<close>. The signature of a heartbeat is not looked at.\<close>

definition half_seconds :: "duration \<Rightarrow> int" where
  "half_seconds d = sgn d * (\<bar>d\<bar> div (2 * second))"

definition Heartbeat ::
    "'r world \<Rightarrow> NodeService \<Rightarrow> time \<Rightarrow> string \<Rightarrow> bytes \<Rightarrow> int \<Rightarrow> 'r core
     \<Rightarrow> (service_error + int) \<times> 'r core" where
  "Heartbeat W svc now nodeID signature status st =
     (case NodeManager_GetNode (w_redis W) now nodeID (c_redis st) of
        Inl err \<Rightarrow> (Inl (ErrOther err), st)
      | Inr None \<Rightarrow> (Inl ErrNodeNotFound, st)
      | Inr (Some node) \<Rightarrow>
          (case pg_IsNodeBanned (w_faults W) now nodeID (c_db st) of
             (Inl err, d) \<Rightarrow> (Inl (ErrOther err), st\<lparr>c_db := d\<rparr>)
           | (Inr (banned, reason), d) \<Rightarrow>
               if banned then (Inl (ErrNodeBanned reason), st\<lparr>c_db := d\<rparr>)
               else (case RefreshHeartbeat (w_redis W) (ns_redisManager svc) now nodeID status (c_redis st) of
                   (Some err, r) \<Rightarrow> (Inl (ErrOther err), st\<lparr>c_db := d, c_redis := r\<rparr>)
                 | (None, r) \<Rightarrow> (Inr (half_seconds (ns_heartbeatTTL svc)), st\<lparr>c_db := d, c_redis := r\<rparr>))))"

definition NodeService_GetActiveRelays ::
    "'r world \<Rightarrow> NodeService \<Rightarrow> (Node list \<Rightarrow> Node list) \<Rightarrow> time \<Rightarrow> string \<Rightarrow> int \<Rightarrow> string list \<Rightarrow> 'r core
     \<Rightarrow> string + Node list" where
  "NodeService_GetActiveRelays W svc perm now preferredRegion limit excludeIDs st =
     NodeManager_GetActiveRelays (w_redis W) perm now preferredRegion
       (if limit \<le> 0 \<or> limit > ns_maxRelays svc then ns_maxRelays svc else limit) excludeIDs (c_redis st)"

definition NodeService_GetNode :: "'r world \<Rightarrow> time \<Rightarrow> string \<Rightarrow> 'r core \<Rightarrow> string + Node option" where
  "NodeService_GetNode W now nodeID st =
     (case NodeManager_GetNode (w_redis W) now nodeID (c_redis st) of
        Inl err \<Rightarrow> Inl err
      | Inr (Some node) \<Rightarrow> Inr (Some node)
      | Inr None \<Rightarrow> pg_GetNode (w_faults W) nodeID (c_db st))"

definition NodeService_RemoveNode :: "'r world \<Rightarrow> time \<Rightarrow> string \<Rightarrow> 'r core \<Rightarrow> string option \<times> 'r core" where
  "NodeService_RemoveNode W now nodeID st =
     (case NodeManager_RemoveNode (w_redis W) now nodeID (c_redis st) of (e, r) \<Rightarrow> (e, st\<lparr>c_redis := r\<rparr>))"

definition GetNodeStats :: "'r world \<Rightarrow> time \<Rightarrow> 'r core \<Rightarrow> string + (int \<times> nat) list" where
  "GetNodeStats W now st = GetNodeCount (w_redis W) now (c_redis st)"

definition LogGovernanceAction ::
    "'r world \<Rightarrow> time \<Rightarrow> string \<Rightarrow> string \<Rightarrow> string \<Rightarrow> string \<Rightarrow> bytes \<Rightarrow> 'r core \<Rightarrow> string option \<times> 'r core" where
  "LogGovernanceAction W now requesterID action targetID channelID signature st =
     (case pg_LogGovernanceAction (w_faults W) now requesterID action targetID channelID signature (c_db st) of
        (e, d) \<Rightarrow> (e, st\<lparr>c_db := d\<rparr>))"

section \<open>Lemmas\<close>

text \<open>A registration that succeeds was signed by the key its id is derived from, by a node
  that was not banned.\<close>

lemma RegisterNode_Inr:
  assumes "NodeService_RegisterNode W svc perm now reg st = (Inr (node, rs), st')"
  shows "VerifyNodeIdentity (w_crypto W) (id_NodeID (reg_Identity reg)) (id_PublicKey (reg_Identity reg))
           (id_Signature (reg_Identity reg)) = None"
    and "\<not> node_banned (c_db st) now (id_NodeID (reg_Identity reg))"
    and "n_Identity node = reg_Identity reg \<and> n_Type node = reg_Type reg \<and> n_Status node = NodeStatusOnline \<and>
         n_Endpoints node = reg_Endpoints reg \<and> n_Version node = reg_Version reg \<and>
         n_Capabilities node = reg_Capabilities reg \<and> n_Region node = reg_Region reg \<and>
         n_RegisteredAt node = now"
    and "NodeManager_RegisterNode (w_redis W) (ns_redisManager svc) now node (c_redis st) = (None, c_redis st')"
    and "c_db st' = snd (UpsertNode (w_faults W) now node (snd (pg_IsNodeBanned (w_faults W) now
           (id_NodeID (reg_Identity reg)) (c_db st))))"
proof -
  have nf: "w_faults W ''IsNodeBanned'' = None"
    using assms by (auto simp: NodeService_RegisterNode_def pg_IsNodeBanned_def Let_def
        split: if_splits option.splits)
  obtain reason where b: "fst (pg_IsNodeBanned (w_faults W) now (id_NodeID (reg_Identity reg)) (c_db st)) =
      Inr (node_banned (c_db st) now (id_NodeID (reg_Identity reg)), reason)"
    using pg_IsNodeBanned_result [of "w_faults W", OF nf] by blast
  show "VerifyNodeIdentity (w_crypto W) (id_NodeID (reg_Identity reg)) (id_PublicKey (reg_Identity reg))
           (id_Signature (reg_Identity reg)) = None"
    and "\<not> node_banned (c_db st) now (id_NodeID (reg_Identity reg))"
    and "n_Identity node = reg_Identity reg \<and> n_Type node = reg_Type reg \<and> n_Status node = NodeStatusOnline \<and>
         n_Endpoints node = reg_Endpoints reg \<and> n_Version node = reg_Version reg \<and>
         n_Capabilities node = reg_Capabilities reg \<and> n_Region node = reg_Region reg \<and>
         n_RegisteredAt node = now"
    and "NodeManager_RegisterNode (w_redis W) (ns_redisManager svc) now node (c_redis st) = (None, c_redis st')"
    and "c_db st' = snd (UpsertNode (w_faults W) now node (snd (pg_IsNodeBanned (w_faults W) now
           (id_NodeID (reg_Identity reg)) (c_db st))))"
    using assms b
    by (auto simp: NodeService_RegisterNode_def Let_def split: if_splits prod.splits sum.splits option.splits)
qed

text \<open>The database stays well formed.\<close>

lemma NodeService_db_ok:
  assumes "db_ok (c_db st)"
  shows "db_ok (c_db (snd (NodeService_RegisterNode W svc perm now reg st)))"
    and "db_ok (c_db (snd (Heartbeat W svc now n sig status st)))"
  using assms node_ops_ok(3) [OF assms, of "w_faults W" now] node_ops_ok(1)
  by (auto simp: NodeService_RegisterNode_def Heartbeat_def Let_def
      split: prod.splits sum.splits option.splits) (metis snd_conv)+

text \<open>Registrations and heartbeats do not change who is banned from then on.\<close>

lemma NodeService_keeps_bans:
  assumes "now \<le> later"
  shows "node_banned (c_db (snd (NodeService_RegisterNode W svc perm now reg st))) later m =
      node_banned (c_db st) later m"
    and "node_banned (c_db (snd (Heartbeat W svc now n sig status st))) later m = node_banned (c_db st) later m"
  using pg_IsNodeBanned_keeps [OF assms, of "w_faults W"] UpsertNode_keeps_bans
  by (auto simp: NodeService_RegisterNode_def Heartbeat_def Let_def
      split: prod.splits sum.splits option.splits) (metis snd_conv)+

end
