(* ===== verification/Channels.thy ===== *)
theory Channels
  imports Machine Node_Service "HOL-Library.Word"
begin

text \<open>
  \<^verbatim>\<open>internal/server/channel_manual.go\<close>: channels and their governance. Promoting, demoting
  and kicking are signed by the requester over \<open>target|role|scope|channel|timestamp\<close>, and
  the timestamp has to lie within 60 seconds of the server's clock; the arithmetic on it is
  that of \<open>int64\<close>, so instants are 64-bit words here.

  A handler that panics does so before it changes anything; the server's recovery turns
  the panic into an error of the call. So a handler returns \<open>go\<close> of its response and the
  new state, and a panic leaves the state as it was. \<open>err.Error()\<close> texts are strings.
\<close>

section \<open>State\<close>

definition Role_MEMBER :: string where "Role_MEMBER = ''MEMBER''"
definition Role_MODERATOR :: string where "Role_MODERATOR = ''MODERATOR''"
definition Role_ADMIN :: string where "Role_ADMIN = ''ADMIN''"
definition Scope_CHANNEL :: string where "Scope_CHANNEL = ''CHANNEL''"
definition Scope_GLOBAL :: string where "Scope_GLOBAL = ''GLOBAL''"

record ChannelData =
  ch_ID :: string
  ch_Name :: string
  ch_OwnerID :: string
  ch_Members :: "string \<rightharpoonup> bool"
  ch_Roles :: "string \<rightharpoonup> string"
  ch_Avatar :: string
  ch_CreatedAt :: time

record 'r ChannelServer =
  cs_channels :: "string \<rightharpoonup> ChannelData"
  cs_core :: "'r core"

text \<open>Reading a missing key of a Go map gives the zero value.\<close>

definition role_of :: "ChannelData \<Rightarrow> string \<Rightarrow> string" where
  "role_of ch n = (case ch_Roles ch n of None \<Rightarrow> [] | Some r \<Rightarrow> r)"

definition channel_bootstrap :: "time \<Rightarrow> 'r ChannelServer \<Rightarrow> 'r ChannelServer" where
  "channel_bootstrap now s = s\<lparr>cs_channels := (cs_channels s)(''#Inicio'' \<mapsto>
     \<lparr>ch_ID = ''#Inicio'', ch_Name = ''Inicio'', ch_OwnerID = ''SYSTEM'', ch_Members = Map.empty,
      ch_Roles = Map.empty, ch_Avatar = [], ch_CreatedAt = now\<rparr>)\<rparr>"

definition NewChannelServer :: "time \<Rightarrow> 'r core \<Rightarrow> 'r ChannelServer" where
  "NewChannelServer now c = channel_bootstrap now \<lparr>cs_channels = Map.empty, cs_core = c\<rparr>"

section \<open>Requests\<close>

record CreateChannelRequest =
  ccr_Name :: string
  ccr_OwnerNodeId :: string
  ccr_Avatar :: string

record CreateChannelResponse =
  ccs_Success :: bool
  ccs_Message :: string
  ccs_ChannelId :: string

record GetChannelInfoResponse =
  gci_ChannelId :: string
  gci_Name :: string
  gci_OwnerId :: string
  gci_Avatar :: string

record PromoteRequest =
  pr_TargetNodeId :: string
  pr_Role :: string
  pr_Scope :: string
  pr_ChannelId :: string
  pr_RequesterId :: string
  pr_Timestamp :: "64 word"
  pr_Signature :: bytes

text \<open>\<open>DemoteRequest\<close> and \<open>KickRequest\<close> have the same fields.\<close>

record DemoteRequest =
  dr_TargetNodeId :: string
  dr_Scope :: string
  dr_ChannelId :: string
  dr_RequesterId :: string
  dr_Timestamp :: "64 word"
  dr_Signature :: bytes

record UpdateChannelAvatarRequest =
  ua_ChannelId :: string
  ua_Avatar :: string
  ua_RequesterId :: string
  ua_Timestamp :: "64 word"
  ua_Signature :: bytes

text \<open>\<open>PromoteResponse\<close>, \<open>DemoteResponse\<close>, \<open>KickResponse\<close> and
  \<open>UpdateChannelAvatarResponse\<close>.\<close>

record GovResponse =
  gr_Success :: bool
  gr_Message :: string

definition refuse :: "string \<Rightarrow> 's \<Rightarrow> (GovResponse \<times> 's) go" where
  "refuse msg s = Val (\<lparr>gr_Success = False, gr_Message = msg\<rparr>, s)"

definition accept :: "string \<Rightarrow> 's \<Rightarrow> (GovResponse \<times> 's) go" where
  "accept msg s = Val (\<lparr>gr_Success = True, gr_Message = msg\<rparr>, s)"

section \<open>The signature of a governance request\<close>

definition gov_payload :: "string \<Rightarrow> string \<Rightarrow> string \<Rightarrow> string \<Rightarrow> 64 word \<Rightarrow> bytes" where
  "gov_payload targetID role scope channelID ts =
     targetID @ ''|'' @ role @ ''|'' @ scope @ ''|'' @ channelID @ ''|'' @ dec_int (sint ts)"

definition fresh_timestamp :: "64 word \<Rightarrow> 64 word \<Rightarrow> bool" where
  "fresh_timestamp now ts =
     (let diff = now - ts;
          diff' = (if sint diff < 0 then - diff else diff)
      in \<not> sint diff' > 60 * second)"

definition verifyGovernanceSignature ::
    "'r world \<Rightarrow> time \<Rightarrow> string \<Rightarrow> bytes \<Rightarrow> string \<Rightarrow> string \<Rightarrow> string \<Rightarrow> string \<Rightarrow> 64 word \<Rightarrow> 'r core
     \<Rightarrow> string option go" where
  "verifyGovernanceSignature W now requesterID sig targetID role scope channelID ts c =
     (case NodeService_GetNode W now requesterID c of
        Inl err \<Rightarrow> Val (Some (''requester not found: '' @ err))
      | Inr None \<Rightarrow> Panic ''nil pointer dereference''
      | Inr (Some node) \<Rightarrow>
          go_bind (ed25519_Verify (w_crypto W) (id_PublicKey (n_Identity node))
              (gov_payload targetID role scope channelID ts) sig) (\<lambda>ok.
            if \<not> ok then Val (Some ''invalid signature'')
            else if \<not> fresh_timestamp (word_of_int now) ts then Val (Some ''signature expired'')
            else Val None))"

section \<open>Operations\<close>

definition CreateChannel ::
    "time \<Rightarrow> CreateChannelRequest \<Rightarrow> 'r ChannelServer \<Rightarrow> CreateChannelResponse \<times> 'r ChannelServer" where
  "CreateChannel now req s =
     (if ccr_Name req = [] \<or> ccr_OwnerNodeId req = [] then
        (\<lparr>ccs_Success = False, ccs_Message = ''Name and OwnerID required'', ccs_ChannelId = []\<rparr>, s)
      else let slug = CHR ''#'' # ccr_Name req in
        if cs_channels s slug \<noteq> None then
          (\<lparr>ccs_Success = False, ccs_Message = ''Channel already exists'', ccs_ChannelId = []\<rparr>, s)
        else let ch = \<lparr>ch_ID = slug, ch_Name = ccr_Name req, ch_OwnerID = ccr_OwnerNodeId req,
                   ch_Members = Map.empty, ch_Roles = Map.empty, ch_Avatar = ccr_Avatar req,
                   ch_CreatedAt = now\<rparr>;
                 ch1 = ch\<lparr>ch_Members := (ch_Members ch)(ccr_OwnerNodeId req \<mapsto> True),
                          ch_Roles := (ch_Roles ch)(ccr_OwnerNodeId req \<mapsto> Role_ADMIN)\<rparr>
          in (\<lparr>ccs_Success = True, ccs_Message = ''Channel created'', ccs_ChannelId = slug\<rparr>,
              s\<lparr>cs_channels := (cs_channels s)(slug \<mapsto> ch1)\<rparr>))"

definition GetChannelInfo :: "string \<Rightarrow> 'r ChannelServer \<Rightarrow> string + GetChannelInfoResponse" where
  "GetChannelInfo channelId s =
     (case cs_channels s channelId of
        None \<Rightarrow> Inl ''channel not found''
      | Some ch \<Rightarrow> Inr \<lparr>gci_ChannelId = ch_ID ch, gci_Name = ch_Name ch, gci_OwnerId = ch_OwnerID ch,
                      gci_Avatar = ch_Avatar ch\<rparr>)"

text \<open>The audit entry that ends each operation; its error is ignored.\<close>

definition audit ::
    "'r world \<Rightarrow> time \<Rightarrow> string \<Rightarrow> string \<Rightarrow> string \<Rightarrow> string \<Rightarrow> bytes \<Rightarrow> 'r ChannelServer \<Rightarrow> 'r ChannelServer" where
  "audit W now requester action target channel sig s =
     s\<lparr>cs_core := snd (LogGovernanceAction W now requester action target channel sig (cs_core s))\<rparr>"

definition PromoteUser ::
    "'r world \<Rightarrow> time \<Rightarrow> PromoteRequest \<Rightarrow> 'r ChannelServer \<Rightarrow> (GovResponse \<times> 'r ChannelServer) go" where
  "PromoteUser W now req s =
     go_bind (verifyGovernanceSignature W now (pr_RequesterId req) (pr_Signature req) (pr_TargetNodeId req)
         (pr_Role req) (pr_Scope req) (pr_ChannelId req) (pr_Timestamp req) (cs_core s)) (\<lambda>err.
       (case err of
          Some e \<Rightarrow> refuse (''Signature verification failed: '' @ e) s
        | None \<Rightarrow>
            if pr_Scope req \<noteq> Scope_CHANNEL then refuse ''Only CHANNEL scope supported in MVP'' s
            else (case cs_channels s (pr_ChannelId req) of
                None \<Rightarrow> refuse ''Channel not found'' s
              | Some ch \<Rightarrow>
                  if role_of ch (pr_RequesterId req) \<noteq> Role_ADMIN
                  then refuse ''Permission denied. Only ADMIN/OWNER can promote.'' s
                  else let ch1 = ch\<lparr>ch_Roles := (ch_Roles ch)(pr_TargetNodeId req \<mapsto> pr_Role req)\<rparr>;
                           s1 = s\<lparr>cs_channels := (cs_channels s)(pr_ChannelId req \<mapsto> ch1)\<rparr>
                    in accept ''User promoted'' (audit W now (pr_RequesterId req) ''PROMOTE''
                         (pr_TargetNodeId req) (pr_ChannelId req) (pr_Signature req) s1))))"

definition DemoteUser ::
    "'r world \<Rightarrow> time \<Rightarrow> DemoteRequest \<Rightarrow> 'r ChannelServer \<Rightarrow> (GovResponse \<times> 'r ChannelServer) go" where
  "DemoteUser W now req s =
     go_bind (verifyGovernanceSignature W now (dr_RequesterId req) (dr_Signature req) (dr_TargetNodeId req)
         [] (dr_Scope req) (dr_ChannelId req) (dr_Timestamp req) (cs_core s)) (\<lambda>err.
       (case err of
          Some e \<Rightarrow> refuse (''Signature verification failed: '' @ e) s
        | None \<Rightarrow>
            if dr_Scope req \<noteq> Scope_CHANNEL then refuse ''Only CHANNEL scope supported'' s
            else (case cs_channels s (dr_ChannelId req) of
                None \<Rightarrow> refuse ''Channel not found'' s
              | Some ch \<Rightarrow>
                  if role_of ch (dr_RequesterId req) \<noteq> Role_ADMIN then refuse ''Permission denied'' s
                  else let ch1 = ch\<lparr>ch_Roles := (ch_Roles ch)(dr_TargetNodeId req := None)\<rparr>;
                           s1 = s\<lparr>cs_channels := (cs_channels s)(dr_ChannelId req \<mapsto> ch1)\<rparr>
                    in accept ''User demoted'' (audit W now (dr_RequesterId req) ''DEMOTE''
                         (dr_TargetNodeId req) (dr_ChannelId req) (dr_Signature req) s1))))"

definition KickUser ::
    "'r world \<Rightarrow> time \<Rightarrow> DemoteRequest \<Rightarrow> 'r ChannelServer \<Rightarrow> (GovResponse \<times> 'r ChannelServer) go" where
  "KickUser W now req s =
     go_bind (verifyGovernanceSignature W now (dr_RequesterId req) (dr_Signature req) (dr_TargetNodeId req)
         [] (dr_Scope req) (dr_ChannelId req) (dr_Timestamp req) (cs_core s)) (\<lambda>err.
       (case err of
          Some e \<Rightarrow> refuse (''Signature verification failed: '' @ e) s
        | None \<Rightarrow>
            if dr_Scope req \<noteq> Scope_CHANNEL then refuse ''Only CHANNEL scope supported'' s
            else (case cs_channels s (dr_ChannelId req) of
                None \<Rightarrow> refuse ''Channel not found'' s
              | Some ch \<Rightarrow>
                  let role = role_of ch (dr_RequesterId req) in
                  if role \<noteq> Role_ADMIN \<and> role \<noteq> Role_MODERATOR then refuse ''Permission denied'' s
                  else let ch1 = ch\<lparr>ch_Members := (ch_Members ch)(dr_TargetNodeId req := None),
                             ch_Roles := (ch_Roles ch)(dr_TargetNodeId req := None)\<rparr>;
                           s1 = s\<lparr>cs_channels := (cs_channels s)(dr_ChannelId req \<mapsto> ch1)\<rparr>
                    in accept ''User kicked'' (audit W now (dr_RequesterId req) ''KICK''
                         (dr_TargetNodeId req) (dr_ChannelId req) (dr_Signature req) s1))))"

definition UpdateChannelAvatar ::
    "'r world \<Rightarrow> time \<Rightarrow> UpdateChannelAvatarRequest \<Rightarrow> 'r ChannelServer \<Rightarrow> (GovResponse \<times> 'r ChannelServer) go" where
  "UpdateChannelAvatar W now req s =
     (let payload = ua_ChannelId req @ ''|'' @ ua_Avatar req @ ''|'' @ dec_int (sint (ua_Timestamp req)) in
      (case NodeService_GetNode W now (ua_RequesterId req) (cs_core s) of
         Inl err \<Rightarrow> refuse ''Requester not found'' s
       | Inr None \<Rightarrow> Panic ''nil pointer dereference''
       | Inr (Some node) \<Rightarrow>
           go_bind (ed25519_Verify (w_crypto W) (id_PublicKey (n_Identity node)) payload (ua_Signature req)) (\<lambda>ok.
             if \<not> ok then refuse ''Invalid signature'' s
             else (case cs_channels s (ua_ChannelId req) of
                 None \<Rightarrow> refuse ''Channel not found'' s
               | Some ch \<Rightarrow>
                   if role_of ch (ua_RequesterId req) \<noteq> Role_ADMIN \<and> ch_OwnerID ch \<noteq> ua_RequesterId req
                   then refuse ''Permission denied'' s
                   else accept ''Avatar updated''
                     (s\<lparr>cs_channels := (cs_channels s)(ua_ChannelId req \<mapsto> ch\<lparr>ch_Avatar := ua_Avatar req\<rparr>)\<rparr>)))))"

section \<open>The channel server as a state machine\<close>

datatype channel_call = Create CreateChannelRequest | Promote PromoteRequest | Demote DemoteRequest
  | Kick DemoteRequest | Avatar UpdateChannelAvatarRequest

text \<open>Whether a call succeeded, and the state after it; a panic is recovered.\<close>

definition channel_do :: "'r world \<Rightarrow> time \<Rightarrow> channel_call \<Rightarrow> 'r ChannelServer \<Rightarrow> bool \<times> 'r ChannelServer" where
  "channel_do W now call s =
     (case call of
        Create req \<Rightarrow> (case CreateChannel now req s of (resp, s') \<Rightarrow> (ccs_Success resp, s'))
      | Promote req \<Rightarrow> (case PromoteUser W now req s of Val (resp, s') \<Rightarrow> (gr_Success resp, s') | Panic _ \<Rightarrow> (False, s))
      | Demote req \<Rightarrow> (case DemoteUser W now req s of Val (resp, s') \<Rightarrow> (gr_Success resp, s') | Panic _ \<Rightarrow> (False, s))
      | Kick req \<Rightarrow> (case KickUser W now req s of Val (resp, s') \<Rightarrow> (gr_Success resp, s') | Panic _ \<Rightarrow> (False, s))
      | Avatar req \<Rightarrow>
          (case UpdateChannelAvatar W now req s of Val (resp, s') \<Rightarrow> (gr_Success resp, s') | Panic _ \<Rightarrow> (False, s)))"

inductive channel_step :: "'r world \<Rightarrow> 'r ChannelServer \<Rightarrow> 'r ChannelServer \<Rightarrow> bool" for W where
  "snd (channel_do W now call s) = s' \<Longrightarrow> channel_step W s s'"

section \<open>Lemmas\<close>

definition gov_signed ::
    "'r world \<Rightarrow> time \<Rightarrow> string \<Rightarrow> bytes \<Rightarrow> bytes \<Rightarrow> 'r core \<Rightarrow> bool" where
  "gov_signed W now requester payload sig c \<longleftrightarrow>
     (\<exists>node. NodeService_GetNode W now requester c = Inr (Some node) \<and>
        length (id_PublicKey (n_Identity node)) = 32 \<and> length sig = 64 \<and>
        ed_verify (w_crypto W) (id_PublicKey (n_Identity node)) payload sig)"

lemma verifyGovernanceSignature_None:
  "verifyGovernanceSignature W now r sig t ro sc ch ts c = Val None \<longleftrightarrow>
     gov_signed W now r (gov_payload t ro sc ch ts) sig c \<and> fresh_timestamp (word_of_int now) ts"
  by (auto simp: verifyGovernanceSignature_def gov_signed_def ed25519_Verify_def go_Val
      split: sum.splits option.splits if_splits)

text \<open>The window of 60 seconds, in the arithmetic of \<open>int64\<close>: besides the differences of at
  most 60 seconds it lets the one difference through whose negation overflows.\<close>

lemma sint_bounds: "- (2 ^ 63) \<le> sint (d :: 64 word)" "sint d < 2 ^ 63"
  using sint_range_size [of d] by (simp_all add: word_size)

lemma sint_neg: "sint (- (d :: 64 word)) = (if sint d = - (2 ^ 63) then - (2 ^ 63) else - sint d)"
proof -
  have e: "sint (- d) = signed_take_bit 63 (- sint d)" using sint_word_ariths(4) [of d] by simp
  show ?thesis
  proof (cases "sint d = - (2 ^ 63)")
    case True
    then show ?thesis unfolding e by (simp add: signed_take_bit_eq_take_bit_shift take_bit_eq_mod)
  next
    case False
    then show ?thesis unfolding e using sint_bounds [of d] by (simp add: signed_take_bit_int_eq_self_iff)
  qed
qed

lemma sint_sub:
  assumes "- (2 ^ 63) \<le> sint a - sint b" "sint a - sint b < 2 ^ 63"
  shows "sint (a - b :: 64 word) = sint a - sint b"
proof -
  have "sint (a - b) = signed_take_bit 63 (sint a - sint b)" using sint_word_ariths(2) [of a b] by simp
  then show ?thesis using assms by (simp add: signed_take_bit_int_eq_self_iff)
qed

lemma fresh_timestamp_iff:
  "fresh_timestamp now ts \<longleftrightarrow> \<bar>sint (now - ts)\<bar> \<le> 60 * second \<or> sint (now - ts) = - (2 ^ 63)"
proof -
  define d where "d = now - ts"
  then show ?thesis
    unfolding fresh_timestamp_def Let_def d_def [symmetric] using sint_bounds [of d]
    by (auto simp: sint_neg)
qed

text \<open>The payload determines the request when no field contains the separator.\<close>

lemma gov_payload_inject:
  assumes "CHR ''|'' \<notin> set t" "CHR ''|'' \<notin> set t'" "CHR ''|'' \<notin> set r" "CHR ''|'' \<notin> set r'"
    "CHR ''|'' \<notin> set sc" "CHR ''|'' \<notin> set sc'" "CHR ''|'' \<notin> set c" "CHR ''|'' \<notin> set c'"
  shows "gov_payload t r sc c ts = gov_payload t' r' sc' c' ts' \<longleftrightarrow>
    t = t' \<and> r = r' \<and> sc = sc' \<and> c = c' \<and> ts = ts'"
  using assms by (auto simp: gov_payload_def sep_append_eq intro: signed_word_eqI)

lemma audit_channels [simp]: "cs_channels (audit W now r a t c sig s) = cs_channels s"
  by (simp add: audit_def)

lemma refuse_Val [simp]: "refuse msg s = Val (resp, s') \<longleftrightarrow> resp = \<lparr>gr_Success = False, gr_Message = msg\<rparr> \<and> s' = s"
  by (auto simp: refuse_def)

lemma accept_Val [simp]: "accept msg s = Val (resp, s') \<longleftrightarrow> resp = \<lparr>gr_Success = True, gr_Message = msg\<rparr> \<and> s' = s"
  by (auto simp: accept_def)

lemmas gov_defs = PromoteUser_def DemoteUser_def KickUser_def UpdateChannelAvatar_def CreateChannel_def

lemma PromoteUser_effect:
  assumes "PromoteUser W now req s = Val (resp, s')"
  shows "\<not> gr_Success resp \<and> s' = s \<or>
    gr_Success resp \<and>
    verifyGovernanceSignature W now (pr_RequesterId req) (pr_Signature req) (pr_TargetNodeId req)
      (pr_Role req) (pr_Scope req) (pr_ChannelId req) (pr_Timestamp req) (cs_core s) = Val None \<and>
    (\<exists>ch. cs_channels s (pr_ChannelId req) = Some ch \<and> role_of ch (pr_RequesterId req) = Role_ADMIN \<and>
       cs_channels s' = (cs_channels s)(pr_ChannelId req \<mapsto>
         ch\<lparr>ch_Roles := (ch_Roles ch)(pr_TargetNodeId req \<mapsto> pr_Role req)\<rparr>))"
proof -
  obtain err where v: "verifyGovernanceSignature W now (pr_RequesterId req) (pr_Signature req) (pr_TargetNodeId req)
      (pr_Role req) (pr_Scope req) (pr_ChannelId req) (pr_Timestamp req) (cs_core s) = Val err"
    using assms by (auto simp: PromoteUser_def go_bind_Val)
  show ?thesis
  proof (cases err)
    case None
    then show ?thesis using assms unfolding PromoteUser_def v by (simp add: Let_def split: option.splits if_splits)
  next
    case (Some e)
    then show ?thesis using assms unfolding PromoteUser_def v by simp
  qed
qed

lemma DemoteUser_effect:
  assumes "DemoteUser W now req s = Val (resp, s')"
  shows "\<not> gr_Success resp \<and> s' = s \<or>
    gr_Success resp \<and>
    verifyGovernanceSignature W now (dr_RequesterId req) (dr_Signature req) (dr_TargetNodeId req)
      [] (dr_Scope req) (dr_ChannelId req) (dr_Timestamp req) (cs_core s) = Val None \<and>
    (\<exists>ch. cs_channels s (dr_ChannelId req) = Some ch \<and> role_of ch (dr_RequesterId req) = Role_ADMIN \<and>
       cs_channels s' = (cs_channels s)(dr_ChannelId req \<mapsto>
         ch\<lparr>ch_Roles := (ch_Roles ch)(dr_TargetNodeId req := None)\<rparr>))"
proof -
  obtain err where v: "verifyGovernanceSignature W now (dr_RequesterId req) (dr_Signature req) (dr_TargetNodeId req)
      [] (dr_Scope req) (dr_ChannelId req) (dr_Timestamp req) (cs_core s) = Val err"
    using assms by (auto simp: DemoteUser_def go_bind_Val)
  show ?thesis
  proof (cases err)
    case None
    then show ?thesis using assms unfolding DemoteUser_def v by (simp add: Let_def split: option.splits if_splits)
  next
    case (Some e)
    then show ?thesis using assms unfolding DemoteUser_def v by simp
  qed
qed

lemma KickUser_effect:
  assumes "KickUser W now req s = Val (resp, s')"
  shows "\<not> gr_Success resp \<and> s' = s \<or>
    gr_Success resp \<and>
    verifyGovernanceSignature W now (dr_RequesterId req) (dr_Signature req) (dr_TargetNodeId req)
      [] (dr_Scope req) (dr_ChannelId req) (dr_Timestamp req) (cs_core s) = Val None \<and>
    (\<exists>ch. cs_channels s (dr_ChannelId req) = Some ch \<and>
       role_of ch (dr_RequesterId req) \<in> {Role_ADMIN, Role_MODERATOR} \<and>
       cs_channels s' = (cs_channels s)(dr_ChannelId req \<mapsto>
         ch\<lparr>ch_Members := (ch_Members ch)(dr_TargetNodeId req := None),
            ch_Roles := (ch_Roles ch)(dr_TargetNodeId req := None)\<rparr>))"
proof -
  obtain err where v: "verifyGovernanceSignature W now (dr_RequesterId req) (dr_Signature req) (dr_TargetNodeId req)
      [] (dr_Scope req) (dr_ChannelId req) (dr_Timestamp req) (cs_core s) = Val err"
    using assms by (auto simp: KickUser_def go_bind_Val)
  show ?thesis
  proof (cases err)
    case None
    then show ?thesis using assms unfolding KickUser_def v by (simp add: Let_def split: option.splits if_splits)
  next
    case (Some e)
    then show ?thesis using assms unfolding KickUser_def v by simp
  qed
qed

lemma UpdateChannelAvatar_effect:
  assumes "UpdateChannelAvatar W now req s = Val (resp, s')"
  shows "\<not> gr_Success resp \<and> s' = s \<or>
    gr_Success resp \<and>
    gov_signed W now (ua_RequesterId req)
      (ua_ChannelId req @ ''|'' @ ua_Avatar req @ ''|'' @ dec_int (sint (ua_Timestamp req)))
      (ua_Signature req) (cs_core s) \<and>
    (\<exists>ch. cs_channels s (ua_ChannelId req) = Some ch \<and>
       (role_of ch (ua_RequesterId req) = Role_ADMIN \<or> ch_OwnerID ch = ua_RequesterId req) \<and>
       cs_channels s' = (cs_channels s)(ua_ChannelId req \<mapsto> ch\<lparr>ch_Avatar := ua_Avatar req\<rparr>))"
  using assms
  by (auto simp: UpdateChannelAvatar_def go_Val gov_signed_def ed25519_Verify_def
      split: sum.splits option.splits if_splits)

lemma CreateChannel_effect:
  assumes "CreateChannel now req s = (resp, s')"
  shows "\<not> ccs_Success resp \<and> s' = s \<or>
    ccs_Success resp \<and> ccs_ChannelId resp = CHR ''#'' # ccr_Name req \<and>
    cs_channels s (CHR ''#'' # ccr_Name req) = None \<and> ccr_Name req \<noteq> [] \<and> ccr_OwnerNodeId req \<noteq> [] \<and>
    cs_channels s' = (cs_channels s)(CHR ''#'' # ccr_Name req \<mapsto>
      \<lparr>ch_ID = CHR ''#'' # ccr_Name req, ch_Name = ccr_Name req, ch_OwnerID = ccr_OwnerNodeId req,
       ch_Members = [ccr_OwnerNodeId req \<mapsto> True], ch_Roles = [ccr_OwnerNodeId req \<mapsto> Role_ADMIN],
       ch_Avatar = ccr_Avatar req, ch_CreatedAt = now\<rparr>)"
  using assms by (auto simp: CreateChannel_def Let_def split: if_splits)

section \<open>Invariant\<close>

text \<open>Every channel is filed under its own id, which is its name after a hash; the lobby
  exists and has no roles.\<close>

definition channels_ok :: "'r ChannelServer \<Rightarrow> bool" where
  "channels_ok s \<longleftrightarrow>
     (\<forall>c ch. cs_channels s c = Some ch \<longrightarrow> ch_ID ch = c \<and> c = CHR ''#'' # ch_Name ch) \<and>
     (\<exists>ch. cs_channels s ''#Inicio'' = Some ch \<and> ch_Roles ch = Map.empty \<and> ch_OwnerID ch = ''SYSTEM'')"

lemma role_of_empty: "ch_Roles ch = Map.empty \<Longrightarrow> role_of ch n = []"
  by (simp add: role_of_def)

lemma Roles_nonempty: "Role_ADMIN \<noteq> []" "Role_MODERATOR \<noteq> []"
  by (simp_all add: Role_ADMIN_def Role_MODERATOR_def)

lemma channels_ok_upd:
  assumes "channels_ok s" "cs_channels s c = Some ch" "ch_ID ch' = ch_ID ch" "ch_Name ch' = ch_Name ch"
    "ch_OwnerID ch' = ch_OwnerID ch" "ch_Roles ch = Map.empty \<longrightarrow> ch_Roles ch' = Map.empty"
    "cs_channels s' = (cs_channels s)(c \<mapsto> ch')"
  shows "channels_ok s'"
  using assms unfolding channels_ok_def by (auto split: if_splits)

lemma channel_do_ok:
  assumes ok: "channels_ok s"
  shows "channels_ok (snd (channel_do W now call s))"
proof (cases call)
  case (Create req)
  obtain resp s' where r: "CreateChannel now req s = (resp, s')" by fastforce
  have "channels_ok s'"
    using CreateChannel_effect [OF r] ok unfolding channels_ok_def by (auto split: if_splits)
  then show ?thesis using Create r by (simp add: channel_do_def)
next
  case (Promote req)
  have "channels_ok s'" if "PromoteUser W now req s = Val (resp, s')" for resp s'
    using PromoteUser_effect [OF that]
  proof (elim disjE conjE exE)
    fix ch assume ch: "cs_channels s (pr_ChannelId req) = Some ch" "role_of ch (pr_RequesterId req) = Role_ADMIN"
      and s': "cs_channels s' = (cs_channels s)(pr_ChannelId req \<mapsto>
         ch\<lparr>ch_Roles := (ch_Roles ch)(pr_TargetNodeId req \<mapsto> pr_Role req)\<rparr>)"
    have "ch_Roles ch \<noteq> Map.empty" using role_of_empty [of ch "pr_RequesterId req"] ch(2) Roles_nonempty by auto
    then show ?thesis by (intro channels_ok_upd [OF ok ch(1) _ _ _ _ s']) simp_all
  qed (simp add: ok)
  then show ?thesis using Promote ok by (auto simp: channel_do_def split: go.split)
next
  case (Demote req)
  have "channels_ok s'" if "DemoteUser W now req s = Val (resp, s')" for resp s'
    using DemoteUser_effect [OF that]
  proof (elim disjE conjE exE)
    fix ch assume ch: "cs_channels s (dr_ChannelId req) = Some ch"
      and s': "cs_channels s' = (cs_channels s)(dr_ChannelId req \<mapsto>
         ch\<lparr>ch_Roles := (ch_Roles ch)(dr_TargetNodeId req := None)\<rparr>)"
    show ?thesis by (rule channels_ok_upd [OF ok ch _ _ _ _ s']) auto
  qed (simp add: ok)
  then show ?thesis using Demote ok by (auto simp: channel_do_def split: go.split)
next
  case (Kick req)
  have "channels_ok s'" if "KickUser W now req s = Val (resp, s')" for resp s'
    using KickUser_effect [OF that]
  proof (elim disjE conjE exE)
    fix ch assume ch: "cs_channels s (dr_ChannelId req) = Some ch"
      and s': "cs_channels s' = (cs_channels s)(dr_ChannelId req \<mapsto>
         ch\<lparr>ch_Members := (ch_Members ch)(dr_TargetNodeId req := None),
            ch_Roles := (ch_Roles ch)(dr_TargetNodeId req := None)\<rparr>)"
    show ?thesis by (rule channels_ok_upd [OF ok ch _ _ _ _ s']) auto
  qed (simp add: ok)
  then show ?thesis using Kick ok by (auto simp: channel_do_def split: go.split)
next
  case (Avatar req)
  have "channels_ok s'" if "UpdateChannelAvatar W now req s = Val (resp, s')" for resp s'
    using UpdateChannelAvatar_effect [OF that]
  proof (elim disjE conjE exE)
    fix ch assume ch: "cs_channels s (ua_ChannelId req) = Some ch"
      and s': "cs_channels s' = (cs_channels s)(ua_ChannelId req \<mapsto> ch\<lparr>ch_Avatar := ua_Avatar req\<rparr>)"
    show ?thesis by (rule channels_ok_upd [OF ok ch _ _ _ _ s']) auto
    show ?thesis by (rule channels_ok_upd [OF ok ch _ _ _ _ s']) auto
  qed (simp add: ok)
  then show ?thesis using Avatar ok by (auto simp: channel_do_def split: go.split)
qed

interpretation channels: machine "\<lambda>s. \<exists>now c. s = NewChannelServer now c" "channel_step W" channels_ok
  for W :: "'r world"
proof
  show "channels_ok s" if "\<exists>now c. s = NewChannelServer now c" for s :: "'r ChannelServer"
    using that by (auto simp: channels_ok_def NewChannelServer_def channel_bootstrap_def split: if_splits)
  show "channels_ok t" if "channels_ok s" "channel_step W s t" for s t :: "'r ChannelServer"
    using that(2) channel_do_ok [OF that(1)] by cases blast
qed

end
