(* ===== verification/Moderation.thy ===== *)
theory Moderation
  imports Node_Service
begin

text \<open>
  \<^verbatim>\<open>internal/service/moderation_service.go\<close>: bans of nodes and of content and global
  alerts, each signed by the master key of a moderator, and the stream of moderation
  events. A call may panic only inside the comparison of master keys; the lemmas show that
  it does not when the verifier was built by \<open>NewVerifier\<close>.
\<close>

datatype mod_error = ErrUnauthorizedModerator | ErrInvalidModerationSign | ErrStorage string

text \<open>What the moderator signs: the action without its signature, as JSON.\<close>

definition serializeActionForSigning :: "ModerationAction \<Rightarrow> bytes" where
  "serializeActionForSigning action = json_text (JObj
     [(''action_id'', JStr (act_ActionID action)), (''type'', JInt (act_Type action)),
      (''target_id'', JStr (act_TargetID action)), (''reason'', JStr (act_Reason action)),
      (''duration'', JInt (trunc_seconds (act_Duration action))),
      (''created_at'', JInt (unix (act_CreatedAt action)))])"

text \<open>The checks that open the three operations.\<close>

definition check_moderator :: "'r world \<Rightarrow> Verifier \<Rightarrow> ModerationAction \<Rightarrow> mod_error option go" where
  "check_moderator W v action =
     (if \<not> IsMasterKey (w_crypto W) v (mod_PublicKey (act_Moderator action))
      then Val (Some ErrUnauthorizedModerator)
      else go_bind (VerifyMasterSignature (w_crypto W) v (mod_PublicKey (act_Moderator action))
             (serializeActionForSigning action) (act_Signature action)) (\<lambda>e.
           Val (if e \<noteq> None then Some ErrInvalidModerationSign else None)))"

definition signed_by :: "ModerationAction \<Rightarrow> ModeratorSignature" where
  "signed_by action = \<lparr>ms_ModeratorID = mod_ModeratorID (act_Moderator action),
     ms_PublicKey = mod_PublicKey (act_Moderator action), ms_Signature = act_Signature action,
     ms_SignedAt = act_CreatedAt action\<rparr>"

definition publish :: "'r world \<Rightarrow> ModerationEvent \<Rightarrow> 'r core \<Rightarrow> mod_error option \<times> 'r core" where
  "publish W event st =
     (case PublishModerationEvent (w_redis W) (w_text W) event (c_redis st) of
        (e, r) \<Rightarrow> (map_option ErrStorage e, st\<lparr>c_redis := r\<rparr>))"

definition ban_of :: "time \<Rightarrow> ModerationAction \<Rightarrow> NodeBan" where
  "ban_of now action = \<lparr>ban_BannedNodeID = act_TargetID action, ban_Reason = act_Reason action,
     ban_DurationSeconds = trunc_seconds (act_Duration action), ban_EvidenceHash = [],
     ban_BannedAt = now,
     ban_ExpiresAt = (if act_Duration action > 0 then Some (now + act_Duration action) else None),
     ban_ModeratorID = mod_ModeratorID (act_Moderator action)\<rparr>"

definition ModerationService_BanNode ::
    "'r world \<Rightarrow> Verifier \<Rightarrow> string \<Rightarrow> time \<Rightarrow> ModerationAction \<Rightarrow> 'r core \<Rightarrow> (mod_error option \<times> 'r core) go" where
  "ModerationService_BanNode W v eventID now action st =
     go_bind (check_moderator W v action) (\<lambda>denied.
       (case denied of
          Some e \<Rightarrow> Val (Some e, st)
        | None \<Rightarrow>
            let ban = ban_of now action in
            (case pg_BanNode (w_faults W) ban (c_db st) of
               (Some err, d) \<Rightarrow> Val (Some (ErrStorage err), st\<lparr>c_db := d\<rparr>)
             | (None, d) \<Rightarrow>
                 let d1 = snd (SaveModerationAction (w_faults W) action d);
                     r1 = snd (NodeManager_RemoveNode (w_redis W) now (act_TargetID action) (c_redis st));
                     event = \<lparr>ev_EventID = eventID, ev_Type = EventTypeNodeBanned, ev_Timestamp = now,
                       ev_Payload = NodeBanPayload ban, ev_Signature = Some (signed_by action)\<rparr>
                 in Val (publish W event (st\<lparr>c_db := d1, c_redis := r1\<rparr>)))))"

definition ModerationService_BanContent ::
    "'r world \<Rightarrow> Verifier \<Rightarrow> string \<Rightarrow> time \<Rightarrow> ModerationAction \<Rightarrow> string \<Rightarrow> 'r core
     \<Rightarrow> (mod_error option \<times> 'r core) go" where
  "ModerationService_BanContent W v eventID now action category st =
     go_bind (check_moderator W v action) (\<lambda>denied.
       (case denied of
          Some e \<Rightarrow> Val (Some e, st)
        | None \<Rightarrow>
            let ban = \<lparr>cb_ContentHash = act_TargetID action, cb_Reason = act_Reason action,
                  cb_Category = category, cb_BannedAt = now,
                  cb_ModeratorID = mod_ModeratorID (act_Moderator action)\<rparr> in
            (case SaveContentBan (w_faults W) ban (c_db st) of
               (Some err, d) \<Rightarrow> Val (Some (ErrStorage err), st\<lparr>c_db := d\<rparr>)
             | (None, d) \<Rightarrow>
                 let d1 = snd (SaveModerationAction (w_faults W) action d);
                     event = \<lparr>ev_EventID = eventID, ev_Type = EventTypeContentBanned, ev_Timestamp = now,
                       ev_Payload = ContentBanPayload ban, ev_Signature = Some (signed_by action)\<rparr>
                 in Val (publish W event (st\<lparr>c_db := d1\<rparr>)))))"

definition PublishInternalAlert ::
    "'r world \<Rightarrow> time \<Rightarrow> GlobalAlert \<Rightarrow> string \<Rightarrow> bytes \<Rightarrow> time \<Rightarrow> 'r core \<Rightarrow> mod_error option \<times> 'r core" where
  "PublishInternalAlert W now alert moderatorID signature signedAt st =
     publish W \<lparr>ev_EventID = al_AlertID alert, ev_Type = EventTypeGlobalAlert, ev_Timestamp = now,
       ev_Payload = AlertPayload alert,
       ev_Signature = Some \<lparr>ms_ModeratorID = moderatorID, ms_PublicKey = [], ms_Signature = signature,
         ms_SignedAt = signedAt\<rparr>\<rparr> st"

definition PublishGlobalAlert ::
    "'r world \<Rightarrow> Verifier \<Rightarrow> time \<Rightarrow> ModerationAction \<Rightarrow> GlobalAlert \<Rightarrow> 'r core \<Rightarrow> (mod_error option \<times> 'r core) go" where
  "PublishGlobalAlert W v now action alert st =
     go_bind (check_moderator W v action) (\<lambda>denied.
       (case denied of
          Some e \<Rightarrow> Val (Some e, st)
        | None \<Rightarrow> Val (PublishInternalAlert W now alert (mod_ModeratorID (act_Moderator action))
            (act_Signature action) (act_CreatedAt action) st)))"

text \<open>The events that reach a subscriber with a filter: those whose type is in it, in
  order; an empty filter lets all of them through.\<close>

definition SubscribeToEvents :: "int list \<Rightarrow> ModerationEvent list \<Rightarrow> ModerationEvent list" where
  "SubscribeToEvents eventTypes allEvents =
     (if length eventTypes = 0 then allEvents
      else filter (\<lambda>event. ev_Type event \<in> set eventTypes) allEvents)"

definition ModerationService_IsNodeBanned ::
    "'r world \<Rightarrow> time \<Rightarrow> string \<Rightarrow> 'r core \<Rightarrow> (string + bool \<times> string) \<times> 'r core" where
  "ModerationService_IsNodeBanned W now nodeID st =
     (case pg_IsNodeBanned (w_faults W) now nodeID (c_db st) of (r, d) \<Rightarrow> (r, st\<lparr>c_db := d\<rparr>))"

definition ModerationService_IsContentBanned :: "'r world \<Rightarrow> string \<Rightarrow> 'r core \<Rightarrow> string + bool" where
  "ModerationService_IsContentBanned W contentHash st = pg_IsContentBanned (w_faults W) contentHash (c_db st)"

section \<open>Lemmas\<close>

text \<open>Only an action signed by a master key passes the checks, and with a verifier from
  \<open>NewVerifier\<close> they do not panic.\<close>

lemma check_moderator_None:
  assumes "check_moderator W v action = Val None"
  shows "VerifyMasterSignature (w_crypto W) v (mod_PublicKey (act_Moderator action))
    (serializeActionForSigning action) (act_Signature action) = Val None"
  using assms by (auto simp: check_moderator_def go_Val split: if_splits)

text \<open>The signed text determines the signed fields: two actions with the same text agree on
  the id, the type, the target, the reason, the whole seconds of the duration and of the
  date.\<close>

lemma serializeActionForSigning_inject:
  assumes "serializeActionForSigning a = serializeActionForSigning b"
  shows "act_ActionID a = act_ActionID b \<and> act_Type a = act_Type b \<and> act_TargetID a = act_TargetID b \<and>
    act_Reason a = act_Reason b \<and> trunc_seconds (act_Duration a) = trunc_seconds (act_Duration b) \<and>
    unix (act_CreatedAt a) = unix (act_CreatedAt b)"
proof -
  have "json_parse (serializeActionForSigning a) = json_parse (serializeActionForSigning b)"
    using assms by simp
  then show ?thesis unfolding serializeActionForSigning_def json_parse_text by simp
qed

lemma BanNode_denied:
  assumes "ModerationService_BanNode W v i now action st = Val (e, st')" "st' \<noteq> st"
  shows "check_moderator W v action = Val None"
  using assms by (auto simp: ModerationService_BanNode_def go_Val split: option.splits)

lemma publish_db [simp]: "c_db (snd (publish W ev st)) = c_db st"
  by (simp add: publish_def split: prod.split)

lemma BanNode_db:
  assumes "ModerationService_BanNode W v i now action st = Val (e, st')" "check_moderator W v action = Val None"
    "w_faults W ''BanNode'' = None"
  shows "c_db st' = snd (SaveModerationAction (w_faults W) action
    (snd (pg_BanNode (w_faults W) (ban_of now action) (c_db st))))"
proof -
  have "fst (pg_BanNode (w_faults W) (ban_of now action) (c_db st)) = None"
    using assms(3) by (simp add: pg_BanNode_def)
  then obtain d where d: "pg_BanNode (w_faults W) (ban_of now action) (c_db st) = (None, d)"
    by (metis prod.collapse)
  then have "(e, st') = publish W \<lparr>ev_EventID = i, ev_Type = EventTypeNodeBanned, ev_Timestamp = now,
      ev_Payload = NodeBanPayload (ban_of now action), ev_Signature = Some (signed_by action)\<rparr>
      (st\<lparr>c_db := snd (SaveModerationAction (w_faults W) action d),
         c_redis := snd (NodeManager_RemoveNode (w_redis W) now (act_TargetID action) (c_redis st))\<rparr>)"
    using assms(1,2) by (simp add: ModerationService_BanNode_def Let_def)
  then have "c_db st' = snd (SaveModerationAction (w_faults W) action d)"
    by (metis publish_db snd_conv core.select_convs(2) core.update_convs(2) core.surjective
        core.simps(5) core.simps(8))
  then show ?thesis using d by simp
qed

lemma check_moderator_no_panic:
  assumes "verifier_ok (w_crypto W) v"
  shows "\<exists>e. check_moderator W v action = Val e"
  using VerifyMasterSignature_no_panic [OF assms, of "mod_PublicKey (act_Moderator action)"
      "serializeActionForSigning action" "act_Signature action"]
  by (auto simp: check_moderator_def)

lemma moderation_returns:
  assumes "check_moderator W v action = Val c"
  shows "\<exists>e st'. ModerationService_BanNode W v i now action st = Val (e, st')"
    and "\<exists>e st'. ModerationService_BanContent W v i now action category st = Val (e, st')"
    and "\<exists>e st'. PublishGlobalAlert W v now action alert st = Val (e, st')"
  using assms
  by (cases c; simp add: ModerationService_BanNode_def ModerationService_BanContent_def
      PublishGlobalAlert_def Let_def split: prod.split option.split)+

text \<open>The moderator's key is one of the configured keys and signed the action.\<close>

definition authorised :: "crypto \<Rightarrow> string list \<Rightarrow> ModerationAction \<Rightarrow> bool" where
  "authorised K hs action \<longleftrightarrow>
     (\<exists>h \<in> set hs. hex_decode h = (mod_PublicKey (act_Moderator action), False)) \<and>
     VerifySignature K (mod_PublicKey (act_Moderator action)) (serializeActionForSigning action)
       (act_Signature action) = None"

lemma check_moderator_authorised:
  assumes "NewVerifier (w_crypto W) hs = Inr v" "check_moderator W v action = Val None"
  shows "authorised (w_crypto W) hs action"
  using VerifyMasterSignature_accept [OF NewVerifier_ok [OF assms(1)]] check_moderator_None [OF assms(2)]
    NewVerifier_src [OF assms(1)]
  by (auto simp: authorised_def)

section \<open>Runs of the node service\<close>

datatype node_op = Register "Node list \<Rightarrow> Node list" time NodeRegistration | Beat time string bytes int

fun op_time :: "node_op \<Rightarrow> time" where
  "op_time (Register p t r) = t" | "op_time (Beat t n s x) = t"

fun node_op_do :: "'r world \<Rightarrow> NodeService \<Rightarrow> node_op \<Rightarrow> 'r core \<Rightarrow> 'r core" where
  "node_op_do W svc (Register p t r) st = snd (NodeService_RegisterNode W svc p t r st)"
| "node_op_do W svc (Beat t n s x) st = snd (Heartbeat W svc t n s x st)"

lemma node_ops_keep_bans:
  assumes "\<forall>x \<in> set ops. op_time x \<le> later"
  shows "node_banned (c_db (fold (node_op_do W svc) ops st)) later m = node_banned (c_db st) later m"
  using assms
proof (induction ops arbitrary: st)
  case (Cons x ops)
  have "node_banned (c_db (node_op_do W svc x st)) later m = node_banned (c_db st) later m"
    using Cons.prems by (cases x) (auto simp: NodeService_keeps_bans)
  with Cons show ?case by simp
qed simp

lemma banned_RegisterNode:
  assumes "node_banned (c_db st) now (id_NodeID (reg_Identity reg))" "w_faults W ''IsNodeBanned'' = None"
  shows "\<exists>reason. fst (NodeService_RegisterNode W svc perm now reg st) \<in>
    {Inl ErrInvalidIdentity, Inl (ErrNodeBanned reason)}"
proof -
  obtain reason d where "pg_IsNodeBanned (w_faults W) now (id_NodeID (reg_Identity reg)) (c_db st) =
      (Inr (True, reason), d)"
    using pg_IsNodeBanned_result [of "w_faults W" now "id_NodeID (reg_Identity reg)" "c_db st", OF assms(2)]
      assms(1) by (metis prod.collapse)
  then show ?thesis by (auto simp: NodeService_RegisterNode_def Let_def)
qed

lemma banned_Heartbeat:
  assumes "node_banned (c_db st) now n" "w_faults W ''IsNodeBanned'' = None"
  shows "\<exists>e. fst (Heartbeat W svc now n sig status st) = Inl e"
proof -
  obtain reason d where "pg_IsNodeBanned (w_faults W) now n (c_db st) = (Inr (True, reason), d)"
    using pg_IsNodeBanned_result [of "w_faults W" now n "c_db st", OF assms(2)] assms(1)
    by (metis prod.collapse)
  then show ?thesis by (auto simp: Heartbeat_def split: sum.split option.split)
qed

lemma BanNode_None_checked:
  "ModerationService_BanNode W v i now action st = Val (None, st') \<Longrightarrow> check_moderator W v action = Val None"
  by (auto simp: ModerationService_BanNode_def go_Val split: option.splits)

lemma banned_after_BanNode:
  assumes "ModerationService_BanNode W v i t0 action st = Val (None, st')" "w_faults W ''BanNode'' = None"
    "map_of (t_nodes (c_db st)) (act_TargetID action) \<noteq> None"
  shows "node_banned (c_db st') now (act_TargetID action) \<longleftrightarrow>
    act_Duration action \<le> 0 \<or> now \<le> micros (t0 + act_Duration action)"
  using pg_BanNode_bans [of "w_faults W" "c_db st" "ban_of t0 action" now] assms(2,3)
    BanNode_db [OF assms(1) BanNode_None_checked [OF assms(1)] assms(2)]
  by (simp add: ban_of_def)

section \<open>An instance\<close>

definition ex_pad :: "nat \<Rightarrow> bytes \<Rightarrow> bytes" where
  "ex_pad n x = take n (x @ replicate n (CHR 0x00))"

definition ex_crypto :: crypto where
  "ex_crypto = \<lparr>sha256 = ex_pad 32, ed_verify = (\<lambda>pk m s. s = ex_pad 64 (pk @ m)),
     ed_sign = (\<lambda>sk m. ex_pad 64 (ex_pad 32 sk @ m)), ed_public = ex_pad 32\<rparr>"

lemma length_ex_pad [simp]: "length (ex_pad n x) = n"
  by (simp add: ex_pad_def)

lemma ex_crypto_ok: "crypto_ok ex_crypto"
  by (simp add: crypto_ok_def ex_crypto_def)

definition ex_text :: clock_text where
  "ex_text = \<lparr>time_text = dec_int,
     time_of_text = (\<lambda>s. case json_parse s of Some (JInt i) \<Rightarrow> Some i | _ \<Rightarrow> None)\<rparr>"

lemma ex_text_ok: "clock_text_ok ex_text"
  using json_parse_text [of "JInt t" for t] by (simp add: clock_text_ok_def ex_text_def)

definition ex_world :: "mem world" where
  "ex_world = \<lparr>w_crypto = ex_crypto, w_redis = mem_redis, w_faults = (\<lambda>_. None), w_text = ex_text\<rparr>"

definition ex_core :: "mem core" where
  "ex_core = \<lparr>c_redis = [], c_db = empty_db, c_broadcasts = []\<rparr>"

definition ex_svc :: NodeService where
  "ex_svc = NewNodeService \<lparr>nm_heartbeatTTL = minute\<rparr> minute 5"

definition ex_pk :: bytes where "ex_pk = ex_pad 32 ''node key''"

definition ex_reg :: NodeRegistration where
  "ex_reg = \<lparr>reg_Identity = \<lparr>id_NodeID = DeriveNodeID ex_crypto ex_pk, id_PublicKey = ex_pk,
       id_Signature = ed_sign ex_crypto ex_pk (DeriveNodeID ex_crypto ex_pk)\<rparr>,
     reg_Type = NodeTypeRelay, reg_Endpoints = [], reg_Version = ''1'', reg_Capabilities = [],
     reg_Region = ''eu''\<rparr>"

lemma ex_reg_verifies:
  "VerifyNodeIdentity ex_crypto (id_NodeID (reg_Identity ex_reg)) (id_PublicKey (reg_Identity ex_reg))
     (id_Signature (reg_Identity ex_reg)) = None"
  by (simp add: ex_reg_def VerifyNodeIdentity_None ex_crypto_def ex_pk_def ex_pad_def)

end
