(* ===== verification/Service_Props.thy ===== *)
theory Service_Props
  imports Moderation
begin

text \<open>
  The properties of the node and moderation services: what a registration establishes, that
  a ban holds, who may moderate, which relays are suggested, and the places where the
  stored data does not carry what the callers expect.
\<close>

section \<open>The instance of the witnesses\<close>

definition ex_mpk :: bytes where "ex_mpk = ex_pad 32 ''master''"

definition ex_unsigned :: "string \<Rightarrow> ModerationAction" where
  "ex_unsigned target = \<lparr>act_ActionID = ''a1'', act_Type = EventTypeNodeBanned, act_TargetID = target,
     act_Reason = ''spam'', act_Duration = 0,
     act_Moderator = \<lparr>mod_ModeratorID = ''m1'', mod_PublicKey = ex_mpk, mod_Name = ''M'',
       mod_CreatedAt = 0, mod_Active = True\<rparr>, act_Signature = [], act_CreatedAt = 0\<rparr>"

definition ex_action :: "string \<Rightarrow> ModerationAction" where
  "ex_action target = (ex_unsigned target)\<lparr>act_Signature :=
     ed_sign ex_crypto ex_mpk (serializeActionForSigning (ex_unsigned target))\<rparr>"

definition ex_keys :: "string list" where "ex_keys = [hex_encode ex_mpk]"

definition ex_verifier :: Verifier where
  "ex_verifier = \<lparr>masterKeys = [DeriveNodeID ex_crypto ex_mpk \<mapsto> ex_mpk]\<rparr>"

lemma ex_mpk_simps [simp]: "length ex_mpk = 32" "ex_pad 32 ex_mpk = ex_mpk" "ex_mpk \<noteq> []"
proof -
  show l: "length ex_mpk = 32" by (simp add: ex_mpk_def)
  show "ex_pad 32 ex_mpk = ex_mpk" by (simp add: ex_pad_def l)
  show "ex_mpk \<noteq> []" using l by auto
qed

lemma ex_verifier_new: "NewVerifier (w_crypto ex_world) ex_keys = Inr ex_verifier"
  by (simp add: ex_world_def NewVerifier_def ex_keys_def ex_verifier_def)

lemma serialize_unsigned [simp]:
  "serializeActionForSigning (a\<lparr>act_Signature := s\<rparr>) = serializeActionForSigning a"
  by (simp add: serializeActionForSigning_def del: json_text.simps)

lemma ex_unsigned_simps [simp]:
  "mod_PublicKey (act_Moderator (ex_unsigned target)) = ex_mpk" "act_TargetID (ex_unsigned target) = target"
  "act_Duration (ex_unsigned target) = 0"
  by (simp_all add: ex_unsigned_def)

lemma ex_checked: "check_moderator ex_world ex_verifier (ex_action target) = Val None"
  by (simp add: check_moderator_def ex_world_def IsMasterKey_def ex_verifier_def ex_action_def
      VerifyMasterSignature_def same_key_eq VerifySignature_None ex_crypto_def)

definition ex_known :: "mem core" where
  "ex_known = snd (NodeService_RegisterNode ex_world ex_svc id 0 ex_reg ex_core)"

definition ex_id :: string where "ex_id = id_NodeID (reg_Identity ex_reg)"

lemma length_ex_id: "length ex_id = 32"
  by (simp add: ex_id_def ex_reg_def length_DeriveNodeID [OF ex_crypto_ok])

lemma ex_register:
  "\<exists>node rs. NodeService_RegisterNode ex_world ex_svc id 0 ex_reg ex_core = (Inr (node, rs), ex_known)"
proof -
  have "w_crypto ex_world = ex_crypto" "w_faults ex_world = (\<lambda>_. None)" "w_redis ex_world = mem_redis"
    by (simp_all add: ex_world_def)
  then show ?thesis
    using ex_reg_verifies
    by (simp add: ex_known_def NodeService_RegisterNode_def pg_IsNodeBanned_def ex_core_def
        empty_db_def Let_def NodeManager_RegisterNode_def addToActiveRelays_def mem_redis_def
        split: prod.split)
qed

lemma ex_known_row: "map_of (t_nodes (c_db ex_known)) ex_id \<noteq> None"
proof -
  obtain node rs where r: "NodeService_RegisterNode ex_world ex_svc id 0 ex_reg ex_core = (Inr (node, rs), ex_known)"
    using ex_register by blast
  note i = RegisterNode_Inr [OF r]
  have "node_columns_ok node"
    using i(3) varchar_short [of ex_id 64] length_ex_id varchar_short [of "''1''" 32] varchar_short [of "''eu''" 32]
    by (simp add: node_columns_ok_def ex_id_def ex_reg_def ex_pk_def ex_pad_def)
  then show ?thesis using i(3,5)
    by (simp add: UpsertNode_def ex_world_def ex_id_def)
qed

lemma ex_ban:
  "\<exists>st'. ModerationService_BanNode ex_world ex_verifier ''e1'' 5 (ex_action ex_id) ex_known = Val (None, st')"
  using ex_checked [of ex_id]
  by (simp add: ModerationService_BanNode_def pg_BanNode_def publish_def PublishModerationEvent_def
      Let_def ex_world_def mem_redis_def)

section \<open>Properties\<close>



text \<open>C8. A registration that succeeds proves the identity of the node (its id is the hash of
  its key, and the key signed the id), and until its time to live is over the node is found
  under its id with the registered data; other nodes are untouched.\<close>

theorem register_then_get:
  assumes "redis_laws (w_redis W)"
    "NodeService_RegisterNode W svc perm now reg st = (Inr (node, rs), st')"
    "now \<le> later" "later < now + nm_heartbeatTTL (ns_redisManager svc)" "node_ints_ok now node"
  shows "id_NodeID (reg_Identity reg) = DeriveNodeID (w_crypto W) (id_PublicKey (reg_Identity reg)) \<and>
    ed_verify (w_crypto W) (id_PublicKey (reg_Identity reg)) (id_NodeID (reg_Identity reg))
      (id_Signature (reg_Identity reg)) \<and>
    NodeService_GetNode W later (id_NodeID (reg_Identity reg)) st' = Inr (Some (stored_node now node)) \<and>
    (\<forall>n. n \<noteq> id_NodeID (reg_Identity reg) \<longrightarrow>
       NodeManager_GetNode (w_redis W) later n (c_redis st') = NodeManager_GetNode (w_redis W) later n (c_redis st))"
proof -
  note i = RegisterNode_Inr [OF assms(2)]
  have "NodeManager_GetNode (w_redis W) later (id_NodeID (n_Identity node)) (c_redis st') =
      Inr (Some (stored_node now node))"
    using assms(1) i(4) assms(3-5) by (rule RegisterNode_then_GetNode)
  then show ?thesis
    using i(1,3) RegisterNode_other [OF assms(1) i(4) assms(3)]
    by (auto simp: VerifyNodeIdentity_None NodeService_GetNode_def)
qed

theorem register_then_get_witness:
  "\<exists>node. NodeService_GetNode ex_world 9 ex_id ex_known = Inr (Some (stored_node 0 node)) \<and>
    n_Region node = ''eu''"
proof -
  obtain node rs where r: "NodeService_RegisterNode ex_world ex_svc id 0 ex_reg ex_core = (Inr (node, rs), ex_known)"
    using ex_register by blast
  have "node_ints_ok 0 node" using RegisterNode_Inr(3) [OF r]
    by (simp add: node_ints_ok_def in_int64_def NodeStatus_defs NodeType_defs ex_reg_def unix_def)
  then show ?thesis
    using register_then_get [OF _ r, of 9] mem_redis_laws RegisterNode_Inr(3) [OF r]
    by (auto simp: ex_world_def ex_svc_def NewNodeService_def ex_id_def ex_reg_def)
qed



text \<open>C10. The relays suggested to a node are active relays that it did not exclude, at most
  as many as asked for and as the server allows; when they are fewer, no active relay is
  left out; those of the preferred region come first.\<close>

theorem suggested_relays:
  assumes "redis_laws (w_redis W)" "is_perm perm" "0 < ns_maxRelays svc"
    "NodeService_GetActiveRelays W svc perm now region limit ex st = Inr relays"
    "r_keys (w_redis W) now keyPrefixNode (c_redis st) = Inr keys"
  shows "(\<forall>n \<in> set relays. \<exists>i. i \<notin> set ex \<and> n_Type n = NodeTypeRelay \<and>
       NodeManager_GetNode (w_redis W) now i (c_redis st) = Inr (Some n)) \<and>
    int (length relays) \<le> ns_maxRelays svc \<and> (0 < limit \<longrightarrow> int (length relays) \<le> limit) \<and>
    (int (length relays) < (if limit \<le> 0 \<or> limit > ns_maxRelays svc then ns_maxRelays svc else limit) \<longrightarrow>
       (\<forall>i n. i \<notin> set ex \<and> n_Type n = NodeTypeRelay \<and>
          NodeManager_GetNode (w_redis W) now i (c_redis st) = Inr (Some n) \<longrightarrow> n \<in> set relays)) \<and>
    (\<exists>a b. relays = a @ b \<and> (\<forall>n \<in> set a. region \<noteq> [] \<and> n_Region n = region) \<and>
       (\<forall>n \<in> set b. \<not> (region \<noteq> [] \<and> n_Region n = region)))"
proof -
  define l where "l = (if limit \<le> 0 \<or> limit > ns_maxRelays svc then ns_maxRelays svc else limit)"
  have g: "NodeManager_GetActiveRelays (w_redis W) perm now region l ex (c_redis st) = Inr relays"
    using assms(4) by (simp add: NodeService_GetActiveRelays_def l_def)
  note sp = GetActiveRelays_spec [OF assms(2,5) g]
  have l: "0 < l" "l \<le> ns_maxRelays svc" "0 < limit \<Longrightarrow> l \<le> limit" using assms(3) by (auto simp: l_def)
  have len: "int (length relays) \<le> l" using sp(2) [OF l(1)] l(1) by linarith
  have found: "\<exists>i. i \<notin> set ex \<and> n_Type n = NodeTypeRelay \<and>
       NodeManager_GetNode (w_redis W) now i (c_redis st) = Inr (Some n)" if n: "n \<in> set relays" for n
  proof -
    have "n \<in> set (List.map_filter (relay_at (w_redis W) now ex (c_redis st)) keys)" using sp(1) n by blast
    then obtain k where "relay_at (w_redis W) now ex (c_redis st) k = Some n"
      by (auto simp: List.map_filter_def)
    then show ?thesis
      by (auto simp: relay_at_def Let_def split: if_splits sum.splits option.splits)
  qed
  have all: "n \<in> set relays"
    if short: "int (length relays) < l" and n: "i \<notin> set ex" "n_Type n = NodeTypeRelay"
      "NodeManager_GetNode (w_redis W) now i (c_redis st) = Inr (Some n)" for i n
  proof -
    let ?found = "List.map_filter (relay_at (w_redis W) now ex (c_redis st)) keys"
    have "keyPrefixNode @ i \<in> set keys"
      using keys_get [OF assms(1,5)] n(3)
      by (auto simp: NodeManager_GetNode_def split: sum.splits option.splits)
    moreover have "relay_at (w_redis W) now ex (c_redis st) (keyPrefixNode @ i) = Some n"
      using n by (simp add: relay_at_def)
    ultimately have "n \<in> set ?found" by (force simp: List.map_filter_def)
    moreover have "int (length ?found) \<le> l" using sp(2) [OF l(1)] short by linarith
    ultimately show ?thesis using sp(3) by blast
  qed
  show ?thesis unfolding l_def [symmetric] using found all len l sp(4) by (intro conjI) (blast | linarith)+
qed

theorem suggested_relays_witness:
  "\<exists>relays. NodeService_GetActiveRelays ex_world ex_svc id 9 ''eu'' 3 [] ex_known = Inr relays \<and>
    (\<forall>n. n \<in> set relays \<longleftrightarrow> n \<in> set relays \<and> n_Type n = NodeTypeRelay) \<and> int (length relays) \<le> 3"
proof -
  have W: "redis_laws (w_redis ex_world)" using mem_redis_laws by (simp add: ex_world_def)
  have P: "is_perm id" by (simp add: is_perm_def)
  have M: "0 < ns_maxRelays ex_svc" by (simp add: ex_svc_def NewNodeService_def)
  obtain keys where k: "r_keys (w_redis ex_world) 9 keyPrefixNode (c_redis ex_known) = Inr keys"
    by (simp add: ex_world_def mem_redis_def)
  then obtain relays where r: "NodeService_GetActiveRelays ex_world ex_svc id 9 ''eu'' 3 [] ex_known = Inr relays"
    by (cases "relays_loop (w_redis ex_world) 9 ''eu'' [] keys (c_redis ex_known) [] []")
       (auto simp: NodeService_GetActiveRelays_def NodeManager_GetActiveRelays_def Let_def)
  show ?thesis using suggested_relays [OF W P M r k] r by fastforce
qed

text \<open>C11. The genesis rule: whatever users sign up one after the other, with whatever
  database errors, at most one of them is the owner.\<close>

theorem genesis_at_most_one_owner: "length (owners (fold signup ss empty_db)) \<le> 1"
proof (induction ss rule: rev_induct)
  case Nil
  then show ?case by (simp add: owners_def empty_db_def)
next
  case (snoc s ss)
  obtain fault i now u where s: "s = (fault, i, now, u)" by (cases s)
  show ?case
    using snoc CreateUser_owners [of fault i now u "fold signup ss empty_db"] by (auto simp: s)
qed

text \<open>The rule fails under concurrency: two transactions that count the empty table
  before either has inserted both create an owner.\<close>

lemma genesis_race:
  assumes "t_users d = []" "fault ''CreateUser'' = None" "i \<noteq> j" "u_Email a \<noteq> u_Email b"
    "u_Nickname a \<noteq> u_Nickname b" "length (u_Email a) \<le> 255" "length (u_Email b) \<le> 255"
    "length (u_PasswordHash a) \<le> 255" "length (u_PasswordHash b) \<le> 255" "length (u_FullName a) \<le> 255"
    "length (u_FullName b) \<le> 255" "length (u_Phone a) \<le> 32" "length (u_Phone b) \<le> 32"
    "length (u_Nickname a) \<le> 64" "length (u_Nickname b) \<le> 64"
    "roleA = genesis_role d" "roleB = genesis_role d"
    "d1 = snd (insert_user fault i now (a\<lparr>u_Role := roleA\<rparr>) d)"
    "d2 = snd (insert_user fault j now (b\<lparr>u_Role := roleB\<rparr>) d1)"
  shows "owners d2 = [i, j]"
proof -
  have roles: "roleA = ''owner''" "roleB = ''owner''" using assms(1,16,17) by (simp_all add: genesis_role_def)
  have va: "varchar 255 (u_Email a)" "varchar 255 (u_PasswordHash a)" "varchar 255 (u_FullName a)"
      "varchar 32 (u_Phone a)" "varchar 64 (u_Nickname a)" "varchar 16 ''owner''"
    and vb: "varchar 255 (u_Email b)" "varchar 255 (u_PasswordHash b)" "varchar 255 (u_FullName b)"
      "varchar 32 (u_Phone b)" "varchar 64 (u_Nickname b)"
    using assms by (simp_all add: varchar_short)
  have d1: "t_users d1 = [(i, a\<lparr>u_Role := ''owner'', u_ID := i, u_CreatedAt := micros now\<rparr>)]"
    using assms(1,2,18) va by (simp add: roles insert_user_def Let_def sql_insert_def)
  have "d2 = d1\<lparr>t_users := t_users d1 @ [(j, b\<lparr>u_Role := ''owner'', u_ID := j, u_CreatedAt := micros now\<rparr>)]\<rparr>"
    using assms(2-5,19) va vb by (simp add: roles insert_user_def Let_def sql_insert_def d1)
  then show ?thesis by (simp add: owners_def d1)
qed

definition ex_user :: "string \<Rightarrow> User" where
  "ex_user n = \<lparr>u_ID = [], u_Email = n @ ''@x'', u_PasswordHash = ''h'', u_FullName = n, u_Phone = [],
     u_Nickname = n, u_Role = [], u_CreatedAt = 0\<rparr>"

lemma genesis_race_witness:
  "owners (snd (insert_user (\<lambda>_. None) ''2'' 0 ((ex_user ''bob'')\<lparr>u_Role := genesis_role empty_db\<rparr>)
     (snd (insert_user (\<lambda>_. None) ''1'' 0 ((ex_user ''ann'')\<lparr>u_Role := genesis_role empty_db\<rparr>) empty_db)))) =
   [''1'', ''2'']"
  by (rule genesis_race [where d = empty_db and fault = "\<lambda>_. None" and a = "ex_user ''ann''"
        and b = "ex_user ''bob''" and now = 0, OF _ _ _ _ _ _ _ _ _ _ _ _ _ _ _ refl refl refl refl])
     (simp_all add: empty_db_def ex_user_def)

text \<open>A content ban by a moderator who is not in the table of moderators is refused and
  leaves the database as it was, even though a master key signed it: the row violates the
  reference to \<open>global_moderators\<close>.\<close>

lemma content_ban_needs_row:
  assumes "ModerationService_BanContent W v i now action category st = Val (e, st')"
    "map_of (t_global_moderators (c_db st)) (mod_ModeratorID (act_Moderator action)) = None"
    "map_of (t_content_bans (c_db st)) (act_TargetID action) = None"
  shows "e \<noteq> None \<and> c_db st' = c_db st \<and>
    (w_faults W ''IsContentBanned'' = None \<longrightarrow>
       ModerationService_IsContentBanned W (act_TargetID action) st' = Inr False)"
proof -
  have "\<exists>err. SaveContentBan (w_faults W) \<lparr>cb_ContentHash = act_TargetID action, cb_Reason = act_Reason action,
      cb_Category = category, cb_BannedAt = now, cb_ModeratorID = mod_ModeratorID (act_Moderator action)\<rparr>
      (c_db st) = (Some err, c_db st)"
    using assms(2,3) by (auto simp: SaveContentBan_def split: option.split)
  then show ?thesis using assms(1,3)
    by (auto simp: ModerationService_BanContent_def go_Val ModerationService_IsContentBanned_def
        pg_IsContentBanned_def split: option.splits)
qed

lemma content_ban_needs_row_witness:
  "\<exists>e st'. ModerationService_BanContent ex_world ex_verifier ''e1'' 5 (ex_action ''hash'') ''x'' ex_core =
      Val (Some e, st') \<and> ModerationService_IsContentBanned ex_world ''hash'' st' = Inr False"
proof -
  obtain e st' where r: "ModerationService_BanContent ex_world ex_verifier ''e1'' 5 (ex_action ''hash'') ''x'' ex_core =
      Val (e, st')"
    using moderation_returns(2) [OF ex_checked] by blast
  show ?thesis using content_ban_needs_row [OF r] r
    by (simp add: ex_core_def empty_db_def ex_action_def ex_world_def)
qed

text \<open>A ban event reaches the subscribers of the bus with its id, type, date and
  signature, but its payload is no ban any more: it is decoded as a generic value.\<close>

lemma event_payload_lost:
  assumes "clock_text_ok T" "in_int64 (ev_Type e)" "length queue < 100"
  shows "subscriber_step T (json_text (JObj (event_members T e))) queue = queue @ [e\<lparr>ev_Payload := Decoded\<rparr>]"
  using assms by (simp add: subscriber_step_def event_of_members del: json_text.simps)

lemma event_payload_lost_witness:
  "subscriber_step ex_text (json_text (JObj (event_members ex_text \<lparr>ev_EventID = ''e'', ev_Type = EventTypeNodeBanned,
     ev_Timestamp = 3, ev_Payload = NodeBanPayload (ban_of 3 (ex_unsigned ''n'')), ev_Signature = None\<rparr>))) [] =
   [\<lparr>ev_EventID = ''e'', ev_Type = EventTypeNodeBanned, ev_Timestamp = 3, ev_Payload = Decoded, ev_Signature = None\<rparr>]"
  using event_payload_lost [OF ex_text_ok, of "\<lparr>ev_EventID = ''e'', ev_Type = EventTypeNodeBanned,
     ev_Timestamp = 3, ev_Payload = NodeBanPayload (ban_of 3 (ex_unsigned ''n'')), ev_Signature = None\<rparr>" "[]"]
  by (simp add: EventType_defs in_int64_def del: json_text.simps)

text \<open>A ban of a node that is not in the table succeeds without effect: the node is not
  banned afterwards.\<close>

lemma ban_of_unknown_node:
  assumes "ModerationService_BanNode W v i t0 action st = Val (None, st')" "w_faults W ''BanNode'' = None"
    "map_of (t_nodes (c_db st)) (act_TargetID action) = None"
  shows "\<not> node_banned (c_db st') now (act_TargetID action)"
  using pg_BanNode_unknown [of "c_db st" "ban_of t0 action" "w_faults W" now] assms(3)
    BanNode_db [OF assms(1) BanNode_None_checked [OF assms(1)] assms(2)]
  by (simp add: ban_of_def)

lemma ban_of_unknown_node_witness:
  "\<exists>st'. ModerationService_BanNode ex_world ex_verifier ''e1'' 5 (ex_action ''ghost'') ex_core = Val (None, st') \<and>
     \<not> node_banned (c_db st') 6 ''ghost''"
proof -
  obtain st' where b: "ModerationService_BanNode ex_world ex_verifier ''e1'' 5 (ex_action ''ghost'') ex_core = Val (None, st')"
    using ex_checked [of "''ghost''"]
    by (simp add: ModerationService_BanNode_def pg_BanNode_def publish_def PublishModerationEvent_def
        Let_def ex_world_def mem_redis_def)
  have "map_of (t_nodes (c_db ex_core)) (act_TargetID (ex_action ''ghost'')) = None"
    by (simp add: ex_core_def empty_db_def)
  then show ?thesis using ban_of_unknown_node [OF b, of 6] b by (simp add: ex_world_def ex_action_def)
qed

end
