(* ===== verification/Channel_Props.thy ===== *)
theory Channel_Props
  imports Channels Service_Props
begin

text \<open>The properties of channel governance.\<close>

section \<open>The instance of the witnesses\<close>

text \<open>The node of the earlier instance owns the channel \<open>#dev\<close>.\<close>

definition ex_channel :: ChannelData where
  "ex_channel = \<lparr>ch_ID = ''#dev'', ch_Name = ''dev'', ch_OwnerID = ex_id, ch_Members = [ex_id \<mapsto> True],
     ch_Roles = [ex_id \<mapsto> Role_ADMIN], ch_Avatar = [], ch_CreatedAt = 0\<rparr>"

definition ex_server :: "mem ChannelServer" where
  "ex_server = \<lparr>cs_channels = [''#dev'' \<mapsto> ex_channel], cs_core = ex_known\<rparr>"

definition ex_promote :: PromoteRequest where
  "ex_promote = \<lparr>pr_TargetNodeId = ''bob'', pr_Role = Role_MODERATOR, pr_Scope = Scope_CHANNEL,
     pr_ChannelId = ''#dev'', pr_RequesterId = ex_id, pr_Timestamp = 9,
     pr_Signature = ed_sign ex_crypto ex_pk (gov_payload ''bob'' Role_MODERATOR Scope_CHANNEL ''#dev'' 9)\<rparr>"

definition ex_demote :: DemoteRequest where
  "ex_demote = \<lparr>dr_TargetNodeId = ''bob'', dr_Scope = Scope_CHANNEL, dr_ChannelId = ''#dev'',
     dr_RequesterId = ex_id, dr_Timestamp = 9,
     dr_Signature = ed_sign ex_crypto ex_pk (gov_payload ''bob'' [] Scope_CHANNEL ''#dev'' 9)\<rparr>"

lemma ex_known_get:
  "\<exists>node. NodeService_GetNode ex_world 9 ex_id ex_known = Inr (Some node) \<and> id_PublicKey (n_Identity node) = ex_pk"
proof -
  obtain node rs where r: "NodeService_RegisterNode ex_world ex_svc id 0 ex_reg ex_core = (Inr (node, rs), ex_known)"
    using ex_register by blast
  note i = RegisterNode_Inr [OF r]
  have "node_ints_ok 0 node" using i(3)
    by (simp add: node_ints_ok_def in_int64_def NodeStatus_defs NodeType_defs ex_reg_def unix_def)
  moreover have "redis_laws (w_redis ex_world)" using mem_redis_laws by (simp add: ex_world_def)
  moreover have "9 < 0 + nm_heartbeatTTL (ns_redisManager ex_svc)" by (simp add: ex_svc_def NewNodeService_def)
  ultimately have "NodeManager_GetNode (w_redis ex_world) 9 (id_NodeID (n_Identity node)) (c_redis ex_known) =
      Inr (Some (stored_node 0 node))"
    using RegisterNode_then_GetNode [OF _ i(4), of 9] by simp
  then show ?thesis using i(3)
    by (simp add: NodeService_GetNode_def ex_id_def stored_node_def ex_reg_def)
qed

lemma ex_pk_simps [simp]: "length ex_pk = 32" "ex_pad 32 ex_pk = ex_pk"
  by (simp_all add: ex_pk_def ex_pad_def)

lemma ex_signed: "gov_signed ex_world 9 ex_id payload (ed_sign ex_crypto ex_pk payload) ex_known"
  using ex_known_get by (auto simp: gov_signed_def ex_world_def ex_crypto_def)

lemma ex_fresh: "fresh_timestamp (word_of_int 9) 9"
  by (simp add: fresh_timestamp_iff)

lemma ex_verify:
  "verifyGovernanceSignature ex_world 9 ex_id (ed_sign ex_crypto ex_pk (gov_payload t r sc c 9)) t r sc c 9 ex_known =
   Val None"
  unfolding verifyGovernanceSignature_None using ex_signed ex_fresh by blast

section \<open>Properties\<close>



text \<open>C17. In every state the channel server can reach, each channel is filed under its own id,
  a hash followed by its name, and the lobby \<open>#Inicio\<close> exists without any role: nobody can
  ever promote, demote or kick there.\<close>

theorem channels_invariant:
  assumes "reachable (\<lambda>s. \<exists>now c. s = NewChannelServer now c) (channel_step W) s"
  shows "(\<forall>c ch. cs_channels s c = Some ch \<longrightarrow> ch_ID ch = c \<and> c = CHR ''#'' # ch_Name ch) \<and>
    (\<exists>ch. cs_channels s ''#Inicio'' = Some ch \<and> ch_Roles ch = Map.empty \<and> (\<forall>n. role_of ch n = []))"
proof -
  have "channels_ok s" using assms by (rule channels.reachable_inv)
  then show ?thesis unfolding channels_ok_def using role_of_empty by blast
qed

theorem channels_invariant_witness:
  "\<exists>ch. cs_channels (snd (channel_do ex_world 9 (Create \<lparr>ccr_Name = ''dev'', ccr_OwnerNodeId = ''a'', ccr_Avatar = []\<rparr>)
     (NewChannelServer 0 ex_known))) ''#Inicio'' = Some ch \<and> ch_Roles ch = Map.empty"
proof -
  let ?s = "snd (channel_do ex_world 9 (Create \<lparr>ccr_Name = ''dev'', ccr_OwnerNodeId = ''a'', ccr_Avatar = []\<rparr>)
     (NewChannelServer 0 ex_known))"
  have "reachable (\<lambda>s. \<exists>now c. s = NewChannelServer now c) (channel_step ex_world) ?s"
  proof (rule reachable.move)
    show "reachable (\<lambda>s. \<exists>now c. s = NewChannelServer now c) (channel_step ex_world) (NewChannelServer 0 ex_known)"
      by (rule reachable.start) blast
    show "channel_step ex_world (NewChannelServer 0 ex_known) ?s" by (rule channel_step.intros) (rule refl)
  qed
  from channels_invariant [OF this] show ?thesis by blast
qed

text \<open>C18. The timestamp window: when the difference to the server's clock fits 64 bits, a
  timestamp is accepted exactly if it lies within 60 seconds, before or after; but the
  timestamp \<open>2 ^ 63\<close> nanoseconds before the clock is accepted too, because negating the
  difference overflows.\<close>

theorem timestamp_window:
  "(\<bar>sint now - sint ts\<bar> < 2 ^ 63 \<longrightarrow> (fresh_timestamp now ts \<longleftrightarrow> \<bar>sint now - sint ts\<bar> \<le> 60 * second)) \<and>
   fresh_timestamp now (now - word_of_int (2 ^ 63))"
proof
  show "\<bar>sint now - sint ts\<bar> < 2 ^ 63 \<longrightarrow> (fresh_timestamp now ts \<longleftrightarrow> \<bar>sint now - sint ts\<bar> \<le> 60 * second)"
  proof
    assume "\<bar>sint now - sint ts\<bar> < 2 ^ 63"
    then have "- (2 ^ 63) < sint now - sint ts" "sint now - sint ts < 2 ^ 63" by linarith+
    then show "fresh_timestamp now ts \<longleftrightarrow> \<bar>sint now - sint ts\<bar> \<le> 60 * second"
      using sint_sub [of now ts] by (simp add: fresh_timestamp_iff)
  qed
  have "now - (now - word_of_int (2 ^ 63)) = (word_of_int (2 ^ 63) :: 64 word)" by (rule diff_diff_eq2 [THEN trans]) simp
  moreover have "sint (word_of_int (2 ^ 63) :: 64 word) = - (2 ^ 63)"
    by (simp add: sint_sbintrunc' signed_take_bit_eq_take_bit_shift take_bit_eq_mod)
  ultimately show "fresh_timestamp now (now - word_of_int (2 ^ 63))" by (simp only: fresh_timestamp_iff simp_thms)
qed

theorem timestamp_window_witness:
  "\<not> fresh_timestamp (word_of_int (61 * second)) 0 \<and> fresh_timestamp (word_of_int (60 * second)) 0"
  using timestamp_window [of "word_of_int (61 * second)" 0] timestamp_window [of "word_of_int (60 * second)" 0]
  by (simp add: sint_sbintrunc' signed_take_bit_int_eq_self_iff)

text \<open>C19. A signed demotion is also a signed kick: the two requests have the same payload, so
  whoever sees a successful demotion by an administrator can have the target kicked in the
  administrator's name while the timestamp is fresh.\<close>

theorem demote_signature_kicks:
  assumes "DemoteUser W now req s = Val (resp, s')" "gr_Success resp"
  shows "\<exists>resp' s''. KickUser W now req s = Val (resp', s'') \<and> gr_Success resp'"
proof -
  obtain ch where v: "verifyGovernanceSignature W now (dr_RequesterId req) (dr_Signature req) (dr_TargetNodeId req)
      [] (dr_Scope req) (dr_ChannelId req) (dr_Timestamp req) (cs_core s) = Val None"
      and ch: "cs_channels s (dr_ChannelId req) = Some ch" "role_of ch (dr_RequesterId req) = Role_ADMIN"
    using DemoteUser_effect [OF assms(1)] assms(2) by blast
  have "dr_Scope req = Scope_CHANNEL"
    using assms unfolding DemoteUser_def v by (auto split: if_splits)
  then show ?thesis unfolding KickUser_def v using ch by (simp add: Let_def accept_def)
qed

theorem demote_signature_kicks_witness:
  "\<exists>resp' s''. KickUser ex_world 9 ex_demote ex_server = Val (resp', s'') \<and> gr_Success resp'"
proof -
  have v: "verifyGovernanceSignature ex_world 9 (dr_RequesterId ex_demote) (dr_Signature ex_demote)
      (dr_TargetNodeId ex_demote) [] (dr_Scope ex_demote) (dr_ChannelId ex_demote)
      (dr_Timestamp ex_demote) (cs_core ex_server) = Val None"
    using ex_verify by (simp add: ex_demote_def ex_server_def)
  have "\<exists>resp s'. DemoteUser ex_world 9 ex_demote ex_server = Val (resp, s') \<and> gr_Success resp"
    unfolding DemoteUser_def v
    by (simp add: accept_def Let_def ex_demote_def ex_server_def ex_channel_def role_of_def)
  then show ?thesis using demote_signature_kicks by blast
qed



text \<open>A governance request in the name of an unknown node does not fail with an error but
  panics: the lookup returns neither a node nor an error, and the nil node is
  dereferenced.\<close>

lemma unknown_requester_panics:
  assumes "NodeService_GetNode W now (pr_RequesterId p) (cs_core s) = Inr None"
  shows "PromoteUser W now p s = Panic ''nil pointer dereference''"
  using assms by (simp add: PromoteUser_def verifyGovernanceSignature_def)

lemma unknown_requester_panics_witness:
  "PromoteUser ex_world 9 (ex_promote\<lparr>pr_RequesterId := ''ghost''\<rparr>) (ex_server\<lparr>cs_core := ex_core\<rparr>) =
     Panic ''nil pointer dereference''"
  by (rule unknown_requester_panics)
     (simp add: NodeService_GetNode_def NodeManager_GetNode_def ex_core_def ex_world_def mem_redis_def
        mem_get_def pg_GetNode_def empty_db_def)

end
