(* ===== verification/Rate_Limiter.thy ===== *)
theory Rate_Limiter
  imports Go_Base
begin

text \<open>
  The rate limiter of \<^verbatim>\<open>internal/server/interceptors.go\<close>: a sliding window per key. The
  limiter keeps the instants of the admitted requests and forgets the old ones, both when
  it is asked and in a periodic clean-up. Its specification has the whole history instead:
  a request is admitted exactly when fewer than \<open>limit\<close> requests of its key were admitted
  in the window that ends now.
\<close>

record RateLimiter =
  rl_requests :: "(string \<times> time list) list"
  rl_limit :: int
  rl_window :: duration

definition NewRateLimiter :: "int \<Rightarrow> duration \<Rightarrow> RateLimiter" where
  "NewRateLimiter limit window = \<lparr>rl_requests = [], rl_limit = limit, rl_window = window\<rparr>"

text \<open>The loop that keeps the instants after \<open>windowStart\<close>; reading a missing key gives the
  nil slice.\<close>

definition recent :: "time \<Rightarrow> time list \<Rightarrow> time list" where
  "recent windowStart ts = filter (\<lambda>t. windowStart < t) ts"

definition times_of :: "RateLimiter \<Rightarrow> string \<Rightarrow> time list" where
  "times_of rl key = (case map_of (rl_requests rl) key of None \<Rightarrow> [] | Some ts \<Rightarrow> ts)"

definition Allow :: "time \<Rightarrow> string \<Rightarrow> RateLimiter \<Rightarrow> bool \<times> RateLimiter" where
  "Allow now key rl =
     (let windowStart = now - rl_window rl;
          r = recent windowStart (times_of rl key)
      in if int (length r) \<ge> rl_limit rl then (False, rl)
         else (True, rl\<lparr>rl_requests := AList.update key (r @ [now]) (rl_requests rl)\<rparr>))"

text \<open>One tick of the clean-up goroutine, under the lock.\<close>

definition cleanup :: "time \<Rightarrow> RateLimiter \<Rightarrow> RateLimiter" where
  "cleanup now rl =
     (let windowStart = now - rl_window rl in
      rl\<lparr>rl_requests :=
        filter (\<lambda>(key, ts). ts \<noteq> []) (map (\<lambda>(key, ts). (key, recent windowStart ts)) (rl_requests rl))\<rparr>)"

section \<open>Runs\<close>

datatype rl_op = Ask string | Tick

text \<open>A run of timed operations; it also collects the requests that were admitted.\<close>

fun rl_run :: "(time \<times> rl_op) list \<Rightarrow> RateLimiter \<times> (time \<times> string) list
    \<Rightarrow> RateLimiter \<times> (time \<times> string) list" where
  "rl_run [] sg = sg"
| "rl_run ((t, Tick) # ops) (rl, g) = rl_run ops (cleanup t rl, g)"
| "rl_run ((t, Ask key) # ops) (rl, g) =
     (case Allow t key rl of
        (ok, rl') \<Rightarrow> rl_run ops (rl', if ok then g @ [(t, key)] else g))"

text \<open>The requests of a key admitted in the window \<open>(t - window, t]\<close>.\<close>

definition admitted :: "duration \<Rightarrow> time \<Rightarrow> string \<Rightarrow> (time \<times> string) list \<Rightarrow> nat" where
  "admitted window t key g = length (filter (\<lambda>(u, k). k = key \<and> t - window < u \<and> u \<le> t) g)"

section \<open>Lemmas\<close>

lemma map_of_cleanup:
  "keys_distinct m \<Longrightarrow>
     map_of (filter (\<lambda>(key, ts). ts \<noteq> []) (map (\<lambda>(key, ts). (key, recent w ts)) m)) key =
     (case map_of m key of None \<Rightarrow> None | Some ts \<Rightarrow> if recent w ts = [] then None else Some (recent w ts))"
proof (induction m)
  case (Cons x m)
  then show ?case
    by (cases x) (auto simp: keys_distinct_def map_of_eq_None_iff image_iff split: option.splits)
qed simp

lemma times_of_cleanup:
  "keys_distinct (rl_requests rl) \<Longrightarrow>
     times_of (cleanup now rl) key = recent (now - rl_window rl) (times_of rl key)"
  by (simp add: times_of_def cleanup_def Let_def map_of_cleanup split: option.split)
    (simp add: recent_def)

lemma cleanup_distinct: "keys_distinct (rl_requests rl) \<Longrightarrow> keys_distinct (rl_requests (cleanup now rl))"
  by (auto simp: keys_distinct_def cleanup_def Let_def case_prod_beta comp_def
      intro!: distinct_map_filter)

lemma cleanup_config [simp]: "rl_limit (cleanup now rl) = rl_limit rl" "rl_window (cleanup now rl) = rl_window rl"
  by (simp_all add: cleanup_def Let_def)

lemma Allow_config [simp]:
  "rl_limit (snd (Allow now key rl)) = rl_limit rl" "rl_window (snd (Allow now key rl)) = rl_window rl"
  by (simp_all add: Allow_def Let_def)

lemma recent_recent [simp]: "w \<le> w' \<Longrightarrow> recent w' (recent w ts) = recent w' ts"
  by (auto simp: recent_def intro: filter_cong)

lemma recent_Nil [simp]: "recent w [] = []"
  by (simp add: recent_def)

lemma length_filter_mono:
  "(\<And>x. x \<in> set xs \<Longrightarrow> P x \<Longrightarrow> Q x) \<Longrightarrow> length (filter P xs) \<le> length (filter Q xs)"
  by (induction xs) (auto intro: le_SucI)

lemma recent_append [simp]: "recent w (a @ b) = recent w a @ recent w b"
  by (simp add: recent_def)

text \<open>What the limiter and the history agree on at time \<open>c\<close>.\<close>

definition grants :: "string \<Rightarrow> (time \<times> string) list \<Rightarrow> time list" where
  "grants key g = map fst (filter (\<lambda>(u, k). k = key) g)"

definition tracks :: "int \<Rightarrow> duration \<Rightarrow> time \<Rightarrow> RateLimiter \<Rightarrow> (time \<times> string) list \<Rightarrow> bool" where
  "tracks limit window c rl g \<longleftrightarrow>
     rl_limit rl = limit \<and> rl_window rl = window \<and> keys_distinct (rl_requests rl) \<and>
     (\<forall>(u, k) \<in> set g. u \<le> c) \<and>
     (\<forall>key. recent (c - window) (times_of rl key) = recent (c - window) (grants key g))"

lemma grants_append [simp]: "grants key (g @ h) = grants key g @ grants key h"
  by (simp add: grants_def)

lemma admitted_grants:
  "\<forall>(u, k) \<in> set g. u \<le> t \<Longrightarrow> admitted window t key g = length (recent (t - window) (grants key g))"
proof -
  assume "\<forall>(u, k) \<in> set g. u \<le> t"
  then have "filter (\<lambda>(u, k). k = key \<and> t - window < u \<and> u \<le> t) g =
      filter (\<lambda>(u, k). t - window < u) (filter (\<lambda>(u, k). k = key) g)"
    by (auto intro: filter_cong)
  then show ?thesis
    by (simp add: admitted_def grants_def recent_def filter_map comp_def case_prod_beta)
qed

lemma tracks_later:
  assumes "tracks limit window c rl g" "c \<le> t"
  shows "tracks limit window t rl g"
  unfolding tracks_def
proof (intro conjI allI)
  fix key
  have "recent (t - window) (times_of rl key) = recent (t - window) (recent (c - window) (times_of rl key))"
    using assms(2) by simp
  also have "\<dots> = recent (t - window) (grants key g)"
    using assms by (simp add: tracks_def)
  finally show "recent (t - window) (times_of rl key) = recent (t - window) (grants key g)" .
qed (use assms in \<open>auto simp: tracks_def\<close>)

lemma tracks_cleanup: "tracks limit window t rl g \<Longrightarrow> tracks limit window t (cleanup t rl) g"
  by (auto simp: tracks_def times_of_cleanup cleanup_distinct)

lemma Allow_answer:
  assumes "tracks limit window t rl g"
  shows "fst (Allow t key rl) \<longleftrightarrow> int (admitted window t key g) < limit"
proof -
  have "recent (t - window) (times_of rl key) = recent (t - window) (grants key g)"
    using assms by (simp add: tracks_def)
  moreover have "admitted window t key g = length (recent (t - window) (grants key g))"
    using assms by (intro admitted_grants) (simp add: tracks_def)
  ultimately show ?thesis
    using assms by (simp add: Allow_def tracks_def Let_def not_le)
qed

lemma tracks_Allow:
  assumes "tracks limit window t rl g" "Allow t key rl = (ok, rl')"
  shows "tracks limit window t rl' (if ok then g @ [(t, key)] else g)"
proof (cases ok)
  case False
  then have "rl' = rl" using assms(2) by (simp add: Allow_def Let_def split: if_splits)
  with False assms(1) show ?thesis by simp
next
  case True
  then have rl': "rl' = rl\<lparr>rl_requests := AList.update key
      (recent (t - window) (times_of rl key) @ [t]) (rl_requests rl)\<rparr>"
    using assms by (auto simp: Allow_def tracks_def Let_def split: if_splits)
  have "times_of rl' k = (if k = key then recent (t - window) (times_of rl key) @ [t] else times_of rl k)" for k
    by (simp add: rl' times_of_def update_conv')
  with True assms(1) show ?thesis
    by (auto simp: tracks_def rl') (auto simp: grants_def)
qed

lemma rl_run_tracks:
  assumes "tracks limit window c rl g" "sorted (map fst ops)" "\<forall>t \<in> fst ` set ops. c \<le> t" "\<forall>t \<in> fst ` set ops. t \<le> e" "c \<le> e"
  shows "case rl_run ops (rl, g) of (rl', g') \<Rightarrow> tracks limit window e rl' g'"
  using assms
proof (induction ops "(rl, g)" arbitrary: rl g c rule: rl_run.induct)
  case 1
  then show ?case using tracks_later by simp
next
  case (2 t ops rl g)
  have "tracks limit window t (cleanup t rl) g"
    using 2(2,4) by (auto intro!: tracks_cleanup elim: tracks_later)
  from 2(1) [OF this] 2(3-5) show ?case by auto
next
  case (3 t key ops rl g)
  obtain ok rl' where A: "Allow t key rl = (ok, rl')" by (cases "Allow t key rl")
  have "tracks limit window t rl g"
    using 3(2,4) by (auto elim: tracks_later)
  from 3(1) [OF A [symmetric] tracks_Allow [OF this A]] 3(3-5) show ?case
    by (auto simp: A)
qed

lemma tracks_new: "tracks limit window c (NewRateLimiter limit window) []"
  by (simp add: tracks_def NewRateLimiter_def times_of_def grants_def)

text \<open>No window of the given length, ending whenever, holds more admitted requests of a key
  than the limit.\<close>

definition bounded :: "int \<Rightarrow> duration \<Rightarrow> (time \<times> string) list \<Rightarrow> bool" where
  "bounded limit window g \<longleftrightarrow> (\<forall>t key. int (admitted window t key g) \<le> max 0 limit)"

lemma bounded_snoc:
  assumes "bounded limit window g" "int (admitted window t key g) < limit" "\<forall>(u, k) \<in> set g. u \<le> t"
  shows "bounded limit window (g @ [(t, key)])"
  unfolding bounded_def
proof (intro allI)
  fix e k
  show "int (admitted window e k (g @ [(t, key)])) \<le> max 0 limit"
  proof (cases "k = key \<and> e - window < t \<and> t \<le> e")
    case False
    then have "admitted window e k (g @ [(t, key)]) = admitted window e k g"
      by (auto simp: admitted_def)
    then show ?thesis using assms(1) by (simp add: bounded_def)
  next
    case True
    have "admitted window e k g \<le> admitted window t key g"
      unfolding admitted_def using True assms(3)
      by (intro length_filter_mono) auto
    moreover have "admitted window e k (g @ [(t, key)]) = Suc (admitted window e k g)"
      using True by (auto simp: admitted_def)
    ultimately show ?thesis using assms(2) by simp
  qed
qed

lemma rl_run_bounded:
  assumes "tracks limit window c rl g" "bounded limit window g" "sorted (map fst ops)" "\<forall>t \<in> fst ` set ops. c \<le> t"
  shows "bounded limit window (snd (rl_run ops (rl, g)))"
  using assms
proof (induction ops "(rl, g)" arbitrary: rl g c rule: rl_run.induct)
  case 1
  then show ?case by simp
next
  case (2 t ops rl g)
  have "tracks limit window t (cleanup t rl) g"
    using 2(2,5) by (auto intro!: tracks_cleanup elim: tracks_later)
  from 2(1) [OF this 2(3)] 2(4,5) show ?case by auto
next
  case (3 t key ops rl g)
  obtain ok rl' where A: "Allow t key rl = (ok, rl')" by (cases "Allow t key rl")
  have tr: "tracks limit window t rl g"
    using 3(2,5) by (auto elim: tracks_later)
  then have "bounded limit window (if ok then g @ [(t, key)] else g)"
    using Allow_answer [OF tr, of key] A 3(3) by (auto intro!: bounded_snoc simp: tracks_def)
  from 3(1) [OF A [symmetric] tracks_Allow [OF tr A] this] 3(4,5) show ?case
    by (auto simp: A)
qed

section \<open>The limiter meets its specification\<close>

text \<open>C22. After any run of requests and clean-ups at non-decreasing instants, the limiter
  admits a request exactly when fewer than \<open>limit\<close> requests of its key were admitted in the
  window that ends now (so forgetting old instants, in \<open>Allow\<close> and in \<open>cleanup\<close>, changes no
  answer), and no window of that length, ending at any instant, holds more than \<open>limit\<close>
  admitted requests of a key.\<close>

theorem rate_limit_window:
  assumes "sorted (map fst ops)" "\<forall>t \<in> fst ` set ops. t \<le> now"
    and "rl_run ops (NewRateLimiter limit window, []) = (rl, g)"
  shows "(fst (Allow now key rl) \<longleftrightarrow> int (admitted window now key g) < limit) \<and>
     (\<forall>t k. int (admitted window t k g) \<le> max 0 limit)"
proof -
  define c where "c = (case ops of [] \<Rightarrow> now | (t, _) # _ \<Rightarrow> t)"
  have c: "\<forall>t \<in> fst ` set ops. c \<le> t" "c \<le> now"
    using assms(1,2) by (cases ops; force simp: c_def)+
  have "tracks limit window now rl g"
    using rl_run_tracks [OF tracks_new assms(1) c(1) assms(2) c(2), of limit window] assms(3) by simp
  moreover have "bounded limit window g"
    using rl_run_bounded [OF tracks_new _ assms(1) c(1), of limit window] assms(3)
    by (simp add: bounded_def admitted_def)
  ultimately show ?thesis by (simp add: Allow_answer bounded_def)
qed

theorem rate_limit_window_witness:
  "fst (Allow 12 ''a'' (fst (rl_run [(1, Ask ''a''), (3, Ask ''a''), (4, Ask ''a''), (11, Tick)]
       (NewRateLimiter 2 10, [])))) \<and>
   int (admitted 10 12 ''a'' [(1, ''a''), (3, ''a'')]) < 2"
proof -
  have run: "rl_run [(1, Ask ''a''), (3, Ask ''a''), (4, Ask ''a''), (11, Tick)] (NewRateLimiter 2 10, []) =
      (\<lparr>rl_requests = [(''a'', [3])], rl_limit = 2, rl_window = 10\<rparr>, [(1, ''a''), (3, ''a'')])"
    by code_simp
  show ?thesis
    using rate_limit_window [OF _ _ run, of 12 "''a''"] unfolding run by (simp add: admitted_def)
qed

end
