(* ===== verification/Rpc.thy ===== *)
theory Rpc
  imports Go_Base
begin

text \<open>
  \<^verbatim>\<open>internal/server/interceptors.go\<close> without the rate limiter, and the method handlers that
  the service descriptors of the hand-written services point to.

  A call carries a context, a request and the server's state. A handler delivers an answer
  (a status error or a response) or panics, and in both cases leaves a state behind: what
  it changed before a panic stays changed. The state is a pair of the state of the service
  (\<open>'s\<close>) and the log, so that what the logging and the recovery interceptor write can be
  stated. A stream handler has no request and no response; it is the instance with the
  server stream in the place of the request and \<open>unit\<close> as the response.
\<close>

section \<open>Status errors, contexts and handlers\<close>

datatype code = Unknown | InvalidArgument | NotFound | PermissionDenied | Internal | Unauthenticated

datatype status = Status code string

fun status_code :: "status \<Rightarrow> code" where
  "status_code (Status c m) = c"

text \<open>The incoming metadata of a call, if any, and the values that the interceptors attach
  to the context under the keys \<open>user_id\<close>, \<open>role\<close> and \<open>vault_scope\<close>.\<close>

record ctx =
  ctx_metadata :: "(string \<Rightarrow> string list) option"
  ctx_user_id :: "string option"
  ctx_role :: "string option"
  ctx_vault_scope :: "string option"

definition incoming :: "(string \<Rightarrow> string list) option \<Rightarrow> ctx" where
  "incoming md = \<lparr>ctx_metadata = md, ctx_user_id = None, ctx_role = None, ctx_vault_scope = None\<rparr>"

datatype log_line = LogOK string | LogError string status | LogStarted string | LogPanic string string

type_synonym ('r, 's) outcome = "(status + 'r) go \<times> ('s \<times> log_line list)"
type_synonym ('q, 'r, 's) UnaryHandler = "ctx \<Rightarrow> 'q \<Rightarrow> 's \<times> log_line list \<Rightarrow> ('r, 's) outcome"
type_synonym ('q, 'r, 's) UnaryServerInterceptor =
  "ctx \<Rightarrow> 'q \<Rightarrow> string \<Rightarrow> ('q, 'r, 's) UnaryHandler \<Rightarrow> 's \<times> log_line list \<Rightarrow> ('r, 's) outcome"

text \<open>A method that knows nothing of the log.\<close>

definition lift_method :: "(ctx \<Rightarrow> 'q \<Rightarrow> 's \<Rightarrow> (status + 'r) go \<times> 's) \<Rightarrow> ('q, 'r, 's) UnaryHandler" where
  "lift_method f ctx req sl = (case f ctx req (fst sl) of (a, s) \<Rightarrow> (a, (s, snd sl)))"

section \<open>Interceptors\<close>

definition LoggingInterceptor :: "('q, 'r, 's) UnaryServerInterceptor" where
  "LoggingInterceptor ctx req fullMethod handler sl =
     (case handler ctx req sl of
        (Val (Inl err), (s, l)) \<Rightarrow> (Val (Inl err), (s, l @ [LogError fullMethod err]))
      | (Val (Inr resp), (s, l)) \<Rightarrow> (Val (Inr resp), (s, l @ [LogOK fullMethod]))
      | (Panic p, sl') \<Rightarrow> (Panic p, sl'))"

definition StreamLoggingInterceptor :: "('q, unit, 's) UnaryServerInterceptor" where
  "StreamLoggingInterceptor ctx ss fullMethod handler sl =
     (case handler ctx ss (fst sl, snd sl @ [LogStarted fullMethod]) of
        (Val (Inl err), (s, l)) \<Rightarrow> (Val (Inl err), (s, l @ [LogError fullMethod err]))
      | (Val (Inr u), (s, l)) \<Rightarrow> (Val (Inr u), (s, l @ [LogOK fullMethod]))
      | (Panic p, sl') \<Rightarrow> (Panic p, sl'))"

definition RecoveryInterceptor :: "('q, 'r, 's) UnaryServerInterceptor" where
  "RecoveryInterceptor ctx req fullMethod handler sl =
     (case handler ctx req sl of
        (Val a, sl') \<Rightarrow> (Val a, sl')
      | (Panic p, (s, l)) \<Rightarrow>
          (Val (Inl (Status Internal ''internal server error'')), (s, l @ [LogPanic fullMethod p])))"

definition StreamRecoveryInterceptor :: "('q, unit, 's) UnaryServerInterceptor" where
  "StreamRecoveryInterceptor ctx ss fullMethod handler sl =
     (case handler ctx ss sl of
        (Val a, sl') \<Rightarrow> (Val a, sl')
      | (Panic p, (s, l)) \<Rightarrow>
          (Val (Inl (Status Internal ''internal server error'')), (s, l @ [LogPanic fullMethod p])))"

text \<open>The loop of \<open>ChainUnaryInterceptors\<close> runs from the last interceptor to the first and
  wraps the chain built so far; \<open>i\<close> counts the interceptors still to be wrapped around.
  \<open>ChainStreamInterceptors\<close> is the same loop.\<close>

fun chain_loop ::
    "('q, 'r, 's) UnaryServerInterceptor list \<Rightarrow> string \<Rightarrow> nat \<Rightarrow> ('q, 'r, 's) UnaryHandler
     \<Rightarrow> ('q, 'r, 's) UnaryHandler" where
  "chain_loop interceptors info 0 chain = chain"
| "chain_loop interceptors info (Suc i) chain =
     chain_loop interceptors info i (\<lambda>ctx req. (interceptors ! i) ctx req info chain)"

definition ChainUnaryInterceptors ::
    "('q, 'r, 's) UnaryServerInterceptor list \<Rightarrow> ('q, 'r, 's) UnaryServerInterceptor" where
  "ChainUnaryInterceptors interceptors ctx req info handler =
     chain_loop interceptors info (length interceptors) handler ctx req"

definition ChainStreamInterceptors ::
    "('q, unit, 's) UnaryServerInterceptor list \<Rightarrow> ('q, unit, 's) UnaryServerInterceptor" where
  "ChainStreamInterceptors interceptors ctx ss info handler =
     chain_loop interceptors info (length interceptors) handler ctx ss"

section \<open>Method handlers\<close>

text \<open>The body that every hand-written \<open>_Service_Method_Handler\<close> repeats: decode the request,
  call the method when there is no interceptor, otherwise hand the method to it under its
  full name. \<open>dec\<close> is the result of decoding.\<close>

definition method_handler ::
    "string \<Rightarrow> ('q, 'r, 's) UnaryHandler \<Rightarrow> ctx \<Rightarrow> status + 'q \<Rightarrow> ('q, 'r, 's) UnaryServerInterceptor option
     \<Rightarrow> 's \<times> log_line list \<Rightarrow> ('r, 's) outcome" where
  "method_handler fullMethod method ctx dec interceptor sl =
     (case dec of
        Inl err \<Rightarrow> (Val (Inl err), sl)
      | Inr req \<Rightarrow>
          (case interceptor of
             None \<Rightarrow> method ctx req sl
           | Some i \<Rightarrow> i ctx req fullMethod method sl))"

section \<open>Lemmas\<close>

text \<open>The chain is the nesting of the interceptors in the order of the list, the first one
  outermost.\<close>

lemma chain_loop_foldr:
  "i \<le> length is \<Longrightarrow>
     chain_loop is info i h = foldr (\<lambda>j h ctx req. j ctx req info h) (take i is) h"
proof (induction i arbitrary: h)
  case (Suc i)
  then show ?case by (simp add: take_Suc_conv_app_nth)
qed simp

lemma chain_foldr:
  "ChainUnaryInterceptors is ctx req info h = foldr (\<lambda>j h ctx req. j ctx req info h) is h ctx req"
  by (simp add: ChainUnaryInterceptors_def chain_loop_foldr)

lemma chain_Nil [simp]: "ChainUnaryInterceptors [] ctx req info h = h ctx req"
  by (simp add: ChainUnaryInterceptors_def)

lemma chain_Cons [simp]:
  "ChainUnaryInterceptors (i # is) ctx req info h =
     i ctx req info (\<lambda>ctx req. ChainUnaryInterceptors is ctx req info h)"
  by (simp add: chain_foldr fun_eq_iff)

lemma stream_chain: "ChainStreamInterceptors = ChainUnaryInterceptors"
  by (simp add: fun_eq_iff ChainUnaryInterceptors_def ChainStreamInterceptors_def)

lemma recovery_returns: "\<exists>a sl'. RecoveryInterceptor ctx req m h sl = (Val a, sl')"
  by (auto simp: RecoveryInterceptor_def split: prod.split go.split)

text \<open>The two outer interceptors neither change the answer nor the state of the service:
  what the caller sees is what the handler did, a panic turned into an internal error.\<close>

definition recovered :: "(status + 'r) go \<Rightarrow> status + 'r" where
  "recovered a = (case a of Val x \<Rightarrow> x | Panic p \<Rightarrow> Inl (Status Internal ''internal server error''))"

lemma recovered_simps [simp]:
  "recovered (Val x) = x" "recovered (Panic p) = Inl (Status Internal ''internal server error'')"
  by (simp_all add: recovered_def)

lemma outer_interceptors:
  "fst (RecoveryInterceptor ctx req m (\<lambda>ctx req. LoggingInterceptor ctx req m h) sl) =
     Val (recovered (fst (h ctx req sl)))"
  "fst (snd (RecoveryInterceptor ctx req m (\<lambda>ctx req. LoggingInterceptor ctx req m h) sl)) =
     fst (snd (h ctx req sl))"
  by (auto simp: RecoveryInterceptor_def LoggingInterceptor_def split: prod.split go.split sum.split)

lemma lift_method_simps [simp]:
  "fst (lift_method f ctx req sl) = fst (f ctx req (fst sl))"
  "fst (snd (lift_method f ctx req sl)) = snd (f ctx req (fst sl))"
  by (simp_all add: lift_method_def split: prod.split)

end
