(* ===== verification/Jwt.thy ===== *)
theory Jwt
  imports Json
begin

text \<open>
  \<^verbatim>\<open>internal/crypto/jwt.go\<close>: session tokens, vault tokens and password hashes. The packages
  \<^verbatim>\<open>golang-jwt\<close> and \<^verbatim>\<open>bcrypt\<close> are parameters (the record \<open>tokens\<close>): signing and parsing of
  claims under a key, hashing of a password with a salt, and the comparison. \<open>tokens_ok\<close> is
  what their documentation promises: parsing returns the claims that were signed until they
  expire and an error from then on, provided their texts survive JSON (ASCII here); a
  password of at most 72 bytes can be hashed, and a hash matches its own password. That a
  token cannot be forged and that a hash matches no other password is assumed nowhere.

  The claims carry instants as numbers of seconds (\<open>jwt.NewNumericDate\<close> truncates).
\<close>

record Claims =
  cl_UserID :: string
  cl_Role :: string
  cl_Scope :: string
  cl_ExpiresAt :: int
  cl_IssuedAt :: int

text \<open>The result of parsing is an error or the claims with the flag \<open>token.Valid\<close>.\<close>

record tokens =
  jwt_sign :: "bytes \<Rightarrow> Claims \<Rightarrow> string + string"
  jwt_parse :: "bytes \<Rightarrow> time \<Rightarrow> string \<Rightarrow> string + Claims \<times> bool"
  bcrypt_hash :: "bytes \<Rightarrow> bytes \<Rightarrow> string + bytes"
  bcrypt_compare :: "bytes \<Rightarrow> bytes \<Rightarrow> string option"

definition ascii :: "string \<Rightarrow> bool" where
  "ascii s = list_all (\<lambda>c. (of_char c :: nat) < 128) s"

definition claims_ascii :: "Claims \<Rightarrow> bool" where
  "claims_ascii c \<longleftrightarrow> ascii (cl_UserID c) \<and> ascii (cl_Role c) \<and> ascii (cl_Scope c)"

definition tokens_ok :: "tokens \<Rightarrow> bool" where
  "tokens_ok T \<longleftrightarrow>
     (\<forall>key c. \<exists>tok. jwt_sign T key c = Inr tok \<and>
        (claims_ascii c \<longrightarrow> (\<forall>now.
           (now < of_unix (cl_ExpiresAt c) \<longrightarrow> jwt_parse T key now tok = Inr (c, True)) \<and>
           (of_unix (cl_ExpiresAt c) \<le> now \<longrightarrow> (\<exists>err. jwt_parse T key now tok = Inl err))))) \<and>
     (\<forall>salt pw. length pw \<le> 72 \<longrightarrow>
        (\<exists>h. bcrypt_hash T salt pw = Inr h \<and> bcrypt_compare T h pw = None))"

definition jwtSecret :: bytes where
  "jwtSecret = ''enxame_secret_key_123''"

abbreviation hour :: duration where "hour \<equiv> 3600000000000"

definition GenerateJWT :: "tokens \<Rightarrow> time \<Rightarrow> string \<Rightarrow> string \<Rightarrow> string + string" where
  "GenerateJWT T now userID role =
     jwt_sign T jwtSecret \<lparr>cl_UserID = userID, cl_Role = role, cl_Scope = [],
       cl_ExpiresAt = unix (now + 24 * hour), cl_IssuedAt = unix now\<rparr>"

definition GenerateVaultToken :: "tokens \<Rightarrow> time \<Rightarrow> string \<Rightarrow> string + string" where
  "GenerateVaultToken T now userID =
     jwt_sign T jwtSecret \<lparr>cl_UserID = userID, cl_Role = ''admin'', cl_Scope = ''super_admin'',
       cl_ExpiresAt = unix (now + 30 * minute), cl_IssuedAt = unix now\<rparr>"

definition ValidateJWT :: "tokens \<Rightarrow> time \<Rightarrow> string \<Rightarrow> string + Claims" where
  "ValidateJWT T now tokenStr =
     (case jwt_parse T jwtSecret now tokenStr of
        Inl err \<Rightarrow> Inl err
      | Inr (claims, valid) \<Rightarrow> if valid then Inr claims else Inl ''invalid token'')"

definition HashPassword :: "tokens \<Rightarrow> bytes \<Rightarrow> string \<Rightarrow> string + string" where
  "HashPassword T salt password = bcrypt_hash T salt password"

definition CheckPasswordHash :: "tokens \<Rightarrow> string \<Rightarrow> string \<Rightarrow> bool" where
  "CheckPasswordHash T password hash \<longleftrightarrow> bcrypt_compare T hash password = None"

section \<open>Lemmas\<close>

lemma ascii_Nil [simp]: "ascii []"
  by (simp add: ascii_def)

lemma unix_le: "of_unix (unix t) \<le> t" "t < of_unix (unix t) + second"
proof -
  have "t = second * (t div second) + t mod second" "0 \<le> t mod second" "t mod second < second"
    by simp_all
  then show "of_unix (unix t) \<le> t" "t < of_unix (unix t) + second"
    unfolding of_unix_def unix_def by linarith+
qed

lemma jwt_sign_works: "tokens_ok T \<Longrightarrow> \<exists>tok. jwt_sign T key c = Inr tok"
  unfolding tokens_ok_def by blast

lemma jwt_parse_signed:
  assumes "tokens_ok T" "jwt_sign T key c = Inr tok" "claims_ascii c"
  shows "now < of_unix (cl_ExpiresAt c) \<Longrightarrow> jwt_parse T key now tok = Inr (c, True)"
    and "of_unix (cl_ExpiresAt c) \<le> now \<Longrightarrow> \<exists>err. jwt_parse T key now tok = Inl err"
  using assms unfolding tokens_ok_def by (metis Inr_inject)+

text \<open>A session token is accepted for 24 hours, up to the truncation of its expiry to whole
  seconds, and carries the user and the role; then it is refused.\<close>

lemma ValidateJWT_session:
  assumes "tokens_ok T" "GenerateJWT T now u r = Inr tok" "ascii u" "ascii r"
  shows "later \<le> now + 24 * hour - second \<Longrightarrow>
           \<exists>c. ValidateJWT T later tok = Inr c \<and> cl_UserID c = u \<and> cl_Role c = r \<and> cl_Scope c = []"
    and "now + 24 * hour \<le> later \<Longrightarrow> \<exists>err. ValidateJWT T later tok = Inl err"
proof -
  note sign = assms(2) [unfolded GenerateJWT_def]
  note parse = jwt_parse_signed [OF assms(1) sign]
  show "\<exists>c. ValidateJWT T later tok = Inr c \<and> cl_UserID c = u \<and> cl_Role c = r \<and> cl_Scope c = []"
    if "later \<le> now + 24 * hour - second"
    using parse(1) [of later] that unix_le(2) [of "now + 24 * hour"] assms(3,4)
    by (simp add: ValidateJWT_def claims_ascii_def)
  show "\<exists>err. ValidateJWT T later tok = Inl err" if "now + 24 * hour \<le> later"
    using parse(2) [of later] that unix_le(1) [of "now + 24 * hour"] assms(3,4)
    by (auto simp: ValidateJWT_def claims_ascii_def)
qed

lemma ValidateJWT_vault:
  assumes "tokens_ok T" "GenerateVaultToken T now u = Inr tok" "ascii u"
  shows "later \<le> now + 30 * minute - second \<Longrightarrow>
           \<exists>c. ValidateJWT T later tok = Inr c \<and> cl_UserID c = u \<and> cl_Role c = ''admin'' \<and>
               cl_Scope c = ''super_admin''"
    and "now + 30 * minute \<le> later \<Longrightarrow> \<exists>err. ValidateJWT T later tok = Inl err"
proof -
  note sign = assms(2) [unfolded GenerateVaultToken_def]
  note parse = jwt_parse_signed [OF assms(1) sign]
  have lit: "ascii ''admin''" "ascii ''super_admin''" by (simp_all add: ascii_def)
  show "\<exists>c. ValidateJWT T later tok = Inr c \<and> cl_UserID c = u \<and> cl_Role c = ''admin'' \<and>
      cl_Scope c = ''super_admin''"
    if "later \<le> now + 30 * minute - second"
    using parse(1) [of later] that unix_le(2) [of "now + 30 * minute"] assms(3) lit
    by (simp add: ValidateJWT_def claims_ascii_def)
  show "\<exists>err. ValidateJWT T later tok = Inl err" if "now + 30 * minute \<le> later"
    using parse(2) [of later] that unix_le(1) [of "now + 30 * minute"] assms(3) lit
    by (auto simp: ValidateJWT_def claims_ascii_def)
qed

lemma password_round_trip:
  assumes "tokens_ok T" "length pw \<le> 72"
  shows "\<exists>h. HashPassword T salt pw = Inr h \<and> CheckPasswordHash T pw h"
  using assms unfolding tokens_ok_def HashPassword_def CheckPasswordHash_def by blast

section \<open>An instance\<close>

text \<open>A token that is its key and its claims as JSON, and a hash that is the password behind
  a mark: useless as cryptography, but they satisfy what the code relies on.\<close>

definition toy_sign :: "bytes \<Rightarrow> Claims \<Rightarrow> string" where
  "toy_sign key c = json_text (JObj [(''key'', JStr key), (''user_id'', JStr (cl_UserID c)),
     (''role'', JStr (cl_Role c)), (''scope'', JStr (cl_Scope c)), (''exp'', JInt (cl_ExpiresAt c)),
     (''iat'', JInt (cl_IssuedAt c))])"

definition toy_parse :: "bytes \<Rightarrow> time \<Rightarrow> string \<Rightarrow> string + Claims \<times> bool" where
  "toy_parse key now tok =
     (case json_parse tok of
        Some (JObj [(_, JStr k), (_, JStr u), (_, JStr r), (_, JStr sc), (_, JInt e), (_, JInt i)]) \<Rightarrow>
          if k \<noteq> key then Inl ''token signature is invalid''
          else if of_unix e \<le> now then Inl ''token is expired''
          else Inr (\<lparr>cl_UserID = u, cl_Role = r, cl_Scope = sc, cl_ExpiresAt = e, cl_IssuedAt = i\<rparr>, True)
      | _ \<Rightarrow> Inl ''token is malformed'')"

definition toy_tokens :: tokens where
  "toy_tokens = \<lparr>jwt_sign = \<lambda>key c. Inr (toy_sign key c), jwt_parse = toy_parse,
     bcrypt_hash = \<lambda>salt pw. if length pw \<le> 72 then Inr (CHR ''$'' # pw)
       else Inl ''password length exceeds 72 bytes'',
     bcrypt_compare = \<lambda>h pw. if h = CHR ''$'' # pw then None else Some ''mismatch''\<rparr>"

lemma toy_parse_sign:
  "toy_parse key now (toy_sign key c) =
     (if of_unix (cl_ExpiresAt c) \<le> now then Inl ''token is expired'' else Inr (c, True))"
  unfolding toy_parse_def toy_sign_def json_parse_text by simp

lemma toy_tokens_ok: "tokens_ok toy_tokens"
  unfolding tokens_ok_def by (auto simp: toy_tokens_def toy_parse_sign)

end
