(* ===== verification/Auth_Interceptor.thy ===== *)
theory Auth_Interceptor
  imports Rpc Jwt Crypto Domain
begin

text \<open>
  \<^verbatim>\<open>internal/server/auth_interceptor.go\<close>: who may call what. The interceptor checks the
  identity of a node that registers, attaches the user of the session token to the context
  and applies the rules per method: administration is for admins and owners, and its
  critical methods need a vault token besides.

  \<open>as_register\<close> is the type assertion \<open>req.(*RegisterNodeRequest)\<close> at the type of the
  request; the texts of wrapped errors stay out of the messages.
\<close>

record RegisterNodeRequest =
  rr_Identity :: "NodeIdentity option"
  rr_Type :: int
  rr_Endpoints :: "string list"
  rr_Version :: string
  rr_Capabilities :: "string list"
  rr_Region :: string

section \<open>The user of a call\<close>

definition authenticateUser :: "tokens \<Rightarrow> time \<Rightarrow> ctx \<Rightarrow> ctx" where
  "authenticateUser T now ctx =
     (case ctx_metadata ctx of
        None \<Rightarrow> ctx
      | Some md \<Rightarrow>
          (case md ''authorization'' of
             [] \<Rightarrow> ctx\<lparr>ctx_role := Some ''guest''\<rparr>
           | authHeader # _ \<Rightarrow>
               (case ValidateJWT T now (trim_prefix authHeader ''Bearer '') of
                  Inl err \<Rightarrow> ctx\<lparr>ctx_role := Some ''guest''\<rparr>
                | Inr claims \<Rightarrow>
                    let ctx1 = ctx\<lparr>ctx_user_id := Some (cl_UserID claims), ctx_role := Some (cl_Role claims)\<rparr>
                    in (case md ''x-vault-token'' of
                          [] \<Rightarrow> ctx1
                        | vTokenStr # _ \<Rightarrow>
                            (case ValidateJWT T now vTokenStr of
                               Inl err \<Rightarrow> ctx1
                             | Inr vClaims \<Rightarrow>
                                 if cl_Scope vClaims = ''super_admin''
                                 then ctx1\<lparr>ctx_vault_scope := Some ''super_admin''\<rparr> else ctx1)))))"

section \<open>The rules\<close>

text \<open>\<open>v, _ := ctx.Value(key).(string)\<close>: the zero value when there is none.\<close>

definition ctx_string :: "string option \<Rightarrow> string" where
  "ctx_string v = (case v of None \<Rightarrow> [] | Some s \<Rightarrow> s)"

definition criticalMethods :: "string list" where
  "criticalMethods = [''BanNode'', ''UnbanNode'', ''SendGlobalAlert'', ''UpdateUserRole'']"

fun critical_loop :: "ctx \<Rightarrow> string \<Rightarrow> string list \<Rightarrow> status option" where
  "critical_loop ctx method [] = None"
| "critical_loop ctx method (m # ms) =
     (if has_suffix method (CHR ''/'' # m) \<and> ctx_string (ctx_vault_scope ctx) \<noteq> ''super_admin''
      then Some (Status Unauthenticated
        ''vault_access_required: this action requires master key unlock (vault mode)'')
      else critical_loop ctx method ms)"

definition authorize :: "ctx \<Rightarrow> string \<Rightarrow> status option" where
  "authorize ctx method =
     (let r = ctx_string (ctx_role ctx);
          role = (if r = [] then ''guest'' else r)
      in if role = ''guest'' \<and> has_suffix method ''/SendMessage''
         then Some (Status PermissionDenied ''guests cannot send messages'')
         else if role = ''guest'' \<and> has_suffix method ''/CreateChannel''
         then Some (Status PermissionDenied ''guests cannot create channels'')
         else if contains method ''/AdminService/'' \<or> has_suffix method ''/CreateChannel''
         then (if role \<noteq> ''admin'' \<and> role \<noteq> ''owner''
               then Some (Status PermissionDenied
                 ''unauthorized: only admins or owners can access this resource'')
               else critical_loop ctx method criticalMethods)
         else None)"

definition validateRegisterNode :: "crypto \<Rightarrow> RegisterNodeRequest option \<Rightarrow> status option" where
  "validateRegisterNode K req =
     (case req of
        None \<Rightarrow> Some (Status Internal ''invalid request type'')
      | Some registerReq \<Rightarrow>
          (case rr_Identity registerReq of
             None \<Rightarrow> Some (Status InvalidArgument ''identity is required'')
           | Some identity \<Rightarrow>
               let nodeID = id_NodeID identity; publicKey = id_PublicKey identity;
                   signature = id_Signature identity
               in if nodeID = [] then Some (Status InvalidArgument ''node_id is required'')
                  else if publicKey = [] then Some (Status InvalidArgument ''public_key is required'')
                  else if signature = [] then Some (Status InvalidArgument ''signature is required'')
                  else let expectedNodeID = DeriveNodeID K publicKey in
                    if nodeID \<noteq> expectedNodeID
                    then Some (Status InvalidArgument (''node_id does not match public key: expected '' @
                      expectedNodeID @ '', got '' @ nodeID))
                    else if VerifySignature K publicKey nodeID signature \<noteq> None
                    then Some (Status Unauthenticated ''signature verification failed'')
                    else None))"

definition AuthInterceptor_Unary ::
    "tokens \<Rightarrow> crypto \<Rightarrow> time \<Rightarrow> ('q \<Rightarrow> RegisterNodeRequest option) \<Rightarrow> ('q, 'r, 's) UnaryServerInterceptor" where
  "AuthInterceptor_Unary T K now as_register ctx req fullMethod handler sl =
     (case (if has_suffix fullMethod ''/RegisterNode'' then validateRegisterNode K (as_register req) else None) of
        Some err \<Rightarrow> (Val (Inl err), sl)
      | None \<Rightarrow>
          let newCtx = authenticateUser T now ctx in
          (case authorize newCtx fullMethod of
             Some err \<Rightarrow> (Val (Inl err), sl)
           | None \<Rightarrow> handler newCtx req sl))"

definition AuthInterceptor_Stream :: "('q, unit, 's) UnaryServerInterceptor" where
  "AuthInterceptor_Stream ctx ss fullMethod handler sl = handler ctx ss sl"

text \<open>The chain that \<open>GRPCServer.Start\<close> installs for unary calls.\<close>

definition unary_chain ::
    "tokens \<Rightarrow> crypto \<Rightarrow> time \<Rightarrow> ('q \<Rightarrow> RegisterNodeRequest option) \<Rightarrow> ('q, 'r, 's) UnaryServerInterceptor" where
  "unary_chain T K now as_register =
     ChainUnaryInterceptors [RecoveryInterceptor, LoggingInterceptor, AuthInterceptor_Unary T K now as_register]"

definition stream_chain_of_server :: "('q, unit, 's) UnaryServerInterceptor" where
  "stream_chain_of_server =
     ChainStreamInterceptors [StreamRecoveryInterceptor, StreamLoggingInterceptor, AuthInterceptor_Stream]"

section \<open>What the rules amount to\<close>

text \<open>The claims of the session token in the metadata, if it is accepted.\<close>

definition session :: "tokens \<Rightarrow> time \<Rightarrow> (string \<Rightarrow> string list) option \<Rightarrow> Claims option" where
  "session T now md =
     (case md of
        None \<Rightarrow> None
      | Some m \<Rightarrow>
          (case m ''authorization'' of
             [] \<Rightarrow> None
           | h # _ \<Rightarrow> (case ValidateJWT T now (trim_prefix h ''Bearer '') of Inl _ \<Rightarrow> None | Inr c \<Rightarrow> Some c)))"

definition vault_open :: "tokens \<Rightarrow> time \<Rightarrow> (string \<Rightarrow> string list) option \<Rightarrow> bool" where
  "vault_open T now md \<longleftrightarrow>
     (\<exists>m h t c. md = Some m \<and> m ''x-vault-token'' = h # t \<and> ValidateJWT T now h = Inr c \<and>
        cl_Scope c = ''super_admin'')"

definition is_critical :: "string \<Rightarrow> bool" where
  "is_critical method = list_ex (\<lambda>m. has_suffix method (CHR ''/'' # m)) criticalMethods"

lemma authenticateUser_incoming:
  "authenticateUser T now (incoming md) =
     (case session T now md of
        None \<Rightarrow> (incoming md)\<lparr>ctx_role := (if md = None then None else Some ''guest'')\<rparr>
      | Some c \<Rightarrow> (incoming md)\<lparr>ctx_user_id := Some (cl_UserID c), ctx_role := Some (cl_Role c),
            ctx_vault_scope := (if vault_open T now md then Some ''super_admin'' else None)\<rparr>)"
  by (auto simp: authenticateUser_def session_def vault_open_def incoming_def Let_def
      split: option.split list.split sum.split)

lemma incoming_fields:
  "ctx_role (incoming md) = None" "ctx_user_id (incoming md) = None" "ctx_vault_scope (incoming md) = None"
  "ctx_metadata (incoming md) = md"
  by (simp_all add: incoming_def)

lemma critical_loop_iff:
  "critical_loop ctx method ms = None \<longleftrightarrow>
     \<not> list_ex (\<lambda>m. has_suffix method (CHR ''/'' # m)) ms \<or> ctx_vault_scope ctx = Some ''super_admin''"
  by (induction ms) (auto simp: ctx_string_def split: option.splits)

text \<open>When administration is let through.\<close>

definition admin_call :: "tokens \<Rightarrow> time \<Rightarrow> (string \<Rightarrow> string list) option \<Rightarrow> string \<Rightarrow> bool" where
  "admin_call T now md method \<longleftrightarrow>
     (\<exists>c. session T now md = Some c \<and> cl_Role c \<in> {''admin'', ''owner''}) \<and>
     (is_critical method \<longrightarrow> vault_open T now md)"

lemma authorize_admin:
  assumes "contains method ''/AdminService/''" "\<not> has_suffix method ''/SendMessage''"
    "\<not> has_suffix method ''/CreateChannel''"
  shows "authorize (authenticateUser T now (incoming md)) method = None \<longleftrightarrow> admin_call T now md method"
  using assms
  by (auto simp: authorize_def authenticateUser_incoming admin_call_def is_critical_def critical_loop_iff
      ctx_string_def incoming_fields Let_def split: option.split)

lemma authorize_open:
  assumes "\<not> contains method ''/AdminService/''" "\<not> has_suffix method ''/SendMessage''"
    "\<not> has_suffix method ''/CreateChannel''"
  shows "authorize ctx method = None"
  using assms by (simp add: authorize_def Let_def)

text \<open>What a caller sees through the whole chain, and what is left of the service's state.\<close>

lemma unary_chain_result:
  assumes "\<not> has_suffix m ''/RegisterNode''"
  shows "fst (unary_chain T K now as_register ctx req m h sl) =
      Val (case authorize (authenticateUser T now ctx) m of
             Some err \<Rightarrow> Inl err
           | None \<Rightarrow> recovered (fst (h (authenticateUser T now ctx) req sl)))"
    and "fst (snd (unary_chain T K now as_register ctx req m h sl)) =
      (case authorize (authenticateUser T now ctx) m of
         Some err \<Rightarrow> fst sl
       | None \<Rightarrow> fst (snd (h (authenticateUser T now ctx) req sl)))"
  using assms
  by (simp_all add: unary_chain_def outer_interceptors AuthInterceptor_Unary_def Let_def split: option.split)

lemma unary_chain_register:
  assumes "has_suffix m ''/RegisterNode''" "\<not> contains m ''/AdminService/''"
    "\<not> has_suffix m ''/SendMessage''" "\<not> has_suffix m ''/CreateChannel''"
  shows "fst (unary_chain T K now as_register ctx req m h sl) =
      Val (case validateRegisterNode K (as_register req) of
             Some err \<Rightarrow> Inl err
           | None \<Rightarrow> recovered (fst (h (authenticateUser T now ctx) req sl)))"
    and "fst (snd (unary_chain T K now as_register ctx req m h sl)) =
      (case validateRegisterNode K (as_register req) of
         Some err \<Rightarrow> fst sl
       | None \<Rightarrow> fst (snd (h (authenticateUser T now ctx) req sl)))"
  using assms
  by (simp_all add: unary_chain_def outer_interceptors AuthInterceptor_Unary_def authorize_open Let_def
      split: option.split)

text \<open>A registration request that passes carries an identity that verifies.\<close>

lemma validateRegisterNode_ok:
  assumes "length (sha256 K (id_PublicKey i)) = 32" "rr_Identity r = Some i"
  shows "validateRegisterNode K (Some r) = None \<longleftrightarrow>
     VerifyNodeIdentity K (id_NodeID i) (id_PublicKey i) (id_Signature i) = None"
proof -
  have "take 16 (sha256 K (id_PublicKey i)) \<noteq> []" using assms by auto
  then show ?thesis
    by (auto simp: assms(2) validateRegisterNode_def VerifyNodeIdentity_def VerifySignature_def DeriveNodeID_def Let_def)
qed

end
