(* ===== verification/Auth_Server.thy ===== *)
theory Auth_Server
  imports Auth_Interceptor Pg_Repo
begin

text \<open>
  \<^verbatim>\<open>internal/server/auth_manual.go\<close>: registration, login and the query for one's own
  account, on the table of users. The salt of a password hash and the id of a new user come
  from outside (the random source and PostgreSQL).
\<close>

record RegisterRequest =
  rq_Email :: string
  rq_Password :: string
  rq_FullName :: string
  rq_Phone :: string
  rq_Nickname :: string

record LoginRequest =
  lq_Email :: string
  lq_Password :: string

record pbUser =
  pu_Id :: string
  pu_Email :: string
  pu_FullName :: string
  pu_Nickname :: string
  pu_Role :: string

text \<open>\<open>RegisterResponse\<close>, \<open>LoginResponse\<close> and \<open>GetMeResponse\<close> (the latter two have fewer
  fields).\<close>

record AuthResponse =
  as_Success :: bool
  as_Message :: string
  as_Token :: string
  as_User :: pbUser

definition pbUser_of :: "User \<Rightarrow> pbUser" where
  "pbUser_of u = \<lparr>pu_Id = u_ID u, pu_Email = u_Email u, pu_FullName = u_FullName u,
     pu_Nickname = u_Nickname u, pu_Role = u_Role u\<rparr>"

section \<open>Methods\<close>

definition AuthServer_Register ::
    "tokens \<Rightarrow> faults \<Rightarrow> bytes \<Rightarrow> string \<Rightarrow> time \<Rightarrow> RegisterRequest \<Rightarrow> db \<Rightarrow> (status + AuthResponse) \<times> db" where
  "AuthServer_Register T fault salt newid now req d =
     (if rq_Email req = [] \<or> rq_Password req = [] \<or> rq_Nickname req = []
      then (Inl (Status InvalidArgument ''email, password and nickname are required''), d)
      else (case HashPassword T salt (rq_Password req) of
          Inl err \<Rightarrow> (Inl (Status Internal ''failed to hash password''), d)
        | Inr hash \<Rightarrow>
            let user = \<lparr>u_ID = [], u_Email = rq_Email req, u_PasswordHash = hash,
                  u_FullName = rq_FullName req, u_Phone = rq_Phone req, u_Nickname = rq_Nickname req,
                  u_Role = [], u_CreatedAt = 0\<rparr>
            in (case CreateUser fault newid now user d of
                  (Inl err, d') \<Rightarrow> (Inl (Status Internal (''failed to create user: '' @ err)), d')
                | (Inr created, d') \<Rightarrow>
                    (case GenerateJWT T now (u_ID created) (u_Role created) of
                       Inl err \<Rightarrow> (Inl (Status Internal ''failed to generate token''), d')
                     | Inr token \<Rightarrow>
                         (Inr \<lparr>as_Success = True, as_Message = ''Registered successfully'',
                            as_Token = token, as_User = pbUser_of created\<rparr>, d')))))"

definition AuthServer_Login ::
    "tokens \<Rightarrow> faults \<Rightarrow> time \<Rightarrow> LoginRequest \<Rightarrow> db \<Rightarrow> status + AuthResponse" where
  "AuthServer_Login T fault now req d =
     (case GetUserByEmail fault (lq_Email req) d of
        Inl err \<Rightarrow> Inl (Status Internal ''database error'')
      | Inr None \<Rightarrow> Inl (Status Unauthenticated ''invalid credentials'')
      | Inr (Some user) \<Rightarrow>
          if \<not> CheckPasswordHash T (lq_Password req) (u_PasswordHash user)
          then Inl (Status Unauthenticated ''invalid credentials'')
          else (case GenerateJWT T now (u_ID user) (u_Role user) of
              Inl err \<Rightarrow> Inl (Status Internal ''failed to generate token'')
            | Inr token \<Rightarrow> Inr \<lparr>as_Success = True, as_Message = [], as_Token = token, as_User = pbUser_of user\<rparr>))"

definition AuthServer_GetMe :: "faults \<Rightarrow> ctx \<Rightarrow> db \<Rightarrow> status + AuthResponse" where
  "AuthServer_GetMe fault ctx d =
     (case ctx_user_id ctx of
        None \<Rightarrow> Inl (Status Unauthenticated ''not authenticated'')
      | Some userID \<Rightarrow>
          (case GetUserByID fault userID d of
             Inl err \<Rightarrow> Inl (Status Internal ''database error'')
           | Inr None \<Rightarrow> Inl (Status NotFound ''user not found'')
           | Inr (Some user) \<Rightarrow>
               Inr \<lparr>as_Success = True, as_Message = [], as_Token = [], as_User = pbUser_of user\<rparr>))"

section \<open>Handlers\<close>

definition AuthService_Login_Handler where
  "AuthService_Login_Handler T fault now = method_handler ''/auth.v1.AuthService/Login''
     (lift_method (\<lambda>ctx req d. (Val (AuthServer_Login T fault now req d), d)))"

definition AuthService_Register_Handler where
  "AuthService_Register_Handler T fault salt newid now = method_handler ''/auth.v1.AuthService/Register''
     (lift_method (\<lambda>ctx req d. case AuthServer_Register T fault salt newid now req d of (a, d') \<Rightarrow> (Val a, d')))"

definition AuthService_GetMe_Handler where
  "AuthService_GetMe_Handler fault = method_handler ''/auth.v1.AuthService/GetMe''
     (lift_method (\<lambda>ctx (req :: unit) d. (Val (AuthServer_GetMe fault ctx d), d)))"

section \<open>Lemmas\<close>

lemma insert_user_Inr:
  assumes "insert_user fault newid now u d = (Inr c, d')"
  shows "c = u\<lparr>u_ID := newid, u_CreatedAt := micros now\<rparr>" "t_users d' = t_users d @ [(newid, c)]"
    "\<forall>(k, x) \<in> set (t_users d). u_Email x \<noteq> u_Email u" "map_of (t_users d) newid = None"
  using assms by (auto simp: insert_user_def sql_insert_Some Let_def image_iff case_prod_beta
      split: if_splits option.splits)

lemma find_append: "find P (xs @ ys) = (case find P xs of None \<Rightarrow> find P ys | Some x \<Rightarrow> Some x)"
  by (induction xs) simp_all

text \<open>A user who was created is found, by e-mail and by id.\<close>

lemma CreateUser_found:
  assumes "CreateUser fault newid now u d = (Inr c, d')"
  shows "fault' ''GetUserByEmail'' = None \<Longrightarrow> GetUserByEmail fault' (u_Email u) d' = Inr (Some c)"
    and "fault' ''GetUserByID'' = None \<Longrightarrow> GetUserByID fault' newid d' = Inr (Some c)"
    and "u_ID c = newid" "u_PasswordHash c = u_PasswordHash u" "u_Role c = genesis_role d" "u_Email c = u_Email u"
proof -
  have ins: "insert_user fault newid now (u\<lparr>u_Role := genesis_role d\<rparr>) d = (Inr c, d')"
    using assms by (simp add: CreateUser_def split: option.splits)
  note I = insert_user_Inr [OF ins]
  have "find (\<lambda>x. u_Email x = u_Email u) (map snd (t_users d)) = None"
    using I(3) by (force simp: find_None_iff)
  then show "GetUserByEmail fault' (u_Email u) d' = Inr (Some c)" if "fault' ''GetUserByEmail'' = None"
    using that I(1,2) by (simp add: GetUserByEmail_def find_append)
  show "GetUserByID fault' newid d' = Inr (Some c)" if "fault' ''GetUserByID'' = None"
    using that I(2,4) by (simp add: GetUserByID_def map_add_def)
  show "u_ID c = newid" "u_PasswordHash c = u_PasswordHash u" "u_Role c = genesis_role d" "u_Email c = u_Email u"
    using I(1) by simp_all
qed

lemma AuthServer_Register_Inr:
  assumes "AuthServer_Register T fault salt newid now req d = (Inr resp, d')"
  obtains hash created where "HashPassword T salt (rq_Password req) = Inr hash"
    "CreateUser fault newid now \<lparr>u_ID = [], u_Email = rq_Email req, u_PasswordHash = hash,
       u_FullName = rq_FullName req, u_Phone = rq_Phone req, u_Nickname = rq_Nickname req,
       u_Role = [], u_CreatedAt = 0\<rparr> d = (Inr created, d')"
    "GenerateJWT T now newid (genesis_role d) = Inr (as_Token resp)" "as_User resp = pbUser_of created"
proof -
  from assms obtain hash created tok where h: "HashPassword T salt (rq_Password req) = Inr hash"
    and c: "CreateUser fault newid now \<lparr>u_ID = [], u_Email = rq_Email req, u_PasswordHash = hash,
       u_FullName = rq_FullName req, u_Phone = rq_Phone req, u_Nickname = rq_Nickname req,
       u_Role = [], u_CreatedAt = 0\<rparr> d = (Inr created, d')"
    and t: "GenerateJWT T now (u_ID created) (u_Role created) = Inr tok"
    and r: "as_Token resp = tok" "as_User resp = pbUser_of created"
    by (auto simp: AuthServer_Register_def Let_def split: if_splits sum.splits prod.splits)
  show thesis using h c t r CreateUser_found(3,5) [OF c] by (intro that) simp_all
qed

text \<open>The password of the registration opens the account.\<close>

lemma Login_after_Register:
  assumes "tokens_ok T" "AuthServer_Register T fault salt newid t0 reg d = (Inr resp, d')"
    "length (rq_Password reg) \<le> 72" "fault' ''GetUserByEmail'' = None"
  shows "\<exists>lr. AuthServer_Login T fault' now \<lparr>lq_Email = rq_Email reg, lq_Password = rq_Password reg\<rparr> d' = Inr lr \<and>
     GenerateJWT T now newid (genesis_role d) = Inr (as_Token lr) \<and> as_User lr = as_User resp"
proof -
  obtain hash created where R: "HashPassword T salt (rq_Password reg) = Inr hash"
    "CreateUser fault newid t0 \<lparr>u_ID = [], u_Email = rq_Email reg, u_PasswordHash = hash,
       u_FullName = rq_FullName reg, u_Phone = rq_Phone reg, u_Nickname = rq_Nickname reg,
       u_Role = [], u_CreatedAt = 0\<rparr> d = (Inr created, d')"
    "as_User resp = pbUser_of created"
    using AuthServer_Register_Inr [OF assms(2)] by metis
  note F = CreateUser_found [OF R(2)]
  have "CheckPasswordHash T (rq_Password reg) hash"
    using password_round_trip [OF assms(1,3), of salt] R(1) by auto
  moreover obtain tok where "GenerateJWT T now newid (genesis_role d) = Inr tok"
    using jwt_sign_works [OF assms(1)] unfolding GenerateJWT_def by blast
  ultimately show ?thesis
    using F(1) [of fault', OF assms(4)] F(3-5) R(3) by (auto simp: AuthServer_Login_def)
qed

lemma genesis_role_ascii: "ascii (genesis_role d)"
  by (simp add: genesis_role_def ascii_def)

text \<open>What the interceptor makes of a session token, and \<open>GetMe\<close> behind it.\<close>

lemma session_of_token:
  assumes "tokens_ok T" "GenerateJWT T now u r = Inr tok" "ascii u" "ascii r"
    "later \<le> now + 24 * hour - second" "md ''authorization'' = [''Bearer '' @ tok]"
  shows "\<exists>c. session T later (Some md) = Some c \<and> cl_UserID c = u \<and> cl_Role c = r"
  using ValidateJWT_session(1) [OF assms(1-5)] by (auto simp: session_def assms(6) trim_prefix_def has_prefix_def)

end
