(* ===== verification/Admin_Server.thy ===== *)
theory Admin_Server
  imports Auth_Server Moderation
begin

text \<open>
  \<^verbatim>\<open>internal/server/admin_server.go\<close>: the administration of the network, behind the
  authentication interceptor. \<open>masterKey\<close> is the server's \<open>ADMIN_MASTER_KEY\<close>. A duration in
  seconds becomes a \<open>time.Duration\<close> of nanoseconds by a multiplication in \<open>int64\<close>, which
  wraps around; it is written out. A method whose error is not a status error fails with the
  code Unknown.
\<close>

record GetNetworkStatsResponse =
  gn_TotalNodes :: int
  gn_OnlineNodes :: int
  gn_TotalUsers :: int
  gn_NodesByType :: "(string \<times> int) list"

record NodeInfo =
  ni_Identity :: NodeIdentity
  ni_Type :: int
  ni_Status :: int
  ni_Endpoints :: "string list"
  ni_Version :: string
  ni_Capabilities :: "string list"
  ni_Region :: string
  ni_RegisteredAt :: time
  ni_LastSeen :: time

record ListNodesRequest =
  ln_FilterType :: int
  ln_OnlineOnly :: bool
  ln_Limit :: int
  ln_Offset :: int

record UserSummary =
  us_Id :: string
  us_Email :: string
  us_Nickname :: string
  us_Role :: string
  us_IsOnline :: bool

record BanNodeRequest =
  bn_NodeId :: string
  bn_Reason :: string
  bn_DurationSeconds :: int

record SendGlobalAlertRequest =
  ga_Title :: string
  ga_Message :: string
  ga_Severity :: string
  ga_InfoUrl :: string

text \<open>\<open>UpdateUserRoleResponse\<close>, \<open>BanNodeResponse\<close>, \<open>UnbanNodeResponse\<close>,
  \<open>SendGlobalAlertResponse\<close> (with \<open>EventId\<close>) and \<open>VerifyMasterKeyResponse\<close> (with
  \<open>VaultToken\<close>): the last field is the extra one, empty where there is none.\<close>

record AdminResponse =
  ad_Success :: bool
  ad_Message :: string
  ad_Extra :: string

definition ad_fail :: "string \<Rightarrow> AdminResponse" where
  "ad_fail msg = \<lparr>ad_Success = False, ad_Message = msg, ad_Extra = []\<rparr>"

definition ad_done :: "string \<Rightarrow> string \<Rightarrow> AdminResponse" where
  "ad_done msg extra = \<lparr>ad_Success = True, ad_Message = msg, ad_Extra = extra\<rparr>"

text \<open>\<open>err.Error()\<close> of the errors of the moderation service.\<close>

fun mod_error_text :: "mod_error \<Rightarrow> string" where
  "mod_error_text ErrUnauthorizedModerator = ''unauthorized: not a global moderator''"
| "mod_error_text ErrInvalidModerationSign = ''invalid moderation signature''"
| "mod_error_text (ErrStorage e) = e"

section \<open>Methods\<close>

definition value_or_0 :: "string + nat \<Rightarrow> nat" where
  "value_or_0 r = (case r of Inl _ \<Rightarrow> 0 | Inr n \<Rightarrow> n)"

text \<open>The loop over the counts per type: the total and the map by name. Types that share a
  name overwrite each other.\<close>

fun stats_loop :: "(int \<times> nat) list \<Rightarrow> int \<Rightarrow> (string \<times> int) list \<Rightarrow> int \<times> (string \<times> int) list" where
  "stats_loop [] onlineNodes typeStats = (onlineNodes, typeStats)"
| "stats_loop ((t, count) # rest) onlineNodes typeStats =
     stats_loop rest (onlineNodes + int count) (AList.update (NodeType_String t) (int32 (int count)) typeStats)"

definition AdminServer_GetNetworkStats :: "'r world \<Rightarrow> time \<Rightarrow> 'r core \<Rightarrow> status + GetNetworkStatsResponse" where
  "AdminServer_GetNetworkStats W now st =
     (case GetNodeStats W now st of
        Inl err \<Rightarrow> Inl (Status Unknown err)
      | Inr nodeStats \<Rightarrow>
          let totalUsers = value_or_0 (GetTotalUsers (w_faults W) (c_db st));
              totalNodes = value_or_0 (GetTotalNodesCount (w_faults W) (c_db st))
          in (case stats_loop nodeStats 0 [] of
                (onlineNodes, typeStats) \<Rightarrow>
                  Inr \<lparr>gn_TotalNodes = int32 (int totalNodes), gn_OnlineNodes = int32 onlineNodes,
                    gn_TotalUsers = int32 (int totalUsers), gn_NodesByType = typeStats\<rparr>))"

definition AdminServer_ListNodes :: "'r world \<Rightarrow> ListNodesRequest \<Rightarrow> 'r core \<Rightarrow> status + NodeInfo list \<times> int" where
  "AdminServer_ListNodes W req st =
     (case pg_ListNodes (w_faults W) (ln_FilterType req) (ln_OnlineOnly req) (ln_Limit req) (ln_Offset req) (c_db st) of
        Inl err \<Rightarrow> Inl (Status Unknown err)
      | Inr (nodes, totalCount) \<Rightarrow>
          Inr (map (\<lambda>n. \<lparr>ni_Identity = \<lparr>id_NodeID = id_NodeID (n_Identity n),
                       id_PublicKey = id_PublicKey (n_Identity n), id_Signature = []\<rparr>,
                     ni_Type = n_Type n, ni_Status = n_Status n, ni_Endpoints = n_Endpoints n,
                     ni_Version = n_Version n, ni_Capabilities = n_Capabilities n, ni_Region = n_Region n,
                     ni_RegisteredAt = n_RegisteredAt n, ni_LastSeen = n_LastSeen n\<rparr>) nodes,
               int32 (int totalCount)))"

definition AdminServer_ListUsers :: "'r world \<Rightarrow> int \<Rightarrow> int \<Rightarrow> 'r core \<Rightarrow> status + UserSummary list \<times> int" where
  "AdminServer_ListUsers W limit offset st =
     (case pg_ListUsers (w_faults W) limit offset (c_db st) of
        Inl err \<Rightarrow> Inl (Status Unknown err)
      | Inr (users, totalCount) \<Rightarrow>
          Inr (map (\<lambda>u. \<lparr>us_Id = u_ID u, us_Email = u_Email u, us_Nickname = u_Nickname u,
                     us_Role = u_Role u, us_IsOnline = True\<rparr>) users,
               int32 (int totalCount)))"

definition AdminServer_UpdateUserRole ::
    "'r world \<Rightarrow> string \<Rightarrow> string \<Rightarrow> 'r core \<Rightarrow> AdminResponse \<times> 'r core" where
  "AdminServer_UpdateUserRole W userID newRole st =
     (case UpdateUserRole (w_faults W) userID newRole (c_db st) of
        (Some err, d) \<Rightarrow> (ad_fail err, st\<lparr>c_db := d\<rparr>)
      | (None, d) \<Rightarrow> (ad_done ''Role updated successfully'' [], st\<lparr>c_db := d\<rparr>))"

definition AdminServer_BanNode :: "'r world \<Rightarrow> time \<Rightarrow> BanNodeRequest \<Rightarrow> 'r core \<Rightarrow> AdminResponse \<times> 'r core" where
  "AdminServer_BanNode W now req st =
     (let ban = \<lparr>ban_BannedNodeID = bn_NodeId req, ban_Reason = bn_Reason req,
            ban_DurationSeconds = bn_DurationSeconds req, ban_EvidenceHash = [], ban_BannedAt = now,
            ban_ExpiresAt = (if bn_DurationSeconds req > 0
              then Some (now + int64 (bn_DurationSeconds req * second)) else None),
            ban_ModeratorID = []\<rparr>
      in (case pg_BanNode (w_faults W) ban (c_db st) of
            (Some err, d) \<Rightarrow> (ad_fail err, st\<lparr>c_db := d\<rparr>)
          | (None, d) \<Rightarrow> (ad_done ''Node banned successfully'' [], st\<lparr>c_db := d\<rparr>)))"

definition AdminServer_UnbanNode :: "'r world \<Rightarrow> string \<Rightarrow> 'r core \<Rightarrow> AdminResponse \<times> 'r core" where
  "AdminServer_UnbanNode W nodeID st =
     (case UnbanNode (w_faults W) nodeID (c_db st) of
        (Some err, d) \<Rightarrow> (ad_fail err, st\<lparr>c_db := d\<rparr>)
      | (None, d) \<Rightarrow> (ad_done ''Node unbanned successfully'' [], st\<lparr>c_db := d\<rparr>))"

definition AdminServer_SendGlobalAlert ::
    "'r world \<Rightarrow> time \<Rightarrow> ctx \<Rightarrow> SendGlobalAlertRequest \<Rightarrow> 'r core \<Rightarrow> AdminResponse \<times> 'r core" where
  "AdminServer_SendGlobalAlert W now ctx req st =
     (let alert = \<lparr>al_AlertID = ''alert-'' @ dec_int (unix now), al_Title = ga_Title req,
            al_Message = ga_Message req, al_Severity = ga_Severity req, al_InfoURL = ga_InfoUrl req,
            al_CreatedAt = now\<rparr>;
          moderatorID = ctx_string (ctx_user_id ctx)
      in (case PublishInternalAlert W now alert moderatorID [] now st of
            (Some err, st') \<Rightarrow> (ad_fail (mod_error_text err), st')
          | (None, st') \<Rightarrow> (ad_done ''Alert broadcasted'' (al_AlertID alert), st')))"

definition AdminServer_VerifyMasterKey ::
    "tokens \<Rightarrow> string \<Rightarrow> time \<Rightarrow> ctx \<Rightarrow> string \<Rightarrow> status + AdminResponse" where
  "AdminServer_VerifyMasterKey T masterKey now ctx key =
     (if masterKey = [] then Inr (ad_fail ''ADMIN_MASTER_KEY not configured on server'')
      else if key \<noteq> masterKey then Inr (ad_fail ''Invalid master key'')
      else let u = ctx_string (ctx_user_id ctx);
               userID = (if u = [] then ''admin-session'' else u)
        in (case GenerateVaultToken T now userID of
              Inl err \<Rightarrow> Inl (Status Unknown err)
            | Inr vaultToken \<Rightarrow>
                Inr (ad_done ''Master key verified. Vault unlocked for 30 minutes.'' vaultToken)))"

section \<open>The service behind the interceptors\<close>

text \<open>The methods as requests: the full method names are those under which the generated
  code registers them.\<close>

datatype admin_req = GetNetworkStatsReq | ListNodesReq ListNodesRequest | ListUsersReq int int
  | UpdateUserRoleReq string string | BanNodeReq BanNodeRequest | UnbanNodeReq string
  | SendGlobalAlertReq SendGlobalAlertRequest | VerifyMasterKeyReq string

datatype admin_resp = StatsResp GetNetworkStatsResponse | NodesResp "NodeInfo list" int
  | UsersResp "UserSummary list" int | AdminResp AdminResponse

definition admin_method_name :: "admin_req \<Rightarrow> string" where
  "admin_method_name req = (case req of
     GetNetworkStatsReq \<Rightarrow> ''GetNetworkStats'' | ListNodesReq _ \<Rightarrow> ''ListNodes''
   | ListUsersReq _ _ \<Rightarrow> ''ListUsers'' | UpdateUserRoleReq _ _ \<Rightarrow> ''UpdateUserRole''
   | BanNodeReq _ \<Rightarrow> ''BanNode'' | UnbanNodeReq _ \<Rightarrow> ''UnbanNode''
   | SendGlobalAlertReq _ \<Rightarrow> ''SendGlobalAlert'' | VerifyMasterKeyReq _ \<Rightarrow> ''VerifyMasterKey'')"

definition admin_full_method :: "admin_req \<Rightarrow> string" where
  "admin_full_method req = ''/network.v1.AdminService/'' @ admin_method_name req"

fun admin_method ::
    "tokens \<Rightarrow> 'r world \<Rightarrow> string \<Rightarrow> time \<Rightarrow> ctx \<Rightarrow> admin_req \<Rightarrow> 'r core \<Rightarrow> (status + admin_resp) go \<times> 'r core" where
  "admin_method T W mk now ctx GetNetworkStatsReq st =
     (Val (map_sum id StatsResp (AdminServer_GetNetworkStats W now st)), st)"
| "admin_method T W mk now ctx (ListNodesReq r) st =
     (Val (map_sum id (\<lambda>(ns, t). NodesResp ns t) (AdminServer_ListNodes W r st)), st)"
| "admin_method T W mk now ctx (ListUsersReq l offs) st =
     (Val (map_sum id (\<lambda>(us, t). UsersResp us t) (AdminServer_ListUsers W l offs st)), st)"
| "admin_method T W mk now ctx (UpdateUserRoleReq u r) st =
     (case AdminServer_UpdateUserRole W u r st of (a, st') \<Rightarrow> (Val (Inr (AdminResp a)), st'))"
| "admin_method T W mk now ctx (BanNodeReq r) st =
     (case AdminServer_BanNode W now r st of (a, st') \<Rightarrow> (Val (Inr (AdminResp a)), st'))"
| "admin_method T W mk now ctx (UnbanNodeReq n) st =
     (case AdminServer_UnbanNode W n st of (a, st') \<Rightarrow> (Val (Inr (AdminResp a)), st'))"
| "admin_method T W mk now ctx (SendGlobalAlertReq r) st =
     (case AdminServer_SendGlobalAlert W now ctx r st of (a, st') \<Rightarrow> (Val (Inr (AdminResp a)), st'))"
| "admin_method T W mk now ctx (VerifyMasterKeyReq k) st =
     (Val (map_sum id AdminResp (AdminServer_VerifyMasterKey T mk now ctx k)), st)"

definition admin_call_through ::
    "tokens \<Rightarrow> 'r world \<Rightarrow> string \<Rightarrow> time \<Rightarrow> (string \<Rightarrow> string list) option \<Rightarrow> admin_req
     \<Rightarrow> 'r core \<times> log_line list \<Rightarrow> (admin_resp, 'r core) outcome" where
  "admin_call_through T W mk now md req sl =
     method_handler (admin_full_method req) (lift_method (admin_method T W mk now)) (incoming md) (Inr req)
       (Some (unary_chain T (w_crypto W) now (\<lambda>_. None))) sl"

section \<open>Lemmas\<close>

definition admin_names :: "string list" where
  "admin_names = [''GetNetworkStats'', ''ListNodes'', ''ListUsers'', ''UpdateUserRole'', ''BanNode'',
     ''UnbanNode'', ''SendGlobalAlert'', ''VerifyMasterKey'']"

lemma admin_name_listed: "admin_method_name req \<in> set admin_names"
  by (cases req) (simp_all add: admin_method_name_def admin_names_def)

text \<open>The full names contain \<open>.AdminService/\<close>, after the name of the package, and not the
  \<open>/AdminService/\<close> that the rules look for.\<close>

lemma admin_names_shape:
  "list_all (\<lambda>n. let m = ''/network.v1.AdminService/'' @ n in
     \<not> contains m ''/AdminService/'' \<and> \<not> has_suffix m ''/SendMessage'' \<and>
     \<not> has_suffix m ''/CreateChannel'' \<and> \<not> has_suffix m ''/RegisterNode'')
   admin_names"
  by code_simp

lemma admin_method_shape:
  "\<not> contains (admin_full_method req) ''/AdminService/''"
  "\<not> has_suffix (admin_full_method req) ''/SendMessage''"
  "\<not> has_suffix (admin_full_method req) ''/CreateChannel''"
  "\<not> has_suffix (admin_full_method req) ''/RegisterNode''"
  using admin_names_shape admin_name_listed [of req]
  unfolding list_all_iff Let_def admin_full_method_def by blast+

text \<open>So no rule applies, and every call reaches its method.\<close>

lemma admin_call_reaches:
  "fst (admin_call_through T W mk now md req (st, l)) =
     Val (recovered (fst (admin_method T W mk now (authenticateUser T now (incoming md)) req st)))"
  "fst (snd (admin_call_through T W mk now md req (st, l))) =
     snd (admin_method T W mk now (authenticateUser T now (incoming md)) req st)"
  using admin_method_shape [of req] authorize_open [of "admin_full_method req"]
  by (simp_all add: admin_call_through_def method_handler_def unary_chain_result)

text \<open>The sum of the counts is the number of nodes that could be read.\<close>

lemma stats_loop_total: "fst (stats_loop cs n m) = n + int (sum_list (map snd cs))"
  by (induction cs n m rule: stats_loop.induct) simp_all

end
