(* ===== verification/Stream_Manager.thy ===== *)
theory Stream_Manager
  imports Go_Chan "HOL-Library.Word"
begin

text \<open>
  \<^verbatim>\<open>internal/server/stream_manager.go\<close>: the streams of the subscribers to global events,
  spread over 256 shards by the FNV-1a hash of the node id. Channels live in a store and are
  referred to by their addresses, because a stream keeps using the channel it was given even
  after the registry has forgotten it.

  The goroutines of a broadcast run in any order; \<open>order\<close> lists the shards in the order in
  which they take their locks. \<open>BroadcastAsync\<close> starts the same goroutines and does not wait,
  so its effect is that of \<open>Broadcast\<close> once they have run.
\<close>

unbundle bit_operations_syntax

definition numShards :: nat where "numShards = 256"

record 'e StreamManager =
  sm_shards :: "(string \<times> nat) list list"
  sm_bufferSize :: nat
  sm_chans :: "'e chan list"

definition NewStreamManager :: "nat \<Rightarrow> 'e StreamManager" where
  "NewStreamManager bufferSize =
     \<lparr>sm_shards = replicate numShards [], sm_bufferSize = bufferSize, sm_chans = []\<rparr>"

text \<open>\<open>hash/fnv\<close>: \<open>New32a\<close>.\<close>

definition fnv32a :: "bytes \<Rightarrow> 32 word" where
  "fnv32a bs = foldl (\<lambda>h c. (h XOR of_nat (of_char c)) * 16777619) 2166136261 bs"

definition getShard :: "string \<Rightarrow> nat" where
  "getShard nodeID = unat (fnv32a nodeID mod of_nat numShards)"

definition StreamManager_Register :: "string \<Rightarrow> 'e StreamManager \<Rightarrow> nat \<times> 'e StreamManager" where
  "StreamManager_Register nodeID sm =
     (let eventChan = length (sm_chans sm); i = getShard nodeID in
      (eventChan, sm\<lparr>sm_chans := sm_chans sm @ [make_chan (sm_bufferSize sm)],
         sm_shards := (sm_shards sm)[i := AList.update nodeID eventChan (sm_shards sm ! i)]\<rparr>))"

definition StreamManager_Unregister :: "string \<Rightarrow> 'e StreamManager \<Rightarrow> 'e StreamManager go" where
  "StreamManager_Unregister nodeID sm =
     (let i = getShard nodeID in
      (case map_of (sm_shards sm ! i) nodeID of
         None \<Rightarrow> Val sm
       | Some ch \<Rightarrow>
           go_bind (close_chan (sm_chans sm ! ch)) (\<lambda>c.
             Val (sm\<lparr>sm_chans := (sm_chans sm)[ch := c],
                     sm_shards := (sm_shards sm)[i := AList.delete nodeID (sm_shards sm ! i)]\<rparr>))))"

fun send_all :: "'e \<Rightarrow> nat list \<Rightarrow> 'e chan list \<Rightarrow> 'e chan list go" where
  "send_all event [] cs = Val cs"
| "send_all event (ch # chs) cs =
     (case try_send event (cs ! ch) of
        Sent c \<Rightarrow> send_all event chs (cs[ch := c])
      | WouldBlock \<Rightarrow> send_all event chs cs
      | SendOnClosed \<Rightarrow> Panic ''send on closed channel'')"

fun broadcast_shards :: "'e \<Rightarrow> (string \<times> nat) list list \<Rightarrow> nat list \<Rightarrow> 'e chan list \<Rightarrow> 'e chan list go" where
  "broadcast_shards event shards [] cs = Val cs"
| "broadcast_shards event shards (i # order) cs =
     go_bind (send_all event (map snd (shards ! i)) cs) (broadcast_shards event shards order)"

definition Broadcast :: "nat list \<Rightarrow> 'e \<Rightarrow> 'e StreamManager \<Rightarrow> 'e StreamManager go" where
  "Broadcast order event sm =
     go_bind (broadcast_shards event (sm_shards sm) order (sm_chans sm)) (\<lambda>cs. Val (sm\<lparr>sm_chans := cs\<rparr>))"

definition BroadcastAsync :: "nat list \<Rightarrow> 'e \<Rightarrow> 'e StreamManager \<Rightarrow> 'e StreamManager go" where
  "BroadcastAsync order event sm =
     go_bind (broadcast_shards event (sm_shards sm) order (sm_chans sm)) (\<lambda>cs. Val (sm\<lparr>sm_chans := cs\<rparr>))"

definition StreamManager_Count :: "'e StreamManager \<Rightarrow> nat" where
  "StreamManager_Count sm = foldl (\<lambda>total i. total + length (sm_shards sm ! i)) 0 [0..<numShards]"

definition StreamManager_Has :: "string \<Rightarrow> 'e StreamManager \<Rightarrow> bool" where
  "StreamManager_Has nodeID sm \<longleftrightarrow> map_of (sm_shards sm ! getShard nodeID) nodeID \<noteq> None"

section \<open>The abstract registry and the invariant\<close>

text \<open>One map from node ids to channels.\<close>

definition registry :: "'e StreamManager \<Rightarrow> string \<rightharpoonup> nat" where
  "registry sm nodeID = map_of (sm_shards sm ! getShard nodeID) nodeID"

definition registry_ok :: "'e StreamManager \<Rightarrow> bool" where
  "registry_ok sm \<longleftrightarrow>
     length (sm_shards sm) = numShards \<and>
     (\<forall>i < numShards. keys_distinct (sm_shards sm ! i) \<and> (\<forall>k \<in> fst ` set (sm_shards sm ! i). getShard k = i)) \<and>
     inj_on (registry sm) (dom (registry sm)) \<and>
     (\<forall>n a. registry sm n = Some a \<longrightarrow>
        a < length (sm_chans sm) \<and> chan_live (sm_bufferSize sm) (sm_chans sm ! a))"

text \<open>What a non-blocking send leaves of a live channel.\<close>

definition offered :: "'e \<Rightarrow> 'e chan \<Rightarrow> 'e chan" where
  "offered e c = (if length (buf c) < cap c then c\<lparr>buf := buf c @ [e]\<rparr> else c)"

section \<open>Lemmas\<close>

lemma getShard_less: "getShard n < numShards"
proof -
  have "fnv32a n mod 256 < 256" by (simp add: word_mod_less_divisor)
  then show ?thesis by (simp add: getShard_def numShards_def word_less_nat_alt)
qed

lemma registry_shard:
  assumes "registry_ok sm" "i < numShards"
  shows "map_of (sm_shards sm ! i) n = (if getShard n = i then registry sm n else None)"
  using assms by (auto simp: registry_ok_def registry_def map_of_eq_None_iff)

lemma in_shard:
  assumes "registry_ok sm" "i < numShards"
  shows "(n, a) \<in> set (sm_shards sm ! i) \<longleftrightarrow> getShard n = i \<and> registry sm n = Some a"
proof -
  have "distinct (map fst (sm_shards sm ! i))"
    using assms by (simp add: registry_ok_def keys_distinct_def)
  from map_of_eq_Some_iff [OF this, of n a] registry_shard [OF assms, of n] show ?thesis
    by (auto split: if_splits)
qed

lemma registry_New [simp]: "registry (NewStreamManager k) = Map.empty"
  by (simp add: fun_eq_iff registry_def NewStreamManager_def getShard_less)

lemma registry_ok_New: "registry_ok (NewStreamManager k)"
  unfolding registry_ok_def registry_New by (simp add: NewStreamManager_def)

lemma registry_set_shard:
  assumes "registry_ok sm" "\<forall>k. k \<noteq> n \<longrightarrow> map_of sh k = map_of (sm_shards sm ! getShard n) k"
  shows "registry (sm\<lparr>sm_shards := (sm_shards sm)[getShard n := sh], sm_chans := cs\<rparr>) =
    (registry sm)(n := map_of sh n)"
  using assms getShard_less [of n]
  by (auto simp: fun_eq_iff registry_def nth_list_update registry_ok_def)

lemma registry_reorder:
  "registry (sm\<lparr>sm_chans := cs, sm_shards := sh\<rparr>) = registry (sm\<lparr>sm_shards := sh, sm_chans := cs\<rparr>)"
  by (simp add: fun_eq_iff registry_def)

text \<open>Registering adds a fresh channel; the invariant holds again.\<close>

lemma Register_registry:
  assumes "registry_ok sm" "StreamManager_Register n sm = (a, sm')"
  shows "a = length (sm_chans sm)" "registry sm' = (registry sm)(n \<mapsto> a)"
    "sm_chans sm' = sm_chans sm @ [make_chan (sm_bufferSize sm)]" "sm_bufferSize sm' = sm_bufferSize sm"
  using assms registry_set_shard [OF assms(1), of n "AList.update n a (sm_shards sm ! getShard n)"]
  by (auto simp: StreamManager_Register_def Let_def registry_reorder update_conv')

lemma fst_update: "fst ` set (AList.update k v m) = insert k (fst ` set m)"
  by (metis dom_map_of_conv_image_fst update_conv' dom_fun_upd option.distinct(1))

lemma delete_mem: "x \<in> set (AList.delete k m) \<Longrightarrow> x \<in> set m"
  by (cases x) (simp add: AList.delete_eq)

lemma Register_ok:
  assumes "registry_ok sm" "StreamManager_Register n sm = (a, sm')"
  shows "registry_ok sm'"
proof -
  note R = Register_registry [OF assms]
  have sh: "sm_shards sm' = (sm_shards sm)[getShard n := AList.update n a (sm_shards sm ! getShard n)]"
    using assms(2) by (auto simp: StreamManager_Register_def Let_def)
  have "keys_distinct (sm_shards sm' ! i) \<and> (\<forall>k \<in> fst ` set (sm_shards sm' ! i). getShard k = i)"
    if "i < numShards" for i
    using assms(1) that unfolding registry_ok_def sh
    by (cases "i = getShard n") (auto simp: nth_list_update fst_update simp del: image_iff)
  moreover have fresh: "registry sm m \<noteq> Some (length (sm_chans sm))" for m
    using assms(1) by (auto simp: registry_ok_def)
  then have "inj_on (registry sm') (dom (registry sm'))"
    using assms(1) unfolding R registry_ok_def inj_on_def by (auto split: if_splits)
  moreover have "b < length (sm_chans sm') \<and> chan_live (sm_bufferSize sm') (sm_chans sm' ! b)"
    if "registry sm' m = Some b" for m b
    using assms(1) that by (auto simp: R registry_ok_def nth_append intro: less_SucI split: if_splits)
  moreover have "length (sm_shards sm') = numShards"
    using assms(1) by (simp add: sh registry_ok_def)
  ultimately show ?thesis unfolding registry_ok_def by blast
qed

text \<open>Unregistering never panics: the registered channel is open. It is closed and forgotten.\<close>

lemma Unregister_registry:
  assumes "registry_ok sm"
  shows "\<exists>sm'. StreamManager_Unregister n sm = Val sm' \<and> registry sm' = (registry sm)(n := None) \<and>
     sm_bufferSize sm' = sm_bufferSize sm \<and> registry_ok sm' \<and>
     sm_chans sm' = (case registry sm n of None \<Rightarrow> sm_chans sm
       | Some a \<Rightarrow> (sm_chans sm)[a := (sm_chans sm ! a)\<lparr>closed := True\<rparr>])"
proof (cases "registry sm n")
  case None
  then show ?thesis
    using assms by (auto simp: StreamManager_Unregister_def registry_def Let_def fun_eq_iff)
next
  case (Some a)
  let ?sm' = "sm\<lparr>sm_chans := (sm_chans sm)[a := (sm_chans sm ! a)\<lparr>closed := True\<rparr>],
    sm_shards := (sm_shards sm)[getShard n := AList.delete n (sm_shards sm ! getShard n)]\<rparr>"
  have live: "chan_live (sm_bufferSize sm) (sm_chans sm ! a)"
    using assms Some by (simp add: registry_ok_def)
  then have U: "StreamManager_Unregister n sm = Val ?sm'"
    using Some by (simp add: StreamManager_Unregister_def registry_def Let_def close_live)
  have R: "registry ?sm' = (registry sm)(n := None)"
    using registry_set_shard [OF assms, of n "AList.delete n (sm_shards sm ! getShard n)"]
    by (simp add: registry_reorder)
  have "keys_distinct (sm_shards ?sm' ! i) \<and> (\<forall>k \<in> fst ` set (sm_shards ?sm' ! i). getShard k = i)"
    if "i < numShards" for i
    using assms that unfolding registry_ok_def
    by (cases "i = getShard n") (auto simp: nth_list_update dest!: delete_mem)
  moreover have "inj_on (registry ?sm') (dom (registry ?sm'))"
    using assms unfolding R registry_ok_def by (auto simp: inj_on_def)
  moreover have "b < length (sm_chans ?sm') \<and> chan_live (sm_bufferSize ?sm') (sm_chans ?sm' ! b)"
    if "registry ?sm' m = Some b" for m b
  proof -
    from that have m: "m \<noteq> n" "registry sm m = Some b" by (auto simp: R split: if_splits)
    moreover have "b \<noteq> a" using m Some assms unfolding registry_ok_def inj_on_def by (metis domI)
    ultimately show ?thesis using assms by (simp add: registry_ok_def)
  qed
  moreover have "length (sm_shards ?sm') = numShards" using assms by (simp add: registry_ok_def)
  ultimately have "registry_ok ?sm'" unfolding registry_ok_def by blast
  then show ?thesis using U R Some by simp
qed

subsection \<open>Broadcast\<close>

lemma send_all_append:
  "send_all e (as @ bs) cs = go_bind (send_all e as cs) (send_all e bs)"
  by (induction as arbitrary: cs) (auto split: send.split)

lemma broadcast_shards_concat:
  "broadcast_shards e shards order cs = send_all e (concat (map (\<lambda>i. map snd (shards ! i)) order)) cs"
proof (induction order arbitrary: cs)
  case (Cons i order)
  then have "broadcast_shards e shards order = send_all e (concat (map (\<lambda>i. map snd (shards ! i)) order))"
    by (simp add: fun_eq_iff)
  then show ?case by (simp add: send_all_append)
qed simp

lemma send_all_live:
  assumes "distinct as" "\<forall>a \<in> set as. a < length cs \<and> chan_live n (cs ! a)"
  shows "send_all e as cs = Val (map (\<lambda>a. if a \<in> set as then offered e (cs ! a) else cs ! a) [0..<length cs])"
  using assms
proof (induction as arbitrary: cs)
  case Nil
  then show ?case by (simp add: map_nth)
next
  case (Cons a as)
  let ?cs = "cs[a := offered e (cs ! a)]"
  have a: "a < length cs" "chan_live n (cs ! a)" using Cons.prems(2) by auto
  then have "send_all e (a # as) cs = send_all e as ?cs"
    by (simp add: try_send_live offered_def) (simp add: chan_live_def)
  also have "\<dots> = Val (map (\<lambda>b. if b \<in> set as then offered e (?cs ! b) else ?cs ! b) [0..<length ?cs])"
    using Cons.prems by (intro Cons.IH) (auto simp: nth_list_update)
  also have "map (\<lambda>b. if b \<in> set as then offered e (?cs ! b) else ?cs ! b) [0..<length ?cs] =
      map (\<lambda>b. if b \<in> set (a # as) then offered e (cs ! b) else cs ! b) [0..<length cs]"
    using Cons.prems(1) a(1) by (auto simp: nth_list_update)
  finally show ?case .
qed

lemma distinct_concat_map:
  assumes "distinct is" "\<forall>i \<in> set is. distinct (f i)"
    "\<forall>i \<in> set is. \<forall>j \<in> set is. i \<noteq> j \<longrightarrow> set (f i) \<inter> set (f j) = {}"
  shows "distinct (concat (map f is))"
  using assms by (induction "is") auto

text \<open>Whatever the order of the shards, exactly the registered channels are offered the event.\<close>

lemma Broadcast_effect:
  assumes "registry_ok sm" "distinct order" "set order = {0..<numShards}"
  shows "Broadcast order e sm = Val (sm\<lparr>sm_chans :=
     map (\<lambda>a. if a \<in> ran (registry sm) then offered e (sm_chans sm ! a) else sm_chans sm ! a)
       [0..<length (sm_chans sm)]\<rparr>)"
proof -
  let ?f = "\<lambda>i. map snd (sm_shards sm ! i)"
  have mem: "a \<in> set (?f i) \<longleftrightarrow> (\<exists>n. getShard n = i \<and> registry sm n = Some a)" if "i < numShards" for a i
    using in_shard [OF assms(1) that] by force
  have inj: "registry sm m = Some a \<Longrightarrow> registry sm n = Some a \<Longrightarrow> m = n" for m n a
    using assms(1) unfolding registry_ok_def inj_on_def dom_def by (metis (mono_tags) mem_Collect_eq option.distinct(1))
  have "distinct (?f i)" if "i < numShards" for i
  proof -
    have "distinct (map fst (sm_shards sm ! i))"
      using assms(1) that by (simp add: registry_ok_def keys_distinct_def)
    moreover have "inj_on snd (set (sm_shards sm ! i))"
      using in_shard [OF assms(1) that] inj by (auto simp: inj_on_def)
    ultimately show ?thesis by (simp add: distinct_map)
  qed
  moreover have "set (?f i) \<inter> set (?f j) = {}" if "i < numShards" "j < numShards" "i \<noteq> j" for i j
    using mem that inj by blast
  ultimately have d: "distinct (concat (map ?f order))"
    using assms(2,3) by (intro distinct_concat_map) auto
  have s: "set (concat (map ?f order)) = ran (registry sm)"
  proof -
    have "set (concat (map ?f order)) = (\<Union>i<numShards. set (?f i))"
      using assms(3) by (simp only: set_concat set_map image_image atLeast0LessThan)
    also have "\<dots> = (\<Union>i<numShards. {a. \<exists>n. getShard n = i \<and> registry sm n = Some a})"
      using mem by (intro SUP_cong refl set_eqI) (simp only: lessThan_iff mem_Collect_eq)
    also have "\<dots> = ran (registry sm)" using getShard_less by (auto simp: ran_def)
    finally show ?thesis .
  qed
  have "\<forall>a \<in> set (concat (map ?f order)). a < length (sm_chans sm) \<and> chan_live (sm_bufferSize sm) (sm_chans sm ! a)"
    using assms(1) unfolding s registry_ok_def ran_def by blast
  from send_all_live [OF d this] show ?thesis
    by (simp only: Broadcast_def broadcast_shards_concat s go_bind.simps)
qed

lemma offered_live: "chan_live n c \<Longrightarrow> chan_live n (offered e c)"
  by (auto simp: offered_def chan_live_def chan_ok_def)

lemma Broadcast_ok:
  assumes "registry_ok sm" "distinct order" "set order = {0..<numShards}"
  shows "\<exists>sm'. Broadcast order e sm = Val sm' \<and> BroadcastAsync order e sm = Val sm' \<and> registry_ok sm' \<and>
    registry sm' = registry sm \<and>
    sm_chans sm' = map (\<lambda>a. if a \<in> ran (registry sm) then offered e (sm_chans sm ! a)
      else sm_chans sm ! a) [0..<length (sm_chans sm)]"
proof -
  let ?cs = "map (\<lambda>a. if a \<in> ran (registry sm) then offered e (sm_chans sm ! a) else sm_chans sm ! a)
    [0..<length (sm_chans sm)]"
  have R: "registry (sm\<lparr>sm_chans := ?cs\<rparr>) = registry sm" by (simp add: fun_eq_iff registry_def)
  have "registry_ok (sm\<lparr>sm_chans := ?cs\<rparr>)"
    using assms(1) by (auto simp: registry_ok_def R intro: offered_live)
  then show ?thesis
    using Broadcast_effect [OF assms, of e] R
    by (intro exI [of _ "sm\<lparr>sm_chans := ?cs\<rparr>"]) (simp add: Broadcast_def BroadcastAsync_def)
qed

subsection \<open>Counting\<close>

lemma foldl_count: "foldl (\<lambda>t i. t + f i) (a :: nat) [0..<n] = a + (\<Sum>i<n. f i)"
  by (induction n) simp_all

lemma Count_card:
  assumes "registry_ok sm"
  shows "StreamManager_Count sm = card (dom (registry sm))"
proof -
  let ?D = "\<lambda>i. {n. getShard n = i \<and> n \<in> dom (registry sm)}"
  have D: "length (sm_shards sm ! i) = card (?D i)" "finite (?D i)" if "i < numShards" for i
  proof -
    have "dom (map_of (sm_shards sm ! i)) = ?D i"
      using registry_shard [OF assms that] by (auto simp: dom_def split: if_splits)
    then show "length (sm_shards sm ! i) = card (?D i)" "finite (?D i)"
      using assms that length_card_dom [of "sm_shards sm ! i"] finite_dom_map_of [of "sm_shards sm ! i"]
      by (simp_all add: registry_ok_def)
  qed
  have "dom (registry sm) = (\<Union>i<numShards. ?D i)" using getShard_less by auto
  moreover have "card (\<Union>i<numShards. ?D i) = (\<Sum>i<numShards. card (?D i))"
    using D(2) by (intro card_UN_disjoint) auto
  ultimately show ?thesis
    using D(1) by (simp add: StreamManager_Count_def foldl_count)
qed

section \<open>Properties\<close>

text \<open>C23. The sharded registry refines one map from node ids to channels. In every well-formed
  state: registering maps the node to a fresh open channel and touches no other entry or
  channel; unregistering does not panic, removes exactly this entry and closes its channel;
  a broadcast does not panic and, in whatever order the shards take their locks, offers the
  event to exactly the registered channels (a full one drops it); \<open>Has\<close> and \<open>Count\<close> read the
  map's domain; and the state stays well formed.\<close>

theorem shards_refine_map:
  assumes "registry_ok sm" "distinct order" "set order = {0..<numShards}"
  shows "(case StreamManager_Register n sm of (a, sm') \<Rightarrow>
            registry_ok sm' \<and> registry sm' = (registry sm)(n \<mapsto> a) \<and> a = length (sm_chans sm) \<and>
            sm_chans sm' = sm_chans sm @ [make_chan (sm_bufferSize sm)]) \<and>
     (\<exists>sm'. StreamManager_Unregister n sm = Val sm' \<and> registry_ok sm' \<and>
            registry sm' = (registry sm)(n := None) \<and>
            sm_chans sm' = (case registry sm n of None \<Rightarrow> sm_chans sm
              | Some a \<Rightarrow> (sm_chans sm)[a := (sm_chans sm ! a)\<lparr>closed := True\<rparr>])) \<and>
     (\<exists>sm'. Broadcast order e sm = Val sm' \<and> BroadcastAsync order e sm = Val sm' \<and> registry_ok sm' \<and>
            registry sm' = registry sm \<and>
            sm_chans sm' = map (\<lambda>a. if a \<in> ran (registry sm) then offered e (sm_chans sm ! a)
              else sm_chans sm ! a) [0..<length (sm_chans sm)]) \<and>
     (StreamManager_Has n sm \<longleftrightarrow> n \<in> dom (registry sm)) \<and>
     StreamManager_Count sm = card (dom (registry sm))"
proof -
  obtain a sm1 where R: "StreamManager_Register n sm = (a, sm1)" by force
  note reg = Register_registry [OF assms(1) R] Register_ok [OF assms(1) R]
  have "StreamManager_Has n sm \<longleftrightarrow> n \<in> dom (registry sm)"
    by (auto simp: StreamManager_Has_def registry_def)
  then show ?thesis
    using reg Unregister_registry [OF assms(1), of n] Broadcast_ok [OF assms, of e] Count_card [OF assms(1)]
    unfolding R prod.case by blast
qed

theorem shards_refine_map_witness:
  "StreamManager_Has ''n1'' (snd (StreamManager_Register ''n1'' (NewStreamManager 2 :: nat StreamManager))) \<and>
   (\<exists>sm'. StreamManager_Unregister ''n1'' (NewStreamManager 2 :: nat StreamManager) = Val sm')"
proof -
  have ord: "distinct [0..<numShards]" "set [0..<numShards] = {0..<numShards}" by simp_all
  let ?s0 = "NewStreamManager 2 :: nat StreamManager"
  obtain a s1 where R: "StreamManager_Register ''n1'' ?s0 = (a, s1)" by force
  have "registry_ok s1 \<and> registry s1 = (registry ?s0)(''n1'' \<mapsto> a)"
    using shards_refine_map [OF registry_ok_New [of 2] ord, of "''n1''" "0 :: nat"] R by simp
  then have "StreamManager_Has ''n1'' s1"
    using shards_refine_map [OF _ ord, of s1 "''n1''" 0] by simp
  moreover have "\<exists>sm'. StreamManager_Unregister ''n1'' ?s0 = Val sm'"
    using shards_refine_map [OF registry_ok_New [of 2] ord, of "''n1''" "0 :: nat"] by blast
  ultimately show ?thesis using R by simp
qed

text \<open>When a node subscribes twice, the second stream takes over the entry and the first
  one's channel is orphaned: it stays open and no broadcast reaches it. When the first stream
  ends, its deferred \<open>Unregister\<close> closes the channel of the second stream, which is still being
  served, and removes the node.\<close>

lemma second_subscription_is_closed_by_first:
  assumes "registry_ok sm" "StreamManager_Register n sm = (a1, sm1)" "StreamManager_Register n sm1 = (a2, sm2)"
  shows "a1 \<noteq> a2 \<and> a1 \<notin> ran (registry sm2) \<and> \<not> closed (sm_chans sm2 ! a1) \<and>
     (\<exists>sm3. StreamManager_Unregister n sm2 = Val sm3 \<and> closed (sm_chans sm3 ! a2) \<and>
        \<not> closed (sm_chans sm3 ! a1) \<and> n \<notin> dom (registry sm3))"
proof -
  note r1 = Register_registry [OF assms(1,2)] and ok1 = Register_ok [OF assms(1,2)]
  note r2 = Register_registry [OF ok1 assms(3)] and ok2 = Register_ok [OF ok1 assms(3)]
  have ne: "a1 \<noteq> a2" using r1(1,3) r2(1) by simp
  have old: "registry sm m \<noteq> Some a1" for m
    using assms(1) r1(1) by (auto simp: registry_ok_def)
  have a1: "a1 \<notin> ran (registry sm2)"
    using ne old by (auto simp: r1(2) r2(2) ran_def)
  have opn: "\<not> closed (sm_chans sm2 ! a1)"
    using r1(1) by (simp add: r1(3) r2(3) nth_append make_chan_def)
  obtain sm3 where "StreamManager_Unregister n sm2 = Val sm3" "registry sm3 = (registry sm2)(n := None)"
    "sm_chans sm3 = (sm_chans sm2)[a2 := (sm_chans sm2 ! a2)\<lparr>closed := True\<rparr>]"
    using Unregister_registry [OF ok2, of n] r2(2) by auto
  moreover have "a2 < length (sm_chans sm2)" using r2(1,3) by simp
  ultimately show ?thesis using ne a1 opn by simp
qed

lemma second_subscription_is_closed_by_first_witness:
  "\<exists>a1 a2 s1 s2 s3. StreamManager_Register ''n'' (NewStreamManager 2 :: nat StreamManager) = (a1, s1) \<and>
     StreamManager_Register ''n'' s1 = (a2, s2) \<and> StreamManager_Unregister ''n'' s2 = Val s3 \<and>
     closed (sm_chans s3 ! a2) \<and> \<not> closed (sm_chans s3 ! a1)"
proof -
  obtain a1 s1 where 1: "StreamManager_Register ''n'' (NewStreamManager 2 :: nat StreamManager) = (a1, s1)" by force
  obtain a2 s2 where 2: "StreamManager_Register ''n'' s1 = (a2, s2)" by force
  from second_subscription_is_closed_by_first [OF registry_ok_New 1 2] 1 2 show ?thesis by blast
qed

end
