(* ===== verification/Grpc_Server.thy ===== *)
theory Grpc_Server
  imports Admin_Server Stream_Manager
begin

text \<open>
  \<^verbatim>\<open>internal/server/grpc_server.go\<close>: the network service of the core server. Requests are
  translated to the domain types and handed to the node service; the answers are translated
  back. The enumerations of the protocol and of the domain are both integers, and the
  conversions map what they do not know to the unspecified value.

  The field \<open>streamManager\<close> is a pointer, so it is an option; \<open>NewGRPCServer\<close> leaves it nil
  and nothing sets it. A panic in a call is recovered by the interceptors; a panic in the
  goroutine of the event broadcaster ends the process (\<open>Panic\<close> as the result of
  \<open>startEventBroadcaster\<close>).
\<close>

section \<open>Messages of the protocol\<close>

record HeartbeatRequest =
  hb_NodeId :: string
  hb_Signature :: bytes
  hb_Status :: int

record RegisterNodeResponse =
  rn_Success :: bool
  rn_Message :: string
  rn_HeartbeatIntervalSeconds :: int
  rn_SuggestedRelays :: "NodeInfo list"

record HeartbeatResponse =
  hr_Success :: bool
  hr_NextHeartbeatSeconds :: int

record GetActiveRelaysRequest =
  gar_PreferredRegion :: string
  gar_Limit :: int
  gar_ExcludeNodeIds :: "string list"

record GetActiveRelaysResponse =
  gas_Relays :: "NodeInfo list"
  gas_UpdatedAt :: time

datatype PbPayload = PbNodeBanned string string int string | PbContentBanned string string string
  | PbGlobalAlert string string string string

record GlobalEvent =
  ge_EventId :: string
  ge_Type :: int
  ge_Timestamp :: time
  ge_ModeratorSignature :: "ModeratorSignature option"
  ge_Payload :: "PbPayload option"

section \<open>Conversions\<close>

definition pbNodeTypeToDomain :: "int \<Rightarrow> int" where
  "pbNodeTypeToDomain t =
     (if t = 1 then NodeTypeDesktop else if t = 2 then NodeTypeRelay
      else if t = 3 then NodeTypeMobile else if t = 4 then NodeTypeWeb else NodeTypeUnspecified)"

definition pbNodeStatusToDomain :: "int \<Rightarrow> int" where
  "pbNodeStatusToDomain s =
     (if s = 1 then NodeStatusOnline else if s = 2 then NodeStatusAway
      else if s = 3 then NodeStatusBusy else if s = 4 then NodeStatusOffline else NodeStatusUnspecified)"

definition domainNodeTypeToPb :: "int \<Rightarrow> int" where
  "domainNodeTypeToPb t =
     (if t = NodeTypeDesktop then 1 else if t = NodeTypeRelay then 2
      else if t = NodeTypeMobile then 3 else if t = NodeTypeWeb then 4 else 0)"

definition domainNodeStatusToPb :: "int \<Rightarrow> int" where
  "domainNodeStatusToPb s =
     (if s = NodeStatusOnline then 1 else if s = NodeStatusAway then 2
      else if s = NodeStatusBusy then 3 else if s = NodeStatusOffline then 4 else 0)"

definition domainEventTypeToPb :: "int \<Rightarrow> int" where
  "domainEventTypeToPb t =
     (if t = EventTypeNodeBanned then 1 else if t = EventTypeContentBanned then 2
      else if t = EventTypeGlobalAlert then 3 else if t = EventTypeRelayOffline then 4
      else if t = EventTypeNetworkUpdate then 5 else 0)"

definition domainNodeToPb :: "Node \<Rightarrow> NodeInfo" where
  "domainNodeToPb n =
     \<lparr>ni_Identity = n_Identity n, ni_Type = domainNodeTypeToPb (n_Type n),
      ni_Status = domainNodeStatusToPb (n_Status n), ni_Endpoints = n_Endpoints n,
      ni_Version = n_Version n, ni_Capabilities = n_Capabilities n, ni_Region = n_Region n,
      ni_RegisteredAt = n_RegisteredAt n, ni_LastSeen = n_LastSeen n\<rparr>"

definition domainEventToPb :: "ModerationEvent \<Rightarrow> GlobalEvent" where
  "domainEventToPb e =
     \<lparr>ge_EventId = ev_EventID e, ge_Type = domainEventTypeToPb (ev_Type e),
      ge_Timestamp = ev_Timestamp e, ge_ModeratorSignature = ev_Signature e,
      ge_Payload = (case ev_Payload e of
          NodeBanPayload b \<Rightarrow> Some (PbNodeBanned (ban_BannedNodeID b) (ban_Reason b) (ban_DurationSeconds b)
            (ban_EvidenceHash b))
        | ContentBanPayload b \<Rightarrow> Some (PbContentBanned (cb_ContentHash b) (cb_Reason b) (cb_Category b))
        | AlertPayload a \<Rightarrow> Some (PbGlobalAlert (al_Title a) (al_Message a) (al_Severity a) (al_InfoURL a))
        | Decoded \<Rightarrow> None)\<rparr>"

text \<open>\<open>err.Error()\<close> of the errors of the node service.\<close>

fun service_error_text :: "service_error \<Rightarrow> string" where
  "service_error_text ErrInvalidIdentity = ''invalid node identity''"
| "service_error_text (ErrNodeBanned reason) = ''node is banned: '' @ reason"
| "service_error_text ErrNodeNotFound = ''node not found''"
| "service_error_text (ErrOther e) = e"

section \<open>The server\<close>

record 'r GRPCServer =
  gs_core :: "'r core"
  gs_streamManager :: "GlobalEvent StreamManager option"

definition NewGRPCServer :: "'r core \<Rightarrow> 'r GRPCServer" where
  "NewGRPCServer c = \<lparr>gs_core = c, gs_streamManager = None\<rparr>"

definition GRPCServer_RegisterNode ::
    "'r world \<Rightarrow> NodeService \<Rightarrow> duration \<Rightarrow> (Node list \<Rightarrow> Node list) \<Rightarrow> time \<Rightarrow> ctx \<Rightarrow> RegisterNodeRequest \<Rightarrow> 'r core
     \<Rightarrow> (status + RegisterNodeResponse) go \<times> 'r core" where
  "GRPCServer_RegisterNode W svc heartbeatInterval perm now ctx req st =
     (case rr_Identity req of
        None \<Rightarrow> (Panic ''nil pointer dereference'', st)
      | Some i \<Rightarrow>
          let reg = \<lparr>reg_Identity = \<lparr>id_NodeID = id_NodeID i, id_PublicKey = id_PublicKey i,
                       id_Signature = id_Signature i\<rparr>,
                reg_Type = pbNodeTypeToDomain (rr_Type req), reg_Endpoints = rr_Endpoints req,
                reg_Version = rr_Version req, reg_Capabilities = rr_Capabilities req,
                reg_Region = rr_Region req\<rparr>
          in (case NodeService_RegisterNode W svc perm now reg st of
                (Inl err, st') \<Rightarrow>
                  (Val (Inr \<lparr>rn_Success = False, rn_Message = service_error_text err,
                     rn_HeartbeatIntervalSeconds = 0, rn_SuggestedRelays = []\<rparr>), st')
              | (Inr (node, suggestedRelays), st') \<Rightarrow>
                  (Val (Inr \<lparr>rn_Success = True, rn_Message = ''Node registered successfully'',
                     rn_HeartbeatIntervalSeconds = int32 (trunc_seconds heartbeatInterval),
                     rn_SuggestedRelays = map domainNodeToPb suggestedRelays\<rparr>), st')))"

text \<open>The metrics of a heartbeat are converted and handed on, but the node service does not
  use them.\<close>

definition GRPCServer_Heartbeat ::
    "'r world \<Rightarrow> NodeService \<Rightarrow> time \<Rightarrow> ctx \<Rightarrow> HeartbeatRequest \<Rightarrow> 'r core
     \<Rightarrow> (status + HeartbeatResponse) go \<times> 'r core" where
  "GRPCServer_Heartbeat W svc now ctx req st =
     (case Heartbeat W svc now (hb_NodeId req) (hb_Signature req) (pbNodeStatusToDomain (hb_Status req)) st of
        (Inl err, st') \<Rightarrow> (Val (Inr \<lparr>hr_Success = False, hr_NextHeartbeatSeconds = 0\<rparr>), st')
      | (Inr nextHeartbeat, st') \<Rightarrow>
          (Val (Inr \<lparr>hr_Success = True, hr_NextHeartbeatSeconds = int32 nextHeartbeat\<rparr>), st'))"

definition GRPCServer_GetActiveRelays ::
    "'r world \<Rightarrow> NodeService \<Rightarrow> (Node list \<Rightarrow> Node list) \<Rightarrow> time \<Rightarrow> ctx \<Rightarrow> GetActiveRelaysRequest \<Rightarrow> 'r core
     \<Rightarrow> (status + GetActiveRelaysResponse) go \<times> 'r core" where
  "GRPCServer_GetActiveRelays W svc perm now ctx req st =
     (case NodeService_GetActiveRelays W svc perm now (gar_PreferredRegion req) (gar_Limit req)
         (gar_ExcludeNodeIds req) st of
        Inl err \<Rightarrow> (Val (Inl (Status Unknown err)), st)
      | Inr relays \<Rightarrow>
          (Val (Inr \<lparr>gas_Relays = map domainNodeToPb relays, gas_UpdatedAt = now\<rparr>), st))"

section \<open>Event streams\<close>

text \<open>The start of \<open>SubscribeToGlobalEvents\<close>, one turn of its loop and its deferred end. A
  turn of the \<open>select\<close> either finds the context done or takes what the channel offers; the
  send to the client succeeds or fails.\<close>

definition subscribe_start :: "string \<Rightarrow> 'r GRPCServer \<Rightarrow> (nat \<times> 'r GRPCServer) go" where
  "subscribe_start nodeID s =
     (case gs_streamManager s of
        None \<Rightarrow> Panic ''nil pointer dereference''
      | Some sm \<Rightarrow> (case StreamManager_Register nodeID sm of
            (eventChan, sm') \<Rightarrow> Val (eventChan, s\<lparr>gs_streamManager := Some sm'\<rparr>)))"

datatype turn = Stop "string option" | Again GlobalEvent | Wait

definition subscribe_turn ::
    "nat \<Rightarrow> bool \<Rightarrow> string option \<Rightarrow> GlobalEvent StreamManager \<Rightarrow> turn \<times> GlobalEvent StreamManager" where
  "subscribe_turn eventChan ctxDone sendErr sm =
     (if ctxDone then (Stop None, sm)
      else (case chan_recv (sm_chans sm ! eventChan) of
          ReceivedZero \<Rightarrow> (Stop None, sm)
        | Blocked \<Rightarrow> (Wait, sm)
        | Received event c \<Rightarrow>
            let sm' = sm\<lparr>sm_chans := (sm_chans sm)[eventChan := c]\<rparr> in
            (case sendErr of Some err \<Rightarrow> (Stop (Some err), sm') | None \<Rightarrow> (Again event, sm'))))"

definition subscribe_end :: "string \<Rightarrow> 'r GRPCServer \<Rightarrow> 'r GRPCServer go" where
  "subscribe_end nodeID s =
     (case gs_streamManager s of
        None \<Rightarrow> Panic ''nil pointer dereference''
      | Some sm \<Rightarrow> go_bind (StreamManager_Unregister nodeID sm) (\<lambda>sm'. Val (s\<lparr>gs_streamManager := Some sm'\<rparr>)))"

definition broadcastTypes :: "int list" where
  "broadcastTypes = [EventTypeNodeBanned, EventTypeContentBanned, EventTypeGlobalAlert,
     EventTypeRelayOffline, EventTypeNetworkUpdate]"

fun broadcaster_loop :: "nat list \<Rightarrow> ModerationEvent list \<Rightarrow> 'r GRPCServer \<Rightarrow> 'r GRPCServer go" where
  "broadcaster_loop order [] s = Val s"
| "broadcaster_loop order (event # events) s =
     (let pbEvent = domainEventToPb event in
      (case gs_streamManager s of
         None \<Rightarrow> Panic ''nil pointer dereference''
       | Some sm \<Rightarrow> go_bind (BroadcastAsync order pbEvent sm) (\<lambda>sm'.
           broadcaster_loop order events (s\<lparr>gs_streamManager := Some sm'\<rparr>))))"

definition startEventBroadcaster :: "nat list \<Rightarrow> ModerationEvent list \<Rightarrow> 'r GRPCServer \<Rightarrow> 'r GRPCServer go" where
  "startEventBroadcaster order busEvents s = broadcaster_loop order (SubscribeToEvents broadcastTypes busEvents) s"

section \<open>Calls through the interceptors\<close>

definition RegisterNode_call ::
    "tokens \<Rightarrow> 'r world \<Rightarrow> NodeService \<Rightarrow> duration \<Rightarrow> (Node list \<Rightarrow> Node list) \<Rightarrow> time
     \<Rightarrow> (string \<Rightarrow> string list) option \<Rightarrow> RegisterNodeRequest \<Rightarrow> 'r core \<times> log_line list
     \<Rightarrow> (RegisterNodeResponse, 'r core) outcome" where
  "RegisterNode_call T W svc hi perm now md req sl =
     method_handler ''/network.v1.NetworkService/RegisterNode''
       (lift_method (GRPCServer_RegisterNode W svc hi perm now)) (incoming md) (Inr req)
       (Some (unary_chain T (w_crypto W) now Some)) sl"

definition SubscribeToGlobalEvents_call ::
    "string \<Rightarrow> 'r GRPCServer \<times> log_line list \<Rightarrow> (unit, 'r GRPCServer) outcome" where
  "SubscribeToGlobalEvents_call nodeID sl =
     stream_chain_of_server (incoming None) nodeID ''/network.v1.NetworkService/SubscribeToGlobalEvents''
       (\<lambda>ctx n (s, l). case subscribe_start n s of Panic p \<Rightarrow> (Panic p, (s, l)) | Val (a, s') \<Rightarrow> (Val (Inr ()), (s', l))) sl"

section \<open>Lemmas\<close>

lemma node_type_round_trip:
  "0 \<le> t \<Longrightarrow> t \<le> 4 \<Longrightarrow> domainNodeTypeToPb (pbNodeTypeToDomain t) = t"
  "0 \<le> s \<Longrightarrow> s \<le> 4 \<Longrightarrow> domainNodeStatusToPb (pbNodeStatusToDomain s) = s"
  by (auto simp: domainNodeTypeToPb_def pbNodeTypeToDomain_def NodeType_defs
      domainNodeStatusToPb_def pbNodeStatusToDomain_def NodeStatus_defs)

lemma broadcaster_needs_streams:
  "gs_streamManager s = None \<Longrightarrow> events \<noteq> [] \<Longrightarrow>
     broadcaster_loop order events s = Panic ''nil pointer dereference''"
  by (cases events) simp_all

lemma register_path:
  "has_suffix ''/network.v1.NetworkService/RegisterNode'' ''/RegisterNode''"
  "\<not> contains ''/network.v1.NetworkService/RegisterNode'' ''/AdminService/''"
  "\<not> has_suffix ''/network.v1.NetworkService/RegisterNode'' ''/SendMessage''"
  "\<not> has_suffix ''/network.v1.NetworkService/RegisterNode'' ''/CreateChannel''"
  by code_simp+

lemma RegisterNode_call_effect:
  "fst (RegisterNode_call T W svc hi perm now md req (st, l)) =
     Val (case validateRegisterNode (w_crypto W) (Some req) of
        Some err \<Rightarrow> Inl err
      | None \<Rightarrow> recovered (fst (GRPCServer_RegisterNode W svc hi perm now (authenticateUser T now (incoming md)) req st)))"
  "fst (snd (RegisterNode_call T W svc hi perm now md req (st, l))) =
     (case validateRegisterNode (w_crypto W) (Some req) of
        Some err \<Rightarrow> st
      | None \<Rightarrow> snd (GRPCServer_RegisterNode W svc hi perm now (authenticateUser T now (incoming md)) req st))"
  by (simp_all add: RegisterNode_call_def method_handler_def unary_chain_register [OF register_path]
      split: option.split)

text \<open>A request that the node service would refuse for its identity has already been refused by
  the interceptor; one without an identity never reaches the handler.\<close>

lemma validateRegisterNode_identity:
  "validateRegisterNode K (Some req) = None \<Longrightarrow>
     \<exists>i. rr_Identity req = Some i \<and> VerifyNodeIdentity K (id_NodeID i) (id_PublicKey i) (id_Signature i) = None"
  by (auto simp: validateRegisterNode_def VerifyNodeIdentity_def Let_def split: option.splits if_splits)

end
