(* ===== verification/Cluster.thy ===== *)
theory Cluster
  imports Rpc Pg_Repo
begin

text \<open>
  \<^verbatim>\<open>internal/server/cluster_manual.go\<close>: the cluster of core servers. A server asks to join,
  is approved, receives the known nodes and from then on is told about new ones. The
  connections to other servers are outside: \<open>dial\<close> says what comes of a \<open>SyncNodes\<close> call to an
  address (an error, or the peer's answer), and a broadcast is the list of the calls it makes.
\<close>

record PeerInfo =
  pi_PeerID :: string
  pi_Address :: string
  pi_PublicKey :: bytes

record ApprovePeerRequest =
  ap_PeerID :: string
  ap_RequesterId :: string
  ap_Timestamp :: int
  ap_Signature :: bytes

text \<open>\<open>RequestJoinResponse\<close> and \<open>ApprovePeerResponse\<close>.\<close>

record ClusterResponse =
  cr_Success :: bool
  cr_Message :: string

record SyncNodesResponse =
  sn_Success :: bool
  sn_Count :: int

record ClusterServer =
  cl_selfPeerID :: string
  cl_selfAddress :: string
  cl_selfPublicKey :: bytes

definition NewClusterServer :: "string \<Rightarrow> string \<Rightarrow> bytes \<Rightarrow> ClusterServer" where
  "NewClusterServer selfPeerID selfAddress selfPublicKey =
     \<lparr>cl_selfPeerID = selfPeerID, cl_selfAddress = selfAddress, cl_selfPublicKey = selfPublicKey\<rparr>"

section \<open>Methods\<close>

definition RequestJoin :: "faults \<Rightarrow> time \<Rightarrow> PeerInfo option \<Rightarrow> db \<Rightarrow> ClusterResponse \<times> db" where
  "RequestJoin fault now req d =
     (case req of
        None \<Rightarrow> (\<lparr>cr_Success = False, cr_Message = ''peer info required''\<rparr>, d)
      | Some p \<Rightarrow>
          let peer = \<lparr>cp_PeerID = pi_PeerID p, cp_Address = pi_Address p, cp_PublicKey = pi_PublicKey p,
                cp_Status = ''pending'', cp_LastSeen = now\<rparr>
          in (case UpsertClusterPeer fault peer d of
                (Some err, d') \<Rightarrow> (\<lparr>cr_Success = False, cr_Message = ''failed to save peer''\<rparr>, d')
              | (None, d') \<Rightarrow>
                  (\<lparr>cr_Success = True, cr_Message = ''Aguardando aprova'' @ [CHR 0xC3, CHR 0xA7, CHR 0xC3, CHR 0xA3]
                     @ ''o do administrador.''\<rparr>, d')))"

text \<open>The third component is the peer whose initial sync is started.\<close>

definition ApprovePeer ::
    "faults \<Rightarrow> time \<Rightarrow> ApprovePeerRequest \<Rightarrow> db \<Rightarrow> ClusterResponse \<times> db \<times> ClusterPeer option" where
  "ApprovePeer fault now req d =
     (case GetClusterPeer fault (ap_PeerID req) d of
        Inl err \<Rightarrow> (\<lparr>cr_Success = False, cr_Message = ''database error''\<rparr>, d, None)
      | Inr None \<Rightarrow> (\<lparr>cr_Success = False, cr_Message = ''peer not found''\<rparr>, d, None)
      | Inr (Some peer) \<Rightarrow>
          if cp_Status peer = ''active''
          then (\<lparr>cr_Success = True, cr_Message = ''peer already active''\<rparr>, d, None)
          else (case UpdateClusterPeerStatus fault now (ap_PeerID req) ''active'' d of
              (Some err, d') \<Rightarrow> (\<lparr>cr_Success = False, cr_Message = ''failed to activate peer''\<rparr>, d', None)
            | (None, d') \<Rightarrow>
                (\<lparr>cr_Success = True, cr_Message = ''Peer ativado. Sync inicial em andamento.''\<rparr>, d', Some peer)))"

definition GetClusterNodes :: "faults \<Rightarrow> ClusterServer \<Rightarrow> db \<Rightarrow> string + PeerInfo list" where
  "GetClusterNodes fault s d =
     (case GetActiveClusterPeers fault d of
        Inl err \<Rightarrow> Inl err
      | Inr peers \<Rightarrow>
          Inr (\<lparr>pi_PeerID = cl_selfPeerID s, pi_Address = cl_selfAddress s, pi_PublicKey = cl_selfPublicKey s\<rparr> #
               map (\<lambda>p. \<lparr>pi_PeerID = cp_PeerID p, pi_Address = cp_Address p, pi_PublicKey = cp_PublicKey p\<rparr>) peers))"

text \<open>The loop of \<open>SyncNodes\<close> logs the first 16 bytes of each id, which it slices, and counts
  in \<open>int32\<close>; nothing is stored.\<close>

fun sync_loop :: "NodeIdentity list \<Rightarrow> int \<Rightarrow> int go" where
  "sync_loop [] count = Val count"
| "sync_loop (n # ns) count = go_bind (slice_to 16 (id_NodeID n)) (\<lambda>_. sync_loop ns (int32 (count + 1)))"

definition SyncNodes :: "NodeIdentity list \<Rightarrow> SyncNodesResponse go" where
  "SyncNodes nodes = go_bind (sync_loop nodes 0) (\<lambda>count. Val \<lparr>sn_Success = True, sn_Count = count\<rparr>)"

text \<open>\<open>dial addr nodes\<close> is the outcome of connecting to the address and calling \<open>SyncNodes\<close>
  there. The result is the count that is logged at the end.\<close>

definition performInitialSync ::
    "faults \<Rightarrow> (string \<Rightarrow> NodeIdentity list \<Rightarrow> string + SyncNodesResponse) \<Rightarrow> ClusterPeer \<Rightarrow> db \<Rightarrow> int option" where
  "performInitialSync fault dial peer d =
     (case GetAllNodes fault d of
        Inl err \<Rightarrow> None
      | Inr nodes \<Rightarrow>
          if length nodes = 0 then None
          else let pbNodes = map (\<lambda>n. \<lparr>id_NodeID = id_NodeID n, id_PublicKey = id_PublicKey n, id_Signature = []\<rparr>) nodes
            in (case dial (cp_Address peer) pbNodes of Inl err \<Rightarrow> None | Inr resp \<Rightarrow> Some (sn_Count resp)))"

definition BroadcastNodeRegistration ::
    "faults \<Rightarrow> string \<Rightarrow> bytes \<Rightarrow> db \<Rightarrow> (string \<times> NodeIdentity list) list" where
  "BroadcastNodeRegistration fault nodeID publicKey d =
     (case GetActiveClusterPeers fault d of
        Inl err \<Rightarrow> []
      | Inr peers \<Rightarrow>
          if length peers = 0 then []
          else let nodes = [\<lparr>id_NodeID = nodeID, id_PublicKey = publicKey, id_Signature = []\<rparr>]
            in map (\<lambda>p. (cp_Address p, nodes)) peers)"

definition GetPeerIDFromPublicKey :: "bytes \<Rightarrow> string go" where
  "GetPeerIDFromPublicKey pubKey = go_bind (slice_to 16 pubKey) (\<lambda>k. Val (hex_encode k))"

section \<open>Handlers\<close>

definition ClusterService_RequestJoin_Handler where
  "ClusterService_RequestJoin_Handler fault now = method_handler ''/cluster.v1.ClusterService/RequestJoin''
     (lift_method (\<lambda>ctx req d. case RequestJoin fault now req d of (r, d') \<Rightarrow> (Val (Inr r), d')))"

definition ClusterService_ApprovePeer_Handler where
  "ClusterService_ApprovePeer_Handler fault now = method_handler ''/cluster.v1.ClusterService/ApprovePeer''
     (lift_method (\<lambda>ctx req d. case ApprovePeer fault now req d of (r, d', sync) \<Rightarrow> (Val (Inr r), d')))"

definition ClusterService_GetClusterNodes_Handler where
  "ClusterService_GetClusterNodes_Handler fault s = method_handler ''/cluster.v1.ClusterService/GetClusterNodes''
     (lift_method (\<lambda>ctx (req :: unit) d. (Val (map_sum (Status Unknown) id (GetClusterNodes fault s d)), d)))"

definition ClusterService_SyncNodes_Handler where
  "ClusterService_SyncNodes_Handler = method_handler ''/cluster.v1.ClusterService/SyncNodes''
     (lift_method (\<lambda>ctx nodes (d :: db). (go_bind (SyncNodes nodes) (\<lambda>r. Val (Inr r)), d)))"

section \<open>Lemmas\<close>

definition peer_active :: "db \<Rightarrow> string \<Rightarrow> bool" where
  "peer_active d p \<longleftrightarrow> (\<exists>r. map_of (t_cluster_peers d) p = Some r \<and> cp_Status r = ''active'')"

lemma sync_loop_Val:
  "(\<exists>c. sync_loop ns k = Val c) \<longleftrightarrow> (\<forall>n \<in> set ns. 16 \<le> length (id_NodeID n))"
  by (induction ns arbitrary: k) (auto simp: slice_to_def)

lemma sync_loop_count:
  "0 \<le> k \<Longrightarrow> k + int (length ns) < 2 ^ 31 \<Longrightarrow> sync_loop ns k = Val c \<Longrightarrow> c = k + int (length ns)"
proof (induction ns arbitrary: k)
  case (Cons n ns)
  have "int32 (k + 1) = k + 1" using Cons.prems(1,2) by (intro int32_id) auto
  then have "sync_loop ns (k + 1) = Val c" using Cons.prems(3) by (auto simp: go_Val)
  with Cons.IH [of "k + 1"] Cons.prems(1,2) show ?case by simp
qed simp

end
