(* ===== verification/Aux_Services.thy ===== *)
theory Aux_Services
  imports Node_Service Rpc
begin

text \<open>
  The small services of the core server: \<^verbatim>\<open>internal/server/health_check.go\<close>,
  \<^verbatim>\<open>internal/server/update_server.go\<close> and \<^verbatim>\<open>internal/server/grid_manual.go\<close>.
\<close>

section \<open>Health\<close>

text \<open>The health server of gRPC keeps a status per service name.\<close>

datatype serving = SERVING | NOT_SERVING

record HealthChecker =
  hc_healthServer :: "string \<rightharpoonup> serving"
  hc_healthy :: bool

definition set_both :: "serving \<Rightarrow> HealthChecker \<Rightarrow> HealthChecker" where
  "set_both st hc = hc\<lparr>hc_healthServer := (hc_healthServer hc)([] \<mapsto> st, ''network.v1.NetworkService'' \<mapsto> st)\<rparr>"

definition NewHealthChecker :: HealthChecker where
  "NewHealthChecker = set_both SERVING \<lparr>hc_healthServer = Map.empty, hc_healthy = True\<rparr>"

definition setHealthy :: "HealthChecker \<Rightarrow> HealthChecker" where
  "setHealthy hc = set_both SERVING (if \<not> hc_healthy hc then hc\<lparr>hc_healthy := True\<rparr> else hc)"

definition setUnhealthy :: "HealthChecker \<Rightarrow> HealthChecker" where
  "setUnhealthy hc = set_both NOT_SERVING (if hc_healthy hc then hc\<lparr>hc_healthy := False\<rparr> else hc)"

definition pg_Ping :: "faults \<Rightarrow> string option" where
  "pg_Ping fault = fault ''Ping''"

definition HealthChecker_Check :: "'r world \<Rightarrow> 'r core \<Rightarrow> HealthChecker \<Rightarrow> string option \<times> HealthChecker" where
  "HealthChecker_Check W st hc =
     (case NodeManager_Ping (w_redis W) (c_redis st) of
        Some err \<Rightarrow> (Some err, setUnhealthy hc)
      | None \<Rightarrow>
          (case pg_Ping (w_faults W) of
             Some err \<Rightarrow> (Some err, setUnhealthy hc)
           | None \<Rightarrow> (None, setHealthy hc)))"

definition IsHealthy :: "HealthChecker \<Rightarrow> bool" where
  "IsHealthy hc = hc_healthy hc"

text \<open>The loop of \<open>startHealthCheckLoop\<close>: one check per tick, each in the world as it is then.\<close>

fun health_loop :: "('r world \<times> 'r core) list \<Rightarrow> HealthChecker \<Rightarrow> HealthChecker" where
  "health_loop [] hc = hc"
| "health_loop ((W, st) # ticks) hc = health_loop ticks (snd (HealthChecker_Check W st hc))"

section \<open>Updates\<close>

record UpdateServer =
  up_latestVersion :: string
  up_updateURL :: string

record CheckForUpdateResponse =
  cu_Available :: bool
  cu_Version :: string
  cu_Url :: string
  cu_Critical :: bool

definition CheckForUpdate :: "UpdateServer \<Rightarrow> string \<Rightarrow> CheckForUpdateResponse" where
  "CheckForUpdate s currentVersion =
     (if up_latestVersion s = [] \<or> up_updateURL s = []
      then \<lparr>cu_Available = False, cu_Version = [], cu_Url = [], cu_Critical = False\<rparr>
      else if currentVersion \<noteq> up_latestVersion s
      then \<lparr>cu_Available = True, cu_Version = up_latestVersion s, cu_Url = up_updateURL s, cu_Critical = False\<rparr>
      else \<lparr>cu_Available = False, cu_Version = [], cu_Url = [], cu_Critical = False\<rparr>)"

section \<open>Grid\<close>

record GridJob =
  gj_JobId :: string
  gj_Payload :: string
  gj_Requester :: string
  gj_Timestamp :: int

record SubmitJobResultRequest =
  sj_JobId :: string
  sj_WorkerId :: string
  sj_Result :: string
  sj_Success :: bool

record SubmitJobResultResponse =
  sr_Success :: bool
  sr_Message :: string

text \<open>A subscriber is sent one job, five seconds after it subscribed; \<open>send\<close> is what comes of
  sending on the stream. The call itself ends without an error when its context ends.\<close>

definition SubscribeToJobs :: "time \<Rightarrow> (GridJob \<Rightarrow> string option) \<Rightarrow> GridJob list" where
  "SubscribeToJobs start send =
     (let now = start + 5 * second;
          job = \<lparr>gj_JobId = ''job-'' @ dec_int (unix now), gj_Payload = ''SIMULATE_COMPUTATION_X'',
            gj_Requester = ''CORE_SYSTEM'', gj_Timestamp = unix now\<rparr>
      in if send job = None then [job] else [])"

definition SubmitResult :: "SubmitJobResultRequest \<Rightarrow> SubmitJobResultResponse" where
  "SubmitResult r = \<lparr>sr_Success = True, sr_Message = ''Result Accepted''\<rparr>"

definition GridService_SubmitResult_Handler where
  "GridService_SubmitResult_Handler = method_handler ''/channel.v1.GridService/SubmitResult''
     (lift_method (\<lambda>ctx r (s :: unit). (Val (Inr (SubmitResult r)), s)))"

definition GridService_SubscribeToJobs_Handler ::
    "time \<Rightarrow> status + NodeIdentity \<Rightarrow> (GridJob \<Rightarrow> string option) \<Rightarrow> status + GridJob list" where
  "GridService_SubscribeToJobs_Handler start recv send =
     (case recv of Inl err \<Rightarrow> Inl err | Inr m \<Rightarrow> Inr (SubscribeToJobs start send))"

section \<open>Lemmas\<close>

text \<open>The flag and the two published statuses always agree.\<close>

definition health_ok :: "HealthChecker \<Rightarrow> bool" where
  "health_ok hc \<longleftrightarrow> (\<forall>n \<in> {[], ''network.v1.NetworkService''}.
     hc_healthServer hc n = Some (if hc_healthy hc then SERVING else NOT_SERVING))"

lemma health_ok_New: "health_ok NewHealthChecker" "IsHealthy NewHealthChecker"
  by (simp_all add: health_ok_def NewHealthChecker_def set_both_def IsHealthy_def)

lemma Check_health:
  "health_ok (snd (HealthChecker_Check W st hc)) \<and>
   (IsHealthy (snd (HealthChecker_Check W st hc)) \<longleftrightarrow> fst (HealthChecker_Check W st hc) = None) \<and>
   (fst (HealthChecker_Check W st hc) = None \<longleftrightarrow>
      NodeManager_Ping (w_redis W) (c_redis st) = None \<and> pg_Ping (w_faults W) = None)"
  by (auto simp: HealthChecker_Check_def health_ok_def setHealthy_def setUnhealthy_def set_both_def IsHealthy_def
      split: option.split)

lemma health_loop_last:
  "health_ok (health_loop (ticks @ [(W, st)]) hc) \<and>
   (IsHealthy (health_loop (ticks @ [(W, st)]) hc) \<longleftrightarrow>
      NodeManager_Ping (w_redis W) (c_redis st) = None \<and> pg_Ping (w_faults W) = None)"
  by (induction ticks hc rule: health_loop.induct) (simp_all add: Check_health)

end
