(* ===== verification/Services.thy ===== *)
theory Services
  imports Channels Cluster Auth_Server Aux_Services
begin

text \<open>
  How calls reach the hand-written services: the method handlers of
  \<^verbatim>\<open>internal/server/channel_manual.go\<close>, the service descriptors, and the client stubs of
  \<^verbatim>\<open>pkg/pb/v1/manual_extras.go\<close>. A connection (\<open>cc\<close>) is the function from a path and a
  request to the outcome of the call; a stub is a call at its path. gRPC serves the path
  \<^verbatim>\<open>/service/method\<close> of every method of a registered descriptor.
\<close>

section \<open>Handlers of the channel service\<close>

text \<open>A method that panics leaves the state it was called in.\<close>

definition from_go :: "('r \<times> 's) go \<Rightarrow> 's \<Rightarrow> (status + 'r) go \<times> 's" where
  "from_go m s = (case m of Val (r, s') \<Rightarrow> (Val (Inr r), s') | Panic p \<Rightarrow> (Panic p, s))"

definition ChannelService_CreateChannel_Handler where
  "ChannelService_CreateChannel_Handler now = method_handler ''/channel.v1.ChannelService/CreateChannel''
     (lift_method (\<lambda>ctx req s. case CreateChannel now req s of (r, s') \<Rightarrow> (Val (Inr r), s')))"

definition ChannelService_GetChannelInfo_Handler where
  "ChannelService_GetChannelInfo_Handler = method_handler ''/channel.v1.ChannelService/GetChannelInfo''
     (lift_method (\<lambda>ctx req s. (Val (map_sum (Status Unknown) id (GetChannelInfo req s)), s)))"

definition ChannelService_PromoteUser_Handler where
  "ChannelService_PromoteUser_Handler W now = method_handler ''/channel.v1.ChannelService/PromoteUser''
     (lift_method (\<lambda>ctx req s. from_go (PromoteUser W now req s) s))"

definition ChannelService_DemoteUser_Handler where
  "ChannelService_DemoteUser_Handler W now = method_handler ''/channel.v1.ChannelService/DemoteUser''
     (lift_method (\<lambda>ctx req s. from_go (DemoteUser W now req s) s))"

definition ChannelService_KickUser_Handler where
  "ChannelService_KickUser_Handler W now = method_handler ''/channel.v1.ChannelService/KickUser''
     (lift_method (\<lambda>ctx req s. from_go (KickUser W now req s) s))"

definition ChannelService_UpdateChannelAvatar_Handler where
  "ChannelService_UpdateChannelAvatar_Handler W now = method_handler ''/channel.v1.ChannelService/UpdateChannelAvatar''
     (lift_method (\<lambda>ctx req s. from_go (UpdateChannelAvatar W now req s) s))"

section \<open>Descriptors\<close>

record ServiceDesc =
  sd_ServiceName :: string
  sd_Methods :: "string list"
  sd_Streams :: "string list"

definition ChannelService_desc :: ServiceDesc where
  "ChannelService_desc = \<lparr>sd_ServiceName = ''channel.v1.ChannelService'',
     sd_Methods = [''CreateChannel'', ''GetChannelInfo'', ''PromoteUser'', ''DemoteUser'', ''KickUser'',
       ''UpdateChannelAvatar''], sd_Streams = []\<rparr>"

definition GridService_desc :: ServiceDesc where
  "GridService_desc = \<lparr>sd_ServiceName = ''channel.v1.GridService'', sd_Methods = [''SubmitResult''],
     sd_Streams = [''SubscribeToJobs'']\<rparr>"

definition ClusterService_desc :: ServiceDesc where
  "ClusterService_desc = \<lparr>sd_ServiceName = ''cluster.v1.ClusterService'',
     sd_Methods = [''RequestJoin'', ''ApprovePeer'', ''GetClusterNodes'', ''SyncNodes''], sd_Streams = []\<rparr>"

definition AuthService_desc :: ServiceDesc where
  "AuthService_desc = \<lparr>sd_ServiceName = ''auth.v1.AuthService'',
     sd_Methods = [''Login'', ''Register'', ''GetMe''], sd_Streams = []\<rparr>"

definition served_paths :: "ServiceDesc list \<Rightarrow> string list" where
  "served_paths ds = concat (map (\<lambda>d. map (\<lambda>m. ''/'' @ sd_ServiceName d @ ''/'' @ m) (sd_Methods d @ sd_Streams d)) ds)"

section \<open>Client stubs\<close>

type_synonym ('q, 'r) conn = "string \<Rightarrow> 'q \<Rightarrow> status + 'r"

definition invoke :: "('q, 'r) conn \<Rightarrow> string \<Rightarrow> 'q \<Rightarrow> status + 'r" where
  "invoke cc path req = (case cc path req of Inl err \<Rightarrow> Inl err | Inr out \<Rightarrow> Inr out)"

definition channelServiceClient_CreateChannel :: "('q, 'r) conn \<Rightarrow> 'q \<Rightarrow> status + 'r" where
  "channelServiceClient_CreateChannel cc req = invoke cc ''/channel.v1.ChannelService/CreateChannel'' req"

definition channelServiceClient_GetChannelInfo :: "('q, 'r) conn \<Rightarrow> 'q \<Rightarrow> status + 'r" where
  "channelServiceClient_GetChannelInfo cc req = invoke cc ''/channel.v1.ChannelService/GetChannelInfo'' req"

definition channelServiceClient_PromoteUser :: "('q, 'r) conn \<Rightarrow> 'q \<Rightarrow> status + 'r" where
  "channelServiceClient_PromoteUser cc req = invoke cc ''/channel.v1.ChannelService/PromoteUser'' req"

definition channelServiceClient_DemoteUser :: "('q, 'r) conn \<Rightarrow> 'q \<Rightarrow> status + 'r" where
  "channelServiceClient_DemoteUser cc req = invoke cc ''/channel.v1.ChannelService/DemoteUser'' req"

definition channelServiceClient_KickUser :: "('q, 'r) conn \<Rightarrow> 'q \<Rightarrow> status + 'r" where
  "channelServiceClient_KickUser cc req = invoke cc ''/channel.v1.ChannelService/KickUser'' req"

definition channelServiceClient_UpdateChannelAvatar :: "('q, 'r) conn \<Rightarrow> 'q \<Rightarrow> status + 'r" where
  "channelServiceClient_UpdateChannelAvatar cc req = invoke cc ''/channel.v1.ChannelService/UpdateChannelAvatar'' req"

definition gridServiceClient_SubmitResult :: "('q, 'r) conn \<Rightarrow> 'q \<Rightarrow> status + 'r" where
  "gridServiceClient_SubmitResult cc req = invoke cc ''/channel.v1.GridService/SubmitResult'' req"

definition clusterServiceClient_RequestJoin :: "('q, 'r) conn \<Rightarrow> 'q \<Rightarrow> status + 'r" where
  "clusterServiceClient_RequestJoin cc req = invoke cc ''/cluster.v1.ClusterService/RequestJoin'' req"

definition clusterServiceClient_ApprovePeer :: "('q, 'r) conn \<Rightarrow> 'q \<Rightarrow> status + 'r" where
  "clusterServiceClient_ApprovePeer cc req = invoke cc ''/cluster.v1.ClusterService/ApprovePeer'' req"

definition clusterServiceClient_GetClusterNodes :: "('q, 'r) conn \<Rightarrow> 'q \<Rightarrow> status + 'r" where
  "clusterServiceClient_GetClusterNodes cc req = invoke cc ''/cluster.v1.ClusterService/GetClusterNodes'' req"

definition clusterServiceClient_SyncNodes :: "('q, 'r) conn \<Rightarrow> 'q \<Rightarrow> status + 'r" where
  "clusterServiceClient_SyncNodes cc req = invoke cc ''/cluster.v1.ClusterService/SyncNodes'' req"

definition authServiceClient_Login :: "('q, 'r) conn \<Rightarrow> 'q \<Rightarrow> status + 'r" where
  "authServiceClient_Login cc req = invoke cc ''/auth.v1.AuthService/Login'' req"

definition authServiceClient_Register :: "('q, 'r) conn \<Rightarrow> 'q \<Rightarrow> status + 'r" where
  "authServiceClient_Register cc req = invoke cc ''/auth.v1.AuthService/Register'' req"

definition authServiceClient_GetMe :: "('q, 'r) conn \<Rightarrow> 'q \<Rightarrow> status + 'r" where
  "authServiceClient_GetMe cc req = invoke cc ''/auth.v1.AuthService/GetMe'' req"

text \<open>The client side of the job stream: opening it, sending the one request and closing the
  sending side may each fail.\<close>

definition gridServiceClient_SubscribeToJobs ::
    "(string \<Rightarrow> status + 's) \<Rightarrow> ('s \<Rightarrow> 'q \<Rightarrow> status option) \<Rightarrow> ('s \<Rightarrow> status option) \<Rightarrow> 'q \<Rightarrow> status + 's" where
  "gridServiceClient_SubscribeToJobs newStream sendMsg closeSend req =
     (case newStream ''/channel.v1.GridService/SubscribeToJobs'' of
        Inl err \<Rightarrow> Inl err
      | Inr stream \<Rightarrow>
          (case sendMsg stream req of
             Some err \<Rightarrow> Inl err
           | None \<Rightarrow> (case closeSend stream of Some err \<Rightarrow> Inl err | None \<Rightarrow> Inr stream)))"

section \<open>Paths\<close>

text \<open>The path a stub calls, seen by a connection that answers with it, and the full method name
  a handler reports, seen by an interceptor that answers with it.\<close>

definition stub_path :: "(('q, 'r) conn \<Rightarrow> 'q \<Rightarrow> status + 'r) \<Rightarrow> 'q \<Rightarrow> status + 'r" where
  "stub_path stub req = stub (\<lambda>path _. Inl (Status Unknown path)) req"

definition handler_path ::
    "(ctx \<Rightarrow> status + 'q \<Rightarrow> ('q, 'r, 's) UnaryServerInterceptor option \<Rightarrow> 's \<times> log_line list \<Rightarrow> ('r, 's) outcome)
     \<Rightarrow> 'q \<Rightarrow> 's \<Rightarrow> status + 'r" where
  "handler_path h req s = recovered (fst (h (incoming None) (Inr req)
     (Some (\<lambda>ctx req m method sl. (Val (Inl (Status Unknown m)), sl))) (s, [])))"

lemmas stub_defs = channelServiceClient_CreateChannel_def channelServiceClient_GetChannelInfo_def
  channelServiceClient_PromoteUser_def channelServiceClient_DemoteUser_def channelServiceClient_KickUser_def
  channelServiceClient_UpdateChannelAvatar_def gridServiceClient_SubmitResult_def
  clusterServiceClient_RequestJoin_def clusterServiceClient_ApprovePeer_def
  clusterServiceClient_GetClusterNodes_def clusterServiceClient_SyncNodes_def
  authServiceClient_Login_def authServiceClient_Register_def authServiceClient_GetMe_def

lemmas handler_defs = ChannelService_CreateChannel_Handler_def ChannelService_GetChannelInfo_Handler_def
  ChannelService_PromoteUser_Handler_def ChannelService_DemoteUser_Handler_def
  ChannelService_KickUser_Handler_def ChannelService_UpdateChannelAvatar_Handler_def
  GridService_SubmitResult_Handler_def ClusterService_RequestJoin_Handler_def
  ClusterService_ApprovePeer_Handler_def ClusterService_GetClusterNodes_Handler_def
  ClusterService_SyncNodes_Handler_def AuthService_Login_Handler_def AuthService_Register_Handler_def
  AuthService_GetMe_Handler_def

lemma stub_path_invoke [simp]: "stub_path (\<lambda>cc req. invoke cc p req) req = Inl (Status Unknown p)"
  by (simp add: stub_path_def invoke_def)

lemma handler_path_handler [simp]: "handler_path (method_handler p f) req s = Inl (Status Unknown p)"
  by (simp add: handler_path_def method_handler_def)

end
