(* ===== verification/Server_Props.thy ===== *)
theory Server_Props
  imports Grpc_Server Services
begin

text \<open>
  Properties of the core server that span the interceptors, the services behind them and the
  stores.
\<close>

section \<open>Administration\<close>

lemma UpdateUserRole_effect:
  assumes "fault ''UpdateUserRole'' = None" "varchar 16 role" "map_of (t_users d) u = Some x"
  shows "map_of (t_users (snd (UpdateUserRole fault u role d))) u = Some (x\<lparr>u_Role := role\<rparr>)"
  using assms by (simp add: UpdateUserRole_def)

text \<open>C25. The rules for administration never apply: they look for \<open>/AdminService/\<close> in the full
  method name, and the names of the service contain \<open>.AdminService/\<close>. Whatever the metadata of
  the call, with or without a token, every administrative request reaches its method, which
  runs to its full effect; in particular a caller without any credentials gives every user
  every role.\<close>

theorem admin_api_open:
  assumes "w_faults W ''UpdateUserRole'' = None" "varchar 16 role" "map_of (t_users (c_db st)) u = Some x"
  shows "(\<forall>md req. fst (admin_call_through T W mk now md req (st, l)) =
            Val (recovered (fst (admin_method T W mk now (authenticateUser T now (incoming md)) req st))) \<and>
          fst (snd (admin_call_through T W mk now md req (st, l))) =
            snd (admin_method T W mk now (authenticateUser T now (incoming md)) req st)) \<and>
     map_of (t_users (c_db (fst (snd (admin_call_through T W mk now None (UpdateUserRoleReq u role) (st, l)))))) u =
       Some (x\<lparr>u_Role := role\<rparr>)"
proof -
  have "snd (AdminServer_UpdateUserRole W u role st) = st\<lparr>c_db := snd (UpdateUserRole (w_faults W) u role (c_db st))\<rparr>"
    by (auto simp: AdminServer_UpdateUserRole_def split: prod.split option.split)
  then show ?thesis
    using UpdateUserRole_effect [of "w_faults W", OF assms] by (simp add: admin_call_reaches case_prod_beta)
qed

definition ex_user :: User where
  "ex_user = \<lparr>u_ID = ''u1'', u_Email = ''a@b'', u_PasswordHash = [], u_FullName = [], u_Phone = [],
     u_Nickname = ''a'', u_Role = ''member'', u_CreatedAt = 0\<rparr>"

definition ex_users :: "mem core" where
  "ex_users = ex_core\<lparr>c_db := empty_db\<lparr>t_users := [(''u1'', ex_user)]\<rparr>\<rparr>"

theorem admin_api_open_witness:
  "map_of (t_users (c_db (fst (snd (admin_call_through toy_tokens ex_world ''key'' 7 None
     (UpdateUserRoleReq ''u1'' ''owner'') (ex_users, [])))))) ''u1'' = Some (ex_user\<lparr>u_Role := ''owner''\<rparr>)"
proof -
  have h: "w_faults ex_world ''UpdateUserRole'' = None" "varchar 16 ''owner''"
      "map_of (t_users (c_db ex_users)) ''u1'' = Some ex_user"
    by (simp_all add: ex_world_def ex_users_def varchar_short)
  show ?thesis
    by (rule admin_api_open [of ex_world "''owner''" ex_users "''u1''" ex_user, OF h, THEN conjunct2])
qed

section \<open>Channels\<close>

lemma create_path:
  "has_suffix ''/channel.v1.ChannelService/CreateChannel'' ''/CreateChannel''"
  "\<not> has_suffix ''/channel.v1.ChannelService/CreateChannel'' ''/RegisterNode''"
  "\<not> has_suffix ''/channel.v1.ChannelService/CreateChannel'' ''/SendMessage''"
  "\<not> is_critical ''/channel.v1.ChannelService/CreateChannel''"
  by code_simp+

lemma authorize_create:
  "authorize (authenticateUser T now (incoming md)) ''/channel.v1.ChannelService/CreateChannel'' =
     (case session T now md of
        Some c \<Rightarrow> if cl_Role c \<in> {''admin'', ''owner''} then None
                  else if cl_Role c \<in> {[], ''guest''} then Some (Status PermissionDenied ''guests cannot create channels'')
                  else Some (Status PermissionDenied ''unauthorized: only admins or owners can access this resource'')
      | None \<Rightarrow> Some (Status PermissionDenied ''guests cannot create channels''))"
proof -
  have "critical_loop ctx ''/channel.v1.ChannelService/CreateChannel'' criticalMethods = None" for ctx
    using create_path(4) by (simp add: critical_loop_iff is_critical_def)
  then show ?thesis
    using create_path
    by (simp add: authorize_def authenticateUser_incoming incoming_fields ctx_string_def Let_def split: option.split)
qed

text \<open>C26. Through the interceptors a channel is created only for a caller whose session token is
  accepted and carries the role of an admin or an owner; then the call does what
  \<open>CreateChannel\<close> does. Every other caller gets a permission error and nothing changes.\<close>

theorem create_channel_guard:
  "(case ChannelService_CreateChannel_Handler now (incoming md) (Inr req)
       (Some (unary_chain T K now (\<lambda>_. None))) (s, l) of
     (answer, s', l') \<Rightarrow>
       if \<exists>c. session T now md = Some c \<and> cl_Role c \<in> {''admin'', ''owner''}
       then answer = Val (Inr (fst (CreateChannel now req s))) \<and> s' = snd (CreateChannel now req s)
       else (\<exists>msg. answer = Val (Inl (Status PermissionDenied msg))) \<and> s' = s)"
proof -
  let ?h = "lift_method (\<lambda>ctx req s. case CreateChannel now req s of (r, s') \<Rightarrow> (Val (Inr r), s'))"
  let ?call = "unary_chain T K now (\<lambda>_. None) (incoming md) req ''/channel.v1.ChannelService/CreateChannel'' ?h (s, l)"
  have c: "ChannelService_CreateChannel_Handler now (incoming md) (Inr req)
      (Some (unary_chain T K now (\<lambda>_. None))) (s, l) = ?call"
    by (simp add: ChannelService_CreateChannel_Handler_def method_handler_def)
  note R = unary_chain_result [OF create_path(2), where T = T and K = K and now = now and
      as_register = "\<lambda>_. None" and ctx = "incoming md" and req = req and h = ?h and sl = "(s, l)"]
  show ?thesis
    using R unfolding c authorize_create
    by (cases ?call) (auto split: option.splits prod.splits)
qed

section \<open>Registration of nodes\<close>

definition reg_of_request :: "NodeIdentity \<Rightarrow> RegisterNodeRequest \<Rightarrow> NodeRegistration" where
  "reg_of_request i req = \<lparr>reg_Identity = i, reg_Type = pbNodeTypeToDomain (rr_Type req),
     reg_Endpoints = rr_Endpoints req, reg_Version = rr_Version req,
     reg_Capabilities = rr_Capabilities req, reg_Region = rr_Region req\<rparr>"

lemma GRPCServer_RegisterNode_identity:
  assumes "rr_Identity req = Some i"
  shows "\<exists>resp. fst (GRPCServer_RegisterNode W svc hi perm now ctx req st) = Val (Inr resp) \<and>
       (rn_Success resp \<longleftrightarrow> (\<exists>x. fst (NodeService_RegisterNode W svc perm now (reg_of_request i req) st) = Inr x))"
    and "snd (GRPCServer_RegisterNode W svc hi perm now ctx req st) =
       snd (NodeService_RegisterNode W svc perm now (reg_of_request i req) st)"
proof -
  have eta: "\<lparr>id_NodeID = id_NodeID i, id_PublicKey = id_PublicKey i, id_Signature = id_Signature i\<rparr> = i"
    by simp
  show "\<exists>resp. fst (GRPCServer_RegisterNode W svc hi perm now ctx req st) = Val (Inr resp) \<and>
      (rn_Success resp \<longleftrightarrow> (\<exists>x. fst (NodeService_RegisterNode W svc perm now (reg_of_request i req) st) = Inr x))"
    "snd (GRPCServer_RegisterNode W svc hi perm now ctx req st) =
      snd (NodeService_RegisterNode W svc perm now (reg_of_request i req) st)"
    using assms by (auto simp: GRPCServer_RegisterNode_def reg_of_request_def eta Let_def split: prod.split sum.split)
qed

text \<open>C27. A call of \<open>RegisterNode\<close> through the interceptors is always answered and never ends in
  a panic, not even without an identity. Either the identity is missing or does not verify,
  and the call fails with nothing changed; or it verifies, and the call is a registration at
  the node service, which succeeds exactly when the service accepts it, and then the node is
  not banned.\<close>

theorem register_through_stack:
  "(\<exists>err. fst (RegisterNode_call T W svc hi perm now md req (st, l)) = Val (Inl err) \<and>
      err \<noteq> Status Internal ''internal server error'' \<and>
      fst (snd (RegisterNode_call T W svc hi perm now md req (st, l))) = st) \<or>
   (\<exists>i resp. rr_Identity req = Some i \<and>
      VerifyNodeIdentity (w_crypto W) (id_NodeID i) (id_PublicKey i) (id_Signature i) = None \<and>
      fst (RegisterNode_call T W svc hi perm now md req (st, l)) = Val (Inr resp) \<and>
      fst (snd (RegisterNode_call T W svc hi perm now md req (st, l))) =
        snd (NodeService_RegisterNode W svc perm now (reg_of_request i req) st) \<and>
      (rn_Success resp \<longleftrightarrow> (\<exists>x. fst (NodeService_RegisterNode W svc perm now (reg_of_request i req) st) = Inr x)) \<and>
      (rn_Success resp \<longrightarrow> \<not> node_banned (c_db st) now (id_NodeID i)))"
proof (cases "validateRegisterNode (w_crypto W) (Some req)")
  case (Some err)
  then have "err \<noteq> Status Internal ''internal server error''"
    by (auto simp: validateRegisterNode_def Let_def split: option.splits if_splits)
  with Some show ?thesis by (simp add: RegisterNode_call_effect)
next
  case None
  then obtain i where i: "rr_Identity req = Some i"
    "VerifyNodeIdentity (w_crypto W) (id_NodeID i) (id_PublicKey i) (id_Signature i) = None"
    using validateRegisterNode_identity by blast
  let ?N = "NodeService_RegisterNode W svc perm now (reg_of_request i req) st"
  obtain resp where r: "fst (GRPCServer_RegisterNode W svc hi perm now (authenticateUser T now (incoming md)) req st) =
      Val (Inr resp)" "rn_Success resp \<longleftrightarrow> (\<exists>x. fst ?N = Inr x)"
    using GRPCServer_RegisterNode_identity(1) [OF i(1)] by blast
  have "\<not> node_banned (c_db st) now (id_NodeID i)" if "rn_Success resp"
  proof -
    from r(2) that obtain node rs st' where "?N = (Inr (node, rs), st')" by (metis prod.collapse)
    from RegisterNode_Inr(2) [OF this] show ?thesis by (simp add: reg_of_request_def)
  qed
  with i r GRPCServer_RegisterNode_identity(2) [OF i(1)] None show ?thesis
    by (simp add: RegisterNode_call_effect)
qed

theorem register_through_stack_witness:
  "\<exists>err. fst (RegisterNode_call toy_tokens ex_world ex_svc second id 5 None
     \<lparr>rr_Identity = None, rr_Type = 1, rr_Endpoints = [], rr_Version = [], rr_Capabilities = [], rr_Region = []\<rparr>
     (ex_core, [])) = Val (Inl err)"
  using register_through_stack [of toy_tokens ex_world ex_svc second id 5 None
     "\<lparr>rr_Identity = None, rr_Type = 1, rr_Endpoints = [], rr_Version = [], rr_Capabilities = [], rr_Region = []\<rparr>"
     ex_core "[]"]
  by auto

section \<open>Sessions\<close>

lemma getme_path:
  "\<not> has_suffix ''/auth.v1.AuthService/GetMe'' ''/RegisterNode''"
  "\<not> contains ''/auth.v1.AuthService/GetMe'' ''/AdminService/''"
  "\<not> has_suffix ''/auth.v1.AuthService/GetMe'' ''/SendMessage''"
  "\<not> has_suffix ''/auth.v1.AuthService/GetMe'' ''/CreateChannel''"
  by code_simp+

definition getme_call ::
    "tokens \<Rightarrow> crypto \<Rightarrow> faults \<Rightarrow> time \<Rightarrow> (string \<Rightarrow> string list) option \<Rightarrow> db \<Rightarrow> (AuthResponse, db) outcome" where
  "getme_call T K fault now md d = AuthService_GetMe_Handler fault (incoming md) (Inr ())
     (Some (unary_chain T K now (\<lambda>_. None))) (d, [])"

lemma getme_call_result:
  "fst (getme_call T K fault now md d) = Val (AuthServer_GetMe fault (authenticateUser T now (incoming md)) d)"
  by (simp add: getme_call_def AuthService_GetMe_Handler_def method_handler_def
      unary_chain_result(1) [OF getme_path(1)] authorize_open [OF getme_path(2-4)])

text \<open>C28. Who registered can log in with the same password, and the token of the login opens
  the account: sent as a bearer token within 24 hours (less the second lost to truncation) it
  makes \<open>GetMe\<close> answer with the user of the registration; after 24 hours it counts for
  nothing. The role in the token is that of the genesis rule.\<close>

theorem login_session:
  assumes "tokens_ok T" "AuthServer_Register T fault salt newid t0 reg d = (Inr resp, d')"
    "length (rq_Password reg) \<le> 72" "ascii newid"
    "fault' ''GetUserByEmail'' = None" "fault' ''GetUserByID'' = None"
  shows "\<exists>lr. AuthServer_Login T fault' t1 \<lparr>lq_Email = rq_Email reg, lq_Password = rq_Password reg\<rparr> d' = Inr lr \<and>
     (\<forall>md now. md ''authorization'' = [''Bearer '' @ as_Token lr] \<longrightarrow>
        (now \<le> t1 + 24 * hour - second \<longrightarrow>
           (\<exists>c. session T now (Some md) = Some c \<and> cl_UserID c = newid \<and> cl_Role c = genesis_role d) \<and>
           (\<exists>me. fst (getme_call T K fault' now (Some md) d') = Val (Inr me) \<and> as_User me = as_User resp)) \<and>
        (t1 + 24 * hour \<le> now \<longrightarrow> session T now (Some md) = None))"
proof -
  obtain lr where lr: "AuthServer_Login T fault' t1 \<lparr>lq_Email = rq_Email reg, lq_Password = rq_Password reg\<rparr> d' = Inr lr"
    "GenerateJWT T t1 newid (genesis_role d) = Inr (as_Token lr)"
    using Login_after_Register [of T, OF assms(1-3), of fault', OF assms(5)] by blast
  obtain created u where cr: "CreateUser fault newid t0 u d = (Inr created, d')" "as_User resp = pbUser_of created"
    using AuthServer_Register_Inr [OF assms(2)] by metis
  have me: "GetUserByID fault' newid d' = Inr (Some created)"
    by (rule CreateUser_found(2) [OF cr(1), of fault', OF assms(6)])
  have "(\<exists>c. session T now (Some md) = Some c \<and> cl_UserID c = newid \<and> cl_Role c = genesis_role d) \<and>
      (\<exists>me. fst (getme_call T K fault' now (Some md) d') = Val (Inr me) \<and> as_User me = as_User resp)"
    if md: "md ''authorization'' = [''Bearer '' @ as_Token lr]" and t: "now \<le> t1 + 24 * hour - second" for md now
  proof -
    obtain c where c: "session T now (Some md) = Some c" "cl_UserID c = newid" "cl_Role c = genesis_role d"
      using session_of_token [where md = md, OF assms(1) lr(2) assms(4) genesis_role_ascii t md] by blast
    then show ?thesis
      using me cr(2) by (simp add: getme_call_result AuthServer_GetMe_def authenticateUser_incoming)
  qed
  moreover have "session T now (Some md) = None"
    if md: "md ''authorization'' = [''Bearer '' @ as_Token lr]" and t: "t1 + 24 * hour \<le> now" for md now
    using ValidateJWT_session(2) [OF assms(1) lr(2) assms(4) genesis_role_ascii t] md
    by (auto simp: session_def trim_prefix_def has_prefix_def)
  ultimately show ?thesis using lr(1) by blast
qed

definition ex_signup :: RegisterRequest where
  "ex_signup = \<lparr>rq_Email = ''a@b'', rq_Password = ''pw'', rq_FullName = [], rq_Phone = [], rq_Nickname = ''a''\<rparr>"

lemma ex_signup_works:
  "\<exists>resp d'. AuthServer_Register toy_tokens (\<lambda>_. None) [] ''u1'' 0 ex_signup empty_db = (Inr resp, d')"
proof -
  obtain tok where "GenerateJWT toy_tokens 0 ''u1'' ''owner'' = Inr tok"
    by (simp add: GenerateJWT_def toy_tokens_def)
  then show ?thesis
    by (simp add: AuthServer_Register_def ex_signup_def HashPassword_def toy_tokens_def CreateUser_def
        insert_user_def genesis_role_def empty_db_def sql_insert_def varchar_short Let_def)
qed

theorem login_session_witness:
  "\<exists>resp d' lr. AuthServer_Register toy_tokens (\<lambda>_. None) [] ''u1'' 0 ex_signup empty_db = (Inr resp, d') \<and>
     AuthServer_Login toy_tokens (\<lambda>_. None) 5 \<lparr>lq_Email = ''a@b'', lq_Password = ''pw''\<rparr> d' = Inr lr \<and>
     (\<exists>me. fst (getme_call toy_tokens ex_crypto (\<lambda>_. None) second
        (Some (\<lambda>_. [''Bearer '' @ as_Token lr])) d') = Val (Inr me) \<and> as_User me = as_User resp)"
proof -
  obtain resp d' where R: "AuthServer_Register toy_tokens (\<lambda>_. None) [] ''u1'' 0 ex_signup empty_db = (Inr resp, d')"
    using ex_signup_works by blast
  have pw: "length (rq_Password ex_signup) \<le> 72" and id: "ascii ''u1''"
    by (simp_all add: ex_signup_def ascii_def)
  obtain lr where lr: "AuthServer_Login toy_tokens (\<lambda>_. None) 5 \<lparr>lq_Email = rq_Email ex_signup,
      lq_Password = rq_Password ex_signup\<rparr> d' = Inr lr"
    and L: "\<And>md now. md ''authorization'' = [''Bearer '' @ as_Token lr] \<Longrightarrow> now \<le> 5 + 24 * hour - second \<Longrightarrow>
      \<exists>me. fst (getme_call toy_tokens ex_crypto (\<lambda>_. None) now (Some md) d') = Val (Inr me) \<and> as_User me = as_User resp"
    using login_session [OF toy_tokens_ok R pw id, of "\<lambda>_. None" 5 ex_crypto] by (metis (no_types))
  from L [of "\<lambda>_. [''Bearer '' @ as_Token lr]" second] R lr show ?thesis
    by (auto simp: ex_signup_def)
qed

section \<open>The vault\<close>



section \<open>Bans by an administrator\<close>

lemma admin_ban_until:
  assumes "w_faults W ''BanNode'' = None" "map_of (t_nodes (c_db st)) (bn_NodeId r) \<noteq> None"
  shows "node_banned (c_db (snd (AdminServer_BanNode W now r st))) later (bn_NodeId r) \<longleftrightarrow>
     bn_DurationSeconds r \<le> 0 \<or> later \<le> micros (now + int64 (bn_DurationSeconds r * second))"
  using assms
  by (auto simp: AdminServer_BanNode_def pg_BanNode_def node_banned_def Let_def split: option.splits if_splits)

text \<open>C30. A ban of a known node by an administrator without a duration lasts; one of up to
  9223372036 seconds ends after that time (at the resolution of the database); one of a
  second more wraps around in \<open>int64\<close> and has already expired when it is made.\<close>

theorem admin_ban_duration:
  assumes "w_faults W ''BanNode'' = None" "map_of (t_nodes (c_db st)) (bn_NodeId r) \<noteq> None" "now \<le> later"
  shows "(bn_DurationSeconds r \<le> 0 \<longrightarrow>
            node_banned (c_db (snd (AdminServer_BanNode W now r st))) later (bn_NodeId r)) \<and>
     (0 < bn_DurationSeconds r \<and> bn_DurationSeconds r \<le> 9223372036 \<longrightarrow>
        (node_banned (c_db (snd (AdminServer_BanNode W now r st))) later (bn_NodeId r) \<longleftrightarrow>
           later \<le> micros (now + bn_DurationSeconds r * second))) \<and>
     (bn_DurationSeconds r = 9223372037 \<longrightarrow>
        \<not> node_banned (c_db (snd (AdminServer_BanNode W now r st))) later (bn_NodeId r))"
proof -
  have "int64 (s * second) = s * second" if "0 < s" "s \<le> 9223372036" for s
    using that by (intro int64_id) simp_all
  moreover have "int64 (9223372037 * second) < 0" by (simp add: int64_def)
  then have "micros (now + int64 (9223372037 * second)) < later"
    using micros_le(1) [of "now + int64 (9223372037 * second)"] assms(3) by linarith
  ultimately show ?thesis
    unfolding admin_ban_until [of W, OF assms(1,2)] by (auto simp: not_le)
qed

definition ex_node_db :: db where
  "ex_node_db = empty_db\<lparr>t_nodes := [(''n'', \<lparr>nr_public_key = ''k'', nr_type = 1, nr_version = [], nr_region = [],
     nr_capabilities = [], nr_first_seen_at = 0, nr_last_seen_at = 0, nr_total_uptime_seconds = 0, nr_banned = False, nr_ban_reason = None,
     nr_ban_expires_at = None\<rparr>)]\<rparr>"

theorem admin_ban_duration_witness:
  "\<not> node_banned (c_db (snd (AdminServer_BanNode ex_world 10
     \<lparr>bn_NodeId = ''n'', bn_Reason = [], bn_DurationSeconds = 9223372037\<rparr> (ex_core\<lparr>c_db := ex_node_db\<rparr>)))) 10 ''n''"
proof -
  let ?r = "\<lparr>bn_NodeId = ''n'', bn_Reason = [], bn_DurationSeconds = 9223372037\<rparr>"
  have h: "w_faults ex_world ''BanNode'' = None"
    "map_of (t_nodes (c_db (ex_core\<lparr>c_db := ex_node_db\<rparr>))) (bn_NodeId ?r) \<noteq> None"
    by (simp_all add: ex_world_def ex_node_db_def)
  from admin_ban_duration [of ex_world "ex_core\<lparr>c_db := ex_node_db\<rparr>" ?r 10 10, OF h] show ?thesis by simp
qed

section \<open>Streams of events\<close>

lemma send_alert_publishes:
  "snd (AdminServer_SendGlobalAlert W now ctx r st) =
     st\<lparr>c_redis := snd (r_publish (w_redis W) keyModerationEvents
       (json_text (JObj (event_members (w_text W)
         \<lparr>ev_EventID = ''alert-'' @ dec_int (unix now), ev_Type = EventTypeGlobalAlert, ev_Timestamp = now,
          ev_Payload = AlertPayload \<lparr>al_AlertID = ''alert-'' @ dec_int (unix now), al_Title = ga_Title r,
            al_Message = ga_Message r, al_Severity = ga_Severity r, al_InfoURL = ga_InfoUrl r, al_CreatedAt = now\<rparr>,
          ev_Signature = Some \<lparr>ms_ModeratorID = ctx_string (ctx_user_id ctx), ms_PublicKey = [], ms_Signature = [],
            ms_SignedAt = now\<rparr>\<rparr>))) (c_redis st))\<rparr>"
  by (auto simp: AdminServer_SendGlobalAlert_def PublishInternalAlert_def publish_def PublishModerationEvent_def
      Let_def simp del: json_text.simps split: prod.split option.split)

lemma delivered_alert:
  assumes "clock_text_ok T" "ev_Type e = EventTypeGlobalAlert"
  shows "SubscribeToEvents broadcastTypes (subscriber_step T (json_text (JObj (event_members T e))) []) =
    [e\<lparr>ev_Payload := Decoded\<rparr>]"
  using assms by (simp add: subscriber_step_def unmarshal_obj_def event_of_members in_int64_def EventType_defs
      SubscribeToEvents_def broadcastTypes_def del: json_text.simps)

text \<open>C31. The server never gets a stream manager. So every subscription to global events fails
  with an internal error; and a single call of \<open>SendGlobalAlert\<close>, which needs no credentials,
  publishes a message on whose delivery the event broadcaster of every core server panics
  outside of all recovery, which ends the process.\<close>

theorem alert_crashes_server:
  assumes "clock_text_ok (w_text W)"
  shows "fst (SubscribeToGlobalEvents_call nodeID (NewGRPCServer c, l)) =
       Val (Inl (Status Internal ''internal server error'')) \<and>
     (\<exists>msg. fst (snd (admin_call_through T W mk now None (SendGlobalAlertReq r) (st, l))) =
         st\<lparr>c_redis := snd (r_publish (w_redis W) keyModerationEvents msg (c_redis st))\<rparr> \<and>
       startEventBroadcaster order (subscriber_step (w_text W) msg []) (NewGRPCServer c) =
         Panic ''nil pointer dereference'')"
proof -
  have "fst (SubscribeToGlobalEvents_call nodeID (NewGRPCServer c, l)) =
      Val (Inl (Status Internal ''internal server error''))"
    by (simp add: SubscribeToGlobalEvents_call_def stream_chain_of_server_def stream_chain
        StreamRecoveryInterceptor_def StreamLoggingInterceptor_def AuthInterceptor_Stream_def
        subscribe_start_def NewGRPCServer_def)
  moreover have "startEventBroadcaster order (subscriber_step (w_text W) (json_text (JObj (event_members (w_text W) e))) [])
      (NewGRPCServer c) = Panic ''nil pointer dereference''" if "ev_Type e = EventTypeGlobalAlert" for e
    using delivered_alert [OF assms that]
    by (simp add: startEventBroadcaster_def NewGRPCServer_def del: json_text.simps)
  moreover have "fst (snd (admin_call_through T W mk now None (SendGlobalAlertReq r) (st, l))) =
      snd (AdminServer_SendGlobalAlert W now (authenticateUser T now (incoming None)) r st)"
    by (simp add: admin_call_reaches case_prod_beta)
  ultimately show ?thesis
    unfolding send_alert_publishes by (intro conjI exI) (assumption | rule refl | simp)+
qed

theorem alert_crashes_server_witness:
  "\<exists>msg. startEventBroadcaster [0..<256] (subscriber_step (w_text ex_world) msg []) (NewGRPCServer ex_core) =
     Panic ''nil pointer dereference''"
proof -
  have "clock_text_ok (w_text ex_world)" by (simp add: ex_world_def ex_text_ok)
  from alert_crashes_server [OF this, of "''n''" ex_core "[]" toy_tokens "''k''" 5
      "\<lparr>ga_Title = [], ga_Message = [], ga_Severity = [], ga_InfoUrl = []\<rparr>" ex_core "[0..<256]"]
  show ?thesis by blast
qed

section \<open>Every unary call is answered\<close>

text \<open>C32. The chain of interceptors answers every unary call, whatever the handler does. When
  the call is let through and the handler panics, the caller gets an internal error, what
  the handler had changed stays changed, and the panic is logged as the last entry.\<close>

theorem unary_calls_answered:
  assumes "\<not> has_suffix m ''/RegisterNode''" "authorize (authenticateUser T now ctx) m = None"
    "h (authenticateUser T now ctx) req sl = (Panic p, s', l')"
  shows "(\<exists>a sl'. unary_chain T K now as_register ctx req m' h' sl = (Val a, sl')) \<and>
     unary_chain T K now as_register ctx req m h sl =
       (Val (Inl (Status Internal ''internal server error'')), s', l' @ [LogPanic m p])"
proof
  show "\<exists>a sl'. unary_chain T K now as_register ctx req m' h' sl = (Val a, sl')"
    unfolding unary_chain_def chain_Cons by (rule recovery_returns)
  show "unary_chain T K now as_register ctx req m h sl =
       (Val (Inl (Status Internal ''internal server error'')), s', l' @ [LogPanic m p])"
    using assms
    by (simp add: unary_chain_def RecoveryInterceptor_def LoggingInterceptor_def AuthInterceptor_Unary_def Let_def)
qed

theorem unary_calls_answered_witness:
  "unary_chain toy_tokens ex_crypto 0 (\<lambda>_. None) (incoming None) () ''/auth.v1.AuthService/GetMe''
     (\<lambda>ctx req sl. (Panic ''boom'', (2 :: nat), [])) (0, []) =
   (Val (Inl (Status Internal ''internal server error'')) :: (status + unit) go, 2,
     [LogPanic ''/auth.v1.AuthService/GetMe'' ''boom''])"
proof -
  have "authorize (authenticateUser toy_tokens 0 (incoming None)) ''/auth.v1.AuthService/GetMe'' = None"
    by (rule authorize_open [OF getme_path(2-4)])
  then show ?thesis
    by (simp add: unary_calls_answered [where h = "\<lambda>ctx req sl. (Panic ''boom'', (2 :: nat), [])",
        OF getme_path(1) _ refl, THEN conjunct2])
qed

section \<open>The cluster\<close>

definition through ::
    "tokens \<Rightarrow> crypto \<Rightarrow> time \<Rightarrow>
     (ctx \<Rightarrow> status + 'q \<Rightarrow> ('q, 'r, 's) UnaryServerInterceptor option \<Rightarrow> 's \<times> log_line list \<Rightarrow> ('r, 's) outcome)
     \<Rightarrow> 'q \<Rightarrow> 's \<Rightarrow> (status + 'r) go \<times> 's" where
  "through T K now handler req s =
     (case handler (incoming None) (Inr req) (Some (unary_chain T K now (\<lambda>_. None))) (s, []) of
        (a, s', l) \<Rightarrow> (a, s'))"

lemma cluster_paths:
  "list_all (\<lambda>m. \<not> has_suffix m ''/RegisterNode'' \<and> \<not> contains m ''/AdminService/'' \<and>
     \<not> has_suffix m ''/SendMessage'' \<and> \<not> has_suffix m ''/CreateChannel'')
   [''/cluster.v1.ClusterService/RequestJoin'', ''/cluster.v1.ClusterService/ApprovePeer'']"
  by code_simp

lemma through_open:
  assumes "\<not> has_suffix m ''/RegisterNode''" "\<not> contains m ''/AdminService/''"
    "\<not> has_suffix m ''/SendMessage''" "\<not> has_suffix m ''/CreateChannel''"
  shows "through T K now (method_handler m (lift_method f)) req s =
    (case f (authenticateUser T now (incoming None)) req s of (a, s') \<Rightarrow> (Val (recovered a), s'))"
  using unary_chain_result [OF assms(1), where T = T and K = K and now = now and as_register = "\<lambda>_. None" and
      ctx = "incoming None" and req = req and h = "lift_method f" and sl = "(s, [])"]
  by (simp add: through_def method_handler_def authorize_open [OF assms(2-4)] case_prod_beta prod_eq_iff)

lemma through_RequestJoin:
  "through T K t (ClusterService_RequestJoin_Handler fault now) req d =
     (Val (Inr (fst (RequestJoin fault now req d))), snd (RequestJoin fault now req d))"
  using cluster_paths by (simp add: ClusterService_RequestJoin_Handler_def through_open case_prod_beta)

lemma through_ApprovePeer:
  "through T K t (ClusterService_ApprovePeer_Handler fault now) req d =
     (Val (Inr (fst (ApprovePeer fault now req d))), fst (snd (ApprovePeer fault now req d)))"
  using cluster_paths by (simp add: ClusterService_ApprovePeer_Handler_def through_open case_prod_beta)

lemma RequestJoin_pending:
  assumes "fault ''UpsertClusterPeer'' = None" "varchar 64 (pi_PeerID p)" "varchar 256 (pi_Address p)"
    "pi_PublicKey p \<noteq> []"
  shows "cr_Success (fst (RequestJoin fault now (Some p) d))"
    "map_of (t_cluster_peers (snd (RequestJoin fault now (Some p) d))) = (map_of (t_cluster_peers d))
       (pi_PeerID p \<mapsto> \<lparr>cp_PeerID = pi_PeerID p, cp_Address = pi_Address p, cp_PublicKey = pi_PublicKey p,
          cp_Status = ''pending'', cp_LastSeen = micros now\<rparr>)"
  using assms by (auto simp: RequestJoin_def UpsertClusterPeer_def varchar_short Let_def fun_eq_iff split: option.split)

lemma ApprovePeer_activates:
  assumes "fault ''GetClusterPeer'' = None" "fault ''UpdateClusterPeerStatus'' = None"
    "map_of (t_cluster_peers d) (ap_PeerID req) = Some r" "cp_Status r \<noteq> ''active''"
  shows "cr_Success (fst (ApprovePeer fault now req d))"
    "map_of (t_cluster_peers (fst (snd (ApprovePeer fault now req d)))) = (map_of (t_cluster_peers d))
       (ap_PeerID req \<mapsto> r\<lparr>cp_Status := ''active'', cp_LastSeen := micros now\<rparr>)"
  using assms
  by (auto simp: ApprovePeer_def GetClusterPeer_def UpdateClusterPeerStatus_def varchar_short fun_eq_iff)

lemma Broadcast_to_active:
  assumes "fault ''GetActiveClusterPeers'' = None" "map_of (t_cluster_peers d) k = Some r" "cp_Status r = ''active''"
  shows "(cp_Address r, [\<lparr>id_NodeID = n, id_PublicKey = pk, id_Signature = []\<rparr>]) \<in>
    set (BroadcastNodeRegistration fault n pk d)"
proof -
  have "(k, r) \<in> set (t_cluster_peers d)" using assms(2) by (rule map_of_SomeD)
  then show ?thesis
    using assms(1,3) by (force simp: BroadcastNodeRegistration_def GetActiveClusterPeers_def filter_empty_conv Let_def)
qed



section \<open>Health and routing\<close>

text \<open>After any sequence of health checks the server reports itself and the network service
  as serving exactly when the last check reached both Redis and PostgreSQL, and the flag
  agrees with what is reported.\<close>

lemma health_follows_last_check:
  "(let hc = health_loop (ticks @ [(W, st)]) NewHealthChecker;
        up = (NodeManager_Ping (w_redis W) (c_redis st) = None \<and> pg_Ping (w_faults W) = None)
    in IsHealthy hc = up \<and>
       hc_healthServer hc [] = Some (if up then SERVING else NOT_SERVING) \<and>
       hc_healthServer hc ''network.v1.NetworkService'' = Some (if up then SERVING else NOT_SERVING))"
  using health_loop_last [of ticks W st NewHealthChecker]
  by (simp add: Let_def health_ok_def IsHealthy_def)

text \<open>Client and server agree on the names of the methods: each client stub calls the path
  under which the handler of the same method reports itself to the interceptors, and all
  these paths are served by the registered descriptors.\<close>

lemma client_server_paths_agree:
  "stub_path channelServiceClient_CreateChannel q1 = handler_path (ChannelService_CreateChannel_Handler now) q1 s \<and>
   stub_path channelServiceClient_GetChannelInfo q2 = handler_path ChannelService_GetChannelInfo_Handler q2 s \<and>
   stub_path channelServiceClient_PromoteUser q3 = handler_path (ChannelService_PromoteUser_Handler W now) q3 s \<and>
   stub_path channelServiceClient_DemoteUser q4 = handler_path (ChannelService_DemoteUser_Handler W now) q4 s \<and>
   stub_path channelServiceClient_KickUser q5 = handler_path (ChannelService_KickUser_Handler W now) q5 s \<and>
   stub_path channelServiceClient_UpdateChannelAvatar q6 =
     handler_path (ChannelService_UpdateChannelAvatar_Handler W now) q6 s \<and>
   stub_path gridServiceClient_SubmitResult q7 = handler_path GridService_SubmitResult_Handler q7 () \<and>
   stub_path clusterServiceClient_RequestJoin q8 = handler_path (ClusterService_RequestJoin_Handler f now) q8 d \<and>
   stub_path clusterServiceClient_ApprovePeer q9 = handler_path (ClusterService_ApprovePeer_Handler f now) q9 d \<and>
   stub_path clusterServiceClient_GetClusterNodes () = handler_path (ClusterService_GetClusterNodes_Handler f cs) () d \<and>
   stub_path clusterServiceClient_SyncNodes q10 = handler_path ClusterService_SyncNodes_Handler q10 d \<and>
   stub_path authServiceClient_Login q11 = handler_path (AuthService_Login_Handler T f now) q11 d \<and>
   stub_path authServiceClient_Register q12 = handler_path (AuthService_Register_Handler T f salt i now) q12 d \<and>
   stub_path authServiceClient_GetMe () = handler_path (AuthService_GetMe_Handler f) () d \<and>
   list_all (\<lambda>p. p \<in> set (served_paths [ChannelService_desc, GridService_desc, ClusterService_desc, AuthService_desc]))
     [''/channel.v1.ChannelService/CreateChannel'', ''/channel.v1.ChannelService/GetChannelInfo'',
      ''/channel.v1.ChannelService/PromoteUser'', ''/channel.v1.ChannelService/DemoteUser'',
      ''/channel.v1.ChannelService/KickUser'', ''/channel.v1.ChannelService/UpdateChannelAvatar'',
      ''/channel.v1.GridService/SubmitResult'', ''/channel.v1.GridService/SubscribeToJobs'',
      ''/cluster.v1.ClusterService/RequestJoin'', ''/cluster.v1.ClusterService/ApprovePeer'',
      ''/cluster.v1.ClusterService/GetClusterNodes'', ''/cluster.v1.ClusterService/SyncNodes'',
      ''/auth.v1.AuthService/Login'', ''/auth.v1.AuthService/Register'', ''/auth.v1.AuthService/GetMe'']"
proof -
  have "list_all (\<lambda>p. p \<in> set (served_paths [ChannelService_desc, GridService_desc, ClusterService_desc, AuthService_desc]))
     [''/channel.v1.ChannelService/CreateChannel'', ''/channel.v1.ChannelService/GetChannelInfo'',
      ''/channel.v1.ChannelService/PromoteUser'', ''/channel.v1.ChannelService/DemoteUser'',
      ''/channel.v1.ChannelService/KickUser'', ''/channel.v1.ChannelService/UpdateChannelAvatar'',
      ''/channel.v1.GridService/SubmitResult'', ''/channel.v1.GridService/SubscribeToJobs'',
      ''/cluster.v1.ClusterService/RequestJoin'', ''/cluster.v1.ClusterService/ApprovePeer'',
      ''/cluster.v1.ClusterService/GetClusterNodes'', ''/cluster.v1.ClusterService/SyncNodes'',
      ''/auth.v1.AuthService/Login'', ''/auth.v1.AuthService/Register'', ''/auth.v1.AuthService/GetMe'']"
    by code_simp
  then show ?thesis
    by (simp add: stub_defs [abs_def] handler_defs [abs_def] stub_path_def invoke_def handler_path_def method_handler_def)
qed

end
