(* ===== verification/Core_Client.thy ===== *)
theory Core_Client
  imports Crypto Grpc_Server
begin

text \<open>
  \<^verbatim>\<open>relay/internal/client/core_client.go\<close> and the settings of
  \<^verbatim>\<open>relay/internal/config/config.go\<close>: how a relay registers with the core server, sends its
  heartbeats and listens to the moderation events. The connection is the outcome of each
  call. What the relay does with an event is to write a line to its log.
\<close>

section \<open>State\<close>

record relay_Config =
  rcf_CoreAddress :: string
  rcf_RelayIP :: string
  rcf_RelayPort :: int
  rcf_PrivateKeyPath :: string
  rcf_Region :: string
  rcf_HeartbeatInterval :: int
  rcf_Capabilities :: "string list"

record CoreClient =
  co_cfg :: relay_Config
  co_keyPair :: KeyPair
  co_conn :: bool
  co_done :: bool
  co_log :: "string list"

definition NewCoreClient :: "relay_Config \<Rightarrow> KeyPair \<Rightarrow> CoreClient" where
  "NewCoreClient cfg keyPair = \<lparr>co_cfg = cfg, co_keyPair = keyPair, co_conn = False, co_done = False, co_log = []\<rparr>"

definition CoreClient_Connect :: "string option \<Rightarrow> CoreClient \<Rightarrow> string option \<times> CoreClient" where
  "CoreClient_Connect dialErr c =
     (case dialErr of
        Some err \<Rightarrow> (Some (''failed to connect to core server: '' @ err), c)
      | None \<Rightarrow> (None, c\<lparr>co_conn := True\<rparr>))"

section \<open>Registration and heartbeats\<close>

definition relay_register_request :: "crypto \<Rightarrow> CoreClient \<Rightarrow> RegisterNodeRequest" where
  "relay_register_request K c =
     \<lparr>rr_Identity = Some \<lparr>id_NodeID = kp_NodeID (co_keyPair c), id_PublicKey = kp_PublicKey (co_keyPair c),
        id_Signature = SignNodeID K (co_keyPair c)\<rparr>,
      rr_Type = 2, rr_Endpoints = [rcf_RelayIP (co_cfg c) @ '':'' @ dec_int (rcf_RelayPort (co_cfg c))],
      rr_Version = ''1.0.0'', rr_Capabilities = rcf_Capabilities (co_cfg c), rr_Region = rcf_Region (co_cfg c)\<rparr>"

text \<open>\<open>errText\<close> is \<open>err.Error()\<close> of a status.\<close>

definition CoreClient_Register ::
    "crypto \<Rightarrow> (status \<Rightarrow> string) \<Rightarrow> (RegisterNodeRequest \<Rightarrow> status + RegisterNodeResponse) \<Rightarrow> CoreClient \<Rightarrow> string option" where
  "CoreClient_Register K errText rpc c =
     (case rpc (relay_register_request K c) of
        Inl err \<Rightarrow> Some (''failed to register: '' @ errText err)
      | Inr resp \<Rightarrow>
          if \<not> rn_Success resp then Some (''registration failed: '' @ rn_Message resp) else None)"

text \<open>The metrics of the heartbeat are left out: the core server does not use them.\<close>

definition sendHeartbeat ::
    "crypto \<Rightarrow> (status \<Rightarrow> string) \<Rightarrow> (HeartbeatRequest \<Rightarrow> status + HeartbeatResponse) \<Rightarrow> time \<Rightarrow> CoreClient \<Rightarrow> string option" where
  "sendHeartbeat K errText rpc now c =
     (case rpc \<lparr>hb_NodeId = kp_NodeID (co_keyPair c),
          hb_Signature = KeyPair_Sign K (co_keyPair c) (''heartbeat:'' @ dec_int (unix now)), hb_Status = 1\<rparr> of
        Inl err \<Rightarrow> Some (errText err)
      | Inr resp \<Rightarrow> if \<not> hr_Success resp then Some ''heartbeat not acknowledged'' else None)"

text \<open>The loop: each turn finds the context done or a tick, with its time and connection. The log
  records the outcome of every heartbeat.\<close>

datatype tick = Done | Tick time "HeartbeatRequest \<Rightarrow> status + HeartbeatResponse"

fun heartbeat_loop :: "crypto \<Rightarrow> (status \<Rightarrow> string) \<Rightarrow> tick list \<Rightarrow> CoreClient \<Rightarrow> CoreClient" where
  "heartbeat_loop K errText [] c = c"
| "heartbeat_loop K errText (Done # rest) c = c"
| "heartbeat_loop K errText (Tick now rpc # rest) c =
     heartbeat_loop K errText rest (c\<lparr>co_log := co_log c @
       [case sendHeartbeat K errText rpc now c of Some err \<Rightarrow> ''Failed: '' @ err | None \<Rightarrow> ''Sent successfully'']\<rparr>)"

section \<open>Events\<close>

definition event_text :: "GlobalEvent \<Rightarrow> string" where
  "event_text event =
     (if ge_Type event = 1 then ''[BAN] Node banned! EventID: '' @ ge_EventId event
      else if ge_Type event = 2 then ''[BAN] Content banned! EventID: '' @ ge_EventId event
      else if ge_Type event = 3 then ''[ALERT] Global alert! EventID: '' @ ge_EventId event
      else if ge_Type event = 4 then ''[RELAY] Relay offline! EventID: '' @ ge_EventId event
      else if ge_Type event = 5 then ''[UPDATE] Network update! EventID: '' @ ge_EventId event
      else ''[Events] Unknown event type: '' @ dec_int (ge_Type event))"

definition relay_handleEvent :: "GlobalEvent \<Rightarrow> CoreClient \<Rightarrow> CoreClient" where
  "relay_handleEvent event c = c\<lparr>co_log := co_log c @ [event_text event]\<rparr>"

text \<open>The stream: an error of subscribing, or the events until the stream fails.\<close>

definition relay_SubscribeToEvents :: "status + GlobalEvent list \<Rightarrow> CoreClient \<Rightarrow> CoreClient" where
  "relay_SubscribeToEvents stream c =
     (case stream of Inl err \<Rightarrow> c | Inr events \<Rightarrow> fold relay_handleEvent events c)"

definition CoreClient_Close :: "CoreClient \<Rightarrow> CoreClient" where
  "CoreClient_Close c = c\<lparr>co_done := True, co_conn := False\<rparr>"

section \<open>Lemmas\<close>

text \<open>The core server's interceptor accepts the registration of a relay whose key pair comes
  from a private key.\<close>

lemma relay_registration_valid:
  assumes "crypto_ok K" "length priv = 64" "co_keyPair c = newKeyPairFromPrivate K priv"
  shows "validateRegisterNode K (Some (relay_register_request K c)) = None"
proof -
  have "length (ed_sign K priv m) = 64" "length (ed_public K priv) = 32" "length (DeriveNodeID K (ed_public K priv)) = 32" for m
    using crypto_okD [OF assms(1)] length_DeriveNodeID [OF assms(1)] by simp_all
  then have "ed_sign K priv m \<noteq> []" "ed_public K priv \<noteq> []" "DeriveNodeID K (ed_public K priv) \<noteq> []" for m
    by (auto simp flip: length_greater_0_conv)
  then show ?thesis
    using assms(3) VerifySignature_own [OF assms(1,2)]
    by (simp add: validateRegisterNode_def relay_register_request_def newKeyPairFromPrivate_def Let_def SignNodeID_def
        KeyPair_Sign_def)
qed

text \<open>Events only reach the log of the relay.\<close>

lemma relay_events_only_logged:
  "\<exists>l. relay_SubscribeToEvents stream c = c\<lparr>co_log := co_log c @ l\<rparr>"
proof -
  have "\<exists>l. fold relay_handleEvent es c = c\<lparr>co_log := co_log c @ l\<rparr>" for es
  proof (induction es rule: rev_induct)
    case Nil
    then show ?case by (intro exI [of _ "[]"]) simp
  next
    case (snoc e es)
    then show ?case by (auto simp: relay_handleEvent_def)
  qed
  then show ?thesis
    by (cases stream) (simp_all add: relay_SubscribeToEvents_def exI [of _ "[]"])
qed

end
