(* ===== verification/Rfc3339.thy ===== *)
theory Rfc3339
  imports Json
begin

text \<open>
  The JSON text of a \<open>time.Time\<close>: RFC 3339 with nanoseconds, in the zone of the writer
  (\<open>off\<close>, seconds east of UTC). An instant whose year does not have four digits is not
  written; reading takes the offset into account and gives the instant back.
\<close>

section \<open>The calendar\<close>

text \<open>Days since 1970-01-01 to year, month and day of the proleptic Gregorian calendar and
  back, by eras of 400 years that begin in March.\<close>

definition civil_from_days :: "int \<Rightarrow> int \<times> int \<times> int" where
  "civil_from_days days =
     (let z = days + 719468; era = z div 146097; doe = z mod 146097;
          yoe = (doe - doe div 1460 + doe div 36524 - doe div 146096) div 365;
          doy = doe - (365 * yoe + yoe div 4 - yoe div 100);
          mp = (5 * doy + 2) div 153; d = doy - (153 * mp + 2) div 5 + 1;
          m = (if mp < 10 then mp + 3 else mp - 9)
      in (yoe + era * 400 + (if m \<le> 2 then 1 else 0), m, d))"

definition days_from_civil :: "int \<Rightarrow> int \<Rightarrow> int \<Rightarrow> int" where
  "days_from_civil y m d =
     (let y' = (if m \<le> 2 then y - 1 else y); era = y' div 400; yoe = y' mod 400;
          doy = (153 * (if m > 2 then m - 3 else m + 9) + 2) div 5 + d - 1;
          doe = yoe * 365 + yoe div 4 - yoe div 100 + doy
      in era * 146097 + doe - 719468)"

definition days_in :: "int \<Rightarrow> int \<Rightarrow> int" where
  "days_in y m =
     (if m = 2 then (if y mod 4 = 0 \<and> (y mod 100 \<noteq> 0 \<or> y mod 400 = 0) then 29 else 28)
      else if m \<in> {4, 6, 9, 11} then 30 else 31)"

section \<open>Writing\<close>

definition pad_dec :: "nat \<Rightarrow> nat \<Rightarrow> string" where
  "pad_dec w n = replicate (w - length (dec_nat n)) (CHR ''0'') @ dec_nat n"

definition frac_text :: "nat \<Rightarrow> string" where
  "frac_text ns = (if ns = 0 then [] else CHR ''.'' # rev (dropWhile (\<lambda>c. c = CHR ''0'') (rev (pad_dec 9 ns))))"

definition zone_text :: "int \<Rightarrow> string" where
  "zone_text off =
     (if off = 0 then ''Z''
      else let z = nat (\<bar>off\<bar> div 60)
        in (if off < 0 then CHR ''-'' else CHR ''+'') # pad_dec 2 (z div 60) @ CHR '':'' # pad_dec 2 (z mod 60))"

definition time_text :: "int \<Rightarrow> time \<Rightarrow> string option" where
  "time_text off t =
     (let local = t + off * second; secs = local div second; day = secs mod 86400;
          (y, m, d) = civil_from_days (secs div 86400)
      in if y < 0 \<or> y > 9999 then None
         else Some (pad_dec 4 (nat y) @ ''-'' @ pad_dec 2 (nat m) @ ''-'' @ pad_dec 2 (nat d) @ ''T'' @
           pad_dec 2 (nat (day div 3600)) @ '':'' @ pad_dec 2 (nat (day div 60 mod 60)) @ '':'' @
           pad_dec 2 (nat (day mod 60)) @ frac_text (nat (local mod second)) @ zone_text off))"

section \<open>Reading\<close>

text \<open>The number at positions \<open>i\<close> to \<open>i + w\<close>, if it is made of digits and in the range.\<close>

definition num_at :: "string \<Rightarrow> nat \<Rightarrow> nat \<Rightarrow> int \<Rightarrow> int \<Rightarrow> int option" where
  "num_at s i w lo hi =
     (let ds = take w (drop i s); n = int (digits_val ds)
      in if length ds = w \<and> list_all is_digit ds \<and> lo \<le> n \<and> n \<le> hi then Some n else None)"

text \<open>At most nine digits of the fraction count.\<close>

definition frac_val :: "string \<Rightarrow> int" where
  "frac_val ds = int (digits_val (take 9 (ds @ replicate 9 (CHR ''0''))))"

definition zone_val :: "string \<Rightarrow> int option" where
  "zone_val z =
     (if z = ''Z'' then Some 0
      else if length z = 6 \<and> hd z \<in> {CHR ''+'', CHR ''-''} \<and> z ! 3 = CHR '':'' then
        (case (num_at z 1 2 0 23, num_at z 4 2 0 59) of
           (Some h, Some m) \<Rightarrow> Some ((if hd z = CHR ''-'' then - 1 else 1) * (h * 3600 + m * 60))
         | _ \<Rightarrow> None)
      else None)"

definition parse_time :: "string \<Rightarrow> time option" where
  "parse_time s =
     (if length s < 19 \<or> s ! 4 \<noteq> CHR ''-'' \<or> s ! 7 \<noteq> CHR ''-'' \<or> s ! 10 \<noteq> CHR ''T'' \<or> s ! 13 \<noteq> CHR '':'' \<or>
         s ! 16 \<noteq> CHR '':'' then None
      else (case (num_at s 0 4 0 9999, num_at s 5 2 1 12, num_at s 11 2 0 23, num_at s 14 2 0 59, num_at s 17 2 0 59) of
          (Some y, Some m, Some hh, Some mm, Some ss) \<Rightarrow>
            (case num_at s 8 2 1 (days_in y m) of
               None \<Rightarrow> None
             | Some d \<Rightarrow>
                 let r = drop 19 s;
                     frac = (if r \<noteq> [] \<and> hd r = CHR ''.'' then takeWhile is_digit (tl r) else []);
                     r' = (if frac = [] then r else drop (Suc (length frac)) r)
                 in (case zone_val r' of
                       None \<Rightarrow> None
                     | Some off \<Rightarrow>
                         Some ((days_from_civil y m d * 86400 + hh * 3600 + mm * 60 + ss - off) * second + frac_val frac)))
        | _ \<Rightarrow> None))"

fun as_time :: "json \<Rightarrow> time option" where
  "as_time (JStr s) = parse_time s" | "as_time JNull = Some zero_time" | "as_time _ = None"

end
