(* ===== verification/Storage.thy ===== *)
theory Storage
  imports Tables
begin

text \<open>
  \<^verbatim>\<open>pkg/storage/sqlite.go\<close>: the client's local SQLite database. The tables are association
  lists from their unique keys, in the order of the row ids; \<open>INSERT OR REPLACE\<close> removes the
  old row and appends a new one. \<open>fault\<close> says which statements the driver fails. Scanning a
  selected row into Go values succeeds, with one exception that is a parameter: whether the
  driver hands an aggregate over a DATETIME column back as a time (\<open>scan_max\<close>).
\<close>

record Message =
  m_ID :: nat
  m_MessageID :: string
  m_SenderID :: string
  m_Target :: string
  m_Content :: string
  m_Timestamp :: time

record ChatItem =
  ci_ID :: string
  ci_Name :: string
  ci_Type :: string
  ci_Avatar :: string
  ci_LastMessage :: time
  ci_UnreadCount :: int

record Member =
  mb_NodeID :: string
  mb_ChannelID :: string
  mb_Role :: string
  mb_LastSeen :: time

record WikiPage =
  wp_ID :: string
  wp_ChannelID :: string
  wp_Title :: string
  wp_Content :: string
  wp_UpdatedAt :: time

record ChannelTag =
  ctg_ID :: string
  ctg_ChannelID :: string
  ctg_Name :: string
  ctg_Color :: string

record MessageTag =
  mt_MessageID :: string
  mt_TagID :: string
  mt_TaggedBy :: string
  mt_TagName :: string
  mt_TagColor :: string

record ChannelConfig =
  cfg_ChannelID :: string
  cfg_Key :: string
  cfg_Value :: string

record ChannelKeyRow =
  ck_key_hex :: string
  ck_avatar :: "string option"

record Storage =
  s_messages :: "Message list"
  s_last_id :: nat
  s_channels :: "(string \<times> ChannelKeyRow) list"
  s_channel_members :: "((string \<times> string) \<times> Member) list"
  s_dm_sessions :: "(string \<times> string) list"
  s_wiki_pages :: "(string \<times> WikiPage) list"
  s_channel_config :: "((string \<times> string) \<times> string) list"
  s_system_config :: "(string \<times> string) list"
  s_channel_tags :: "(string \<times> ChannelTag) list"
  s_message_tags :: "((string \<times> string) \<times> string) list"

definition empty_storage :: Storage where
  "empty_storage = \<lparr>s_messages = [], s_last_id = 0, s_channels = [], s_channel_members = [],
     s_dm_sessions = [], s_wiki_pages = [], s_channel_config = [], s_system_config = [],
     s_channel_tags = [], s_message_tags = []\<rparr>"

text \<open>The tables that exist: \<open>CREATE TABLE IF NOT EXISTS\<close> adds a table, empty, unless it is there,
  and the first statement that fails ends the loop. The migration before the loops adds the
  column \<open>avatar\<close>, NULL in the old rows, to a table that lacks it; its error is ignored.\<close>

fun create_tables :: "faults \<Rightarrow> string \<Rightarrow> string list \<Rightarrow> string list \<Rightarrow> string option \<times> string list" where
  "create_tables fault what [] tables = (None, tables)"
| "create_tables fault what (q # qs) tables =
     (case fault q of
        Some err \<Rightarrow> (Some (what @ err), tables)
      | None \<Rightarrow> create_tables fault what qs (if q \<in> set tables then tables else tables @ [q]))"

definition initSchema :: "faults \<Rightarrow> string list \<Rightarrow> string option \<times> string list" where
  "initSchema fault tables =
     (case create_tables fault ''failed to init schema: ''
         [''messages'', ''channels'', ''channel_members'', ''dm_sessions'', ''wiki_pages'', ''channel_config'',
          ''system_config''] tables of
        (Some err, tables1) \<Rightarrow> (Some err, tables1)
      | (None, tables1) \<Rightarrow>
          create_tables fault ''failed to init tag schema: '' [''channel_tags'', ''message_tags''] tables1)"

lemma create_tables_no_fault:
  "\<forall>q \<in> set qs. fault q = None \<Longrightarrow>
     fst (create_tables fault what qs tables) = None \<and>
     set (snd (create_tables fault what qs tables)) = set tables \<union> set qs"
  by (induction qs arbitrary: tables) auto

lemma create_tables_keeps: "set tables \<subseteq> set (snd (create_tables fault what qs tables))"
proof (induction qs arbitrary: tables)
  case (Cons q qs)
  from Cons [of tables] Cons [of "tables @ [q]"] show ?case by (auto split: option.split)
qed simp

section \<open>Statements\<close>

text \<open>\<open>INSERT OR REPLACE\<close>, and a statement with the faults of the driver.\<close>

definition sql_replace :: "'k \<Rightarrow> 'v \<Rightarrow> ('k \<times> 'v) list \<Rightarrow> ('k \<times> 'v) list" where
  "sql_replace k v t = AList.delete k t @ [(k, v)]"

definition exec :: "faults \<Rightarrow> string \<Rightarrow> ('s \<Rightarrow> 's) \<Rightarrow> 's \<Rightarrow> string option \<times> 's" where
  "exec fault name f s = (case fault name of Some err \<Rightarrow> (Some err, s) | None \<Rightarrow> (None, f s))"

definition query :: "faults \<Rightarrow> string \<Rightarrow> 'a \<Rightarrow> string + 'a" where
  "query fault name x = (case fault name of Some err \<Rightarrow> Inl err | None \<Rightarrow> Inr x)"

abbreviation no_rows :: string where "no_rows \<equiv> ''sql: no rows in result set''"

definition query_row :: "faults \<Rightarrow> string \<Rightarrow> 'a option \<Rightarrow> string + 'a" where
  "query_row fault name x =
     (case fault name of Some err \<Rightarrow> Inl err | None \<Rightarrow> (case x of None \<Rightarrow> Inl no_rows | Some v \<Rightarrow> Inr v))"

section \<open>Messages\<close>

definition StoreMessage ::
    "faults \<Rightarrow> time \<Rightarrow> string \<Rightarrow> string \<Rightarrow> string \<Rightarrow> string \<Rightarrow> Storage \<Rightarrow> string option \<times> Storage" where
  "StoreMessage fault now msgID senderID target content s =
     exec fault ''StoreMessage'' (\<lambda>s.
       if msgID \<in> set (map m_MessageID (s_messages s)) then s
       else s\<lparr>s_messages := s_messages s @ [\<lparr>m_ID = Suc (s_last_id s), m_MessageID = msgID,
                m_SenderID = senderID, m_Target = target, m_Content = content, m_Timestamp = now\<rparr>],
              s_last_id := Suc (s_last_id s)\<rparr>) s"

text \<open>\<open>LIMIT\<close> with a negative number is no limit.\<close>

definition sql_limit :: "int \<Rightarrow> 'a list \<Rightarrow> 'a list" where
  "sql_limit n xs = (if n < 0 then xs else take (nat n) xs)"

text \<open>The loop that swaps the ends towards the middle; \<open>j\<close> starts at \<open>len(msgs)-1\<close>, which is
  \<open>-1\<close> for an empty list.\<close>

function swap_loop :: "int \<Rightarrow> int \<Rightarrow> 'a list \<Rightarrow> 'a list" where
  "swap_loop i j xs =
     (if i < j then swap_loop (i + 1) (j - 1) (xs[nat i := xs ! nat j, nat j := xs ! nat i]) else xs)"
  by pat_completeness auto
termination by (relation "measure (\<lambda>(i, j, xs). nat (j - i))") auto

declare swap_loop.simps [simp del]

definition GetMessages :: "faults \<Rightarrow> string \<Rightarrow> int \<Rightarrow> Storage \<Rightarrow> string + Message list" where
  "GetMessages fault target limit s =
     (case query fault ''GetMessages''
         (sql_limit limit (rev (sort_key m_ID (filter (\<lambda>m. m_Target m = target) (s_messages s))))) of
        Inl err \<Rightarrow> Inl err
      | Inr rows \<Rightarrow>
          let msgs = map (\<lambda>m. m\<lparr>m_MessageID := []\<rparr>) rows
          in Inr (swap_loop 0 (int (length msgs) - 1) msgs))"

section \<open>Channels and direct messages\<close>

definition SaveChannelKey :: "faults \<Rightarrow> string \<Rightarrow> string \<Rightarrow> Storage \<Rightarrow> string option \<times> Storage" where
  "SaveChannelKey fault name keyHex s =
     exec fault ''SaveChannelKey'' (\<lambda>s. s\<lparr>s_channels := sql_replace name
       \<lparr>ck_key_hex = keyHex,
        ck_avatar = (case map_of (s_channels s) name of None \<Rightarrow> None | Some r \<Rightarrow> ck_avatar r)\<rparr>
       (s_channels s)\<rparr>) s"

definition Storage_UpdateChannelAvatar :: "faults \<Rightarrow> string \<Rightarrow> string \<Rightarrow> Storage \<Rightarrow> string option \<times> Storage" where
  "Storage_UpdateChannelAvatar fault name avatar s =
     exec fault ''UpdateChannelAvatar'' (\<lambda>s. s\<lparr>s_channels :=
       sql_update name (\<lambda>r. r\<lparr>ck_avatar := Some avatar\<rparr>) (s_channels s)\<rparr>) s"

definition GetChannelKey :: "faults \<Rightarrow> string \<Rightarrow> Storage \<Rightarrow> string + string" where
  "GetChannelKey fault name s =
     query_row fault ''GetChannelKey'' (map_option ck_key_hex (map_of (s_channels s) name))"

definition UpsertDMSession :: "faults \<Rightarrow> string \<Rightarrow> string \<Rightarrow> Storage \<Rightarrow> string option \<times> Storage" where
  "UpsertDMSession fault dmID peerID s =
     exec fault ''UpsertDMSession'' (\<lambda>s. s\<lparr>s_dm_sessions := sql_replace dmID peerID (s_dm_sessions s)\<rparr>) s"

definition GetDMPeer :: "faults \<Rightarrow> string \<Rightarrow> Storage \<Rightarrow> string + string" where
  "GetDMPeer fault dmID s = query_row fault ''GetDMPeer'' (map_of (s_dm_sessions s) dmID)"

definition GetAllChannels :: "faults \<Rightarrow> Storage \<Rightarrow> string + string list" where
  "GetAllChannels fault s = query fault ''GetAllChannels'' (sort (map fst (s_channels s)))"

text \<open>\<open>SELECT target, MAX(timestamp) ... GROUP BY target ORDER BY last_msg DESC\<close>.\<close>

definition last_messages :: "Storage \<Rightarrow> (string \<times> time) list" where
  "last_messages s =
     sort_key (\<lambda>(t, ts). - ts)
       (map (\<lambda>t. (t, Max (set (map m_Timestamp (filter (\<lambda>m. m_Target m = t) (s_messages s))))))
          (remdups (map m_Target (s_messages s))))"

definition avatar_of :: "faults \<Rightarrow> Storage \<Rightarrow> string \<Rightarrow> string" where
  "avatar_of fault s name =
     (case fault ''channel avatars'' of
        Some _ \<Rightarrow> []
      | None \<Rightarrow> (case map_of (s_channels s) name of
            None \<Rightarrow> [] | Some r \<Rightarrow> (case ck_avatar r of None \<Rightarrow> [] | Some a \<Rightarrow> a)))"

definition chat_of :: "faults \<Rightarrow> Storage \<Rightarrow> string \<Rightarrow> time \<Rightarrow> ChatItem" where
  "chat_of fault s target ts =
     (let dm = (target \<noteq> [] \<and> hd target \<noteq> CHR ''#'');
          name = (if dm then (case GetDMPeer fault target s of
                     Inl _ \<Rightarrow> target | Inr peer \<Rightarrow> if peer \<noteq> [] then CHR ''@'' # peer else target) else target)
      in \<lparr>ci_ID = target, ci_Name = name, ci_Type = (if dm then ''DM'' else ''CHANNEL''),
          ci_Avatar = avatar_of fault s target, ci_LastMessage = ts, ci_UnreadCount = 0\<rparr>)"

fun chats_loop :: "faults \<Rightarrow> (time \<Rightarrow> time option) \<Rightarrow> Storage \<Rightarrow> (string \<times> time) list \<Rightarrow> ChatItem list" where
  "chats_loop fault scan_max s [] = []"
| "chats_loop fault scan_max s ((target, t) # rows) =
     (case scan_max t of
        None \<Rightarrow> chats_loop fault scan_max s rows
      | Some ts \<Rightarrow> chat_of fault s target ts # chats_loop fault scan_max s rows)"

text \<open>The zero time marks a channel without messages.\<close>

definition GetRecentChats :: "faults \<Rightarrow> (time \<Rightarrow> time option) \<Rightarrow> Storage \<Rightarrow> string + ChatItem list" where
  "GetRecentChats fault scan_max s =
     (case query fault ''GetRecentChats'' (last_messages s) of
        Inl err \<Rightarrow> Inl err
      | Inr rows \<Rightarrow>
          let chats = chats_loop fault scan_max s rows;
              allChannels = (case GetAllChannels fault s of Inl _ \<Rightarrow> [] | Inr cs \<Rightarrow> cs)
          in Inr (chats @ map (\<lambda>ch. \<lparr>ci_ID = ch, ci_Name = ch, ci_Type = ''CHANNEL'',
                    ci_Avatar = avatar_of fault s ch, ci_LastMessage = zero_time, ci_UnreadCount = 0\<rparr>)
                  (filter (\<lambda>ch. ch \<notin> set (map ci_ID chats)) allChannels)))"

section \<open>Members, wiki, configuration and tags\<close>

definition UpsertMember :: "faults \<Rightarrow> time \<Rightarrow> string \<Rightarrow> string \<Rightarrow> string \<Rightarrow> Storage \<Rightarrow> string option \<times> Storage" where
  "UpsertMember fault now channelID nodeID role s =
     exec fault ''UpsertMember'' (\<lambda>s. s\<lparr>s_channel_members := sql_upsert (channelID, nodeID)
       \<lparr>mb_NodeID = nodeID, mb_ChannelID = channelID, mb_Role = role, mb_LastSeen = now\<rparr>
       (\<lambda>old. old\<lparr>mb_LastSeen := now, mb_Role := (if role \<noteq> [] then role else mb_Role old)\<rparr>)
       (s_channel_members s)\<rparr>) s"

definition GetChannelMembers :: "faults \<Rightarrow> string \<Rightarrow> Storage \<Rightarrow> string + Member list" where
  "GetChannelMembers fault channelID s =
     query fault ''GetChannelMembers'' (rev (sort_key mb_Role (sort_key mb_LastSeen
       (map snd (filter (\<lambda>((c, n), m). c = channelID) (s_channel_members s))))))"

definition GetMember :: "faults \<Rightarrow> string \<Rightarrow> string \<Rightarrow> Storage \<Rightarrow> string + Member" where
  "GetMember fault channelID nodeID s =
     query_row fault ''GetMember'' (map_of (s_channel_members s) (channelID, nodeID))"

definition SaveWikiPage :: "faults \<Rightarrow> WikiPage \<Rightarrow> Storage \<Rightarrow> string option \<times> Storage" where
  "SaveWikiPage fault p s =
     exec fault ''SaveWikiPage'' (\<lambda>s. s\<lparr>s_wiki_pages := sql_upsert (wp_ID p) p
       (\<lambda>old. old\<lparr>wp_Title := wp_Title p, wp_Content := wp_Content p, wp_UpdatedAt := wp_UpdatedAt p\<rparr>)
       (s_wiki_pages s)\<rparr>) s"

definition GetWikiPages :: "faults \<Rightarrow> string \<Rightarrow> Storage \<Rightarrow> string + WikiPage list" where
  "GetWikiPages fault channelID s =
     query fault ''GetWikiPages'' (sort_key wp_Title
       (filter (\<lambda>p. wp_ChannelID p = channelID) (map snd (s_wiki_pages s))))"

definition SetChannelConfig :: "faults \<Rightarrow> string \<Rightarrow> string \<Rightarrow> string \<Rightarrow> Storage \<Rightarrow> string option \<times> Storage" where
  "SetChannelConfig fault channelID key value s =
     exec fault ''SetChannelConfig'' (\<lambda>s. s\<lparr>s_channel_config :=
       sql_upsert (channelID, key) value (\<lambda>_. value) (s_channel_config s)\<rparr>) s"

definition GetChannelConfig :: "faults \<Rightarrow> string \<Rightarrow> string \<Rightarrow> Storage \<Rightarrow> string + string" where
  "GetChannelConfig fault channelID key s =
     (case query_row fault ''GetChannelConfig'' (map_of (s_channel_config s) (channelID, key)) of
        Inl err \<Rightarrow> if err = no_rows then Inr [] else Inl err
      | Inr value \<Rightarrow> Inr value)"

definition CreateTag :: "faults \<Rightarrow> ChannelTag \<Rightarrow> Storage \<Rightarrow> string option \<times> Storage" where
  "CreateTag fault t s =
     exec fault ''CreateTag'' (\<lambda>s. s\<lparr>s_channel_tags := sql_replace (ctg_ID t) t (s_channel_tags s)\<rparr>) s"

definition GetTags :: "faults \<Rightarrow> string \<Rightarrow> Storage \<Rightarrow> string + ChannelTag list" where
  "GetTags fault channelID s =
     query fault ''GetTags'' (filter (\<lambda>t. ctg_ChannelID t = channelID) (map snd (s_channel_tags s)))"

definition AddMessageTag :: "faults \<Rightarrow> MessageTag \<Rightarrow> Storage \<Rightarrow> string option \<times> Storage" where
  "AddMessageTag fault mt s =
     exec fault ''AddMessageTag'' (\<lambda>s.
       if map_of (s_message_tags s) (mt_MessageID mt, mt_TagID mt) \<noteq> None then s
       else s\<lparr>s_message_tags := s_message_tags s @ [((mt_MessageID mt, mt_TagID mt), mt_TaggedBy mt)]\<rparr>) s"

text \<open>The join with the tags of the channel, grouped by message.\<close>

definition tag_rows :: "string \<Rightarrow> Storage \<Rightarrow> MessageTag list" where
  "tag_rows channelID s = concat (map (\<lambda>((m, t), by).
     (case map_of (s_channel_tags s) t of
        None \<Rightarrow> []
      | Some ct \<Rightarrow> if ctg_ChannelID ct = channelID
          then [\<lparr>mt_MessageID = m, mt_TagID = t, mt_TaggedBy = by, mt_TagName = ctg_Name ct, mt_TagColor = ctg_Color ct\<rparr>]
          else [])) (s_message_tags s))"

definition GetMessageTags :: "faults \<Rightarrow> string \<Rightarrow> Storage \<Rightarrow> string + (string \<times> MessageTag list) list" where
  "GetMessageTags fault channelID s =
     query fault ''GetMessageTags'' (foldl (\<lambda>result mt. AList.update (mt_MessageID mt)
       ((case map_of result (mt_MessageID mt) of None \<Rightarrow> [] | Some l \<Rightarrow> l) @ [mt]) result) [] (tag_rows channelID s))"

definition GetConfig :: "faults \<Rightarrow> string \<Rightarrow> Storage \<Rightarrow> string + string" where
  "GetConfig fault key s =
     (case query_row fault ''GetConfig'' (map_of (s_system_config s) key) of
        Inl err \<Rightarrow> if err = no_rows then Inr [] else Inl err
      | Inr value \<Rightarrow> Inr value)"

definition SetConfig :: "faults \<Rightarrow> string \<Rightarrow> string \<Rightarrow> Storage \<Rightarrow> string option \<times> Storage" where
  "SetConfig fault key value s =
     exec fault ''SetConfig'' (\<lambda>s. s\<lparr>s_system_config :=
       sql_upsert key value (\<lambda>_. value) (s_system_config s)\<rparr>) s"

section \<open>Lemmas\<close>

lemma exec_ok [simp]: "fault name = None \<Longrightarrow> exec fault name f s = (None, f s)"
  by (simp add: exec_def)

lemma query_ok [simp]: "fault name = None \<Longrightarrow> query fault name x = Inr x"
  by (simp add: query_def)

lemma query_row_ok [simp]:
  "fault name = None \<Longrightarrow> query_row fault name x = (case x of None \<Rightarrow> Inl no_rows | Some v \<Rightarrow> Inr v)"
  by (simp add: query_row_def)

lemma map_of_replace [simp]: "map_of (sql_replace k v t) = (map_of t)(k \<mapsto> v)"
  by (auto simp: sql_replace_def fun_eq_iff map_add_def split: option.split)

text \<open>The swapping loop reverses the part between its indices.\<close>

lemma swap_loop_middle:
  "swap_loop (int (length a)) (int (length a) + int (length m) - 1) (a @ m @ b) = a @ rev m @ b"
proof (induction "length m" arbitrary: a m b rule: less_induct)
  case less
  show ?case
  proof (cases "length m < 2")
    case True
    then have "rev m = m" by (cases m rule: list.exhaust; cases "tl m") auto
    then show ?thesis using True by (subst swap_loop.simps) simp
  next
    case False
    then obtain x m' y where m: "m = x # m' @ [y]"
      by (metis One_nat_def Suc_1 append_butlast_last_id length_Cons length_append_singleton
          less_Suc_eq list.exhaust list.size(3) not_less_eq zero_less_Suc less_2_cases_iff)
    let ?j = "int (length a) + int (length m) - 1"
    have j: "nat ?j = Suc (length a + length m')" "int (length a) < ?j" by (simp_all add: m)
    have sw: "(a @ m @ b)[nat (int (length a)) := (a @ m @ b) ! nat ?j, nat ?j := (a @ m @ b) ! nat (int (length a))]
        = (a @ [y]) @ m' @ (x # b)"
      unfolding j(1) by (simp add: m nth_append list_update_append)
    have "swap_loop (int (length a)) ?j (a @ m @ b) = swap_loop (int (length a) + 1) (?j - 1) ((a @ [y]) @ m' @ (x # b))"
      by (subst swap_loop.simps) (simp only: j(2) if_True sw)
    also have "\<dots> = swap_loop (int (length (a @ [y]))) (int (length (a @ [y])) + int (length m') - 1) ((a @ [y]) @ m' @ (x # b))"
      by (simp add: m add.commute)
    also have "\<dots> = (a @ [y]) @ rev m' @ (x # b)"
      by (rule less) (simp add: m)
    finally show ?thesis by (simp add: m)
  qed
qed

lemma swap_loop_rev: "swap_loop 0 (int (length xs) - 1) xs = rev xs"
  using swap_loop_middle [of "[]" xs "[]"] by simp

subsection \<open>The history of messages\<close>

type_synonym store_call = "string \<times> string \<times> string \<times> string \<times> time"

definition store :: "store_call \<Rightarrow> Storage \<Rightarrow> Storage" where
  "store c s = (case c of (i, sender, target, content, now) \<Rightarrow>
     snd (StoreMessage (\<lambda>_. None) now i sender target content s))"

text \<open>The first call with each message id.\<close>

fun first_calls :: "string set \<Rightarrow> store_call list \<Rightarrow> store_call list" where
  "first_calls seen [] = []"
| "first_calls seen (c # cs) =
     (if fst c \<in> seen then first_calls seen cs else c # first_calls (insert (fst c) seen) cs)"

definition call_of :: "Message \<Rightarrow> store_call" where
  "call_of m = (m_MessageID m, m_SenderID m, m_Target m, m_Content m, m_Timestamp m)"

definition messages_ok :: "Storage \<Rightarrow> bool" where
  "messages_ok s \<longleftrightarrow> s_last_id s = length (s_messages s) \<and>
     map m_ID (s_messages s) = [1..<Suc (length (s_messages s))] \<and>
     distinct (map m_MessageID (s_messages s))"

lemma store_messages_ok: "messages_ok s \<Longrightarrow> messages_ok (store c s)"
  by (auto simp: messages_ok_def store_def StoreMessage_def split: prod.split)

lemma empty_messages_ok: "messages_ok empty_storage"
  by (simp add: messages_ok_def empty_storage_def)

lemma fold_store_ok: "messages_ok s \<Longrightarrow> messages_ok (fold store cs s)"
  by (induction cs arbitrary: s) (simp_all add: store_messages_ok)

lemma fold_store_calls:
  "map call_of (s_messages (fold store cs s)) =
     map call_of (s_messages s) @ first_calls (set (map m_MessageID (s_messages s))) cs"
proof (induction cs arbitrary: s)
  case (Cons c cs)
  obtain i sender target content now where c: "c = (i, sender, target, content, now)" by (cases c)
  have st: "store c s = (if i \<in> set (map m_MessageID (s_messages s)) then s
      else s\<lparr>s_messages := s_messages s @ [\<lparr>m_ID = Suc (s_last_id s), m_MessageID = i, m_SenderID = sender,
        m_Target = target, m_Content = content, m_Timestamp = now\<rparr>], s_last_id := Suc (s_last_id s)\<rparr>)"
    by (simp add: c store_def StoreMessage_def)
  have "map call_of (s_messages (store c s)) @ first_calls (set (map m_MessageID (s_messages (store c s)))) cs =
      map call_of (s_messages s) @ first_calls (set (map m_MessageID (s_messages s))) (c # cs)"
    unfolding st by (simp add: c call_of_def)
  then show ?case using Cons.IH [of "store c s"] by simp
qed simp

lemma messages_sorted: "messages_ok s \<Longrightarrow> sort_key m_ID (filter P (s_messages s)) = filter P (s_messages s)"
proof -
  assume "messages_ok s"
  then have "sorted (map m_ID (s_messages s))" by (simp add: messages_ok_def del: upt_Suc)
  then have "sorted (map m_ID (filter P (s_messages s)))" by (rule sorted_filter)
  then show ?thesis by (rule sort_key_id_if_sorted)
qed

text \<open>The last \<open>n\<close> elements.\<close>

definition last_n :: "nat \<Rightarrow> 'a list \<Rightarrow> 'a list" where
  "last_n n xs = drop (length xs - n) xs"

lemma rev_take_rev: "rev (take n (rev xs)) = last_n n xs"
  by (simp add: last_n_def take_rev)

lemma GetMessages_history:
  assumes "messages_ok s" "fault ''GetMessages'' = None"
  shows "GetMessages fault target limit s = Inr (map (\<lambda>m. m\<lparr>m_MessageID := []\<rparr>)
    (let h = filter (\<lambda>m. m_Target m = target) (s_messages s) in if limit < 0 then h else last_n (nat limit) h))"
proof -
  have len: "swap_loop 0 (int (length (map f xs)) - 1) (map f xs) = map f (rev xs)" for f :: "Message \<Rightarrow> Message" and xs
    by (simp add: swap_loop_rev rev_map del: length_map)
  show ?thesis
    using assms(2) unfolding GetMessages_def messages_sorted [OF assms(1)]
    by (simp add: len sql_limit_def Let_def rev_take_rev del: length_map)
qed

section \<open>Key/value access\<close>

text \<open>Four access paths of the database meet the contract of a keyed store.\<close>

definition put_config :: "string \<Rightarrow> string \<Rightarrow> Storage \<Rightarrow> Storage" where
  "put_config k v s = snd (SetConfig (\<lambda>_. None) k v s)"

definition put_channel_config :: "string \<times> string \<Rightarrow> string \<Rightarrow> Storage \<Rightarrow> Storage" where
  "put_channel_config ck v s = snd (SetChannelConfig (\<lambda>_. None) (fst ck) (snd ck) v s)"

definition put_dm :: "string \<Rightarrow> string \<Rightarrow> Storage \<Rightarrow> Storage" where
  "put_dm k v s = snd (UpsertDMSession (\<lambda>_. None) k v s)"

definition put_key :: "string \<Rightarrow> string \<Rightarrow> Storage \<Rightarrow> Storage" where
  "put_key k v s = snd (SaveChannelKey (\<lambda>_. None) k v s)"

interpretation system_config: keyed_store put_config "\<lambda>k s. map_of (s_system_config s) k"
  by unfold_locales (simp add: put_config_def SetConfig_def split: option.split)

interpretation channel_config: keyed_store put_channel_config "\<lambda>k s. map_of (s_channel_config s) k"
  by unfold_locales (simp add: put_channel_config_def SetChannelConfig_def split: option.split)

interpretation dm_sessions: keyed_store put_dm "\<lambda>k s. map_of (s_dm_sessions s) k"
  by unfold_locales (simp add: put_dm_def UpsertDMSession_def)

interpretation channel_keys: keyed_store put_key "\<lambda>k s. map_option ck_key_hex (map_of (s_channels s) k)"
  by unfold_locales (simp add: put_key_def SaveChannelKey_def)

lemma last_n_map: "last_n n (map f xs) = map f (last_n n xs)"
  by (simp add: last_n_def drop_map)

section \<open>Properties\<close>

text \<open>C36. The history of a chat: after any sequence of stores, \<open>GetMessages\<close> returns the last
  \<open>limit\<close> messages stored for the target (all of them for a negative limit), oldest first,
  with their senders, contents and dates; of several stores with the same message id only
  the first counts.\<close>

theorem message_history:
  assumes "fault ''GetMessages'' = None"
  shows "\<exists>msgs. GetMessages fault target limit (fold store cs empty_storage) = Inr msgs \<and>
     map (\<lambda>m. (m_SenderID m, m_Content m, m_Timestamp m)) msgs =
       (let h = map (\<lambda>(i, sender, t, content, now). (sender, content, now))
              (filter (\<lambda>(i, sender, t, content, now). t = target) (first_calls {} cs))
        in if limit < 0 then h else last_n (nat limit) h)"
proof -
  let ?s = "fold store cs empty_storage"
  let ?h = "filter (\<lambda>m. m_Target m = target) (s_messages ?s)"
  have "first_calls {} cs = map call_of (s_messages ?s)"
    using fold_store_calls [of cs empty_storage] by (simp add: empty_storage_def)
  then have h: "map (\<lambda>(i, sender, t, content, now). (sender, content, now))
      (filter (\<lambda>(i, sender, t, content, now). t = target) (first_calls {} cs)) =
      map (\<lambda>m. (m_SenderID m, m_Content m, m_Timestamp m)) ?h"
    by (simp add: filter_map comp_def call_of_def)
  show ?thesis
    unfolding h GetMessages_history [of _ fault, OF fold_store_ok [OF empty_messages_ok] assms]
    by (simp add: Let_def last_n_map comp_def)
qed

theorem message_history_witness:
  "\<exists>msgs. GetMessages (\<lambda>_. None) ''#a'' 2 (fold store
      [(''1'', ''x'', ''#a'', ''one'', 1), (''2'', ''y'', ''#b'', ''two'', 2), (''3'', ''x'', ''#a'', ''three'', 3),
       (''1'', ''x'', ''#a'', ''again'', 4), (''4'', ''z'', ''#a'', ''four'', 5)] empty_storage) = Inr msgs \<and>
     map m_Content msgs = [''three'', ''four'']"
proof -
  let ?cs = "[(''1'', ''x'', ''#a'', ''one'', 1), (''2'', ''y'', ''#b'', ''two'', 2), (''3'', ''x'', ''#a'', ''three'', 3),
       (''1'', ''x'', ''#a'', ''again'', 4), (''4'', ''z'', ''#a'', ''four'', 5)]"
  from message_history [of "\<lambda>_. None" "''#a''" 2 ?cs] obtain msgs where
    m: "GetMessages (\<lambda>_. None) ''#a'' 2 (fold store ?cs empty_storage) = Inr msgs"
    "map (\<lambda>m. (m_SenderID m, m_Content m, m_Timestamp m)) msgs = [(''x'', ''three'', 3), (''z'', ''four'', 5)]"
    by (auto simp: last_n_def)
  from m(2) have "map (fst \<circ> snd) (map (\<lambda>m. (m_SenderID m, m_Content m, m_Timestamp m)) msgs) = [''three'', ''four'']"
    by simp
  with m(1) show ?thesis by (auto simp: comp_def)
qed

text \<open>C37. What is read is what was last written: after any sequence of writes the system
  configuration, the configuration of a channel, the peer of a direct chat and the key of a
  channel are the last value written under that key; a key never written reads as the empty
  text (configurations) or as an error (peers and channel keys). Saving a key keeps the
  avatar of the channel.\<close>

theorem storage_reads_last_write:
  assumes "fault ''GetConfig'' = None" "fault ''GetChannelConfig'' = None" "fault ''GetDMPeer'' = None"
    "fault ''GetChannelKey'' = None"
  shows "GetConfig fault k (fold (\<lambda>(k, v). put_config k v) ws empty_storage) =
       Inr (case map_of (rev ws) k of Some v \<Rightarrow> v | None \<Rightarrow> []) \<and>
     GetChannelConfig fault c k (fold (\<lambda>(k, v). put_channel_config k v) ws' empty_storage) =
       Inr (case map_of (rev ws') (c, k) of Some v \<Rightarrow> v | None \<Rightarrow> []) \<and>
     GetDMPeer fault k (fold (\<lambda>(k, v). put_dm k v) ws empty_storage) =
       (case map_of (rev ws) k of Some v \<Rightarrow> Inr v | None \<Rightarrow> Inl no_rows) \<and>
     GetChannelKey fault k (fold (\<lambda>(k, v). put_key k v) ws empty_storage) =
       (case map_of (rev ws) k of Some v \<Rightarrow> Inr v | None \<Rightarrow> Inl no_rows) \<and>
     avatar_of (\<lambda>_. None) (put_key k v s) c = avatar_of (\<lambda>_. None) s c"
proof -
  have "avatar_of (\<lambda>_. None) (put_key k v s) c = avatar_of (\<lambda>_. None) s c"
    by (simp add: avatar_of_def put_key_def SaveChannelKey_def split: option.split)
  then show ?thesis
    using assms system_config.get_puts [where k = k and ws = ws and s = empty_storage] channel_config.get_puts [where k = "(c, k)" and ws = ws' and s = empty_storage]
      dm_sessions.get_puts [where k = k and ws = ws and s = empty_storage] channel_keys.get_puts [where k = k and ws = ws and s = empty_storage]
    by (simp add: GetConfig_def GetChannelConfig_def GetDMPeer_def GetChannelKey_def empty_storage_def
        split: option.splits)
qed

theorem storage_reads_last_write_witness:
  "GetConfig (\<lambda>_. None) ''k'' (fold (\<lambda>(k, v). put_config k v) [(''k'', ''a''), (''k'', ''b'')] empty_storage) = Inr ''b''"
  using storage_reads_last_write [of "\<lambda>_. None" "''k''" "[(''k'', ''a''), (''k'', ''b'')]"] by simp

end
