(* ===== verification/Client_Codec.thy ===== *)
theory Client_Codec
  imports Rfc3339 Storage
begin

text \<open>
  The structs that clients exchange, with their JSON texts: the payload of an envelope, the
  manifest of a file, a chunk of a file, and the rows of the local database that are
  replicated to the members of a channel (the field names are the tags of
  \<^verbatim>\<open>pkg/client_sdk/client.go\<close>, or the names of the fields of \<^verbatim>\<open>pkg/storage/sqlite.go\<close>,
  which have no tags). Each codec is an interpretation of \<open>codec\<close>, but the one of a wiki
  page, which contains a time.
\<close>

section \<open>Payloads\<close>

record E2EPayload =
  pl_Type :: string
  pl_Content :: bytes
  pl_IV :: bytes

definition payload_members :: "E2EPayload \<Rightarrow> (string \<times> json) list" where
  "payload_members p =
     [(''type'', JStr (pl_Type p))] @ omit_bytes ''content'' (pl_Content p) @ omit_bytes ''iv'' (pl_IV p)"

definition payload_of :: "(string \<times> json) list \<Rightarrow> E2EPayload option" where
  "payload_of ms =
     (case (as_str (jfield ''type'' ms), as_bytes (jfield ''content'' ms), as_bytes (jfield ''iv'' ms)) of
        (Some t, Some c, Some iv) \<Rightarrow> Some \<lparr>pl_Type = t, pl_Content = c, pl_IV = iv\<rparr>
      | _ \<Rightarrow> None)"

lemma payload_fields:
  "jfield ''type'' (payload_members p) = JStr (pl_Type p)"
  "jfield ''content'' (payload_members p) = (if pl_Content p = [] then JNull else JStr (b64_encode (pl_Content p)))"
  "jfield ''iv'' (payload_members p) = (if pl_IV p = [] then JNull else JStr (b64_encode (pl_IV p)))"
  unfolding payload_members_def
  by (simp_all add: jfield_left jfield_right jfield_Cons_hit jfield_Cons_other lower_def)

interpretation payload: codec payload_members payload_of "\<lambda>_. True"
  by unfold_locales (simp add: payload_of_def payload_fields)

section \<open>Files\<close>

record ChunkMeta =
  cm_Index :: int
  cm_Hash :: string

record FileManifest =
  fm_FileID :: string
  fm_Name :: string
  fm_Size :: int
  fm_Chunks :: "ChunkMeta list"
  fm_SenderID :: string

definition chunk_members :: "ChunkMeta \<Rightarrow> (string \<times> json) list" where
  "chunk_members c = [(''index'', JInt (cm_Index c)), (''hash'', JStr (cm_Hash c))]"

definition chunk_of :: "(string \<times> json) list \<Rightarrow> ChunkMeta option" where
  "chunk_of ms =
     (case (as_int64 (jfield ''index'' ms), as_str (jfield ''hash'' ms)) of
        (Some i, Some h) \<Rightarrow> Some \<lparr>cm_Index = i, cm_Hash = h\<rparr> | _ \<Rightarrow> None)"

definition manifest_members :: "FileManifest \<Rightarrow> (string \<times> json) list" where
  "manifest_members m =
     [(''file_id'', JStr (fm_FileID m)), (''name'', JStr (fm_Name m)), (''size'', JInt (fm_Size m)),
      (''chunks'', list_json (\<lambda>c. JObj (chunk_members c)) (fm_Chunks m)), (''sender_id'', JStr (fm_SenderID m))]"

definition manifest_of :: "(string \<times> json) list \<Rightarrow> FileManifest option" where
  "manifest_of ms =
     (case (as_str (jfield ''file_id'' ms), as_str (jfield ''name'' ms), as_int64 (jfield ''size'' ms),
            as_list (as_obj chunk_of) (jfield ''chunks'' ms), as_str (jfield ''sender_id'' ms)) of
        (Some i, Some n, Some sz, Some cs, Some sdr) \<Rightarrow>
          Some \<lparr>fm_FileID = i, fm_Name = n, fm_Size = sz, fm_Chunks = cs, fm_SenderID = sdr\<rparr>
      | _ \<Rightarrow> None)"

definition manifest_ok :: "FileManifest \<Rightarrow> bool" where
  "manifest_ok m \<longleftrightarrow> in_int64 (fm_Size m) \<and> list_all (\<lambda>c. in_int64 (cm_Index c)) (fm_Chunks m)"

lemma chunk_of_members: "in_int64 (cm_Index c) \<Longrightarrow> chunk_of (chunk_members c) = Some c"
  by (simp add: chunk_of_def chunk_members_def jfield_Cons_hit jfield_Cons_other lower_def as_int64_def)

interpretation manifest: codec manifest_members manifest_of manifest_ok
proof
  fix m assume "manifest_ok m"
  then have "as_list (as_obj chunk_of) (list_json (\<lambda>c. JObj (chunk_members c)) (fm_Chunks m)) = Some (fm_Chunks m)"
    by (intro as_list_list_json) (simp add: as_obj_def chunk_of_members manifest_ok_def list_all_iff)
  with \<open>manifest_ok m\<close> show "manifest_of (manifest_members m) = Some m"
    by (simp add: manifest_of_def manifest_members_def jfield_Cons_hit jfield_Cons_other lower_def as_int64_def
        manifest_ok_def)
qed

text \<open>The answer to a request for a chunk; the data of a file that was read are not nil.\<close>

record ChunkReply =
  cy_FileID :: string
  cy_Index :: string
  cy_Data :: bytes

definition chunk_reply_members :: "ChunkReply \<Rightarrow> (string \<times> json) list" where
  "chunk_reply_members r =
     [(''file_id'', JStr (cy_FileID r)), (''index'', JStr (cy_Index r)), (''data'', JStr (b64_encode (cy_Data r)))]"

definition chunk_reply_of :: "(string \<times> json) list \<Rightarrow> ChunkReply option" where
  "chunk_reply_of ms =
     (case (as_str (jfield ''file_id'' ms), as_str (jfield ''index'' ms), as_bytes (jfield ''data'' ms)) of
        (Some f, Some i, Some d) \<Rightarrow> Some \<lparr>cy_FileID = f, cy_Index = i, cy_Data = d\<rparr> | _ \<Rightarrow> None)"

interpretation chunk_reply: codec chunk_reply_members chunk_reply_of "\<lambda>_. True"
  by unfold_locales
    (simp add: chunk_reply_of_def chunk_reply_members_def jfield_Cons_hit jfield_Cons_other lower_def)

section \<open>Replicated rows\<close>

definition config_members :: "ChannelConfig \<Rightarrow> (string \<times> json) list" where
  "config_members c = [(''ChannelID'', JStr (cfg_ChannelID c)), (''Key'', JStr (cfg_Key c)), (''Value'', JStr (cfg_Value c))]"

definition config_of :: "(string \<times> json) list \<Rightarrow> ChannelConfig option" where
  "config_of ms =
     (case (as_str (jfield ''ChannelID'' ms), as_str (jfield ''Key'' ms), as_str (jfield ''Value'' ms)) of
        (Some c, Some k, Some v) \<Rightarrow> Some \<lparr>cfg_ChannelID = c, cfg_Key = k, cfg_Value = v\<rparr> | _ \<Rightarrow> None)"

interpretation config: codec config_members config_of "\<lambda>_. True"
  by unfold_locales (simp add: config_of_def config_members_def jfield_Cons_hit jfield_Cons_other lower_def)

definition tag_members :: "ChannelTag \<Rightarrow> (string \<times> json) list" where
  "tag_members t = [(''ID'', JStr (ctg_ID t)), (''ChannelID'', JStr (ctg_ChannelID t)), (''Name'', JStr (ctg_Name t)),
     (''Color'', JStr (ctg_Color t))]"

definition tag_of :: "(string \<times> json) list \<Rightarrow> ChannelTag option" where
  "tag_of ms =
     (case (as_str (jfield ''ID'' ms), as_str (jfield ''ChannelID'' ms), as_str (jfield ''Name'' ms),
            as_str (jfield ''Color'' ms)) of
        (Some i, Some c, Some n, Some col) \<Rightarrow>
          Some \<lparr>ctg_ID = i, ctg_ChannelID = c, ctg_Name = n, ctg_Color = col\<rparr>
      | _ \<Rightarrow> None)"

interpretation tag: codec tag_members tag_of "\<lambda>_. True"
  by unfold_locales (simp add: tag_of_def tag_members_def jfield_Cons_hit jfield_Cons_other lower_def)

definition message_tag_members :: "MessageTag \<Rightarrow> (string \<times> json) list" where
  "message_tag_members t = [(''MessageID'', JStr (mt_MessageID t)), (''TagID'', JStr (mt_TagID t)),
     (''TaggedBy'', JStr (mt_TaggedBy t)), (''TagName'', JStr (mt_TagName t)), (''TagColor'', JStr (mt_TagColor t))]"

definition message_tag_of :: "(string \<times> json) list \<Rightarrow> MessageTag option" where
  "message_tag_of ms =
     (case (as_str (jfield ''MessageID'' ms), as_str (jfield ''TagID'' ms), as_str (jfield ''TaggedBy'' ms),
            as_str (jfield ''TagName'' ms), as_str (jfield ''TagColor'' ms)) of
        (Some m, Some t, Some by, Some n, Some c) \<Rightarrow>
          Some \<lparr>mt_MessageID = m, mt_TagID = t, mt_TaggedBy = by, mt_TagName = n, mt_TagColor = c\<rparr>
      | _ \<Rightarrow> None)"

interpretation message_tag: codec message_tag_members message_tag_of "\<lambda>_. True"
  by unfold_locales (simp add: message_tag_of_def message_tag_members_def jfield_Cons_hit jfield_Cons_other lower_def)

text \<open>Marshalling a page fails when its time has no text; the callers ignore the error and go
  on with no data.\<close>

definition page_json :: "int \<Rightarrow> WikiPage \<Rightarrow> bytes" where
  "page_json off p =
     (case time_text off (wp_UpdatedAt p) of
        None \<Rightarrow> []
      | Some t \<Rightarrow> json_text (JObj [(''ID'', JStr (wp_ID p)), (''ChannelID'', JStr (wp_ChannelID p)),
          (''Title'', JStr (wp_Title p)), (''Content'', JStr (wp_Content p)), (''UpdatedAt'', JStr t)]))"

definition page_of :: "(string \<times> json) list \<Rightarrow> WikiPage option" where
  "page_of ms =
     (case (as_str (jfield ''ID'' ms), as_str (jfield ''ChannelID'' ms), as_str (jfield ''Title'' ms),
            as_str (jfield ''Content'' ms), as_time (jfield ''UpdatedAt'' ms)) of
        (Some i, Some c, Some t, Some x, Some u) \<Rightarrow>
          Some \<lparr>wp_ID = i, wp_ChannelID = c, wp_Title = t, wp_Content = x, wp_UpdatedAt = u\<rparr>
      | _ \<Rightarrow> None)"

end
