(* ===== verification/Relay_Client.thy ===== *)
theory Relay_Client
  imports Relay_Transport
begin

text \<open>
  \<^verbatim>\<open>pkg/relay/client.go\<close>: the client's connection to a relay. The stream is the list of the
  commands sent on it (\<open>None\<close> for a nil stream); what arrives is a list of results of
  \<open>Recv\<close>. Errors of gRPC (dialling, opening the stream, sending) are arguments;
  \<open>rc_conn\<close> says whether a connection is open.
\<close>

record RelayClient =
  rc_stream :: "NodeCommand list option"
  rc_nodeID :: string
  rc_publicKey :: bytes
  rc_connected :: bool
  rc_currentRelay :: string
  rc_conn :: bool

definition NewRelayClient :: "string \<Rightarrow> bytes \<Rightarrow> RelayClient" where
  "NewRelayClient nodeID publicKey =
     \<lparr>rc_stream = None, rc_nodeID = nodeID, rc_publicKey = publicKey, rc_connected = False,
      rc_currentRelay = [], rc_conn = False\<rparr>"

definition not_connected :: string where
  "not_connected = ''not connected to relay''"

definition RelayClient_Send ::
    "string option \<Rightarrow> Envelope option \<Rightarrow> RelayClient \<Rightarrow> (string option \<times> RelayClient) go" where
  "RelayClient_Send sendErr envelope c =
     (case rc_stream c of
        None \<Rightarrow> Val (Some not_connected, c)
      | Some sent \<Rightarrow>
          if \<not> rc_connected c then Val (Some not_connected, c)
          else go_bind (EnvelopeToCommand envelope) (\<lambda>cmd.
            (case sendErr of
               Some err \<Rightarrow> Val (Some err, c)
             | None \<Rightarrow> Val (None, c\<lparr>rc_stream := Some (sent @ [cmd])\<rparr>))))"

definition handshake_envelope :: "string \<Rightarrow> Envelope" where
  "handshake_envelope nodeID =
     \<lparr>MessageId = ''handshake'', SenderNodeId = nodeID, TargetNodeId = [], EncryptedPayload = [],
      Nonce = [], SenderSignature = [], Timestamp = None, MessageType = MESSAGE_TYPE_CONTROL,
      TtlSeconds = 0, Priority = 0\<rparr>"

definition Connect ::
    "string option \<Rightarrow> string option \<Rightarrow> string option \<Rightarrow> string \<Rightarrow> RelayClient \<Rightarrow> (string option \<times> RelayClient) go" where
  "Connect dialErr streamErr sendErr endpoint c =
     (case dialErr of
        Some err \<Rightarrow> Val (Some (''failed to connect grpc: '' @ err), c)
      | None \<Rightarrow>
          let c1 = c\<lparr>rc_conn := True, rc_currentRelay := endpoint\<rparr> in
          (case streamErr of
             Some err \<Rightarrow> Val (Some (''failed to create stream: '' @ err), c1\<lparr>rc_conn := False\<rparr>)
           | None \<Rightarrow>
               let c2 = c1\<lparr>rc_stream := Some [], rc_connected := True\<rparr> in
               go_bind (RelayClient_Send sendErr (Some (handshake_envelope (rc_nodeID c2))) c2) (\<lambda>(r, c3).
                 (case r of
                    Some err \<Rightarrow> Val (Some (''handshake failed: '' @ err), c3\<lparr>rc_connected := False, rc_conn := False\<rparr>)
                  | None \<Rightarrow> Val (None, c3)))))"

text \<open>What \<open>Recv\<close> returns: a command, the end of the stream or another error.\<close>

datatype arrival = Cmd NodeCommand | EOF | RecvErr string

text \<open>The loop over what arrives: the handler acts on the state of the client; \<open>disconnect\<close>
  clears \<open>connected\<close> in it. The result is the error the loop ends with, or \<open>None\<close> while it
  still waits for the next command.\<close>

fun receive_loop ::
    "(Envelope \<Rightarrow> 's \<Rightarrow> 's go) \<Rightarrow> ('s \<Rightarrow> 's) \<Rightarrow> arrival list \<Rightarrow> 's \<Rightarrow> (string option \<times> 's) go" where
  "receive_loop handler disconnect [] s = Val (None, s)"
| "receive_loop handler disconnect (EOF # rs) s = Val (Some ''stream closed by server'', disconnect s)"
| "receive_loop handler disconnect (RecvErr err # rs) s = Val (Some (''stream error: '' @ err), disconnect s)"
| "receive_loop handler disconnect (Cmd cmd # rs) s =
     (case CommandToEnvelope cmd of
        Inl err \<Rightarrow> receive_loop handler disconnect rs s
      | Inr None \<Rightarrow> receive_loop handler disconnect rs s
      | Inr (Some envelope) \<Rightarrow> go_bind (handler envelope s) (receive_loop handler disconnect rs))"

definition ReceiveLoop ::
    "(Envelope \<Rightarrow> 's \<Rightarrow> 's go) \<Rightarrow> ('s \<Rightarrow> RelayClient) \<Rightarrow> ('s \<Rightarrow> 's) \<Rightarrow> arrival list \<Rightarrow> 's \<Rightarrow> (string option \<times> 's) go" where
  "ReceiveLoop handler relay disconnect rs s =
     (if \<not> rc_connected (relay s) \<or> rc_stream (relay s) = None then Val (Some not_connected, s)
      else receive_loop handler disconnect rs s)"

definition RelayClient_Close :: "RelayClient \<Rightarrow> RelayClient" where
  "RelayClient_Close c = c\<lparr>rc_conn := False, rc_connected := False\<rparr>"

definition IsConnected :: "RelayClient \<Rightarrow> bool" where
  "IsConnected c = rc_connected c"

section \<open>Lemmas\<close>

definition envelope_cmd :: "Envelope \<Rightarrow> NodeCommand" where
  "envelope_cmd e = \<lparr>CommandId = MessageId e, CommandType = CommandTypeEnvelope,
     Payload = json_text (JObj (envelope_members e))\<rparr>"

lemma EnvelopeToCommand_envelope [simp]: "EnvelopeToCommand (Some e) = Val (envelope_cmd e)"
  by (simp add: EnvelopeToCommand_def envelope_cmd_def)

lemma command_round_trip: "envelope_ok e \<Longrightarrow> CommandToEnvelope (envelope_cmd e) = Inr (Some e)"
  by (simp add: CommandToEnvelope_def envelope_cmd_def envelope.of_members_members del: json_text.simps)

text \<open>Sending an envelope never panics, and on a connected client without an error of the
  stream it appends the command.\<close>

lemma RelayClient_Send_Val:
  "\<exists>r c'. RelayClient_Send sendErr (Some e) c = Val (r, c') \<and>
     c' = (if rc_connected c \<and> sendErr = None then
             (case rc_stream c of None \<Rightarrow> c | Some sent \<Rightarrow> c\<lparr>rc_stream := Some (sent @ [envelope_cmd e])\<rparr>)
           else c)"
  by (auto simp: RelayClient_Send_def split: option.split)

lemma Connect_connected:
  assumes "Connect dialErr streamErr sendErr endpoint c = Val (None, c')"
  shows "IsConnected c'" "rc_stream c' = Some [envelope_cmd (handshake_envelope (rc_nodeID c))]"
  using assms by (auto simp: Connect_def RelayClient_Send_def IsConnected_def go_Val split: option.splits)

end
