(* ===== verification/E2E.thy ===== *)
theory E2E
  imports Crypto
begin

text \<open>
  \<^verbatim>\<open>pkg/crypto/e2e/e2e.go\<close>: the end-to-end encryption of the clients, an X25519 key exchange
  with SHA-256 as key derivation and AES-GCM with a random nonce in front of the ciphertext.

  X25519 and AES-GCM are parameters (the record \<open>cipher\<close>); \<open>cipher_ok\<close> is what their
  documentation promises: keys of 32 bytes are accepted and agree, a nonce has 12 bytes, AES
  takes keys of 16, 24 or 32 bytes, and opening what was sealed under the same key and nonce
  gives the plaintext. Secrecy and authenticity are not stated.
\<close>

record cipher =
  x25519_public :: "bytes \<Rightarrow> bytes"
  x25519_shared :: "bytes \<Rightarrow> bytes \<Rightarrow> bytes option"
  gcm_seal :: "bytes \<Rightarrow> bytes \<Rightarrow> bytes \<Rightarrow> bytes"
  gcm_open :: "bytes \<Rightarrow> bytes \<Rightarrow> bytes \<Rightarrow> bytes option"

definition cipher_ok :: "cipher \<Rightarrow> bool" where
  "cipher_ok C \<longleftrightarrow>
     (\<forall>a. length (x25519_public C a) = 32) \<and>
     (\<forall>a b. x25519_shared C a (x25519_public C b) = x25519_shared C b (x25519_public C a)) \<and>
     (\<forall>k n p. length k \<in> {16, 24, 32} \<longrightarrow> length n = 12 \<longrightarrow> gcm_open C k n (gcm_seal C k n p) = Some p)"

section \<open>Key exchange\<close>

record e2e_KeyPair =
  xk_Private :: bytes
  xk_Public :: bytes

text \<open>\<open>rand\<close> is what the random source delivers, or its error.\<close>

definition GenerateKeyExchangePair :: "cipher \<Rightarrow> string + bytes \<Rightarrow> string + e2e_KeyPair" where
  "GenerateKeyExchangePair C rand =
     (case rand of
        Inl err \<Rightarrow> Inl (''failed to generate X25519 key: '' @ err)
      | Inr priv \<Rightarrow> Inr \<lparr>xk_Private = priv, xk_Public = x25519_public C priv\<rparr>)"

definition DeriveSharedSecret :: "crypto \<Rightarrow> cipher \<Rightarrow> bytes \<Rightarrow> bytes \<Rightarrow> string + bytes" where
  "DeriveSharedSecret K C priv peerPubBytes =
     (if length peerPubBytes \<noteq> 32 then Inl ''invalid public key: crypto/ecdh: invalid public key''
      else (case x25519_shared C priv peerPubBytes of
          None \<Rightarrow> Inl ''failed to compute ECDH secret: crypto/ecdh: bad X25519 remote ECDH input: low order point''
        | Some secret \<Rightarrow> Inr (sha256 K secret)))"

section \<open>Encryption\<close>

definition aes_key_ok :: "bytes \<Rightarrow> bool" where
  "aes_key_ok key \<longleftrightarrow> length key \<in> {16, 24, 32}"

definition e2e_Encrypt :: "cipher \<Rightarrow> string + bytes \<Rightarrow> bytes \<Rightarrow> bytes \<Rightarrow> string + bytes" where
  "e2e_Encrypt C rand key plaintext =
     (if \<not> aes_key_ok key then Inl ''crypto/aes: invalid key size''
      else (case rand of
          Inl err \<Rightarrow> Inl err
        | Inr nonce \<Rightarrow> Inr (nonce @ gcm_seal C key nonce plaintext)))"

definition e2e_Decrypt :: "cipher \<Rightarrow> bytes \<Rightarrow> bytes \<Rightarrow> string + bytes" where
  "e2e_Decrypt C key data =
     (if \<not> aes_key_ok key then Inl ''crypto/aes: invalid key size''
      else if length data < 12 then Inl ''ciphertext too short''
      else (case gcm_open C key (take 12 data) (drop 12 data) of
          None \<Rightarrow> Inl ''decryption failed: cipher: message authentication failed''
        | Some plaintext \<Rightarrow> Inr plaintext))"

section \<open>Lemmas\<close>

lemma Decrypt_Encrypt:
  assumes "cipher_ok C" "e2e_Encrypt C (Inr nonce) key p = Inr c" "length nonce = 12"
  shows "e2e_Decrypt C key c = Inr p"
  using assms by (auto simp: e2e_Encrypt_def e2e_Decrypt_def aes_key_ok_def cipher_ok_def split: if_splits)

lemma Encrypt_works: "aes_key_ok key \<Longrightarrow> e2e_Encrypt C (Inr nonce) key p = Inr (nonce @ gcm_seal C key nonce p)"
  by (simp add: e2e_Encrypt_def)

lemma DeriveSharedSecret_agree:
  assumes "cipher_ok C"
  shows "DeriveSharedSecret K C a (x25519_public C b) = DeriveSharedSecret K C b (x25519_public C a)"
  using assms by (simp add: DeriveSharedSecret_def cipher_ok_def)

lemma DeriveSharedSecret_key:
  assumes "crypto_ok K" "DeriveSharedSecret K C a pub = Inr k"
  shows "aes_key_ok k"
  using assms by (auto simp: DeriveSharedSecret_def aes_key_ok_def crypto_ok_def split: if_splits option.splits)

section \<open>An instance\<close>

text \<open>Public keys are padded private keys, the shared secret is commutative by ordering, and
  sealing appends the key.\<close>

definition pad32 :: "bytes \<Rightarrow> bytes" where
  "pad32 x = take 32 (x @ replicate 32 (CHR 0x00))"

definition toy_cipher :: cipher where
  "toy_cipher = \<lparr>x25519_public = pad32,
     x25519_shared = (\<lambda>a p. Some (if pad32 a \<le> p then pad32 a @ p else p @ pad32 a)),
     gcm_seal = (\<lambda>k n p. p @ k), gcm_open = (\<lambda>k n c.
       if drop (length c - length k) c = k \<and> length k \<le> length c then Some (take (length c - length k) c) else None)\<rparr>"

lemma length_pad32 [simp]: "length (pad32 x) = 32"
  by (simp add: pad32_def)

lemma toy_cipher_ok: "cipher_ok toy_cipher"
  unfolding cipher_ok_def by (auto simp: toy_cipher_def)

end
