(* ===== verification/Go_Path.thy ===== *)
theory Go_Path
  imports Go_Base
begin

text \<open>
  \<open>path/filepath\<close> as the client uses it: \<open>Clean\<close>, \<open>Join\<close>, \<open>Base\<close> and \<open>Dir\<close> with the separator
  of Unix, and the files themselves as a map from cleaned paths to their contents. The
  lemmas say where a chunk of a file is kept.
\<close>

section \<open>Paths\<close>

text \<open>The components of a cleaned path, the last one first: empty components and \<open>.\<close> are
  dropped, \<open>..\<close> removes the component before it; at the root it is dropped and at the start
  of a relative path it stays.\<close>

definition clean_step :: "bool \<Rightarrow> string \<Rightarrow> string list \<Rightarrow> string list" where
  "clean_step rooted p acc =
     (if p = [] \<or> p = ''.'' then acc
      else if p \<noteq> ''..'' then p # acc
      else (case acc of
          [] \<Rightarrow> if rooted then [] else [''..'']
        | q # acc' \<Rightarrow> if q = ''..'' then ''..'' # acc else acc'))"

definition Clean :: "string \<Rightarrow> string" where
  "Clean path =
     (let rooted = has_prefix path ''/'';
          ps = rev (fold (clean_step rooted) (split_on (CHR ''/'') path) [])
      in if rooted then CHR ''/'' # join (CHR ''/'') ps
         else if ps = [] then ''.'' else join (CHR ''/'') ps)"

definition path_join :: "string list \<Rightarrow> string" where
  "path_join ps = (case filter (\<lambda>p. p \<noteq> []) ps of [] \<Rightarrow> [] | qs \<Rightarrow> Clean (join (CHR ''/'') qs))"

text \<open>The last component, with trailing separators removed.\<close>

definition path_base :: "string \<Rightarrow> string" where
  "path_base path =
     (if path = [] then ''.''
      else let p = rev (dropWhile (\<lambda>c. c = CHR ''/'') (rev path))
        in if p = [] then ''/'' else last (split_on (CHR ''/'') p))"

text \<open>Everything before the last component.\<close>

definition path_dir :: "string \<Rightarrow> string" where
  "path_dir path = Clean (rev (dropWhile (\<lambda>c. c \<noteq> CHR ''/'') (rev path)))"

section \<open>Files\<close>

type_synonym files = "string \<rightharpoonup> bytes"

text \<open>Reading a file, and writing it with the error the system reports, if any.\<close>

definition read_file :: "string \<Rightarrow> files \<Rightarrow> string + bytes" where
  "read_file p fs = (case fs p of None \<Rightarrow> Inl (''open '' @ p @ '': no such file or directory'') | Some d \<Rightarrow> Inr d)"

definition write_file :: "string option \<Rightarrow> string \<Rightarrow> bytes \<Rightarrow> files \<Rightarrow> string option \<times> files" where
  "write_file err p d fs = (case err of Some e \<Rightarrow> (Some e, fs) | None \<Rightarrow> (None, fs(p \<mapsto> d)))"

section \<open>Lemmas\<close>

text \<open>A plain component is kept as it is.\<close>

definition plain :: "string \<Rightarrow> bool" where
  "plain p \<longleftrightarrow> p \<noteq> [] \<and> p \<noteq> ''.'' \<and> p \<noteq> ''..'' \<and> CHR ''/'' \<notin> set p"

lemma clean_step_plain [simp]: "plain p \<Longrightarrow> clean_step rooted p acc = p # acc"
  by (simp add: clean_step_def plain_def)

lemma fold_clean_plain:
  "\<forall>p \<in> set ps. plain p \<Longrightarrow> fold (clean_step rooted) ps acc = rev ps @ acc"
  by (induction ps arbitrary: acc) simp_all

lemma split_on_snoc: "split_on d (s @ d # t) = split_on d s @ split_on d t"
  by (induction s) (auto split: list.split)

lemma join_snoc: "ps \<noteq> [] \<Longrightarrow> join d (ps @ [p]) = join d ps @ d # p"
proof (induction ps)
  case (Cons q ps)
  then show ?case by (cases ps) simp_all
qed simp

lemma join_snoc2: "join d (ps @ [p, q]) = join d (ps @ [p]) @ d # q"
  using join_snoc [of "ps @ [p]" d q] by simp

text \<open>Two files of one directory have the same path only if they have the same name.\<close>

lemma path_join_plain:
  assumes "dir \<noteq> []" "plain sub" "plain name"
  shows "\<exists>prefix. \<forall>name. plain name \<longrightarrow> path_join [dir, sub, name] = prefix @ CHR ''/'' # name"
proof -
  let ?rooted = "has_prefix dir ''/''"
  let ?acc = "fold (clean_step ?rooted) (split_on (CHR ''/'') dir) []"
  let ?prefix = "(if ?rooted then CHR ''/'' # join (CHR ''/'') (rev ?acc @ [sub]) else join (CHR ''/'') (rev ?acc @ [sub]))"
  have "path_join [dir, sub, name] = ?prefix @ CHR ''/'' # name" if "plain name" for name
  proof -
    have s: "split_on (CHR ''/'') (dir @ CHR ''/'' # sub @ CHR ''/'' # name) = split_on (CHR ''/'') dir @ [sub, name]"
      using that assms(2) by (simp add: split_on_snoc split_on_append split_on_free plain_def)
    have r: "has_prefix (dir @ CHR ''/'' # sub @ CHR ''/'' # name) ''/'' = ?rooted"
      using assms(1) by (cases dir) auto
    have "path_join [dir, sub, name] = Clean (dir @ CHR ''/'' # sub @ CHR ''/'' # name)"
      using assms that by (simp add: path_join_def plain_def)
    also have "\<dots> = ?prefix @ CHR ''/'' # name"
      using that assms(2) unfolding Clean_def r s Let_def
      by (simp add: join_snoc2)
    finally show ?thesis .
  qed
  then show ?thesis by blast
qed

lemma path_join_inject:
  assumes "dir \<noteq> []" "plain sub" "plain a" "plain b"
  shows "path_join [dir, sub, a] = path_join [dir, sub, b] \<longleftrightarrow> a = b"
proof -
  obtain prefix where "\<And>name. plain name \<Longrightarrow> path_join [dir, sub, name] = prefix @ CHR ''/'' # name"
    using path_join_plain [OF assms(1-3)] by blast
  then show ?thesis using assms(3,4) by simp
qed

lemma read_write [simp]: "read_file p (snd (write_file None p d fs)) = Inr d"
  by (simp add: read_file_def write_file_def)

end
