(* ===== verification/Client.thy ===== *)
theory Client
  imports Client_Codec Relay_Client E2E Go_Path Admin_Server
begin

text \<open>
  The core of \<^verbatim>\<open>pkg/client_sdk/client.go\<close>: the state of a client, the envelopes it sends, the
  key exchange with another client, the keys of direct chats and channels, and chat messages
  in both directions.

  Operations take the outside of the client as an argument (\<open>client_world\<close>): the
  cryptographic primitives, the faults of the database, of the stream and of the file
  system, the clock and the random numbers of this call. \<open>json.Marshal\<close> of the structs
  involved does not fail. The callback of the user interface is the list of the events it
  was called with. A client has no recovery: a panic ends it, and no state is left.
\<close>

section \<open>State\<close>

record MessageEvent =
  me_ID :: string
  me_SenderID :: string
  me_TargetID :: string
  me_Content :: string
  me_Timestamp :: time
  me_IsChannel :: bool

record SessionE2E =
  se_SharedKey :: bytes
  se_CreatedAt :: time

record EnxameClient =
  c_nodeID :: string
  c_privateKey :: bytes
  c_publicKey :: bytes
  c_knownCores :: "string list"
  c_coreConn :: "string option"
  c_relay :: RelayClient
  c_relaysList :: "NodeInfo list"
  c_storage :: Storage
  c_e2eSessions :: "string \<rightharpoonup> SessionE2E"
  c_e2ePendingKeys :: "string \<rightharpoonup> e2e_KeyPair"
  c_currentChannel :: string
  c_channelKeys :: "string \<rightharpoonup> bytes"
  c_storageDir :: string
  c_manifests :: "string \<rightharpoonup> FileManifest"
  c_files :: files
  c_onMessage :: bool
  c_events :: "MessageEvent list"
  c_onGridStatus :: bool
  c_gridEvents :: "(string \<times> string) list"
  c_gridJobs :: int
  c_profile :: string
  c_authToken :: string
  c_vaultToken :: string

record client_world =
  cw_crypto :: crypto
  cw_cipher :: cipher
  cw_fault :: faults
  cw_sendErr :: "string option"
  cw_writeErr :: "string option"
  cw_now :: time
  cw_zone :: int
  cw_pair :: "string + bytes"
  cw_nonce :: "string + bytes"
  cw_rand :: bytes

definition MsgTypeKeyExchangeInit :: string where "MsgTypeKeyExchangeInit = ''key_exchange_init''"
definition MsgTypeKeyExchangeAck :: string where "MsgTypeKeyExchangeAck = ''key_exchange_ack''"
definition MsgTypeChat :: string where "MsgTypeChat = ''chat''"
definition MsgTypeJoinRequest :: string where "MsgTypeJoinRequest = ''channel_join_request''"
definition MsgTypeKeyResponse :: string where "MsgTypeKeyResponse = ''channel_key_response''"
definition MsgTypeSyncRequest :: string where "MsgTypeSyncRequest = ''channel_sync_request''"
definition MsgTypeSyncResponse :: string where "MsgTypeSyncResponse = ''channel_sync_response''"
definition MsgTypeFileManifest :: string where "MsgTypeFileManifest = ''file_manifest''"
definition MsgTypeChunkRequest :: string where "MsgTypeChunkRequest = ''file_chunk_request''"
definition MsgTypeChunkResponse :: string where "MsgTypeChunkResponse = ''file_chunk_response''"
definition MsgTypeFile :: string where "MsgTypeFile = ''file''"
definition MsgTypeWikiUpdate :: string where "MsgTypeWikiUpdate = ''wiki_update''"
definition MsgTypeMetadataUpdate :: string where "MsgTypeMetadataUpdate = ''metadata_update''"
definition MsgTypeTagCreated :: string where "MsgTypeTagCreated = ''tag_created''"
definition MsgTypeTagAdded :: string where "MsgTypeTagAdded = ''tag_added''"

lemmas MsgType_defs = MsgTypeKeyExchangeInit_def MsgTypeKeyExchangeAck_def MsgTypeChat_def MsgTypeJoinRequest_def
  MsgTypeKeyResponse_def MsgTypeSyncRequest_def MsgTypeSyncResponse_def MsgTypeFileManifest_def
  MsgTypeChunkRequest_def MsgTypeChunkResponse_def MsgTypeFile_def MsgTypeWikiUpdate_def
  MsgTypeMetadataUpdate_def MsgTypeTagCreated_def MsgTypeTagAdded_def

section \<open>Auxiliary steps\<close>

text \<open>A statement of the database with its error, and one whose error is ignored.\<close>

definition db :: "(Storage \<Rightarrow> string option \<times> Storage) \<Rightarrow> EnxameClient \<Rightarrow> string option \<times> EnxameClient" where
  "db f c = (case f (c_storage c) of (err, s) \<Rightarrow> (err, c\<lparr>c_storage := s\<rparr>))"

definition db_ignore :: "(Storage \<Rightarrow> string option \<times> Storage) \<Rightarrow> EnxameClient \<Rightarrow> EnxameClient" where
  "db_ignore f c = snd (db f c)"

definition notify :: "MessageEvent \<Rightarrow> EnxameClient \<Rightarrow> EnxameClient" where
  "notify e c = (if c_onMessage c then c\<lparr>c_events := c_events c @ [e]\<rparr> else c)"

definition is_channel :: "string \<Rightarrow> bool" where
  "is_channel targetID = has_prefix targetID ''#''"

text \<open>\<open>k, _ = hex.DecodeString(h)\<close> keeps the bytes before the first error, \<open>c, _ = e2e.Encrypt\<close>
  is nil on an error.\<close>

definition hex_bytes :: "string \<Rightarrow> bytes" where
  "hex_bytes h = fst (hex_decode h)"

definition encrypt_ignore :: "client_world \<Rightarrow> bytes \<Rightarrow> bytes \<Rightarrow> bytes" where
  "encrypt_ignore W key pt = (case e2e_Encrypt (cw_cipher W) (cw_nonce W) key pt of Inl _ \<Rightarrow> [] | Inr ct \<Rightarrow> ct)"

definition ed25519_Sign :: "crypto \<Rightarrow> bytes \<Rightarrow> bytes \<Rightarrow> bytes go" where
  "ed25519_Sign K priv msg =
     (if length priv \<noteq> 64 then Panic ''ed25519: bad private key length'' else Val (ed_sign K priv msg))"

text \<open>\<open>timestamppb.Now\<close> and \<open>AsTime\<close>, which reads a nil timestamp as the epoch.\<close>

definition pb_now :: "time \<Rightarrow> (int \<times> int) option" where
  "pb_now now = Some (now div second, now mod second)"

definition AsTime :: "(int \<times> int) option \<Rightarrow> time" where
  "AsTime t = (case t of None \<Rightarrow> 0 | Some (s, n) \<Rightarrow> s * second + n)"

definition GetDMChannelID :: "crypto \<Rightarrow> string \<Rightarrow> EnxameClient \<Rightarrow> string" where
  "GetDMChannelID K targetID c =
     (let (a, b) = (if c_nodeID c > targetID then (targetID, c_nodeID c) else (c_nodeID c, targetID))
      in ''dm_'' @ hex_encode (take 16 (sha256 K (a @ '':'' @ b))))"

section \<open>Sending\<close>

definition send_envelope :: "client_world \<Rightarrow> Envelope \<Rightarrow> EnxameClient \<Rightarrow> EnxameClient go" where
  "send_envelope W e c =
     go_bind (RelayClient_Send (cw_sendErr W) (Some e) (c_relay c)) (\<lambda>(err, r). Val (c\<lparr>c_relay := r\<rparr>))"

definition msg_id :: "time \<Rightarrow> string" where
  "msg_id now = ''msg-'' @ dec_int now"

definition payload_envelope :: "client_world \<Rightarrow> string \<Rightarrow> E2EPayload \<Rightarrow> EnxameClient \<Rightarrow> Envelope go" where
  "payload_envelope W targetID payload c =
     (let data = json_text (JObj (payload_members payload)) in
      go_bind (ed25519_Sign (cw_crypto W) (c_privateKey c) data) (\<lambda>sig.
        Val \<lparr>MessageId = msg_id (cw_now W), SenderNodeId = c_nodeID c, TargetNodeId = targetID,
             EncryptedPayload = data, Nonce = [], SenderSignature = sig, Timestamp = pb_now (cw_now W),
             MessageType = MESSAGE_TYPE_CHAT, TtlSeconds = 0, Priority = 0\<rparr>))"

definition sendPayload ::
    "client_world \<Rightarrow> string \<Rightarrow> E2EPayload \<Rightarrow> EnxameClient \<Rightarrow> (string \<times> EnxameClient) go" where
  "sendPayload W targetID payload c =
     go_bind (payload_envelope W targetID payload c) (\<lambda>envelope.
       go_bind (send_envelope W envelope c) (\<lambda>c1. Val (MessageId envelope, c1)))"

definition SubscribeToRelayChannel :: "client_world \<Rightarrow> string \<Rightarrow> EnxameClient \<Rightarrow> EnxameClient go" where
  "SubscribeToRelayChannel W channelID c =
     (let payload = json_text (JObj (relay_command_members \<lparr>Command = ''subscribe'', Channel = channelID\<rparr>)) in
      go_bind (ed25519_Sign (cw_crypto W) (c_privateKey c) payload) (\<lambda>sig.
        send_envelope W
          \<lparr>MessageId = ''ctrl-'' @ dec_int (cw_now W), SenderNodeId = c_nodeID c, TargetNodeId = ''RELAY'',
           EncryptedPayload = payload, Nonce = [], SenderSignature = sig, Timestamp = pb_now (cw_now W),
           MessageType = MESSAGE_TYPE_CONTROL, TtlSeconds = 0, Priority = 0\<rparr> c))"

section \<open>Key exchange\<close>

definition plain_payload :: "string \<Rightarrow> bytes \<Rightarrow> E2EPayload" where
  "plain_payload ty content = \<lparr>pl_Type = ty, pl_Content = content, pl_IV = []\<rparr>"

definition initiateHandshake :: "client_world \<Rightarrow> string \<Rightarrow> EnxameClient \<Rightarrow> EnxameClient go" where
  "initiateHandshake W targetID c =
     (case GenerateKeyExchangePair (cw_cipher W) (cw_pair W) of
        Inl _ \<Rightarrow> Panic ''nil pointer dereference''
      | Inr myPair \<Rightarrow>
          let c1 = c\<lparr>c_e2ePendingKeys := (c_e2ePendingKeys c)(targetID \<mapsto> myPair)\<rparr> in
          go_bind (sendPayload W targetID (plain_payload MsgTypeKeyExchangeInit (xk_Public myPair)) c1) (\<lambda>(_, c2). Val c2))"

text \<open>\<open>sharedSecret, _ := e2e.DeriveSharedSecret(...)\<close> is nil on an error.\<close>

definition shared_ignore :: "client_world \<Rightarrow> bytes \<Rightarrow> bytes \<Rightarrow> bytes" where
  "shared_ignore W priv pub =
     (case DeriveSharedSecret (cw_crypto W) (cw_cipher W) priv pub of Inl _ \<Rightarrow> [] | Inr k \<Rightarrow> k)"

definition handleKeyExchangeInit :: "client_world \<Rightarrow> string \<Rightarrow> bytes \<Rightarrow> EnxameClient \<Rightarrow> EnxameClient go" where
  "handleKeyExchangeInit W senderID peerPub c =
     (case GenerateKeyExchangePair (cw_cipher W) (cw_pair W) of
        Inl _ \<Rightarrow> Panic ''nil pointer dereference''
      | Inr myPair \<Rightarrow>
          let c1 = c\<lparr>c_e2eSessions := (c_e2eSessions c)(senderID \<mapsto>
                \<lparr>se_SharedKey = shared_ignore W (xk_Private myPair) peerPub, se_CreatedAt = cw_now W\<rparr>)\<rparr>
          in go_bind (sendPayload W senderID (plain_payload MsgTypeKeyExchangeAck (xk_Public myPair)) c1) (\<lambda>(_, c2). Val c2))"

definition handleKeyExchangeAck :: "client_world \<Rightarrow> string \<Rightarrow> bytes \<Rightarrow> EnxameClient \<Rightarrow> EnxameClient" where
  "handleKeyExchangeAck W senderID peerPub c =
     (case c_e2ePendingKeys c senderID of
        None \<Rightarrow> c
      | Some myPair \<Rightarrow>
          c\<lparr>c_e2eSessions := (c_e2eSessions c)(senderID \<mapsto>
              \<lparr>se_SharedKey = shared_ignore W (xk_Private myPair) peerPub, se_CreatedAt = cw_now W\<rparr>),
            c_e2ePendingKeys := (c_e2ePendingKeys c)(senderID := None)\<rparr>)"

definition sendSecureMessage :: "client_world \<Rightarrow> string \<Rightarrow> string \<Rightarrow> bytes \<Rightarrow> EnxameClient \<Rightarrow> EnxameClient go" where
  "sendSecureMessage W targetID msgType content c =
     (case c_e2eSessions c targetID of
        None \<Rightarrow> initiateHandshake W targetID c
      | Some sess \<Rightarrow>
          go_bind (sendPayload W targetID
              (plain_payload msgType (encrypt_ignore W (se_SharedKey sess) content)) c) (\<lambda>(_, c1). Val c1))"

section \<open>Channel keys\<close>

text \<open>The lookups of a channel key differ in what they cache and in what they take for a
  missing key. This one is in \<open>decryptPayload\<close>; the next serves the handler of chat
  messages, \<open>SaveWikiPage\<close> and \<open>SetChannelConfig\<close>, which require the stored text to be nonempty.\<close>

definition decryptPayload ::
    "client_world \<Rightarrow> string \<Rightarrow> string \<Rightarrow> bytes \<Rightarrow> EnxameClient \<Rightarrow> (string + bytes) \<times> EnxameClient" where
  "decryptPayload W senderID targetID ciphertext c =
     (if is_channel targetID then
        (case c_channelKeys c targetID of
           Some k \<Rightarrow> (e2e_Decrypt (cw_cipher W) k ciphertext, c)
         | None \<Rightarrow>
             (case GetChannelKey (cw_fault W) targetID (c_storage c) of
                Inr hexKey \<Rightarrow>
                  let k = hex_bytes hexKey
                  in (e2e_Decrypt (cw_cipher W) k ciphertext,
                      c\<lparr>c_channelKeys := (c_channelKeys c)(targetID \<mapsto> k)\<rparr>)
              | Inl _ \<Rightarrow> (Inl ''channel key missing'', c)))
      else
        (case c_e2eSessions c senderID of
           Some sess \<Rightarrow> (e2e_Decrypt (cw_cipher W) (se_SharedKey sess) ciphertext, c)
         | None \<Rightarrow> (Inl ''session missing'', c)))"

definition channel_key :: "client_world \<Rightarrow> string \<Rightarrow> EnxameClient \<Rightarrow> bytes option \<times> EnxameClient" where
  "channel_key W channelID c =
     (case c_channelKeys c channelID of
        Some k \<Rightarrow> (Some k, c)
      | None \<Rightarrow>
          (case GetChannelKey (cw_fault W) channelID (c_storage c) of
             Inr hexKey \<Rightarrow>
               if hexKey \<noteq> [] then
                 let k = hex_bytes hexKey
                 in (Some k, c\<lparr>c_channelKeys := (c_channelKeys c)(channelID \<mapsto> k)\<rparr>)
               else (None, c)
           | Inl _ \<Rightarrow> (None, c)))"

text \<open>And this is \<open>getChannelKey\<close>, which returns the error of decoding.\<close>

definition getChannelKey :: "client_world \<Rightarrow> string \<Rightarrow> EnxameClient \<Rightarrow> (string + bytes) \<times> EnxameClient" where
  "getChannelKey W channelID c =
     (case c_channelKeys c channelID of
        Some k \<Rightarrow> (Inr k, c)
      | None \<Rightarrow>
          (case GetChannelKey (cw_fault W) channelID (c_storage c) of
             Inl err \<Rightarrow> (Inl err, c)
           | Inr hexKey \<Rightarrow>
               (case hex_decode hexKey of
                  (k, bad) \<Rightarrow>
                    if bad then (Inl ''encoding/hex: invalid'', c)
                    else (Inr k, c\<lparr>c_channelKeys := (c_channelKeys c)(channelID \<mapsto> k)\<rparr>))))"

section \<open>Chat messages\<close>

text \<open>In \<open>SendMessage\<close> the key of a channel is assigned only inside the branch that did not
  find it in the cache.\<close>

definition send_key :: "client_world \<Rightarrow> string \<Rightarrow> EnxameClient \<Rightarrow> bytes \<times> EnxameClient" where
  "send_key W targetID c =
     (case c_channelKeys c targetID of
        Some k \<Rightarrow> ([], c)
      | None \<Rightarrow>
          (case GetChannelKey (cw_fault W) targetID (c_storage c) of
             Inr hexKey \<Rightarrow>
               if hexKey \<noteq> [] then
                 let k = hex_bytes hexKey
                 in (k, c\<lparr>c_channelKeys := (c_channelKeys c)(targetID \<mapsto> k)\<rparr>)
               else ([], c)
           | Inl _ \<Rightarrow> ([], c)))"

text \<open>The chat a message is filed under; a direct message also remembers the peer.\<close>

definition storage_target :: "client_world \<Rightarrow> string \<Rightarrow> string \<Rightarrow> EnxameClient \<Rightarrow> string \<times> EnxameClient" where
  "storage_target W targetID peer c =
     (if is_channel targetID then (targetID, c)
      else let dmID = GetDMChannelID (cw_crypto W) peer c
        in (dmID, db_ignore (UpsertDMSession (cw_fault W) dmID peer) c))"

text \<open>The second half of \<open>SendMessage\<close>, with the key at hand.\<close>

definition send_chat :: "client_world \<Rightarrow> string \<Rightarrow> string \<Rightarrow> bytes \<Rightarrow> EnxameClient \<Rightarrow> (string option \<times> EnxameClient) go" where
  "send_chat W targetID message key c =
     (case e2e_Encrypt (cw_cipher W) (cw_nonce W) key message of
        Inl err \<Rightarrow> Val (Some err, c)
      | Inr ciphertext \<Rightarrow>
          go_bind (sendPayload W targetID (plain_payload MsgTypeChat ciphertext) c) (\<lambda>(msgID, c1).
            (case storage_target W targetID targetID c1 of
               (target, c2) \<Rightarrow>
                 Val (None, db_ignore (StoreMessage (cw_fault W) (cw_now W) msgID (c_nodeID c2) target message) c2))))"

definition SendMessage :: "client_world \<Rightarrow> string \<Rightarrow> string \<Rightarrow> EnxameClient \<Rightarrow> (string option \<times> EnxameClient) go" where
  "SendMessage W targetID message c =
     (if \<not> IsConnected (c_relay c) then Val (Some ''not connected to relay'', c)
      else if is_channel targetID then
        (case send_key W targetID c of
           (key, c1) \<Rightarrow>
             if key = [] then Val (Some (''no key for channel '' @ targetID), c1)
             else send_chat W targetID message key c1)
      else
        (case c_e2eSessions c targetID of
           None \<Rightarrow>
             go_bind (initiateHandshake W targetID c) (\<lambda>c1.
               Val (Some (''initiating handshake with '' @ targetID @ '', try again''), c1))
         | Some sess \<Rightarrow> send_chat W targetID message (se_SharedKey sess) c))"

definition handleChatMessage ::
    "client_world \<Rightarrow> string \<Rightarrow> string \<Rightarrow> bytes \<Rightarrow> Envelope \<Rightarrow> EnxameClient \<Rightarrow> EnxameClient" where
  "handleChatMessage W senderID targetID ciphertext envelope c =
     (let isChannel = is_channel targetID;
          (key, c1) = (if isChannel then channel_key W targetID c
                       else (map_option se_SharedKey (c_e2eSessions c senderID), c))
      in (case key of
            None \<Rightarrow> c1
          | Some k \<Rightarrow>
              (case e2e_Decrypt (cw_cipher W) k ciphertext of
                 Inl _ \<Rightarrow> c1
               | Inr plaintext \<Rightarrow>
                   let (target, c2) = storage_target W targetID senderID c1;
                       c3 = db_ignore (StoreMessage (cw_fault W) (cw_now W) (MessageId envelope) senderID target plaintext) c2;
                       c4 = (if isChannel then db_ignore (UpsertMember (cw_fault W) (cw_now W) targetID senderID ''MEMBER'') c3
                             else c3)
                   in notify \<lparr>me_ID = MessageId envelope, me_SenderID = senderID, me_TargetID = target,
                        me_Content = plaintext, me_Timestamp = AsTime (Timestamp envelope),
                        me_IsChannel = isChannel\<rparr> c4)))"

end
