(* ===== verification/Client_Files.thy ===== *)
theory Client_Files
  imports Client
begin

text \<open>
  Files in \<^verbatim>\<open>pkg/client_sdk/client.go\<close>: a file is cut into chunks that stay on the disk of
  the sender, its manifest is sent as a message, chunks are requested and answered one by
  one, and a file is put together again from the chunks on the local disk.

  Opening a file gives its size and the results of the successive reads, each of at most
  512 KiB; the end of the list is the end of the file. The message id under which the
  sender files the manifest is taken from the clock of the call.
\<close>

section \<open>Sending a file\<close>

definition chunk_path :: "string \<Rightarrow> string \<Rightarrow> string \<Rightarrow> string" where
  "chunk_path dir fileID index = path_join [dir, ''chunks'', fileID @ ''_'' @ index @ ''.dat'']"

definition hash_hex :: "crypto \<Rightarrow> bytes \<Rightarrow> string" where
  "hash_hex K data = hex_encode (sha256 K data)"

fun chunk_loop ::
    "client_world \<Rightarrow> string \<Rightarrow> string \<Rightarrow> (string + bytes) list \<Rightarrow> int \<Rightarrow> ChunkMeta list \<Rightarrow> files
     \<Rightarrow> (string + ChunkMeta list) \<times> files" where
  "chunk_loop W dir fileID [] chunkIndex chunks fs = (Inr chunks, fs)"
| "chunk_loop W dir fileID (Inl err # reads) chunkIndex chunks fs = (Inl err, fs)"
| "chunk_loop W dir fileID (Inr data # reads) chunkIndex chunks fs =
     (if data = [] then (Inr chunks, fs)
      else chunk_loop W dir fileID reads (chunkIndex + 1)
        (chunks @ [\<lparr>cm_Index = chunkIndex, cm_Hash = hash_hex (cw_crypto W) data\<rparr>])
        (snd (write_file (cw_writeErr W) (chunk_path dir fileID (dec_int chunkIndex)) data fs)))"

definition file_message :: "string \<Rightarrow> string \<Rightarrow> int \<Rightarrow> string" where
  "file_message fileID name sz = ''[FILE:'' @ fileID @ '':'' @ name @ '':'' @ dec_int sz @ '']''"

text \<open>The key of a file message, nil when there is none; nothing is cached here. The sender
  looks the session up under the target, the receiver under the sender.\<close>

definition file_key :: "client_world \<Rightarrow> string \<Rightarrow> string \<Rightarrow> EnxameClient \<Rightarrow> bytes" where
  "file_key W targetID peer c =
     (if is_channel targetID then
        (case c_channelKeys c targetID of
           Some k \<Rightarrow> k
         | None \<Rightarrow> (case GetChannelKey (cw_fault W) targetID (c_storage c) of Inr h \<Rightarrow> hex_bytes h | Inl _ \<Rightarrow> []))
      else (case c_e2eSessions c peer of Some sess \<Rightarrow> se_SharedKey sess | None \<Rightarrow> []))"

definition send_manifest ::
    "client_world \<Rightarrow> string \<Rightarrow> FileManifest \<Rightarrow> EnxameClient \<Rightarrow> (string option \<times> EnxameClient) go" where
  "send_manifest W targetID manifest c =
     (case storage_target W targetID targetID c of
        (target, c1) \<Rightarrow>
          let key = file_key W targetID targetID c1 in
          if key = [] then Val (Some ''encryption key not found'', c1)
          else go_bind (sendPayload W targetID (plain_payload MsgTypeFile
                 (encrypt_ignore W key (json_text (JObj (manifest_members manifest))))) c1) (\<lambda>(_, c2).
            let c3 = db_ignore (StoreMessage (cw_fault W) (cw_now W) (msg_id (cw_now W)) (c_nodeID c2) target
                  (file_message (fm_FileID manifest) (fm_Name manifest) (fm_Size manifest))) c2
            in Val (None, c3\<lparr>c_manifests := (c_manifests c3)(fm_FileID manifest \<mapsto> manifest)\<rparr>)))"

definition file_id :: "time \<Rightarrow> string" where
  "file_id now = ''file_'' @ dec_int now"

definition SendFile ::
    "client_world \<Rightarrow> string + int \<times> (string + bytes) list \<Rightarrow> string \<Rightarrow> string \<Rightarrow> EnxameClient
     \<Rightarrow> (string option \<times> EnxameClient) go" where
  "SendFile W opened targetID filePath c =
     (case opened of
        Inl err \<Rightarrow> Val (Some err, c)
      | Inr (sz, reads) \<Rightarrow>
          if sz > 10 * 1024 * 1024 then Val (Some ''file too large (max 10MB)'', c)
          else let fileID = file_id (cw_now W) in
            (case chunk_loop W (c_storageDir c) fileID reads 0 [] (c_files c) of
               (Inl err, fs) \<Rightarrow> Val (Some err, c\<lparr>c_files := fs\<rparr>)
             | (Inr chunks, fs) \<Rightarrow>
                 send_manifest W targetID
                   \<lparr>fm_FileID = fileID, fm_Name = path_base filePath, fm_Size = sz, fm_Chunks = chunks,
                    fm_SenderID = c_nodeID c\<rparr> (c\<lparr>c_files := fs\<rparr>)))"

section \<open>Receiving\<close>

definition handleFilePayload ::
    "client_world \<Rightarrow> string \<Rightarrow> string \<Rightarrow> bytes \<Rightarrow> Envelope \<Rightarrow> EnxameClient \<Rightarrow> EnxameClient" where
  "handleFilePayload W senderID targetID ciphertext envelope c =
     (case e2e_Decrypt (cw_cipher W) (file_key W targetID senderID c) ciphertext of
        Inl _ \<Rightarrow> c
      | Inr plaintext \<Rightarrow>
          (case unmarshal_obj manifest_of plaintext of
             None \<Rightarrow> c
           | Some manifest \<Rightarrow>
               let c1 = c\<lparr>c_manifests := (c_manifests c)(fm_FileID manifest \<mapsto> manifest)\<rparr>;
                   target = (if is_channel targetID then targetID else GetDMChannelID (cw_crypto W) senderID c1);
                   fileMsg = file_message (fm_FileID manifest) (fm_Name manifest) (fm_Size manifest);
                   c2 = db_ignore (StoreMessage (cw_fault W) (cw_now W) (MessageId envelope) senderID target fileMsg) c1
               in notify \<lparr>me_ID = MessageId envelope, me_SenderID = senderID, me_TargetID = target,
                    me_Content = fileMsg, me_Timestamp = AsTime (Timestamp envelope),
                    me_IsChannel = is_channel targetID\<rparr> c2))"

definition handleChunkRequest :: "client_world \<Rightarrow> string \<Rightarrow> bytes \<Rightarrow> EnxameClient \<Rightarrow> EnxameClient go" where
  "handleChunkRequest W senderID content c =
     (case split_on (CHR ''|'') content of
        [fileID, index] \<Rightarrow>
          (case read_file (chunk_path (c_storageDir c) fileID index) (c_files c) of
             Inl _ \<Rightarrow> Val c
           | Inr data \<Rightarrow>
               sendSecureMessage W senderID MsgTypeChunkResponse
                 (json_text (JObj (chunk_reply_members \<lparr>cy_FileID = fileID, cy_Index = index, cy_Data = data\<rparr>))) c)
      | _ \<Rightarrow> Val c)"

definition handleChunkResponse :: "client_world \<Rightarrow> bytes \<Rightarrow> EnxameClient \<Rightarrow> EnxameClient" where
  "handleChunkResponse W content c =
     (case unmarshal_obj chunk_reply_of content of
        None \<Rightarrow> c
      | Some resp \<Rightarrow>
          c\<lparr>c_files := snd (write_file (cw_writeErr W)
              (chunk_path (c_storageDir c) (cy_FileID resp) (cy_Index resp)) (cy_Data resp) (c_files c))\<rparr>)"

section \<open>Putting a file together\<close>

text \<open>\<open>outErr\<close> is the error of writing to the new file.\<close>

fun save_loop :: "client_world \<Rightarrow> string option \<Rightarrow> string \<Rightarrow> string \<Rightarrow> string \<Rightarrow> ChunkMeta list \<Rightarrow> files \<Rightarrow> string option \<times> files" where
  "save_loop W outErr dir fileID destPath [] fs = (None, fs)"
| "save_loop W outErr dir fileID destPath (chunk # chunks) fs =
     (case read_file (chunk_path dir fileID (dec_int (cm_Index chunk))) fs of
        Inl err \<Rightarrow> (Some (''missing chunk '' @ dec_int (cm_Index chunk) @ '': '' @ err), fs)
      | Inr data \<Rightarrow>
          if hash_hex (cw_crypto W) data \<noteq> cm_Hash chunk
          then (Some (''chunk '' @ dec_int (cm_Index chunk) @ '' hash mismatch''), fs)
          else (case outErr of
              Some err \<Rightarrow> (Some err, fs)
            | None \<Rightarrow> save_loop W outErr dir fileID destPath chunks
                (fs(destPath \<mapsto> (case fs destPath of None \<Rightarrow> data | Some d \<Rightarrow> d @ data)))))"

definition SaveFileToDisk ::
    "client_world \<Rightarrow> string option \<Rightarrow> string \<Rightarrow> string \<Rightarrow> EnxameClient \<Rightarrow> string option \<times> EnxameClient" where
  "SaveFileToDisk W outErr fileID destPath c =
     (case c_manifests c fileID of
        None \<Rightarrow> (Some (''manifest not found for file '' @ fileID), c)
      | Some manifest \<Rightarrow>
          (case write_file (cw_writeErr W) destPath [] (c_files c) of
             (Some err, fs) \<Rightarrow> (Some err, c\<lparr>c_files := fs\<rparr>)
           | (None, fs) \<Rightarrow>
               (case save_loop W outErr (c_storageDir c) fileID destPath (fm_Chunks manifest) fs of
                  (err, fs') \<Rightarrow> (err, c\<lparr>c_files := fs'\<rparr>))))"

section \<open>Lemmas\<close>

text \<open>The chunks of a file that was read without an error.\<close>

fun metas :: "crypto \<Rightarrow> nat \<Rightarrow> bytes list \<Rightarrow> ChunkMeta list" where
  "metas K i [] = []"
| "metas K i (d # ds) = \<lparr>cm_Index = int i, cm_Hash = hash_hex K d\<rparr> # metas K (Suc i) ds"

fun stored :: "string \<Rightarrow> string \<Rightarrow> nat \<Rightarrow> bytes list \<Rightarrow> files \<Rightarrow> bool" where
  "stored dir fileID i [] fs \<longleftrightarrow> True"
| "stored dir fileID i (d # ds) fs \<longleftrightarrow> fs (chunk_path dir fileID (dec_nat i)) = Some d \<and> stored dir fileID (Suc i) ds fs"

lemma dec_int_nat [simp]: "dec_int (int i) = dec_nat i"
  by (simp add: dec_int_def)

lemma chunk_loop_metas:
  assumes "cw_writeErr W = None" "\<forall>d \<in> set ds. d \<noteq> []"
  shows "fst (chunk_loop W dir fileID (map Inr ds) (int i) cs fs) = Inr (cs @ metas (cw_crypto W) i ds)"
  using assms(2)
proof (induction ds arbitrary: i cs fs)
  case (Cons d ds)
  then show ?case using Cons.IH [of "Suc i"] by (simp add: add.commute)
qed simp

definition chunk_name :: "string \<Rightarrow> nat \<Rightarrow> string" where
  "chunk_name fileID i = fileID @ ''_'' @ dec_nat i @ ''.dat''"

lemma plain_chunk_name:
  assumes "CHR ''/'' \<notin> set fileID"
  shows "plain (chunk_name fileID i)"
proof -
  have "CHR ''/'' \<notin> set (dec_nat i)"
    using dec_digit_range [of "CHR ''/''" i] by auto
  with assms show ?thesis
    by (cases fileID) (auto simp: plain_def chunk_name_def)
qed

lemma chunk_path_inject:
  assumes "dir \<noteq> []" "CHR ''/'' \<notin> set fileID"
  shows "chunk_path dir fileID (dec_nat i) = chunk_path dir fileID (dec_nat j) \<longleftrightarrow> i = j"
proof -
  have "chunk_path dir fileID (dec_nat i) = chunk_path dir fileID (dec_nat j) \<longleftrightarrow> chunk_name fileID i = chunk_name fileID j"
    unfolding chunk_path_def chunk_name_def [symmetric]
    using path_join_inject [OF assms(1) _ plain_chunk_name [OF assms(2)] plain_chunk_name [OF assms(2)], of "''chunks''"]
    by (simp add: plain_def)
  then show ?thesis by (auto simp: chunk_name_def dest: dec_nat_inject)
qed

text \<open>The loop only writes the chunks it cuts, each under its own name.\<close>

lemma chunk_loop_frame:
  assumes "\<forall>i. p \<noteq> chunk_path dir fileID (dec_nat i)"
  shows "snd (chunk_loop W dir fileID reads (int n) cs fs) p = fs p"
proof (induction reads arbitrary: n cs fs)
  case (Cons r reads)
  then show ?case using Cons.IH [of "Suc n"] assms by (cases r) (auto simp: write_file_def add.commute split: option.split)
qed simp

lemma chunk_loop_keeps:
  assumes "dir \<noteq> []" "CHR ''/'' \<notin> set fileID" "i < n"
  shows "snd (chunk_loop W dir fileID reads (int n) cs fs) (chunk_path dir fileID (dec_nat i)) =
    fs (chunk_path dir fileID (dec_nat i))"
  using assms(3)
proof (induction reads arbitrary: n cs fs)
  case (Cons r reads)
  then show ?case
    using Cons.IH [of "Suc n"] chunk_path_inject [OF assms(1,2), of i n]
    by (cases r) (auto simp: write_file_def add.commute split: option.split)
qed simp

lemma chunk_loop_stored:
  assumes "dir \<noteq> []" "CHR ''/'' \<notin> set fileID" "cw_writeErr W = None" "\<forall>d \<in> set ds. d \<noteq> []"
  shows "stored dir fileID i ds (snd (chunk_loop W dir fileID (map Inr ds) (int i) cs fs))"
  using assms(4)
proof (induction ds arbitrary: i cs fs)
  case (Cons d ds)
  let ?fs = "fs(chunk_path dir fileID (dec_nat i) \<mapsto> d)"
  let ?cs = "cs @ [\<lparr>cm_Index = int i, cm_Hash = hash_hex (cw_crypto W) d\<rparr>]"
  have "chunk_loop W dir fileID (map Inr (d # ds)) (int i) cs fs =
      chunk_loop W dir fileID (map Inr ds) (int (Suc i)) ?cs ?fs"
    using Cons.prems assms(3) by (simp add: write_file_def add.commute)
  moreover have "stored dir fileID (Suc i) ds (snd (chunk_loop W dir fileID (map Inr ds) (int (Suc i)) ?cs ?fs))"
    using Cons.prems by (intro Cons.IH) simp
  moreover have "snd (chunk_loop W dir fileID (map Inr ds) (int (Suc i)) ?cs ?fs) (chunk_path dir fileID (dec_nat i)) = Some d"
    using chunk_loop_keeps [OF assms(1,2), of i "Suc i" W "map Inr ds" ?cs ?fs] by simp
  ultimately show ?case by (simp only: stored.simps)
qed simp

lemma stored_frame:
  assumes "\<forall>i. p \<noteq> chunk_path dir fileID (dec_nat i)"
  shows "stored dir fileID i ds (fs(p \<mapsto> x)) = stored dir fileID i ds fs"
proof (induction ds arbitrary: i)
  case (Cons d ds)
  then show ?case using assms [rule_format, of i] by simp
qed simp

lemma save_loop_stored:
  assumes "\<forall>i. destPath \<noteq> chunk_path dir fileID (dec_nat i)" "stored dir fileID i ds fs" "fs destPath = Some out"
  shows "fst (save_loop W None dir fileID destPath (metas (cw_crypto W) i ds) fs) = None \<and>
    snd (save_loop W None dir fileID destPath (metas (cw_crypto W) i ds) fs) destPath = Some (out @ concat ds)"
  using assms(2,3)
proof (induction ds arbitrary: i fs out)
  case (Cons d ds)
  from Cons.prems have "stored dir fileID (Suc i) ds (fs(destPath \<mapsto> out @ d))"
    by (simp add: stored_frame [OF assms(1)])
  moreover have "(fs(destPath \<mapsto> out @ d)) destPath = Some (out @ d)" by simp
  ultimately have "fst (save_loop W None dir fileID destPath (metas (cw_crypto W) (Suc i) ds) (fs(destPath \<mapsto> out @ d))) = None \<and>
      snd (save_loop W None dir fileID destPath (metas (cw_crypto W) (Suc i) ds) (fs(destPath \<mapsto> out @ d))) destPath =
        Some ((out @ d) @ concat ds)"
    by (rule Cons.IH)
  then show ?case using Cons.prems by (simp add: read_file_def)
qed simp

end
