(* ===== verification/Client_Hub.thy ===== *)
theory Client_Hub
  imports Client_Files Services
begin

text \<open>
  Channels in \<^verbatim>\<open>pkg/client_sdk/client.go\<close>: creating and joining them, handing out their keys,
  their wiki, configuration, avatar and tags, the signed governance requests, and the
  dispatch of the envelopes that arrive. A call of the core server goes over a connection
  (\<open>conn\<close>, by the stub of the service); the service clients are nil before the first
  connection, so a call then is a nil dereference. \<open>fmt.Errorf(resp.Message)\<close> is the message
  (the server's messages contain no verb).
\<close>

section \<open>Calling the core server\<close>

fun code_text :: "code \<Rightarrow> string" where
  "code_text Unknown = ''Unknown''"
| "code_text InvalidArgument = ''InvalidArgument''"
| "code_text NotFound = ''NotFound''"
| "code_text PermissionDenied = ''PermissionDenied''"
| "code_text Internal = ''Internal''"
| "code_text Unauthenticated = ''Unauthenticated''"

fun status_text :: "status \<Rightarrow> string" where
  "status_text (Status c m) = ''rpc error: code = '' @ code_text c @ '' desc = '' @ m"

definition call_core :: "EnxameClient \<Rightarrow> status + 'r \<Rightarrow> (string + 'r) go" where
  "call_core c outcome =
     (if c_coreConn c = None then Panic ''nil pointer dereference''
      else Val (case outcome of Inl st \<Rightarrow> Inl (status_text st) | Inr r \<Rightarrow> Inr r))"

section \<open>Channels\<close>

definition Client_CreateChannel ::
    "client_world \<Rightarrow> (CreateChannelRequest, CreateChannelResponse) conn \<Rightarrow> string \<Rightarrow> EnxameClient
     \<Rightarrow> ((string + string) \<times> EnxameClient) go" where
  "Client_CreateChannel W cc name c =
     go_bind (call_core c (channelServiceClient_CreateChannel cc
         \<lparr>ccr_Name = trim_prefix name ''#'', ccr_OwnerNodeId = c_nodeID c, ccr_Avatar = []\<rparr>)) (\<lambda>out.
       (case out of
          Inl err \<Rightarrow> Val (Inl err, c)
        | Inr res \<Rightarrow>
            if \<not> ccs_Success res then Val (Inl (ccs_Message res), c)
            else let channelID = ccs_ChannelId res; key = cw_rand W;
                     c1 = db_ignore (SaveChannelKey (cw_fault W) channelID (hex_encode key)) c;
                     c2 = c1\<lparr>c_channelKeys := (c_channelKeys c1)(channelID \<mapsto> key)\<rparr>
              in go_bind (SubscribeToRelayChannel W channelID c2) (\<lambda>c3. Val (Inr channelID, c3))))"

definition JoinChannel :: "client_world \<Rightarrow> string \<Rightarrow> EnxameClient \<Rightarrow> EnxameClient go" where
  "JoinChannel W channelID c =
     (let channelID' = (if \<not> has_prefix channelID ''#'' then CHR ''#'' # channelID else channelID)
      in SubscribeToRelayChannel W channelID' (c\<lparr>c_currentChannel := channelID'\<rparr>))"

definition handleChannelJoinRequest :: "client_world \<Rightarrow> string \<Rightarrow> bytes \<Rightarrow> EnxameClient \<Rightarrow> EnxameClient go" where
  "handleChannelJoinRequest W senderID channelID c =
     (let key = (case c_channelKeys c channelID of
            Some k \<Rightarrow> Some k
          | None \<Rightarrow> (case GetChannelKey (cw_fault W) channelID (c_storage c) of
                Inr storedKeyHex \<Rightarrow> if storedKeyHex \<noteq> [] then Some (hex_bytes storedKeyHex) else None
              | Inl _ \<Rightarrow> None));
          c1 = db_ignore (UpsertMember (cw_fault W) (cw_now W) channelID senderID ''MEMBER'') c
      in (case key of
            None \<Rightarrow> Val c1
          | Some k \<Rightarrow> sendSecureMessage W senderID MsgTypeKeyResponse (channelID @ ''|'' @ hex_encode k) c1))"

definition handleChannelKeyResponse :: "client_world \<Rightarrow> string \<Rightarrow> bytes \<Rightarrow> EnxameClient \<Rightarrow> EnxameClient go" where
  "handleChannelKeyResponse W senderID content c =
     (case split2 (CHR ''|'') content of
        [channelID, keyHex] \<Rightarrow>
          let c1 = db_ignore (SaveChannelKey (cw_fault W) channelID keyHex) c;
              c2 = c1\<lparr>c_channelKeys := (c_channelKeys c1)(channelID \<mapsto> hex_bytes keyHex)\<rparr>
          in go_bind (SubscribeToRelayChannel W channelID c2) (\<lambda>c3.
               Val (notify \<lparr>me_ID = [], me_SenderID = [], me_TargetID = channelID,
                 me_Content = ''Joined '' @ channelID, me_Timestamp = zero_time, me_IsChannel = True\<rparr> c3))
      | _ \<Rightarrow> Val c)"

definition handleSyncRequest :: "string \<Rightarrow> bytes \<Rightarrow> EnxameClient \<Rightarrow> EnxameClient" where
  "handleSyncRequest requesterID channelID c = c"

definition handleSyncResponse :: "string \<Rightarrow> bytes \<Rightarrow> EnxameClient \<Rightarrow> EnxameClient" where
  "handleSyncResponse senderID content c = c"

definition handleFileManifest :: "bytes \<Rightarrow> EnxameClient \<Rightarrow> EnxameClient" where
  "handleFileManifest content c = c"

text \<open>A member counts as online for five minutes after it was seen.\<close>

record client_Member =
  cmb_NodeID :: string
  cmb_Role :: string
  cmb_IsOnline :: bool

definition Client_GetChannelMembers :: "client_world \<Rightarrow> string \<Rightarrow> EnxameClient \<Rightarrow> string + client_Member list" where
  "Client_GetChannelMembers W channelID c =
     (case GetChannelMembers (cw_fault W) channelID (c_storage c) of
        Inl err \<Rightarrow> Inl err
      | Inr stored_members \<Rightarrow>
          Inr (map (\<lambda>m. \<lparr>cmb_NodeID = mb_NodeID m, cmb_Role = mb_Role m,
                     cmb_IsOnline = (cw_now W - mb_LastSeen m < 5 * 60 * second)\<rparr>) stored_members))"

section \<open>Governance\<close>

definition gov_result :: "string + GovResponse \<Rightarrow> string option" where
  "gov_result out =
     (case out of Inl err \<Rightarrow> Some err | Inr resp \<Rightarrow> if \<not> gr_Success resp then Some (gr_Message resp) else None)"

definition Client_PromoteUser ::
    "client_world \<Rightarrow> (PromoteRequest, GovResponse) conn \<Rightarrow> string \<Rightarrow> string \<Rightarrow> string \<Rightarrow> EnxameClient \<Rightarrow> string option go" where
  "Client_PromoteUser W cc target role channel c =
     (if role \<noteq> ''ADMIN'' \<and> role \<noteq> ''MODERATOR'' then Val (Some ''invalid role'')
      else let roleEnum = (if role = ''ADMIN'' then Role_ADMIN else Role_MODERATOR);
               ts = word_of_int (cw_now W)
        in go_bind (ed25519_Sign (cw_crypto W) (c_privateKey c) (gov_payload target roleEnum Scope_CHANNEL channel ts)) (\<lambda>sig.
             go_bind (call_core c (channelServiceClient_PromoteUser cc
               \<lparr>pr_TargetNodeId = target, pr_Role = roleEnum, pr_Scope = Scope_CHANNEL, pr_ChannelId = channel,
                pr_RequesterId = c_nodeID c, pr_Timestamp = ts, pr_Signature = sig\<rparr>)) (\<lambda>out. Val (gov_result out))))"

text \<open>The requests of \<open>DemoteUser\<close> and \<open>KickUser\<close>: both sign an empty role.\<close>

definition demote_request :: "client_world \<Rightarrow> string \<Rightarrow> string \<Rightarrow> EnxameClient \<Rightarrow> DemoteRequest go" where
  "demote_request W target channel c =
     (let ts = word_of_int (cw_now W) in
      go_bind (ed25519_Sign (cw_crypto W) (c_privateKey c) (gov_payload target [] Scope_CHANNEL channel ts)) (\<lambda>sig.
        Val \<lparr>dr_TargetNodeId = target, dr_Scope = Scope_CHANNEL, dr_ChannelId = channel,
             dr_RequesterId = c_nodeID c, dr_Timestamp = ts, dr_Signature = sig\<rparr>))"

definition Client_DemoteUser ::
    "client_world \<Rightarrow> (DemoteRequest, GovResponse) conn \<Rightarrow> string \<Rightarrow> string \<Rightarrow> EnxameClient \<Rightarrow> string option go" where
  "Client_DemoteUser W cc target channel c =
     go_bind (demote_request W target channel c) (\<lambda>req.
       go_bind (call_core c (channelServiceClient_DemoteUser cc req)) (\<lambda>out. Val (gov_result out)))"

definition Client_KickUser ::
    "client_world \<Rightarrow> (DemoteRequest, GovResponse) conn \<Rightarrow> string \<Rightarrow> string \<Rightarrow> EnxameClient \<Rightarrow> string option go" where
  "Client_KickUser W cc target channel c =
     go_bind (demote_request W target channel c) (\<lambda>req.
       go_bind (call_core c (channelServiceClient_KickUser cc req)) (\<lambda>out. Val (gov_result out)))"

section \<open>Wiki, configuration and avatar\<close>

definition own_role :: "client_world \<Rightarrow> string \<Rightarrow> EnxameClient \<Rightarrow> string" where
  "own_role W channelID c =
     (case GetMember (cw_fault W) channelID (c_nodeID c) (c_storage c) of Inr m \<Rightarrow> mb_Role m | Inl _ \<Rightarrow> ''USER'')"

text \<open>Encrypt for the members of a channel and send; the error of the encryption is ignored.\<close>

definition broadcast_update ::
    "client_world \<Rightarrow> string \<Rightarrow> string \<Rightarrow> bytes \<Rightarrow> bytes \<Rightarrow> EnxameClient \<Rightarrow> (string option \<times> EnxameClient) go" where
  "broadcast_update W channelID msgType key data c =
     go_bind (sendPayload W channelID (plain_payload msgType (encrypt_ignore W key data)) c) (\<lambda>(_, c1). Val (None, c1))"

definition Client_SaveWikiPage ::
    "client_world \<Rightarrow> string \<Rightarrow> string \<Rightarrow> string \<Rightarrow> EnxameClient \<Rightarrow> (string option \<times> EnxameClient) go" where
  "Client_SaveWikiPage W channelID title content c =
     (let page = \<lparr>wp_ID = ''wiki_'' @ dec_int (cw_now W), wp_ChannelID = channelID, wp_Title = title,
            wp_Content = content, wp_UpdatedAt = cw_now W\<rparr>
      in (case db (SaveWikiPage (cw_fault W) page) c of
            (Some err, c1) \<Rightarrow> Val (Some err, c1)
          | (None, c1) \<Rightarrow>
              (case channel_key W channelID c1 of
                 (None, c2) \<Rightarrow> Val (Some ''channel key not found'', c2)
               | (Some key, c2) \<Rightarrow> broadcast_update W channelID MsgTypeWikiUpdate key (page_json (cw_zone W) page) c2)))"

definition handleWikiUpdate :: "client_world \<Rightarrow> string \<Rightarrow> string \<Rightarrow> bytes \<Rightarrow> EnxameClient \<Rightarrow> EnxameClient" where
  "handleWikiUpdate W senderID targetID ciphertext c =
     (case decryptPayload W senderID targetID ciphertext c of
        (Inl _, c1) \<Rightarrow> c1
      | (Inr plaintext, c1) \<Rightarrow>
          (case unmarshal_obj page_of plaintext of
             None \<Rightarrow> c1
           | Some page \<Rightarrow>
               notify \<lparr>me_ID = ''wiki-'' @ wp_ID page, me_SenderID = senderID, me_TargetID = targetID,
                 me_Content = ''[Wiki Update]'', me_Timestamp = wp_UpdatedAt page, me_IsChannel = is_channel targetID\<rparr>
               (db_ignore (SaveWikiPage (cw_fault W) page) c1)))"

definition Client_SetChannelConfig ::
    "client_world \<Rightarrow> string \<Rightarrow> string \<Rightarrow> string \<Rightarrow> EnxameClient \<Rightarrow> (string option \<times> EnxameClient) go" where
  "Client_SetChannelConfig W channelID key value c =
     (let myRole = own_role W channelID c in
      if myRole \<noteq> ''OWNER'' \<and> myRole \<noteq> ''ADMIN''
      then Val (Some ''permission denied: only ADMIN or OWNER can set channel configuration'', c)
      else (case db (SetChannelConfig (cw_fault W) channelID key value) c of
          (Some err, c1) \<Rightarrow> Val (Some err, c1)
        | (None, c1) \<Rightarrow>
            (case channel_key W channelID c1 of
               (None, c2) \<Rightarrow> Val (Some ''channel key not found'', c2)
             | (Some keyBytes, c2) \<Rightarrow>
                 broadcast_update W channelID MsgTypeMetadataUpdate keyBytes
                   (json_text (JObj (config_members \<lparr>cfg_ChannelID = channelID, cfg_Key = key, cfg_Value = value\<rparr>))) c2)))"

definition handleMetadataUpdate :: "client_world \<Rightarrow> string \<Rightarrow> string \<Rightarrow> bytes \<Rightarrow> EnxameClient \<Rightarrow> EnxameClient" where
  "handleMetadataUpdate W senderID targetID ciphertext c =
     (case decryptPayload W senderID targetID ciphertext c of
        (Inl _, c1) \<Rightarrow> c1
      | (Inr plaintext, c1) \<Rightarrow>
          (case unmarshal_obj config_of plaintext of
             None \<Rightarrow> c1
           | Some cfg \<Rightarrow>
               let c2 = db_ignore (SetChannelConfig (cw_fault W) (cfg_ChannelID cfg) (cfg_Key cfg) (cfg_Value cfg)) c1
               in if cfg_Key cfg = ''avatar''
                  then db_ignore (Storage_UpdateChannelAvatar (cw_fault W) (cfg_ChannelID cfg) (cfg_Value cfg)) c2
                  else c2))"

definition Client_UpdateChannelAvatar ::
    "client_world \<Rightarrow> (UpdateChannelAvatarRequest, GovResponse) conn \<Rightarrow> string \<Rightarrow> string \<Rightarrow> EnxameClient
     \<Rightarrow> (string option \<times> EnxameClient) go" where
  "Client_UpdateChannelAvatar W cc channelID avatar c =
     (let denied = Val (Some ''permission denied: only ADMIN or OWNER can update avatar'', c) in
      (case GetMember (cw_fault W) channelID (c_nodeID c) (c_storage c) of
         Inl _ \<Rightarrow> denied
       | Inr m \<Rightarrow>
           if mb_Role m \<noteq> ''ADMIN'' \<and> mb_Role m \<noteq> ''OWNER'' then denied
           else let ts = word_of_int (cw_now W) in
             go_bind (ed25519_Sign (cw_crypto W) (c_privateKey c)
                 (channelID @ ''|'' @ avatar @ ''|'' @ dec_int (sint ts))) (\<lambda>sig.
               go_bind (call_core c (channelServiceClient_UpdateChannelAvatar cc
                   \<lparr>ua_ChannelId = channelID, ua_Avatar = avatar, ua_RequesterId = c_nodeID c,
                    ua_Timestamp = ts, ua_Signature = sig\<rparr>)) (\<lambda>out.
                 (case gov_result out of
                    Some err \<Rightarrow> Val (Some err, c)
                  | None \<Rightarrow> Val (db (Storage_UpdateChannelAvatar (cw_fault W) channelID avatar) c))))))"

section \<open>Tags\<close>

definition Client_CreateTag ::
    "client_world \<Rightarrow> string \<Rightarrow> string \<Rightarrow> string \<Rightarrow> EnxameClient \<Rightarrow> (string option \<times> EnxameClient) go" where
  "Client_CreateTag W channelID name color c =
     (let myRole = own_role W channelID c in
      if myRole \<noteq> ''ADMIN'' \<and> myRole \<noteq> ''OWNER''
      then Val (Some ''permission denied: only ADMIN or OWNER can create tags'', c)
      else let t = \<lparr>ctg_ID = ''tag-'' @ dec_int (cw_now W), ctg_ChannelID = channelID, ctg_Name = name, ctg_Color = color\<rparr> in
        (case db (CreateTag (cw_fault W) t) c of
           (Some err, c1) \<Rightarrow> Val (Some err, c1)
         | (None, c1) \<Rightarrow>
             (case getChannelKey W channelID c1 of
                (Inl err, c2) \<Rightarrow> Val (Some err, c2)
              | (Inr key, c2) \<Rightarrow> broadcast_update W channelID MsgTypeTagCreated key (json_text (JObj (tag_members t))) c2)))"

definition TagMessage :: "client_world \<Rightarrow> string \<Rightarrow> string \<Rightarrow> string \<Rightarrow> EnxameClient \<Rightarrow> (string option \<times> EnxameClient) go" where
  "TagMessage W channelID messageID tagID c =
     (let mt = \<lparr>mt_MessageID = messageID, mt_TagID = tagID, mt_TaggedBy = c_nodeID c, mt_TagName = [], mt_TagColor = []\<rparr> in
      (case db (AddMessageTag (cw_fault W) mt) c of
         (Some err, c1) \<Rightarrow> Val (Some err, c1)
       | (None, c1) \<Rightarrow>
           (case getChannelKey W channelID c1 of
              (Inl err, c2) \<Rightarrow> Val (Some err, c2)
            | (Inr key, c2) \<Rightarrow> broadcast_update W channelID MsgTypeTagAdded key (json_text (JObj (message_tag_members mt))) c2)))"

definition handleTagCreated :: "client_world \<Rightarrow> string \<Rightarrow> string \<Rightarrow> bytes \<Rightarrow> EnxameClient \<Rightarrow> EnxameClient" where
  "handleTagCreated W senderID targetID ciphertext c =
     (case decryptPayload W senderID targetID ciphertext c of
        (Inl _, c1) \<Rightarrow> c1
      | (Inr plaintext, c1) \<Rightarrow>
          (case unmarshal_obj tag_of plaintext of
             None \<Rightarrow> c1
           | Some t \<Rightarrow>
               notify \<lparr>me_ID = ''tag-'' @ ctg_ID t, me_SenderID = senderID, me_TargetID = targetID,
                 me_Content = ''[Tag Created: '' @ ctg_Name t @ '']'', me_Timestamp = cw_now W, me_IsChannel = True\<rparr>
               (db_ignore (CreateTag (cw_fault W) t) c1)))"

definition handleTagAdded :: "client_world \<Rightarrow> string \<Rightarrow> string \<Rightarrow> bytes \<Rightarrow> EnxameClient \<Rightarrow> EnxameClient" where
  "handleTagAdded W senderID targetID ciphertext c =
     (case decryptPayload W senderID targetID ciphertext c of
        (Inl _, c1) \<Rightarrow> c1
      | (Inr plaintext, c1) \<Rightarrow>
          (case unmarshal_obj message_tag_of plaintext of
             None \<Rightarrow> c1
           | Some mt \<Rightarrow>
               notify \<lparr>me_ID = ''tag-add-'' @ mt_TagID mt, me_SenderID = senderID, me_TargetID = targetID,
                 me_Content = ''[Tag Added]'', me_Timestamp = cw_now W, me_IsChannel = True\<rparr>
               (db_ignore (AddMessageTag (cw_fault W) mt) c1)))"

section \<open>Dispatch\<close>

definition dispatch :: "client_world \<Rightarrow> E2EPayload \<Rightarrow> Envelope \<Rightarrow> EnxameClient \<Rightarrow> EnxameClient go" where
  "dispatch W payload envelope c =
     (let ty = pl_Type payload; sender = SenderNodeId envelope; target = TargetNodeId envelope;
          content = pl_Content payload
      in if ty = MsgTypeKeyExchangeInit then handleKeyExchangeInit W sender content c
         else if ty = MsgTypeKeyExchangeAck then Val (handleKeyExchangeAck W sender content c)
         else if ty = MsgTypeChat then Val (handleChatMessage W sender target content envelope c)
         else if ty = MsgTypeJoinRequest then handleChannelJoinRequest W sender content c
         else if ty = MsgTypeKeyResponse then handleChannelKeyResponse W sender content c
         else if ty = MsgTypeSyncRequest then Val (handleSyncRequest sender content c)
         else if ty = MsgTypeSyncResponse then Val (handleSyncResponse sender content c)
         else if ty = MsgTypeFileManifest then Val (handleFileManifest content c)
         else if ty = MsgTypeChunkRequest then handleChunkRequest W sender content c
         else if ty = MsgTypeChunkResponse then Val (handleChunkResponse W content c)
         else if ty = MsgTypeFile then Val (handleFilePayload W sender target content envelope c)
         else if ty = MsgTypeWikiUpdate then Val (handleWikiUpdate W sender target content c)
         else if ty = MsgTypeMetadataUpdate then Val (handleMetadataUpdate W sender target content c)
         else if ty = MsgTypeTagCreated then Val (handleTagCreated W sender target content c)
         else if ty = MsgTypeTagAdded then Val (handleTagAdded W sender target content c)
         else Val c)"

definition handleMessage :: "client_world \<Rightarrow> Envelope \<Rightarrow> EnxameClient \<Rightarrow> EnxameClient go" where
  "handleMessage W envelope c =
     (case unmarshal_obj payload_of (EncryptedPayload envelope) of
        None \<Rightarrow> Val c
      | Some payload \<Rightarrow> dispatch W payload envelope c)"

end
