(* ===== verification/Client_Core.thy ===== *)
theory Client_Core
  imports Client_Hub Grpc_Server
begin

text \<open>
  The rest of \<^verbatim>\<open>pkg/client_sdk/client.go\<close>: starting a client, its connections to the core
  servers and to the relays, the grid worker, the session of the user, and the
  administration calls. Connections, streams and their errors are arguments; the goroutines
  that \<open>Initialize\<close> starts are operations of their own.
\<close>

section \<open>Starting\<close>

text \<open>The identity file: its contents, the outcome of generating a key, the error of writing.\<close>

definition loadOrGenerateIdentity ::
    "crypto \<Rightarrow> bytes option \<Rightarrow> bytes result \<Rightarrow> string option \<Rightarrow> (bytes \<times> bytes \<times> string) result \<times> bytes option" where
  "loadOrGenerateIdentity K file gen write_err =
     (let generate =
            (case gen of
               Inl err \<Rightarrow> (Inl err, None)
             | Inr priv \<Rightarrow>
                 (case write_err of
                    Some err \<Rightarrow> (Inl err, None)
                  | None \<Rightarrow> (Inr (priv, ed_public K priv, deriveNodeID K (ed_public K priv)), Some priv)))
      in (case file of
            Some data \<Rightarrow>
              if length data = 64 then (Inr (data, ed_public K data, deriveNodeID K (ed_public K data)), None)
              else generate
          | None \<Rightarrow> generate))"

definition identity_file :: "string \<Rightarrow> string" where
  "identity_file profile = (if profile = ''default'' then ''identity.key'' else ''identity_'' @ profile @ ''.key'')"

definition GetIdentityPath :: "EnxameClient \<Rightarrow> string" where
  "GetIdentityPath c = identity_file (c_profile c)"

text \<open>\<open>identity\<close> is the result of loading the identity from a file, \<open>openStore\<close> that of opening the
  database of a given name, with its path.\<close>

definition NewEnxameClient ::
    "faults \<Rightarrow> (string \<Rightarrow> (bytes \<times> bytes \<times> string) result) \<Rightarrow> (string \<Rightarrow> (Storage \<times> string) result) \<Rightarrow> string
     \<Rightarrow> EnxameClient result" where
  "NewEnxameClient fault identity openStore profile0 =
     (let profile = (if profile0 = [] then ''default'' else profile0) in
      (case identity (identity_file profile) of
         Inl err \<Rightarrow> Inl (''failed to load identity: '' @ err)
       | Inr (privKey, pubKey, nodeID) \<Rightarrow>
           (case openStore (''enxame_'' @ profile @ ''.db'') of
              Inl err \<Rightarrow> Inl (''failed to init storage: '' @ err)
            | Inr (s, dbPath) \<Rightarrow>
                Inr \<lparr>c_nodeID = nodeID, c_privateKey = privKey, c_publicKey = pubKey,
                  c_knownCores = (case GetConfig fault ''known_cores'' s of
                      Inr savedCores \<Rightarrow> if savedCores \<noteq> [] then split_on (CHR '','') savedCores else [''localhost:50051'']
                    | Inl _ \<Rightarrow> [''localhost:50051'']),
                  c_coreConn = None, c_relay = NewRelayClient nodeID pubKey, c_relaysList = [], c_storage = s,
                  c_e2eSessions = Map.empty, c_e2ePendingKeys = Map.empty, c_currentChannel = [],
                  c_channelKeys = Map.empty, c_storageDir = path_join [path_dir dbPath, ''file_transfer''],
                  c_manifests = Map.empty, c_files = Map.empty, c_onMessage = False, c_events = [],
                  c_onGridStatus = False, c_gridEvents = [], c_gridJobs = 0, c_profile = profile,
                  c_authToken = (case GetConfig fault ''auth_token'' s of Inr savedToken \<Rightarrow> savedToken | Inl _ \<Rightarrow> []),
                  c_vaultToken = []\<rparr>)))"

section \<open>The core server\<close>

text \<open>\<open>dial\<close> gives the error of dialling an address, if any; \<open>%w\<close> of a nil error prints as
  below.\<close>

fun connect_loop :: "(string \<Rightarrow> string option) \<Rightarrow> string list \<Rightarrow> string option \<Rightarrow> EnxameClient \<Rightarrow> string option \<times> EnxameClient" where
  "connect_loop dial [] lastErr c =
     (Some (''failed to connect to any core server: '' @ (case lastErr of Some err \<Rightarrow> err | None \<Rightarrow> ''%!w(<nil>)'')), c)"
| "connect_loop dial (addr # addrs) lastErr c =
     (case dial addr of
        Some err \<Rightarrow> connect_loop dial addrs (Some err) c
      | None \<Rightarrow> (None, c\<lparr>c_coreConn := Some addr\<rparr>))"

definition connectToCore :: "(string \<Rightarrow> string option) \<Rightarrow> EnxameClient \<Rightarrow> string option \<times> EnxameClient" where
  "connectToCore dial c = connect_loop dial (c_knownCores c) None c"

definition discoverClusterNodes :: "faults \<Rightarrow> (unit, PeerInfo list) conn \<Rightarrow> EnxameClient \<Rightarrow> EnxameClient" where
  "discoverClusterNodes fault cc c =
     (if c_coreConn c = None then c
      else (case clusterServiceClient_GetClusterNodes cc () of
          Inl _ \<Rightarrow> c
        | Inr nodes \<Rightarrow>
            if nodes = [] then c
            else let newCores = map pi_Address nodes
              in db_ignore (SetConfig fault ''known_cores'' (join (CHR '','') newCores)) (c\<lparr>c_knownCores := newCores\<rparr>)))"

definition register_request :: "bytes \<Rightarrow> EnxameClient \<Rightarrow> RegisterNodeRequest" where
  "register_request sig c =
     \<lparr>rr_Identity = Some \<lparr>id_NodeID = c_nodeID c, id_PublicKey = c_publicKey c, id_Signature = sig\<rparr>,
      rr_Type = 1, rr_Endpoints = [''localhost:0''], rr_Version = ''1.2.0-sdk'',
      rr_Capabilities = [''desktop'', ''e2ee'', ''channels''], rr_Region = ''default''\<rparr>"

definition Client_register ::
    "crypto \<Rightarrow> (RegisterNodeRequest \<Rightarrow> status + RegisterNodeResponse) \<Rightarrow> EnxameClient \<Rightarrow> string option go" where
  "Client_register K rpc c =
     go_bind (ed25519_Sign K (c_privateKey c) (c_nodeID c)) (\<lambda>signature.
       go_bind (call_core c (rpc (register_request signature c))) (\<lambda>out.
         Val (case out of Inl err \<Rightarrow> Some err | Inr resp \<Rightarrow> if \<not> rn_Success resp then Some (rn_Message resp) else None)))"

definition updateRelaysAndConnect ::
    "(GetActiveRelaysRequest \<Rightarrow> status + GetActiveRelaysResponse) \<Rightarrow> EnxameClient \<Rightarrow> (string option \<times> EnxameClient) go" where
  "updateRelaysAndConnect rpc c =
     go_bind (call_core c (rpc \<lparr>gar_PreferredRegion = [], gar_Limit = 5, gar_ExcludeNodeIds = []\<rparr>)) (\<lambda>out.
       Val (case out of Inl err \<Rightarrow> (Some err, c) | Inr resp \<Rightarrow> (None, c\<lparr>c_relaysList := gas_Relays resp\<rparr>)))"

section \<open>Relays\<close>

text \<open>An attempt at a relay: the errors of connecting, what then arrives, and the world of
  the handlers. The loop goes on to the next relay when the connection is lost.\<close>

record attempt =
  at_dialErr :: "string option"
  at_streamErr :: "string option"
  at_sendErr :: "string option"
  at_world :: client_world
  at_recvs :: "(client_world \<times> arrival) list"

definition relay_disconnect :: "EnxameClient \<Rightarrow> EnxameClient" where
  "relay_disconnect c = c\<lparr>c_relay := (c_relay c)\<lparr>rc_connected := False\<rparr>\<rparr>"

text \<open>\<open>ReceiveLoop\<close> with \<open>handleMessage\<close>, each command handled in the world of its arrival; the
  flag says whether the loop has ended.\<close>

fun serve :: "(client_world \<times> arrival) list \<Rightarrow> EnxameClient \<Rightarrow> (bool \<times> EnxameClient) go" where
  "serve [] c = Val (False, c)"
| "serve ((W, r) # rs) c =
     go_bind (receive_loop (handleMessage W) relay_disconnect [r] c) (\<lambda>(ended, c1).
       if ended = None then serve rs c1 else Val (True, c1))"

fun best_relay_loop :: "(attempt \<times> NodeInfo) list \<Rightarrow> EnxameClient \<Rightarrow> EnxameClient go" where
  "best_relay_loop [] c = Val c"
| "best_relay_loop ((a, node) # rest) c =
     (case ni_Endpoints node of
        [] \<Rightarrow> best_relay_loop rest c
      | endpoint # _ \<Rightarrow>
          go_bind (Connect (at_dialErr a) (at_streamErr a) (at_sendErr a) endpoint (c_relay c)) (\<lambda>(err, r).
            let c1 = c\<lparr>c_relay := r\<rparr> in
            if err \<noteq> None then best_relay_loop rest c1
            else go_bind (if c_currentChannel c1 \<noteq> [] then SubscribeToRelayChannel (at_world a) (c_currentChannel c1) c1
                          else Val c1) (\<lambda>c2.
              go_bind (serve (at_recvs a) c2) (\<lambda>(ended, c3).
                if ended then best_relay_loop rest c3 else Val c3))))"

definition connectToBestRelay :: "(nat \<Rightarrow> attempt) \<Rightarrow> EnxameClient \<Rightarrow> EnxameClient go" where
  "connectToBestRelay attempts c =
     best_relay_loop (map (\<lambda>(i, n). (attempts i, n)) (enumerate 0 (c_relaysList c))) c"

fun bootstrap_loop :: "(client_world \<times> NodeInfo) list \<Rightarrow> EnxameClient \<Rightarrow> EnxameClient go" where
  "bootstrap_loop [] c = Val c"
| "bootstrap_loop ((W, node) # rest) c =
     (if id_NodeID (ni_Identity node) = c_nodeID c then bootstrap_loop rest c
      else go_bind (initiateHandshake W (id_NodeID (ni_Identity node)) c) (bootstrap_loop rest))"

definition bootstrapNetwork :: "(nat \<Rightarrow> client_world) \<Rightarrow> EnxameClient \<Rightarrow> EnxameClient go" where
  "bootstrapNetwork worlds c =
     bootstrap_loop (map (\<lambda>(i, n). (worlds i, n)) (enumerate 0 (c_relaysList c))) c"

definition Initialize ::
    "crypto \<Rightarrow> (string \<Rightarrow> string option) \<Rightarrow> (RegisterNodeRequest \<Rightarrow> status + RegisterNodeResponse)
     \<Rightarrow> (GetActiveRelaysRequest \<Rightarrow> status + GetActiveRelaysResponse) \<Rightarrow> EnxameClient \<Rightarrow> (string option \<times> EnxameClient) go" where
  "Initialize K dial rpcRegister rpcRelays c =
     (case connectToCore dial c of
        (Some err, c1) \<Rightarrow> Val (Some err, c1)
      | (None, c1) \<Rightarrow>
          go_bind (Client_register K rpcRegister c1) (\<lambda>err.
            if err \<noteq> None then Val (err, c1) else updateRelaysAndConnect rpcRelays c1))"

definition Client_Close :: "EnxameClient \<Rightarrow> EnxameClient" where
  "Client_Close c = c\<lparr>c_relay := RelayClient_Close (c_relay c)\<rparr>"

section \<open>Grid\<close>

definition grid_status :: "string \<Rightarrow> string \<Rightarrow> EnxameClient \<Rightarrow> EnxameClient" where
  "grid_status st job c = (if c_onGridStatus c then c\<lparr>c_gridEvents := c_gridEvents c @ [(st, job)]\<rparr> else c)"

text \<open>The jobs received on one stream until it fails, and the results submitted for them.\<close>

fun grid_jobs :: "GridJob list \<Rightarrow> EnxameClient \<Rightarrow> SubmitJobResultRequest list \<times> EnxameClient" where
  "grid_jobs [] c = ([], c)"
| "grid_jobs (job # jobs) c =
     (let c1 = grid_status ''Syncing...'' (gj_JobId job) c;
          req = \<lparr>sj_JobId = gj_JobId job, sj_WorkerId = c_nodeID c, sj_Result = [], sj_Success = True\<rparr>;
          c2 = grid_status ''Idle'' [] (c1\<lparr>c_gridJobs := c_gridJobs c1 + 1\<rparr>)
      in (case grid_jobs jobs c2 of (reqs, c3) \<Rightarrow> (req # reqs, c3)))"

text \<open>The worker subscribes again and again until its context ends: a list of the outcomes of
  subscribing.\<close>

fun grid_worker :: "(status + GridJob list) list \<Rightarrow> EnxameClient \<Rightarrow> SubmitJobResultRequest list \<times> EnxameClient" where
  "grid_worker [] c = ([], c)"
| "grid_worker (Inl err # rest) c = grid_worker rest c"
| "grid_worker (Inr jobs # rest) c =
     (case grid_jobs jobs c of
        (reqs, c1) \<Rightarrow> (case grid_worker rest c1 of (reqs', c2) \<Rightarrow> (reqs @ reqs', c2)))"

definition startGridWorker :: "(status + GridJob list) list \<Rightarrow> EnxameClient \<Rightarrow> SubmitJobResultRequest list \<times> EnxameClient" where
  "startGridWorker streams c = (if c_coreConn c = None then ([], c) else grid_worker streams c)"

definition GetGridStats :: "EnxameClient \<Rightarrow> (string \<times> int) list" where
  "GetGridStats c = [(''jobs_processed'', c_gridJobs c), (''uptime_seconds'', 0)]"

section \<open>The session of the user\<close>

definition withAuth :: "EnxameClient \<Rightarrow> string \<Rightarrow> string list" where
  "withAuth c k =
     (if k = ''authorization'' then [''Bearer '' @ c_authToken c]
      else if k = ''x-vault-token'' \<and> c_vaultToken c \<noteq> [] then [c_vaultToken c]
      else [])"

text \<open>The connection, dialled if there is none yet.\<close>

definition getCoreConn :: "(string \<Rightarrow> string option) \<Rightarrow> EnxameClient \<Rightarrow> string option \<times> EnxameClient" where
  "getCoreConn dial c = (if c_coreConn c \<noteq> None then (None, c) else connectToCore dial c)"

definition keep_token :: "faults \<Rightarrow> status + AuthResponse \<Rightarrow> EnxameClient \<Rightarrow> EnxameClient" where
  "keep_token fault out c =
     (case out of
        Inl _ \<Rightarrow> c
      | Inr resp \<Rightarrow>
          if as_Success resp
          then db_ignore (SetConfig fault ''auth_token'' (as_Token resp)) (c\<lparr>c_authToken := as_Token resp\<rparr>)
          else c)"

definition Client_Register ::
    "faults \<Rightarrow> (string \<Rightarrow> string option) \<Rightarrow> (RegisterRequest, AuthResponse) conn \<Rightarrow> RegisterRequest \<Rightarrow> EnxameClient
     \<Rightarrow> (string + AuthResponse) \<times> EnxameClient" where
  "Client_Register fault dial cc req c =
     (case getCoreConn dial c of
        (Some err, c1) \<Rightarrow> (Inl err, c1)
      | (None, c1) \<Rightarrow> let out = authServiceClient_Register cc req
          in (map_sum status_text id out, keep_token fault out c1))"

definition Client_Login ::
    "faults \<Rightarrow> (string \<Rightarrow> string option) \<Rightarrow> (LoginRequest, AuthResponse) conn \<Rightarrow> string \<Rightarrow> string \<Rightarrow> EnxameClient
     \<Rightarrow> (string + AuthResponse) \<times> EnxameClient" where
  "Client_Login fault dial cc email password c =
     (case getCoreConn dial c of
        (Some err, c1) \<Rightarrow> (Inl err, c1)
      | (None, c1) \<Rightarrow> let out = authServiceClient_Login cc \<lparr>lq_Email = email, lq_Password = password\<rparr>
          in (map_sum status_text id out, keep_token fault out c1))"

definition Client_GetMe ::
    "(string \<Rightarrow> string option) \<Rightarrow> ((string \<Rightarrow> string list) \<Rightarrow> (unit, AuthResponse) conn) \<Rightarrow> EnxameClient
     \<Rightarrow> (string + AuthResponse) \<times> EnxameClient" where
  "Client_GetMe dial cc c =
     (case getCoreConn dial c of
        (Some err, c1) \<Rightarrow> (Inl err, c1)
      | (None, c1) \<Rightarrow> (map_sum status_text id (authServiceClient_GetMe (cc (withAuth c1)) ()), c1))"

definition Logout :: "faults \<Rightarrow> EnxameClient \<Rightarrow> EnxameClient" where
  "Logout fault c = db_ignore (SetConfig fault ''auth_token'' []) (c\<lparr>c_authToken := []\<rparr>)"

section \<open>Administration\<close>

type_synonym admin_conn = "(string \<Rightarrow> string list) \<Rightarrow> admin_req \<Rightarrow> status + admin_resp"

definition Client_GetNetworkStats :: "admin_conn \<Rightarrow> EnxameClient \<Rightarrow> (string + admin_resp) go" where
  "Client_GetNetworkStats rpc c = call_core c (rpc (withAuth c) GetNetworkStatsReq)"

definition Client_ListNodes :: "admin_conn \<Rightarrow> int \<Rightarrow> bool \<Rightarrow> int \<Rightarrow> int \<Rightarrow> EnxameClient \<Rightarrow> (string + admin_resp) go" where
  "Client_ListNodes rpc filterType onlineOnly limit offset c =
     call_core c (rpc (withAuth c) (ListNodesReq \<lparr>ln_FilterType = int32 filterType, ln_OnlineOnly = onlineOnly,
       ln_Limit = int32 limit, ln_Offset = int32 offset\<rparr>))"

definition Client_ListUsers :: "admin_conn \<Rightarrow> int \<Rightarrow> int \<Rightarrow> EnxameClient \<Rightarrow> (string + admin_resp) go" where
  "Client_ListUsers rpc limit offset c = call_core c (rpc (withAuth c) (ListUsersReq (int32 limit) (int32 offset)))"

definition Client_UpdateUserRole :: "admin_conn \<Rightarrow> string \<Rightarrow> string \<Rightarrow> EnxameClient \<Rightarrow> (string + admin_resp) go" where
  "Client_UpdateUserRole rpc userID newRole c = call_core c (rpc (withAuth c) (UpdateUserRoleReq userID newRole))"

definition Client_BanNode :: "admin_conn \<Rightarrow> string \<Rightarrow> string \<Rightarrow> int \<Rightarrow> EnxameClient \<Rightarrow> (string + admin_resp) go" where
  "Client_BanNode rpc nodeID reason durationSeconds c =
     call_core c (rpc (withAuth c) (BanNodeReq \<lparr>bn_NodeId = nodeID, bn_Reason = reason,
       bn_DurationSeconds = durationSeconds\<rparr>))"

definition Client_UnbanNode :: "admin_conn \<Rightarrow> string \<Rightarrow> EnxameClient \<Rightarrow> (string + admin_resp) go" where
  "Client_UnbanNode rpc nodeID c = call_core c (rpc (withAuth c) (UnbanNodeReq nodeID))"

definition Client_SendGlobalAlert ::
    "admin_conn \<Rightarrow> string \<Rightarrow> string \<Rightarrow> string \<Rightarrow> string \<Rightarrow> EnxameClient \<Rightarrow> (string + admin_resp) go" where
  "Client_SendGlobalAlert rpc title message severity infoURL c =
     call_core c (rpc (withAuth c) (SendGlobalAlertReq \<lparr>ga_Title = title, ga_Message = message,
       ga_Severity = severity, ga_InfoUrl = infoURL\<rparr>))"

text \<open>The vault token is kept in memory; a goroutine clears it after thirty minutes.\<close>

definition Client_VerifyMasterKey :: "admin_conn \<Rightarrow> string \<Rightarrow> EnxameClient \<Rightarrow> ((string + admin_resp) \<times> EnxameClient) go" where
  "Client_VerifyMasterKey rpc key c =
     go_bind (call_core c (rpc (withAuth c) (VerifyMasterKeyReq key))) (\<lambda>out.
       Val (out, (case out of
          Inr (AdminResp resp) \<Rightarrow> if ad_Success resp then c\<lparr>c_vaultToken := ad_Extra resp\<rparr> else c
        | _ \<Rightarrow> c)))"

definition clear_vault :: "EnxameClient \<Rightarrow> EnxameClient" where
  "clear_vault c = c\<lparr>c_vaultToken := []\<rparr>"

text \<open>The request also names the platform, which the server does not read.\<close>

definition Client_CheckForUpdate ::
    "((string \<Rightarrow> string list) \<Rightarrow> string \<Rightarrow> status + CheckForUpdateResponse) \<Rightarrow> EnxameClient
     \<Rightarrow> (string + CheckForUpdateResponse) go" where
  "Client_CheckForUpdate rpc c = call_core c (rpc (withAuth c) ''1.0.0'')"

end
