(* ===== verification/Client_Machine.thy ===== *)
theory Client_Machine
  imports Client_Core Machine
begin

text \<open>
  The client as a state machine: its operations in any order, each with its own world. The
  invariant is about the roles in the local database: the only statement that writes them
  is \<open>UpsertMember\<close>, and every call of it writes \<open>MEMBER\<close>.
\<close>

section \<open>Effects of sending\<close>

lemma db_ignore_eq: "db_ignore f c = c\<lparr>c_storage := snd (f (c_storage c))\<rparr>"
  by (simp add: db_ignore_def db_def split: prod.split)

text \<open>Every send keeps the client connected and everything but the relay.\<close>

lemma RelayClient_Send_connected:
  "RelayClient_Send sendErr (Some e) r = Val (err, r') \<Longrightarrow> rc_connected r' = rc_connected r"
  by (auto simp: RelayClient_Send_def split: option.splits if_splits)

lemma send_envelope_effect:
  assumes "send_envelope W e c = Val c'"
  shows "\<exists>r. c' = c\<lparr>c_relay := r\<rparr> \<and> rc_connected r = rc_connected (c_relay c)"
proof -
  obtain err r where "RelayClient_Send (cw_sendErr W) (Some e) (c_relay c) = Val (err, r)" "c' = c\<lparr>c_relay := r\<rparr>"
    using assms by (auto simp: send_envelope_def go_Val)
  then show ?thesis using RelayClient_Send_connected by blast
qed

lemma sendPayload_effect:
  assumes "sendPayload W t p c = Val (i, c')"
  shows "i = msg_id (cw_now W)" "\<exists>r. c' = c\<lparr>c_relay := r\<rparr> \<and> rc_connected r = rc_connected (c_relay c)"
  using assms send_envelope_effect
  by (auto simp: sendPayload_def payload_envelope_def go_Val simp del: json_text.simps)

lemma SubscribeToRelayChannel_effect:
  assumes "SubscribeToRelayChannel W ch c = Val c'"
  shows "\<exists>r. c' = c\<lparr>c_relay := r\<rparr> \<and> rc_connected r = rc_connected (c_relay c)"
  using assms send_envelope_effect by (auto simp: SubscribeToRelayChannel_def go_Val simp del: json_text.simps)

lemma initiateHandshake_effect:
  "initiateHandshake W t c = Val c' \<Longrightarrow> c_storage c' = c_storage c"
  using sendPayload_effect(2) by (fastforce simp: initiateHandshake_def go_Val split: sum.splits)

lemma handleKeyExchangeInit_effect:
  "handleKeyExchangeInit W t pub c = Val c' \<Longrightarrow> c_storage c' = c_storage c"
  using sendPayload_effect(2) by (fastforce simp: handleKeyExchangeInit_def go_Val split: sum.splits)

lemma sendSecureMessage_effect:
  "sendSecureMessage W t ty content c = Val c' \<Longrightarrow> c_storage c' = c_storage c"
  using sendPayload_effect(2) initiateHandshake_effect by (fastforce simp: sendSecureMessage_def go_Val split: option.splits)

lemma broadcast_update_effect:
  "broadcast_update W ch ty key data c = Val (r, c') \<Longrightarrow> c_storage c' = c_storage c"
  using sendPayload_effect(2) by (fastforce simp: broadcast_update_def go_Val)

section \<open>The roles in the database\<close>

definition members_ok :: "Storage \<Rightarrow> bool" where
  "members_ok s \<longleftrightarrow> (\<forall>(k, m) \<in> set (s_channel_members s). mb_Role m = ''MEMBER'')"

lemma statement_members [simp]:
  "s_channel_members (snd (StoreMessage f now i a t m s)) = s_channel_members s"
  "s_channel_members (snd (SaveChannelKey f n h s)) = s_channel_members s"
  "s_channel_members (snd (Storage_UpdateChannelAvatar f n av s)) = s_channel_members s"
  "s_channel_members (snd (UpsertDMSession f d p s)) = s_channel_members s"
  "s_channel_members (snd (SaveWikiPage f pg s)) = s_channel_members s"
  "s_channel_members (snd (SetChannelConfig f c k v s)) = s_channel_members s"
  "s_channel_members (snd (CreateTag f tg s)) = s_channel_members s"
  "s_channel_members (snd (AddMessageTag f mt s)) = s_channel_members s"
  "s_channel_members (snd (SetConfig f k v s)) = s_channel_members s"
  by (simp_all add: StoreMessage_def SaveChannelKey_def Storage_UpdateChannelAvatar_def UpsertDMSession_def
      SaveWikiPage_def SetChannelConfig_def CreateTag_def AddMessageTag_def SetConfig_def exec_def split: option.split)

lemma members_ok_cong: "s_channel_members s = s_channel_members t \<Longrightarrow> members_ok s = members_ok t"
  by (simp add: members_ok_def)

lemma set_update: "set (AList.update k v t) \<subseteq> insert (k, v) (set t)"
  by (induction t) auto

lemma UpsertMember_ok:
  assumes "members_ok s"
  shows "members_ok (snd (UpsertMember f now ch n ''MEMBER'' s))"
proof -
  let ?row = "\<lparr>mb_NodeID = n, mb_ChannelID = ch, mb_Role = ''MEMBER'', mb_LastSeen = now\<rparr>"
  have "mb_Role m = ''MEMBER''"
    if "(k, m) \<in> set (sql_upsert (ch, n) ?row (\<lambda>old. old\<lparr>mb_LastSeen := now, mb_Role := ''MEMBER''\<rparr>) (s_channel_members s))" for k m
    using that assms set_update by (fastforce simp: members_ok_def sql_upsert_def split: option.splits)
  then show ?thesis using assms by (auto simp: members_ok_def UpsertMember_def exec_def split: option.split)
qed

definition roles_ok :: "EnxameClient \<Rightarrow> bool" where
  "roles_ok c \<longleftrightarrow> members_ok (c_storage c)"

lemma roles_ok_db [simp]:
  "s_channel_members (snd (f (c_storage c))) = s_channel_members (c_storage c) \<Longrightarrow> roles_ok (db_ignore f c) = roles_ok c"
  by (simp add: roles_ok_def db_ignore_eq members_ok_def)

lemma roles_ok_db' [simp]:
  "s_channel_members (snd (f (c_storage c))) = s_channel_members (c_storage c) \<Longrightarrow> roles_ok (snd (db f c)) = roles_ok c"
  using roles_ok_db [of f c] by (simp add: db_ignore_def)

lemma roles_ok_upsert: "roles_ok c \<Longrightarrow> roles_ok (db_ignore (UpsertMember f now ch n ''MEMBER'') c)"
  by (simp add: roles_ok_def db_ignore_eq UpsertMember_ok)

lemma roles_ok_fields [simp]:
  "roles_ok (c\<lparr>c_channelKeys := ck\<rparr>) = roles_ok c" "roles_ok (c\<lparr>c_manifests := mf\<rparr>) = roles_ok c"
  "roles_ok (c\<lparr>c_files := fs\<rparr>) = roles_ok c" "roles_ok (c\<lparr>c_relay := r\<rparr>) = roles_ok c"
  "roles_ok (c\<lparr>c_currentChannel := cur\<rparr>) = roles_ok c" "roles_ok (notify e c) = roles_ok c"
  "roles_ok (c\<lparr>c_e2eSessions := se\<rparr>) = roles_ok c" "roles_ok (c\<lparr>c_e2ePendingKeys := pk\<rparr>) = roles_ok c"
  by (simp_all add: roles_ok_def notify_def)

text \<open>What holds of the result of a computation, if it returns.\<close>

definition wlp :: "('a \<Rightarrow> bool) \<Rightarrow> 'a go \<Rightarrow> bool" where
  "wlp P m \<longleftrightarrow> (\<forall>x. m = Val x \<longrightarrow> P x)"

lemma wlp_simps [simp]:
  "wlp P (Val x) = P x" "wlp P (Panic p)" "wlp P (go_bind m f) = wlp (\<lambda>x. wlp P (f x)) m"
  by (auto simp: wlp_def go_bind_Val)

lemma wlp_if [simp]: "wlp P (if b then m else n) = (if b then wlp P m else wlp P n)"
  by simp

lemma wlpD: "wlp P m \<Longrightarrow> m = Val x \<Longrightarrow> P x"
  by (simp add: wlp_def)

lemma wlp_sendPayload:
  assumes "\<And>c'. roles_ok c' = roles_ok c \<Longrightarrow> P (msg_id (cw_now W), c')"
  shows "wlp P (sendPayload W t p c)"
  unfolding wlp_def
proof (intro allI impI)
  fix x assume "sendPayload W t p c = Val x"
  moreover obtain i c' where x: "x = (i, c')" by (cases x)
  ultimately have "sendPayload W t p c = Val (i, c')" by simp
  from sendPayload_effect [OF this] assms [of c'] show "P x" by (auto simp: x)
qed

lemma wlp_Subscribe:
  assumes "\<And>c'. roles_ok c' = roles_ok c \<Longrightarrow> P c'"
  shows "wlp P (SubscribeToRelayChannel W ch c)"
  using assms SubscribeToRelayChannel_effect [of W ch c] by (fastforce simp: wlp_def)

lemma wlp_initiateHandshake:
  assumes "\<And>c'. roles_ok c' = roles_ok c \<Longrightarrow> P c'"
  shows "wlp P (initiateHandshake W t c)"
  using assms initiateHandshake_effect [of W t c] by (auto simp: wlp_def roles_ok_def)

lemma wlp_sendSecureMessage:
  assumes "\<And>c'. roles_ok c' = roles_ok c \<Longrightarrow> P c'"
  shows "wlp P (sendSecureMessage W t ty ct c)"
  using assms sendSecureMessage_effect [of W t ty ct c] by (auto simp: wlp_def roles_ok_def)

lemma wlp_broadcast_update:
  assumes "\<And>e c'. roles_ok c' = roles_ok c \<Longrightarrow> P (e, c')"
  shows "wlp P (broadcast_update W ch ty key data c)"
  using assms broadcast_update_effect [of W ch ty key data c] by (auto simp: wlp_def roles_ok_def)

lemma wlp_handleKeyExchangeInit:
  assumes "\<And>c'. roles_ok c' = roles_ok c \<Longrightarrow> P c'"
  shows "wlp P (handleKeyExchangeInit W t pub c)"
  using assms handleKeyExchangeInit_effect [of W t pub c] by (auto simp: wlp_def roles_ok_def)

lemmas wlp_sends = wlp_sendPayload wlp_Subscribe wlp_initiateHandshake wlp_sendSecureMessage wlp_broadcast_update
  wlp_handleKeyExchangeInit

section \<open>Each operation keeps the roles\<close>

lemma key_lookup_roles [simp]:
  "roles_ok (snd (channel_key W ch c)) = roles_ok c"
  "roles_ok (snd (getChannelKey W ch c)) = roles_ok c"
  "roles_ok (snd (send_key W ch c)) = roles_ok c"
  "roles_ok (snd (decryptPayload W sd t ct c)) = roles_ok c"
  "roles_ok (snd (storage_target W t peer c)) = roles_ok c"
  by (simp_all add: channel_key_def getChannelKey_def send_key_def decryptPayload_def storage_target_def Let_def
      split: option.split sum.split prod.split)

lemma wlp_send_chat:
  assumes "\<And>r c'. roles_ok c' = roles_ok c \<Longrightarrow> P (r, c')"
  shows "wlp P (send_chat W t m key c)"
  unfolding send_chat_def
  by (auto simp: case_prod_beta split: sum.split intro!: wlp_sends assms)

lemma SendMessage_roles: "wlp (\<lambda>(r, c'). roles_ok c' = roles_ok c) (SendMessage W t m c)"
  unfolding SendMessage_def
  by (auto simp: case_prod_beta split: option.split intro!: wlp_sends wlp_send_chat)

lemma SendFile_roles: "wlp (\<lambda>(r, c'). roles_ok c' = roles_ok c) (SendFile W opened t path c)"
  unfolding SendFile_def send_manifest_def
  by (auto simp: case_prod_beta Let_def split: sum.split intro!: wlp_sends)

lemma hub_roles:
  "wlp (\<lambda>(r, c'). roles_ok c' = roles_ok c) (Client_SaveWikiPage W ch ti co c)"
  "wlp (\<lambda>(r, c'). roles_ok c' = roles_ok c) (Client_SetChannelConfig W ch k v c)"
  "wlp (\<lambda>(r, c'). roles_ok c' = roles_ok c) (Client_CreateTag W ch n col c)"
  "wlp (\<lambda>(r, c'). roles_ok c' = roles_ok c) (TagMessage W ch mid tid c)"
  by (auto simp: Client_SaveWikiPage_def Client_SetChannelConfig_def Client_CreateTag_def TagMessage_def
      case_prod_beta Let_def split: option.split sum.split intro!: wlp_sends)

lemma channel_roles:
  "wlp (\<lambda>(r, c'). roles_ok c' = roles_ok c) (Client_CreateChannel W cc name c)"
  "wlp (\<lambda>c'. roles_ok c' = roles_ok c) (JoinChannel W ch c)"
  "wlp (\<lambda>(r, c'). roles_ok c' = roles_ok c) (Client_UpdateChannelAvatar W cc' ch av c)"
  by (auto simp: Client_CreateChannel_def JoinChannel_def Client_UpdateChannelAvatar_def call_core_def ed25519_Sign_def
      case_prod_beta Let_def split: option.split sum.split intro!: wlp_sends)

lemma handler_roles:
  "roles_ok (handleKeyExchangeAck W sd pub c) = roles_ok c"
  "roles_ok (handleFilePayload W sd t ct e c) = roles_ok c"
  "roles_ok (handleChunkResponse W ct c) = roles_ok c"
  "roles_ok (handleWikiUpdate W sd t ct c) = roles_ok c"
  "roles_ok (handleMetadataUpdate W sd t ct c) = roles_ok c"
  "roles_ok (handleTagCreated W sd t ct c) = roles_ok c"
  "roles_ok (handleTagAdded W sd t ct c) = roles_ok c"
  by (auto simp: handleKeyExchangeAck_def handleFilePayload_def handleChunkResponse_def handleWikiUpdate_def
      handleMetadataUpdate_def handleTagCreated_def handleTagAdded_def case_prod_beta Let_def
      split: option.split sum.split)

lemma handleChatMessage_roles: "roles_ok c \<Longrightarrow> roles_ok (handleChatMessage W sd t ct e c)"
  by (auto simp: handleChatMessage_def case_prod_beta Let_def roles_ok_upsert split: option.split sum.split)

lemma handler_wlp:
  "roles_ok c \<Longrightarrow> wlp roles_ok (handleKeyExchangeInit W sd pub c)"
  "roles_ok c \<Longrightarrow> wlp roles_ok (handleChannelJoinRequest W sd ct c)"
  "roles_ok c \<Longrightarrow> wlp roles_ok (handleChannelKeyResponse W sd ct c)"
  "roles_ok c \<Longrightarrow> wlp roles_ok (handleChunkRequest W sd ct c)"
  by (auto simp: handleChannelJoinRequest_def handleChannelKeyResponse_def handleChunkRequest_def roles_ok_upsert Let_def
      split: option.split sum.split list.split intro!: wlp_sends)

lemma handleMessage_roles: "roles_ok c \<Longrightarrow> wlp roles_ok (handleMessage W e c)"
  by (simp add: handleMessage_def dispatch_def Let_def handler_roles handleChatMessage_roles handler_wlp
      handleSyncRequest_def handleSyncResponse_def handleFileManifest_def split: option.split)

section \<open>The machine\<close>

inductive client_step :: "EnxameClient \<Rightarrow> EnxameClient \<Rightarrow> bool" where
  step_receive: "handleMessage W e c = Val c' \<Longrightarrow> client_step c c'"
| step_send: "SendMessage W t m c = Val (r, c') \<Longrightarrow> client_step c c'"
| step_handshake: "initiateHandshake W t c = Val c' \<Longrightarrow> client_step c c'"
| step_send_file: "SendFile W opened t path c = Val (r, c') \<Longrightarrow> client_step c c'"
| step_save_file: "SaveFileToDisk W e fid dest c = (r, c') \<Longrightarrow> client_step c c'"
| step_create_channel: "Client_CreateChannel W cc name c = Val (ch, c') \<Longrightarrow> client_step c c'"
| step_join_channel: "JoinChannel W ch c = Val c' \<Longrightarrow> client_step c c'"
| step_wiki: "Client_SaveWikiPage W ch ti co c = Val (r, c') \<Longrightarrow> client_step c c'"
| step_config: "Client_SetChannelConfig W ch k v c = Val (r, c') \<Longrightarrow> client_step c c'"
| step_avatar: "Client_UpdateChannelAvatar W cc' ch av c = Val (r, c') \<Longrightarrow> client_step c c'"
| step_create_tag: "Client_CreateTag W ch n col c = Val (r, c') \<Longrightarrow> client_step c c'"
| step_tag_message: "TagMessage W ch mid tid c = Val (r, c') \<Longrightarrow> client_step c c'"
| step_relay: "Connect e1 e2 e3 ep (c_relay c) = Val (r, rc) \<Longrightarrow> client_step c (c\<lparr>c_relay := rc\<rparr>)"
| step_relays: "updateRelaysAndConnect rpc c = Val (r, c') \<Longrightarrow> client_step c c'"
| step_core: "connectToCore dial c = (r, c') \<Longrightarrow> client_step c c'"
| step_discover: "client_step c (discoverClusterNodes f cn c)"
| step_register: "Client_Register f dial rc' rq c = (resp, c') \<Longrightarrow> client_step c c'"
| step_login: "Client_Login f dial lc email pw c = (resp, c') \<Longrightarrow> client_step c c'"
| step_logout: "client_step c (Logout f c)"
| step_vault: "Client_VerifyMasterKey ac key c = Val (resp, c') \<Longrightarrow> client_step c c'"
| step_vault_timeout: "client_step c (clear_vault c)"
| step_grid: "startGridWorker streams c = (reqs, c') \<Longrightarrow> client_step c c'"

text \<open>A new client on a database without members.\<close>

definition client_start :: "EnxameClient \<Rightarrow> bool" where
  "client_start c \<longleftrightarrow> s_channel_members (c_storage c) = [] \<and>
     (\<exists>fault identity openStore profile. NewEnxameClient fault identity openStore profile = Inr c)"

lemma connect_loop_storage: "connect_loop dial addrs lastErr c = (r, c') \<Longrightarrow> c_storage c' = c_storage c"
  by (induction addrs arbitrary: lastErr) (auto split: option.splits)

lemma getCoreConn_roles: "roles_ok (snd (getCoreConn dial c)) = roles_ok c"
  using connect_loop_storage [of dial "c_knownCores c" None c]
  by (cases "connect_loop dial (c_knownCores c) None c") (simp add: getCoreConn_def connectToCore_def roles_ok_def)

lemma keep_token_roles: "roles_ok (keep_token f out c) = roles_ok c"
  by (simp add: keep_token_def roles_ok_def db_ignore_eq members_ok_def split: sum.split)

lemma grid_storage:
  "c_storage (snd (grid_jobs jobs c)) = c_storage c"
  "c_storage (snd (grid_worker streams c)) = c_storage c"
proof -
  show jobs: "c_storage (snd (grid_jobs jobs c)) = c_storage c" for jobs c
    by (induction jobs arbitrary: c) (simp_all add: Let_def grid_status_def case_prod_beta)
  show "c_storage (snd (grid_worker streams c)) = c_storage c"
  proof (induction streams c rule: grid_worker.induct)
    case (3 jobs rest c)
    then show ?case using jobs [of jobs c] by (auto split: prod.split)
  qed simp_all
qed

lemma core_roles:
  "connectToCore dial c = (r, c') \<Longrightarrow> roles_ok c' = roles_ok c"
  "roles_ok (discoverClusterNodes f cn c) = roles_ok c"
  "Client_Register f dial rc rq c = (resp, c') \<Longrightarrow> roles_ok c' = roles_ok c"
  "Client_Login f dial lc email pw c = (resp, c') \<Longrightarrow> roles_ok c' = roles_ok c"
  "roles_ok (Logout f c) = roles_ok c" "roles_ok (clear_vault c) = roles_ok c"
  "Client_VerifyMasterKey ac key c = Val (resp2, c') \<Longrightarrow> roles_ok c' = roles_ok c"
  "updateRelaysAndConnect rpc c = Val (r, c') \<Longrightarrow> roles_ok c' = roles_ok c"
  "startGridWorker streams c = (reqs, c') \<Longrightarrow> roles_ok c' = roles_ok c"
  "SaveFileToDisk W e fid dest c = (r, c') \<Longrightarrow> roles_ok c' = roles_ok c"
  subgoal using connect_loop_storage by (fastforce simp: connectToCore_def roles_ok_def)
  subgoal by (simp add: discoverClusterNodes_def roles_ok_def db_ignore_eq members_ok_def Let_def split: sum.split)
  subgoal using getCoreConn_roles [of dial c]
    by (auto simp: Client_Register_def keep_token_roles Let_def split: prod.splits option.splits)
  subgoal using getCoreConn_roles [of dial c]
    by (auto simp: Client_Login_def keep_token_roles Let_def split: prod.splits option.splits)
  subgoal by (simp add: Logout_def roles_ok_def db_ignore_eq members_ok_def)
  subgoal by (simp add: clear_vault_def roles_ok_def)
  subgoal by (auto simp: Client_VerifyMasterKey_def go_Val roles_ok_def split: sum.splits admin_resp.splits if_splits)
  subgoal unfolding updateRelaysAndConnect_def go_Val
    by (elim exE conjE) (auto simp: roles_ok_def split: sum.split_asm)
  subgoal using grid_storage(2) [of streams c] by (auto simp: startGridWorker_def roles_ok_def split: if_splits)
  subgoal by (auto simp: SaveFileToDisk_def roles_ok_def split: option.splits prod.splits)
  done

lemma client_step_roles: "client_step c c' \<Longrightarrow> roles_ok c \<Longrightarrow> roles_ok c'"
proof (induction rule: client_step.induct)
  case (step_receive W e c c')
  then show ?case using wlpD [OF handleMessage_roles] by blast
next
  case (step_handshake W t c c')
  then show ?case using initiateHandshake_effect by (fastforce simp: roles_ok_def)
qed (auto dest: core_roles(1,3,4,7,8,9,10) wlpD [OF SendMessage_roles] wlpD [OF SendFile_roles] wlpD [OF hub_roles(1)]
    wlpD [OF hub_roles(2)] wlpD [OF hub_roles(3)] wlpD [OF hub_roles(4)] wlpD [OF channel_roles(1)]
    wlpD [OF channel_roles(2)] wlpD [OF channel_roles(3)] simp: core_roles)

interpretation client: machine client_start client_step roles_ok
proof
  show "roles_ok c" if "client_start c" for c
    using that by (simp add: client_start_def roles_ok_def members_ok_def)
  show "roles_ok c'" if "roles_ok c" "client_step c c'" for c c'
    using that(2,1) by (rule client_step_roles)
qed

section \<open>Property\<close>

text \<open>C35. The administration of a channel is out of reach in the client: whatever sequence of
  operations a client has been through since it started on a database without members,
  every member it lists is a plain member, so setting the configuration of a channel,
  creating a tag and changing the avatar are refused, without any effect, in every channel,
  to the owner as to everybody else.\<close>

theorem hub_administration_unreachable:
  assumes "reachable client_start client_step c"
  shows "Client_SetChannelConfig W ch key val c =
      Val (Some ''permission denied: only ADMIN or OWNER can set channel configuration'', c) \<and>
    Client_CreateTag W ch name color c = Val (Some ''permission denied: only ADMIN or OWNER can create tags'', c) \<and>
    Client_UpdateChannelAvatar W cc ch avatar c =
      Val (Some ''permission denied: only ADMIN or OWNER can update avatar'', c) \<and>
    (case Client_GetChannelMembers W ch c of Inl err \<Rightarrow> True | Inr ms \<Rightarrow> list_all (\<lambda>m. cmb_Role m = ''MEMBER'') ms)"
proof -
  have ok: "\<forall>(k, m) \<in> set (s_channel_members (c_storage c)). mb_Role m = ''MEMBER''"
    using client.reachable_inv [OF assms] by (simp add: roles_ok_def members_ok_def)
  then have role: "mb_Role m = ''MEMBER''" if "GetMember f ch n (c_storage c) = Inr m" for f n m
    using that by (fastforce simp: GetMember_def query_row_def dest: map_of_SomeD split: option.splits)
  then have own: "own_role W ch c \<in> {''USER'', ''MEMBER''}" by (auto simp: own_role_def split: sum.split)
  have "Client_UpdateChannelAvatar W cc ch avatar c =
      Val (Some ''permission denied: only ADMIN or OWNER can update avatar'', c)"
    using role by (auto simp: Client_UpdateChannelAvatar_def Let_def split: sum.split)
  moreover have "case Client_GetChannelMembers W ch c of Inl err \<Rightarrow> True | Inr ms \<Rightarrow> list_all (\<lambda>m. cmb_Role m = ''MEMBER'') ms"
    using ok by (auto simp: Client_GetChannelMembers_def GetChannelMembers_def query_def list_all_iff split: option.split)
  ultimately show ?thesis
    using own by (auto simp: Client_SetChannelConfig_def Client_CreateTag_def Let_def)
qed

theorem hub_administration_unreachable_witness:
  "\<exists>c. reachable client_start client_step c \<and> c_nodeID c = ''n'' \<and>
     (\<forall>W. Client_SetChannelConfig W ''#dev'' ''topic'' ''x'' c =
       Val (Some ''permission denied: only ADMIN or OWNER can set channel configuration'', c))"
proof -
  let ?new = "NewEnxameClient (\<lambda>_. None) (\<lambda>_. Inr ([], [], ''n'')) (\<lambda>_. Inr (empty_storage, ''/d/enxame.db'')) []"
  obtain c where c: "?new = Inr c" "c_nodeID c = ''n''" "c_storage c = empty_storage"
    by (simp add: NewEnxameClient_def)
  then have "client_start c" by (auto simp: client_start_def empty_storage_def)
  then have "reachable client_start client_step c" by (rule reachable.start)
  with hub_administration_unreachable [OF this] c show ?thesis by blast
qed

end
