(* ===== verification/Client_Props.thy ===== *)
theory Client_Props
  imports Client_Machine
begin

text \<open>
  Properties of the client: a direct message reaches the other client after the key
  exchange, what goes wrong with the keys of channels, and files are put together as they
  were cut.
\<close>

section \<open>Sending and receiving\<close>

definition online :: "EnxameClient \<Rightarrow> bool" where
  "online c \<longleftrightarrow> rc_connected (c_relay c) \<and> rc_stream (c_relay c) \<noteq> None"

definition sent :: "EnxameClient \<Rightarrow> NodeCommand list" where
  "sent c = (case rc_stream (c_relay c) of None \<Rightarrow> [] | Some cmds \<Rightarrow> cmds)"

definition push :: "Envelope \<Rightarrow> EnxameClient \<Rightarrow> EnxameClient" where
  "push e c = c\<lparr>c_relay := (c_relay c)\<lparr>rc_stream := Some (sent c @ [envelope_cmd e])\<rparr>\<rparr>"

text \<open>A call in which nothing fails and the clock is in the range of \<open>int64\<close>.\<close>

definition calm :: "crypto \<Rightarrow> cipher \<Rightarrow> client_world \<Rightarrow> bool" where
  "calm K C W \<longleftrightarrow> cw_crypto W = K \<and> cw_cipher W = C \<and> cw_fault W = (\<lambda>_. None) \<and> cw_sendErr W = None \<and>
     in_int64 (cw_now W) \<and> (\<exists>n. cw_nonce W = Inr n \<and> length n = 12)"

lemma calmD:
  assumes "calm K C W"
  shows "cw_crypto W = K" "cw_cipher W = C" "cw_fault W = (\<lambda>_. None)" "cw_sendErr W = None" "in_int64 (cw_now W)"
  using assms by (simp_all add: calm_def)

definition letter :: "client_world \<Rightarrow> string \<Rightarrow> E2EPayload \<Rightarrow> EnxameClient \<Rightarrow> Envelope" where
  "letter W targetID payload c =
     (let data = json_text (JObj (payload_members payload)) in
      \<lparr>MessageId = msg_id (cw_now W), SenderNodeId = c_nodeID c, TargetNodeId = targetID,
       EncryptedPayload = data, Nonce = [], SenderSignature = ed_sign (cw_crypto W) (c_privateKey c) data,
       Timestamp = pb_now (cw_now W), MessageType = MESSAGE_TYPE_CHAT, TtlSeconds = 0, Priority = 0\<rparr>)"

lemma push_simps [simp]:
  "c_nodeID (push e c) = c_nodeID c" "c_privateKey (push e c) = c_privateKey c"
  "c_e2eSessions (push e c) = c_e2eSessions c" "c_e2ePendingKeys (push e c) = c_e2ePendingKeys c"
  "c_storage (push e c) = c_storage c" "c_channelKeys (push e c) = c_channelKeys c"
  "c_onMessage (push e c) = c_onMessage c" "c_events (push e c) = c_events c"
  "c_files (push e c) = c_files c" "c_manifests (push e c) = c_manifests c"
  "c_storageDir (push e c) = c_storageDir c"
  "online (push e c) \<longleftrightarrow> rc_connected (c_relay c)"
  "sent (push e c) = sent c @ [envelope_cmd e]"
  by (simp_all add: push_def online_def sent_def)

lemma letter_simps [simp]:
  "MessageId (letter W t p c) = msg_id (cw_now W)" "SenderNodeId (letter W t p c) = c_nodeID c"
  "TargetNodeId (letter W t p c) = t" "EncryptedPayload (letter W t p c) = json_text (JObj (payload_members p))"
  "Timestamp (letter W t p c) = pb_now (cw_now W)"
  by (simp_all add: letter_def Let_def del: json_text.simps)

lemma send_envelope_online:
  "online c \<Longrightarrow> cw_sendErr W = None \<Longrightarrow> send_envelope W e c = Val (push e c)"
  by (auto simp: send_envelope_def RelayClient_Send_def online_def push_def sent_def)

lemma sendPayload_online:
  assumes "online c" "cw_sendErr W = None" "length (c_privateKey c) = 64"
  shows "sendPayload W t p c = Val (msg_id (cw_now W), push (letter W t p c) c)"
  using assms
  by (simp add: sendPayload_def payload_envelope_def ed25519_Sign_def send_envelope_online letter_def Let_def
      del: json_text.simps)

text \<open>What a client sends arrives as it was sent, and is dispatched by its type.\<close>

lemma pb_now_range:
  assumes "in_int64 now"
  shows "in_int64 (now div second)" "in_int32 (now mod second)"
proof -
  have "0 \<le> now mod second" "now mod second < second" "(2 :: int) ^ 31 = 2147483648" by simp_all
  then show "in_int32 (now mod second)" unfolding in_int32_def by linarith
  show "in_int64 (now div second)" using assms unfolding in_int64_def by simp linarith
qed

lemma letter_ok: "in_int64 (cw_now W) \<Longrightarrow> envelope_ok (letter W t p c)"
  using pb_now_range [of "cw_now W"]
  by (simp add: letter_def envelope_ok_def Let_def pb_now_def in_int32_def MESSAGE_TYPE_CHAT_def del: json_text.simps)

lemma handle_letter: "handleMessage W' (letter W t p c) c' = dispatch W' p (letter W t p c) c'"
  by (simp add: handleMessage_def payload.of_members_members del: json_text.simps)

lemma serve_letter:
  assumes "in_int64 (cw_now W)"
  shows "serve [(W', Cmd (envelope_cmd (letter W t p c)))] c' =
    go_bind (dispatch W' p (letter W t p c) c') (\<lambda>c1. Val (False, c1))"
  using command_round_trip [OF letter_ok [OF assms]]
  by (cases "dispatch W' p (letter W t p c) c'") (simp_all add: handle_letter)

section \<open>Chats\<close>

lemma GetDMChannelID_sym:
  "GetDMChannelID K (c_nodeID b) a = GetDMChannelID K (c_nodeID a) b"
  by (auto simp: GetDMChannelID_def Let_def)

lemma GetDMChannelID_cong: "c_nodeID c = c_nodeID d \<Longrightarrow> GetDMChannelID K t c = GetDMChannelID K t d"
  by (simp add: GetDMChannelID_def)

text \<open>The key exchange. \<open>with_pending\<close> and \<open>with_session\<close> are the states after the two
  assignments.\<close>

definition with_pending :: "string \<Rightarrow> e2e_KeyPair \<Rightarrow> EnxameClient \<Rightarrow> EnxameClient" where
  "with_pending t kp c = c\<lparr>c_e2ePendingKeys := (c_e2ePendingKeys c)(t \<mapsto> kp)\<rparr>"

definition with_session :: "string \<Rightarrow> bytes \<Rightarrow> time \<Rightarrow> EnxameClient \<Rightarrow> EnxameClient" where
  "with_session t k now c =
     c\<lparr>c_e2eSessions := (c_e2eSessions c)(t \<mapsto> \<lparr>se_SharedKey = k, se_CreatedAt = now\<rparr>)\<rparr>"

definition key_pair :: "cipher \<Rightarrow> bytes \<Rightarrow> e2e_KeyPair" where
  "key_pair C p = \<lparr>xk_Private = p, xk_Public = x25519_public C p\<rparr>"

lemma with_simps [simp]:
  "c_nodeID (with_pending t kp c) = c_nodeID c" "c_privateKey (with_pending t kp c) = c_privateKey c"
  "c_storage (with_pending t kp c) = c_storage c" "c_e2eSessions (with_pending t kp c) = c_e2eSessions c"
  "online (with_pending t kp c) = online c" "sent (with_pending t kp c) = sent c"
  "c_nodeID (with_session t k now c) = c_nodeID c" "c_privateKey (with_session t k now c) = c_privateKey c"
  "c_storage (with_session t k now c) = c_storage c" "c_relay (with_session t k now c) = c_relay c"
  "c_onMessage (with_session t k now c) = c_onMessage c" "c_events (with_session t k now c) = c_events c"
  "online (with_session t k now c) = online c" "sent (with_session t k now c) = sent c"
  by (simp_all add: with_pending_def with_session_def online_def sent_def)

lemma initiateHandshake_online:
  assumes "online c" "cw_sendErr W = None" "length (c_privateKey c) = 64" "cw_pair W = Inr p"
  shows "initiateHandshake W t c =
    Val (push (letter W t (plain_payload MsgTypeKeyExchangeInit (x25519_public (cw_cipher W) p)) c)
      (with_pending t (key_pair (cw_cipher W) p) c))"
proof -
  let ?c = "with_pending t (key_pair (cw_cipher W) p) c"
  have "letter W t pl ?c = letter W t pl c" for pl by (simp add: letter_def)
  moreover have "initiateHandshake W t c = go_bind (sendPayload W t
      (plain_payload MsgTypeKeyExchangeInit (x25519_public (cw_cipher W) p)) ?c) (\<lambda>(_, c2). Val c2)"
    using assms(4) by (simp add: initiateHandshake_def GenerateKeyExchangePair_def with_pending_def key_pair_def Let_def)
  ultimately show ?thesis using sendPayload_online [of ?c W] assms by simp
qed

lemma handleKeyExchangeInit_online:
  assumes "online c" "cw_sendErr W = None" "length (c_privateKey c) = 64" "cw_pair W = Inr p"
  shows "handleKeyExchangeInit W s pub c =
    Val (push (letter W s (plain_payload MsgTypeKeyExchangeAck (x25519_public (cw_cipher W) p)) c)
      (with_session s (shared_ignore W p pub) (cw_now W) c))"
proof -
  let ?c = "with_session s (shared_ignore W p pub) (cw_now W) c"
  have "letter W s pl ?c = letter W s pl c" for pl by (simp add: letter_def)
  moreover have "handleKeyExchangeInit W s pub c = go_bind (sendPayload W s
      (plain_payload MsgTypeKeyExchangeAck (x25519_public (cw_cipher W) p)) ?c) (\<lambda>(_, c2). Val c2)"
    using assms(4) by (simp add: handleKeyExchangeInit_def GenerateKeyExchangePair_def with_session_def Let_def)
  ultimately show ?thesis using sendPayload_online [of ?c W] assms by simp
qed

lemma handleKeyExchangeAck_pending:
  assumes "c_e2ePendingKeys c s = Some kp"
  shows "handleKeyExchangeAck W s pub c =
    (with_session s (shared_ignore W (xk_Private kp) pub) (cw_now W) c)
      \<lparr>c_e2ePendingKeys := (c_e2ePendingKeys c)(s := None)\<rparr>"
  using assms by (simp add: handleKeyExchangeAck_def with_session_def)

lemma dispatch_simps:
  "pl_Type p = MsgTypeKeyExchangeInit \<Longrightarrow> dispatch W p e c = handleKeyExchangeInit W (SenderNodeId e) (pl_Content p) c"
  "pl_Type p = MsgTypeKeyExchangeAck \<Longrightarrow> dispatch W p e c = Val (handleKeyExchangeAck W (SenderNodeId e) (pl_Content p) c)"
  "pl_Type p = MsgTypeChat \<Longrightarrow>
     dispatch W p e c = Val (handleChatMessage W (SenderNodeId e) (TargetNodeId e) (pl_Content p) e c)"
  by (simp_all add: dispatch_def MsgType_defs Let_def)

lemma plain_payload_simps [simp]: "pl_Type (plain_payload ty ct) = ty" "pl_Content (plain_payload ty ct) = ct"
  by (simp_all add: plain_payload_def)

text \<open>A message between two clients that share a session key.\<close>

definition filed :: "string \<Rightarrow> string \<Rightarrow> string \<Rightarrow> string \<Rightarrow> time \<Rightarrow> Storage \<Rightarrow> Storage" where
  "filed i sender target content now s =
     snd (StoreMessage (\<lambda>_. None) now i sender target content s)"

lemma send_chat_direct:
  assumes W: "calm K C W" and c: "online c" "length (c_privateKey c) = 64" "\<not> is_channel t"
    and k: "aes_key_ok k" "cw_nonce W = Inr n"
  shows "send_chat W t m k c = Val (None,
    (push (letter W t (plain_payload MsgTypeChat (n @ gcm_seal C k n m)) c) c)\<lparr>c_storage :=
      filed (msg_id (cw_now W)) (c_nodeID c) (GetDMChannelID K t c) m (cw_now W)
        (put_dm (GetDMChannelID K t c) t (c_storage c))\<rparr>)"
proof -
  let ?e = "letter W t (plain_payload MsgTypeChat (n @ gcm_seal C k n m)) c"
  note w = calmD [OF W]
  have "GetDMChannelID K t (push ?e c) = GetDMChannelID K t c" by (rule GetDMChannelID_cong) simp
  then show ?thesis
    unfolding send_chat_def
    by (simp add: w k Encrypt_works sendPayload_online c storage_target_def db_ignore_eq put_dm_def filed_def Let_def)
qed

lemma handleChatMessage_direct:
  assumes W: "calm K C W" and C: "cipher_ok C" and t: "\<not> is_channel t"
    and sess: "c_e2eSessions c s = Some sb" "se_SharedKey sb = k" "aes_key_ok k" and n: "length n = 12"
  shows "handleChatMessage W s t (n @ gcm_seal C k n m) e c =
    notify \<lparr>me_ID = MessageId e, me_SenderID = s, me_TargetID = GetDMChannelID K s c, me_Content = m,
      me_Timestamp = AsTime (Timestamp e), me_IsChannel = False\<rparr>
    (c\<lparr>c_storage := filed (MessageId e) s (GetDMChannelID K s c) m (cw_now W)
        (put_dm (GetDMChannelID K s c) s (c_storage c))\<rparr>)"
proof -
  note w = calmD [OF W]
  have "e2e_Decrypt C k (n @ gcm_seal C k n m) = Inr m"
    by (rule Decrypt_Encrypt [OF C Encrypt_works [OF sess(3)] n])
  then show ?thesis
    by (simp add: handleChatMessage_def w t sess(1,2) storage_target_def db_ignore_eq put_dm_def filed_def Let_def)
qed

text \<open>The row a store adds, unless the id is known.\<close>

lemma filed_new:
  assumes "i \<notin> set (map m_MessageID (s_messages s))"
  shows "\<exists>row. s_messages (filed i sender target content now s) = s_messages s @ [row] \<and>
    m_MessageID row = i \<and> m_SenderID row = sender \<and> m_Target row = target \<and> m_Content row = content"
    "s_dm_sessions (filed i sender target content now s) = s_dm_sessions s"
  using assms by (auto simp: filed_def StoreMessage_def exec_def)

lemma put_dm_simps [simp]:
  "s_messages (put_dm d p s) = s_messages s" "map_of (s_dm_sessions (put_dm d p s)) d = Some p"
  by (simp_all add: put_dm_def UpsertDMSession_def exec_def sql_replace_def map_add_def)

text \<open>Two clients that share a key: each has a session with the other.\<close>

definition paired :: "bytes \<Rightarrow> EnxameClient \<Rightarrow> EnxameClient \<Rightarrow> bool" where
  "paired k A B \<longleftrightarrow> aes_key_ok k \<and>
     map_option se_SharedKey (c_e2eSessions A (c_nodeID B)) = Some k \<and>
     map_option se_SharedKey (c_e2eSessions B (c_nodeID A)) = Some k"

definition same_client :: "EnxameClient \<Rightarrow> EnxameClient \<Rightarrow> bool" where
  "same_client c d \<longleftrightarrow> c_nodeID c = c_nodeID d \<and> c_privateKey c = c_privateKey d \<and> online c = online d \<and>
     c_storage c = c_storage d"

lemma online_IsConnected: "online c \<Longrightarrow> IsConnected (c_relay c)"
  by (simp add: online_def IsConnected_def)

lemma online_relay: "c_relay c = c_relay d \<Longrightarrow> online c = online d"
  by (simp add: online_def)

text \<open>The key exchange, through the transport: the first attempt to send starts it, the other
  client answers, and then both have the same key.\<close>

lemma key_exchange:
  assumes K: "crypto_ok K" and C: "cipher_ok C"
    and W: "calm K C W1" "calm K C W2" "calm K C W3"
    and pairs: "cw_pair W1 = Inr pa" "cw_pair W2 = Inr pb" "x25519_shared C pa (x25519_public C pb) \<noteq> None"
    and A: "online A" "length (c_privateKey A) = 64" "c_e2eSessions A (c_nodeID B) = None"
    and B: "online B" "length (c_privateKey B) = 64" "\<not> is_channel (c_nodeID B)"
  shows "\<exists>k A1 B1 A2.
    SendMessage W1 (c_nodeID B) m A = Val (Some (''initiating handshake with '' @ c_nodeID B @ '', try again''), A1) \<and>
    serve [(W2, Cmd (last (sent A1)))] B = Val (False, B1) \<and>
    serve [(W3, Cmd (last (sent B1)))] A1 = Val (False, A2) \<and>
    paired k A2 B1 \<and> same_client A2 A \<and> same_client B1 B"
proof -
  let ?a = "c_nodeID A" and ?b = "c_nodeID B"
  note w = calmD [OF W(1)] calmD [OF W(2)] calmD [OF W(3)]
  obtain k where k: "DeriveSharedSecret K C pa (x25519_public C pb) = Inr k"
    using pairs(3) C by (auto simp: DeriveSharedSecret_def cipher_ok_def)
  have k': "DeriveSharedSecret K C pb (x25519_public C pa) = Inr k"
    using k DeriveSharedSecret_agree [OF C, of K pa pb] by simp
  let ?L1 = "letter W1 ?b (plain_payload MsgTypeKeyExchangeInit (x25519_public C pa)) A"
  let ?A1 = "push ?L1 (with_pending ?b (key_pair C pa) A)"
  have s1: "SendMessage W1 ?b m A = Val (Some (''initiating handshake with '' @ ?b @ '', try again''), ?A1)"
    using initiateHandshake_online [OF A(1) w(4) A(2) pairs(1), of ?b] A B
    by (simp add: SendMessage_def online_IsConnected w)
  let ?L2 = "letter W2 ?a (plain_payload MsgTypeKeyExchangeAck (x25519_public C pb)) B"
  let ?B1 = "push ?L2 (with_session ?a k (cw_now W2) B)"
  have s2: "serve [(W2, Cmd (last (sent ?A1)))] B = Val (False, ?B1)"
    using handleKeyExchangeInit_online [OF B(1) w(9) B(2) pairs(2), of ?a "x25519_public C pa"]
    by (simp add: serve_letter dispatch_simps shared_ignore_def w k' del: serve.simps)
  let ?A2 = "(with_session ?b k (cw_now W3) ?A1)\<lparr>c_e2ePendingKeys := (c_e2ePendingKeys ?A1)(?b := None)\<rparr>"
  have "c_e2ePendingKeys ?A1 ?b = Some (key_pair C pa)" by (simp add: with_pending_def)
  from handleKeyExchangeAck_pending [OF this, of W3 "x25519_public C pb"]
  have s3: "serve [(W3, Cmd (last (sent ?B1)))] ?A1 = Val (False, ?A2)"
    by (simp add: serve_letter dispatch_simps shared_ignore_def key_pair_def w k del: serve.simps)
  have "paired k ?A2 ?B1"
    using DeriveSharedSecret_key [OF K k] by (simp add: paired_def with_session_def)
  moreover have "same_client ?A2 A"
    using A(1) by (simp add: same_client_def online_def push_def with_pending_def)
  moreover have "same_client ?B1 B"
    using B(1) by (simp add: same_client_def online_def push_def)
  ultimately show ?thesis using s1 s2 s3 by blast
qed

definition has_message :: "string \<Rightarrow> string \<Rightarrow> string \<Rightarrow> string \<Rightarrow> EnxameClient \<Rightarrow> bool" where
  "has_message i sender chat m c \<longleftrightarrow>
     (\<exists>row \<in> set (s_messages (c_storage c)). m_MessageID row = i \<and> m_SenderID row = sender \<and>
        m_Target row = chat \<and> m_Content row = m)"

definition dm_peer :: "string \<Rightarrow> EnxameClient \<Rightarrow> string option" where
  "dm_peer chat c = map_of (s_dm_sessions (c_storage c)) chat"

definition fresh_id :: "client_world \<Rightarrow> EnxameClient \<Rightarrow> bool" where
  "fresh_id W c \<longleftrightarrow> msg_id (cw_now W) \<notin> set (map m_MessageID (s_messages (c_storage c)))"

lemma notify_storage [simp]: "c_storage (notify e c) = c_storage c"
  by (simp add: notify_def)

lemma filed_has_message:
  assumes "i \<notin> set (map m_MessageID (s_messages s))"
    "c_storage c = filed i sender chat m now (put_dm chat peer s)"
  shows "has_message i sender chat m c" "dm_peer chat c = Some peer"
  using assms(2) filed_new [of i "put_dm chat peer s" sender chat m now] assms(1)
  by (auto simp: has_message_def dm_peer_def)

lemma chat_between_paired:
  assumes C: "cipher_ok C" and W: "calm K C W4" "calm K C W5" and k: "paired k A B"
    and A: "online A" "length (c_privateKey A) = 64" "fresh_id W4 A"
    and B: "\<not> is_channel (c_nodeID B)" "fresh_id W4 B"
  shows "\<exists>A3 B2. SendMessage W4 (c_nodeID B) m A = Val (None, A3) \<and>
    serve [(W5, Cmd (last (sent A3)))] B = Val (False, B2) \<and>
    (let chat = GetDMChannelID K (c_nodeID B) A; i = msg_id (cw_now W4)
     in chat = GetDMChannelID K (c_nodeID A) B \<and>
        has_message i (c_nodeID A) chat m A3 \<and> dm_peer chat A3 = Some (c_nodeID B) \<and>
        has_message i (c_nodeID A) chat m B2 \<and> dm_peer chat B2 = Some (c_nodeID A) \<and>
        (c_onMessage B \<longrightarrow> (\<exists>ev. c_events B2 = c_events B @ [ev] \<and> me_ID ev = i \<and> me_TargetID ev = chat \<and>
           me_SenderID ev = c_nodeID A \<and> me_Content ev = m \<and> \<not> me_IsChannel ev)))"
proof -
  let ?a = "c_nodeID A" and ?b = "c_nodeID B" and ?i = "msg_id (cw_now W4)"
  let ?chat = "GetDMChannelID K ?b A"
  note w = calmD [OF W(1)] calmD [OF W(2)]
  have sym: "GetDMChannelID K ?a B = ?chat" by (rule GetDMChannelID_sym)
  obtain n where n: "cw_nonce W4 = Inr n" "length n = 12" using W(1) by (auto simp: calm_def)
  obtain sa sb where sess: "c_e2eSessions A ?b = Some sa" "se_SharedKey sa = k" "c_e2eSessions B ?a = Some sb"
      "se_SharedKey sb = k" "aes_key_ok k"
    using k by (auto simp: paired_def)
  let ?ct = "n @ gcm_seal C k n m"
  let ?L = "letter W4 ?b (plain_payload MsgTypeChat ?ct) A"
  let ?A3 = "(push ?L A)\<lparr>c_storage := filed ?i ?a ?chat m (cw_now W4) (put_dm ?chat ?b (c_storage A))\<rparr>"
  have s4: "SendMessage W4 ?b m A = Val (None, ?A3)"
    using send_chat_direct [OF W(1) A(1,2) B(1) sess(5) n(1)] by (simp add: SendMessage_def online_IsConnected A B sess)
  have "last (sent ?A3) = envelope_cmd ?L" by (simp add: sent_def push_def)
  let ?B2 = "notify \<lparr>me_ID = ?i, me_SenderID = ?a, me_TargetID = ?chat, me_Content = m,
      me_Timestamp = AsTime (Timestamp ?L), me_IsChannel = False\<rparr>
    (B\<lparr>c_storage := filed ?i ?a ?chat m (cw_now W5) (put_dm ?chat ?a (c_storage B))\<rparr>)"
  have s5: "serve [(W5, Cmd (last (sent ?A3)))] B = Val (False, ?B2)"
    unfolding \<open>last (sent ?A3) = envelope_cmd ?L\<close> serve_letter [OF w(5)]
    using handleChatMessage_direct [OF W(2) C B(1) sess(3,4,5) n(2)] by (simp add: dispatch_simps sym)
  have "has_message ?i ?a ?chat m ?A3" "dm_peer ?chat ?A3 = Some ?b"
    using filed_has_message [of ?i "c_storage A" ?A3] A(3) by (simp_all add: fresh_id_def)
  moreover have "has_message ?i ?a ?chat m ?B2" "dm_peer ?chat ?B2 = Some ?a"
    using filed_has_message [of ?i "c_storage B" ?B2] B(2) by (simp_all add: fresh_id_def)
  moreover have "c_onMessage B \<longrightarrow> (\<exists>ev. c_events ?B2 = c_events B @ [ev] \<and> me_ID ev = ?i \<and> me_TargetID ev = ?chat \<and>
      me_SenderID ev = ?a \<and> me_Content ev = m \<and> \<not> me_IsChannel ev)"
    by (simp add: notify_def)
  ultimately show ?thesis
    unfolding Let_def using s4 s5 sym by (intro exI [of _ ?A3] exI [of _ ?B2]) (simp only: simp_thms)
qed

section \<open>Channel messages\<close>

lemma cached_key_unusable:
  assumes "is_channel ch" "IsConnected (c_relay c)" "c_channelKeys c ch \<noteq> None"
  shows "SendMessage W ch m c = Val (Some (''no key for channel '' @ ch), c)"
  using assms by (auto simp: SendMessage_def send_key_def)

lemma send_chat_effect:
  assumes "send_chat W t m key c = Val (None, c')"
  shows "c_channelKeys c' = c_channelKeys c" "rc_connected (c_relay c') = rc_connected (c_relay c)"
proof -
  obtain ct i c1 where "e2e_Encrypt (cw_cipher W) (cw_nonce W) key m = Inr ct"
    and p: "sendPayload W t (plain_payload MsgTypeChat ct) c = Val (i, c1)"
    and c': "c' = db_ignore (StoreMessage (cw_fault W) (cw_now W) i (c_nodeID (snd (storage_target W t t c1)))
      (fst (storage_target W t t c1)) m) (snd (storage_target W t t c1))"
    using assms by (auto simp: send_chat_def go_Val case_prod_beta split: sum.splits)
  then show "c_channelKeys c' = c_channelKeys c" "rc_connected (c_relay c') = rc_connected (c_relay c)"
    using sendPayload_effect(2) [OF p]
    by (auto simp: storage_target_def db_ignore_eq Let_def)
qed

lemma send_to_channel_caches:
  assumes "is_channel ch" "SendMessage W ch m c = Val (None, c')"
  shows "c_channelKeys c' ch \<noteq> None" "IsConnected (c_relay c')"
proof -
  from assms have conn: "rc_connected (c_relay c)" by (auto simp: SendMessage_def IsConnected_def split: if_splits)
  obtain key c1 where k: "send_key W ch c = (key, c1)" by fastforce
  with assms conn have key: "key \<noteq> []" and s: "send_chat W ch m key c1 = Val (None, c')"
    by (auto simp: SendMessage_def IsConnected_def split: if_splits)
  from k key have "c_channelKeys c1 ch \<noteq> None" "c_relay c1 = c_relay c"
    by (auto simp: send_key_def Let_def split: option.splits sum.splits if_splits)
  with send_chat_effect [OF s] conn show "c_channelKeys c' ch \<noteq> None" "IsConnected (c_relay c')"
    by (simp_all add: IsConnected_def)
qed

lemma create_caches:
  assumes "Client_CreateChannel W cc name c = Val (Inr ch, c')"
  shows "c_channelKeys c' ch \<noteq> None" "rc_connected (c_relay c') = rc_connected (c_relay c)"
proof -
  obtain key r where "SubscribeToRelayChannel W ch (c\<lparr>c_storage := r, c_channelKeys := (c_channelKeys c)(ch \<mapsto> key)\<rparr>) = Val c'"
    using assms unfolding Client_CreateChannel_def go_Val db_ignore_eq
    by (elim exE conjE) (auto simp: go_Val split: sum.split_asm if_split_asm)
  from SubscribeToRelayChannel_effect [OF this] show "c_channelKeys c' ch \<noteq> None"
      "rc_connected (c_relay c') = rc_connected (c_relay c)"
    by auto
qed

text \<open>The answer to a join request is sent encrypted, but its receiver does not decrypt it: a
  ciphertext without the separator is dropped, and so the key never arrives; a plain text,
  which anybody can send, sets the key of any channel.\<close>

lemma key_response_not_decrypted:
  assumes "CHR ''|'' \<notin> set content"
  shows "handleChannelKeyResponse W sender content c = Val c"
proof -
  have "dropWhile (\<lambda>x. x \<noteq> CHR ''|'') content = []" using assms by (auto simp: dropWhile_eq_Nil_conv)
  then have "split2 (CHR ''|'') content = [content]" by (simp only: split2_def Let_def list.case)
  then show ?thesis by (simp add: handleChannelKeyResponse_def)
qed

lemma key_response_from_anyone:
  assumes "online c" "cw_sendErr W = None" "length (c_privateKey c) = 64" "CHR ''|'' \<notin> set ch"
  shows "\<exists>c'. handleChannelKeyResponse W sender (ch @ CHR ''|'' # hex_encode k) c = Val c' \<and> c_channelKeys c' ch = Some k"
proof -
  let ?c = "(db_ignore (SaveChannelKey (cw_fault W) ch (hex_encode k)) c)\<lparr>c_channelKeys :=
    (c_channelKeys c)(ch \<mapsto> k)\<rparr>"
  have "online ?c" "length (c_privateKey ?c) = 64" using assms(1,3) by (simp_all add: online_def db_ignore_eq)
  then obtain c' where c': "SubscribeToRelayChannel W ch ?c = Val c'"
    using send_envelope_online assms(2) by (fastforce simp: SubscribeToRelayChannel_def ed25519_Sign_def Let_def simp del: json_text.simps)
  from SubscribeToRelayChannel_effect [OF c'] have "c_channelKeys c' ch = Some k" by auto
  with c' show ?thesis
    by (simp add: handleChannelKeyResponse_def split2_append assms(4) hex_bytes_def Let_def db_ignore_eq notify_def)
qed

text \<open>The name of a chunk comes from the peer: with dots in it, a chunk is written outside the
  directory of the chunks.\<close>

lemma chunk_escapes_directory:
  "chunk_path ''data'' ''../../x'' ''1'' = ''x_1.dat''"
  by code_simp

section \<open>Files\<close>

lemma file_id_no_slash: "CHR ''/'' \<notin> set (file_id now)"
proof -
  have "CHR ''/'' \<notin> set (dec_nat n)" for n using dec_digit_range [of "CHR ''/''" n] by auto
  then show ?thesis by (simp add: file_id_def dec_int_def)
qed

lemma send_manifest_effect:
  assumes "send_manifest W t mf c = Val (None, c')"
  shows "c_files c' = c_files c" "c_storageDir c' = c_storageDir c" "c_manifests c' (fm_FileID mf) = Some mf"
proof -
  obtain target c1 where st: "storage_target W t t c = (target, c1)" by fastforce
  then have c1: "c_files c1 = c_files c" "c_storageDir c1 = c_storageDir c"
    by (auto simp: storage_target_def db_ignore_eq Let_def split: if_splits)
  obtain i c2 pl where p: "sendPayload W t pl c1 = Val (i, c2)"
    and c': "c' = (let c3 = db_ignore (StoreMessage (cw_fault W) (cw_now W) (msg_id (cw_now W)) (c_nodeID c2) target
                  (file_message (fm_FileID mf) (fm_Name mf) (fm_Size mf))) c2
            in c3\<lparr>c_manifests := (c_manifests c3)(fm_FileID mf \<mapsto> mf)\<rparr>)"
    using assms by (auto simp: send_manifest_def st go_Val split: if_splits simp del: json_text.simps)
  from sendPayload_effect(2) [OF p] c1
  show "c_files c' = c_files c" "c_storageDir c' = c_storageDir c" "c_manifests c' (fm_FileID mf) = Some mf"
    unfolding c' by (auto simp: Let_def db_ignore_eq)
qed

text \<open>What is saved consists of chunks with the hashes of the manifest, in its order.\<close>

lemma save_loop_verified:
  "save_loop W outErr dir fileID dest chunks fs = (None, fs') \<Longrightarrow> fs dest = Some out \<Longrightarrow>
     \<exists>ds. map (hash_hex (cw_crypto W)) ds = map cm_Hash chunks \<and> fs' dest = Some (out @ concat ds)"
proof (induction chunks arbitrary: fs out)
  case Nil
  then show ?case by (intro exI [of _ "[]"]) simp
next
  case (Cons chunk chunks)
  then obtain data where d: "hash_hex (cw_crypto W) data = cm_Hash chunk"
    "save_loop W outErr dir fileID dest chunks (fs(dest \<mapsto> out @ data)) = (None, fs')"
    by (auto split: sum.splits if_splits option.splits)
  from Cons.IH [OF d(2), of "out @ data"] obtain ds where
    "map (hash_hex (cw_crypto W)) ds = map cm_Hash chunks" "fs' dest = Some ((out @ data) @ concat ds)" by auto
  with d(1) show ?case by (intro exI [of _ "data # ds"]) simp
qed

lemma SendFile_online:
  assumes "online c" "cw_sendErr W = None" "length (c_privateKey c) = 64" "cw_writeErr W = None"
    and "\<forall>d \<in> set ds. d \<noteq> []" "sz \<le> 10 * 1024 * 1024" "\<not> is_channel t"
    and "c_e2eSessions c t = Some sess" "se_SharedKey sess \<noteq> []"
  shows "\<exists>c'. SendFile W (Inr (sz, map Inr ds)) t path c = Val (None, c')"
proof -
  obtain fs where fs: "chunk_loop W (c_storageDir c) (file_id (cw_now W)) (map Inr ds) 0 [] (c_files c) =
      (Inr (metas (cw_crypto W) 0 ds), fs)"
    using chunk_loop_metas [OF assms(4,5), of "c_storageDir c" "file_id (cw_now W)" 0 "[]" "c_files c"]
    by (cases "chunk_loop W (c_storageDir c) (file_id (cw_now W)) (map Inr ds) 0 [] (c_files c)") simp
  let ?c = "c\<lparr>c_files := fs, c_storage := snd (UpsertDMSession (cw_fault W) (GetDMChannelID (cw_crypto W) t c) t (c_storage c))\<rparr>"
  have "GetDMChannelID (cw_crypto W) t (c\<lparr>c_files := fs\<rparr>) = GetDMChannelID (cw_crypto W) t c"
    by (rule GetDMChannelID_cong) simp
  then have st: "storage_target W t t (c\<lparr>c_files := fs\<rparr>) = (GetDMChannelID (cw_crypto W) t c, ?c)"
    using assms(7) by (simp add: storage_target_def db_ignore_eq Let_def)
  have "online ?c" "length (c_privateKey ?c) = 64" using assms(1,3) by (simp_all add: online_def)
  note send = sendPayload_online [OF this(1) assms(2) this(2)]
  have "file_key W t t ?c = se_SharedKey sess" using assms(7,8) by (simp add: file_key_def)
  then show ?thesis
    using assms(6,9) by (simp add: SendFile_def Let_def fs send_manifest_def st send del: json_text.simps)
qed

section \<open>Examples\<close>

definition ex_client :: "string \<Rightarrow> EnxameClient" where
  "ex_client name = \<lparr>c_nodeID = name, c_privateKey = replicate 64 (CHR ''k''), c_publicKey = [], c_knownCores = [],
     c_coreConn = Some ''core'', c_relay = (NewRelayClient name [])\<lparr>rc_stream := Some [], rc_connected := True\<rparr>,
     c_relaysList = [], c_storage = empty_storage, c_e2eSessions = Map.empty, c_e2ePendingKeys = Map.empty,
     c_currentChannel = [], c_channelKeys = Map.empty, c_storageDir = ''data'', c_manifests = Map.empty,
     c_files = Map.empty, c_onMessage = True, c_events = [], c_onGridStatus = False, c_gridEvents = [], c_gridJobs = 0,
     c_profile = ''default'', c_authToken = [], c_vaultToken = []\<rparr>"

definition ex_cw :: "time \<Rightarrow> client_world" where
  "ex_cw now = \<lparr>cw_crypto = ex_crypto, cw_cipher = toy_cipher, cw_fault = (\<lambda>_. None), cw_sendErr = None,
     cw_writeErr = None, cw_now = now, cw_zone = 0, cw_pair = Inr ''p'', cw_nonce = Inr (replicate 12 (CHR ''n'')),
     cw_rand = replicate 32 (CHR ''r'')\<rparr>"

lemma ex_client_simps [simp]:
  "online (ex_client n)" "length (c_privateKey (ex_client n)) = 64" "c_nodeID (ex_client n) = n"
  "c_e2eSessions (ex_client n) t = None" "fresh_id W (ex_client n)" "c_storageDir (ex_client n) = ''data''"
  "IsConnected (c_relay (ex_client n))" "c_channelKeys (ex_client n) = Map.empty"
  by (simp_all add: ex_client_def online_def fresh_id_def empty_storage_def IsConnected_def)

lemma ex_cw_calm: "in_int64 now \<Longrightarrow> calm ex_crypto toy_cipher (ex_cw now)"
  by (simp add: calm_def ex_cw_def)

section \<open>Properties\<close>

text \<open>C38. Two clients that never talked before and a message between them: the first attempt to
  send only starts the key exchange and asks to try again; when the envelopes of the
  exchange have reached the other side, sending succeeds, and when its envelope has arrived
  both clients hold the message, with the same id, sender and content, under the same chat
  id, and each knows the other as the peer of the chat; the receiver's user interface is
  told. Envelopes travel through the transport codec; secrecy is not claimed.\<close>

theorem direct_message_delivered:
  assumes "crypto_ok K" "cipher_ok C"
    and "calm K C W1" "calm K C W2" "calm K C W3" "calm K C W4" "calm K C W5"
    and "cw_pair W1 = Inr pa" "cw_pair W2 = Inr pb" "x25519_shared C pa (x25519_public C pb) \<noteq> None"
    and "online A" "length (c_privateKey A) = 64" "c_e2eSessions A (c_nodeID B) = None" "fresh_id W4 A"
    and "online B" "length (c_privateKey B) = 64" "\<not> is_channel (c_nodeID B)" "fresh_id W4 B"
  shows "\<exists>A1 B1 A2 A3 B2.
    SendMessage W1 (c_nodeID B) m A = Val (Some (''initiating handshake with '' @ c_nodeID B @ '', try again''), A1) \<and>
    serve [(W2, Cmd (last (sent A1)))] B = Val (False, B1) \<and>
    serve [(W3, Cmd (last (sent B1)))] A1 = Val (False, A2) \<and>
    SendMessage W4 (c_nodeID B) m A2 = Val (None, A3) \<and>
    serve [(W5, Cmd (last (sent A3)))] B1 = Val (False, B2) \<and>
    (let chat = GetDMChannelID K (c_nodeID B) A; i = msg_id (cw_now W4)
     in has_message i (c_nodeID A) chat m A3 \<and> dm_peer chat A3 = Some (c_nodeID B) \<and>
        has_message i (c_nodeID A) chat m B2 \<and> dm_peer chat B2 = Some (c_nodeID A) \<and>
        (c_onMessage B1 \<longrightarrow> (\<exists>ev. c_events B2 = c_events B1 @ [ev] \<and> me_ID ev = i \<and> me_TargetID ev = chat \<and>
           me_SenderID ev = c_nodeID A \<and> me_Content ev = m)))"
proof -
  obtain k A1 B1 A2 where ex:
    "SendMessage W1 (c_nodeID B) m A = Val (Some (''initiating handshake with '' @ c_nodeID B @ '', try again''), A1)"
    "serve [(W2, Cmd (last (sent A1)))] B = Val (False, B1)" "serve [(W3, Cmd (last (sent B1)))] A1 = Val (False, A2)"
    and p: "paired k A2 B1" and same: "same_client A2 A" "same_client B1 B"
    using key_exchange [OF assms(1-5,8-13,15-17), of m] by blast
  from same have ids: "c_nodeID A2 = c_nodeID A" "c_nodeID B1 = c_nodeID B" by (simp_all add: same_client_def)
  have "online A2" "length (c_privateKey A2) = 64" "fresh_id W4 A2" "\<not> is_channel (c_nodeID B1)" "fresh_id W4 B1"
    using same assms by (simp_all add: same_client_def fresh_id_def)
  from chat_between_paired [OF assms(2,6,7) p this, of m] GetDMChannelID_cong [OF ids(1)]
  obtain A3 B2 where "SendMessage W4 (c_nodeID B) m A2 = Val (None, A3)"
    "serve [(W5, Cmd (last (sent A3)))] B1 = Val (False, B2)"
    "let chat = GetDMChannelID K (c_nodeID B) A; i = msg_id (cw_now W4)
     in has_message i (c_nodeID A) chat m A3 \<and> dm_peer chat A3 = Some (c_nodeID B) \<and>
        has_message i (c_nodeID A) chat m B2 \<and> dm_peer chat B2 = Some (c_nodeID A) \<and>
        (c_onMessage B1 \<longrightarrow> (\<exists>ev. c_events B2 = c_events B1 @ [ev] \<and> me_ID ev = i \<and> me_TargetID ev = chat \<and>
           me_SenderID ev = c_nodeID A \<and> me_Content ev = m))"
    unfolding ids Let_def by auto
  with ex show ?thesis by blast
qed

theorem direct_message_delivered_witness:
  "\<exists>A1 B1 A2 A3 B2.
    SendMessage (ex_cw 1) ''bob'' ''hi'' (ex_client ''ada'') = Val (Some ''initiating handshake with bob, try again'', A1) \<and>
    serve [(ex_cw 2, Cmd (last (sent A1)))] (ex_client ''bob'') = Val (False, B1) \<and>
    serve [(ex_cw 3, Cmd (last (sent B1)))] A1 = Val (False, A2) \<and>
    SendMessage (ex_cw 4) ''bob'' ''hi'' A2 = Val (None, A3) \<and>
    serve [(ex_cw 5, Cmd (last (sent A3)))] B1 = Val (False, B2) \<and>
    has_message (msg_id 4) ''ada'' (GetDMChannelID ex_crypto ''bob'' (ex_client ''ada'')) ''hi'' B2"
proof -
  have c: "calm ex_crypto toy_cipher (ex_cw now)" if "now \<in> {1, 2, 3, 4, 5}" for now
    using that by (intro ex_cw_calm) (auto simp: in_int64_def)
  show ?thesis
    using direct_message_delivered [OF ex_crypto_ok toy_cipher_ok c [of 1] c [of 2] c [of 3] c [of 4] c [of 5],
        of "''p''" "''p''" "ex_client ''ada''" "ex_client ''bob''" "''hi''"]
    by (simp add: is_channel_def Let_def ex_cw_def toy_cipher_def del: serve.simps) blast
qed

text \<open>C39. A key that is in the cache is never used for sending: as soon as a client holds the key of
  a channel in memory, every message to that channel is refused for want of a key, and
  nothing is sent. So after one successful message to a channel the next one fails, and the
  creator of a channel cannot send to it at all before a restart.\<close>

theorem channel_send_once:
  assumes "is_channel ch"
  shows "(IsConnected (c_relay c) \<and> c_channelKeys c ch \<noteq> None \<longrightarrow>
      SendMessage W ch m c = Val (Some (''no key for channel '' @ ch), c)) \<and>
    (SendMessage W ch m c = Val (None, c') \<longrightarrow>
      SendMessage W' ch m' c' = Val (Some (''no key for channel '' @ ch), c')) \<and>
    (Client_CreateChannel W cc name c = Val (Inr ch, c') \<and> IsConnected (c_relay c) \<longrightarrow>
      SendMessage W' ch m' c' = Val (Some (''no key for channel '' @ ch), c'))"
proof (intro conjI impI)
  show "SendMessage W' ch m' c' = Val (Some (''no key for channel '' @ ch), c')"
    if "SendMessage W ch m c = Val (None, c')"
    using send_to_channel_caches [OF assms that] cached_key_unusable [OF assms] by blast
  show "SendMessage W' ch m' c' = Val (Some (''no key for channel '' @ ch), c')"
    if "Client_CreateChannel W cc name c = Val (Inr ch, c') \<and> IsConnected (c_relay c)"
    using create_caches [of W cc name c ch c'] that by (intro cached_key_unusable [OF assms]) (simp_all add: IsConnected_def)
qed (simp add: cached_key_unusable [OF assms])

theorem channel_send_once_witness:
  "SendMessage (ex_cw 1) ''#dev'' ''hi'' ((ex_client ''ada'')\<lparr>c_channelKeys := [''#dev'' \<mapsto> ''key'']\<rparr>) =
     Val (Some ''no key for channel #dev'', (ex_client ''ada'')\<lparr>c_channelKeys := [''#dev'' \<mapsto> ''key'']\<rparr>)"
proof -
  let ?c = "(ex_client ''ada'')\<lparr>c_channelKeys := [''#dev'' \<mapsto> ''key'']\<rparr>"
  have "is_channel ''#dev''" "IsConnected (c_relay ?c)" "c_channelKeys ?c ''#dev'' \<noteq> None"
    by (simp_all add: is_channel_def)
  with channel_send_once [of "''#dev''" ?c "ex_cw 1" "''hi''"] show ?thesis by simp
qed

text \<open>C40. Files. When a file was sent (every read of it put into a chunk, no write failing), saving
  it from the local chunks under any path that is not one of the chunks gives the bytes that
  were read. And whatever is on the disk, a file that is saved without an error consists of
  chunks whose hashes are those of the manifest, in its order.\<close>

theorem file_round_trip:
  assumes "SendFile W (Inr (sz, map Inr ds)) target path c = Val (None, c')"
    and "cw_writeErr W = None" "\<forall>d \<in> set ds. d \<noteq> []" "c_storageDir c \<noteq> []"
    and "\<forall>i. dest \<noteq> chunk_path (c_storageDir c) (file_id (cw_now W)) (dec_nat i)"
    and "cw_crypto W' = cw_crypto W" "cw_writeErr W' = None"
  shows "(\<exists>c''. SaveFileToDisk W' None (file_id (cw_now W)) dest c' = (None, c'') \<and> c_files c'' dest = Some (concat ds)) \<and>
    (\<forall>d mf d'. c_manifests d fid = Some mf \<and> SaveFileToDisk W' outErr fid dest d = (None, d') \<longrightarrow>
       (\<exists>ds'. map (hash_hex (cw_crypto W')) ds' = map cm_Hash (fm_Chunks mf) \<and> c_files d' dest = Some (concat ds')))"
proof (intro conjI allI impI)
  let ?dir = "c_storageDir c" and ?fid = "file_id (cw_now W)"
  obtain fs where fs: "chunk_loop W ?dir ?fid (map Inr ds) 0 [] (c_files c) = (Inr (metas (cw_crypto W) 0 ds), fs)"
    using chunk_loop_metas [OF assms(2,3), of ?dir ?fid 0 "[]" "c_files c"]
    by (cases "chunk_loop W ?dir ?fid (map Inr ds) 0 [] (c_files c)") simp
  have st: "stored ?dir ?fid 0 ds fs"
    using chunk_loop_stored [OF assms(4) file_id_no_slash [of "cw_now W"] assms(2,3), of 0 "[]" "c_files c"] fs by simp
  define mf where "mf = \<lparr>fm_FileID = ?fid, fm_Name = path_base path, fm_Size = sz, fm_Chunks = metas (cw_crypto W) 0 ds,
    fm_SenderID = c_nodeID c\<rparr>"
  have "send_manifest W target mf (c\<lparr>c_files := fs\<rparr>) = Val (None, c')"
    using assms(1) fs by (simp add: SendFile_def mf_def Let_def split: if_splits)
  from send_manifest_effect [OF this] have c': "c_files c' = fs" "c_storageDir c' = ?dir" "c_manifests c' ?fid = Some mf"
    by (simp_all add: mf_def)
  have "stored ?dir ?fid 0 ds (fs(dest \<mapsto> []))" using st by (simp add: stored_frame [OF assms(5)])
  moreover have "(fs(dest \<mapsto> [])) dest = Some []" by simp
  moreover obtain err fs' where sl:
    "save_loop W' None ?dir ?fid dest (metas (cw_crypto W) 0 ds) (fs(dest \<mapsto> [])) = (err, fs')" by fastforce
  ultimately have "err = None" "fs' dest = Some (concat ds)"
    using save_loop_stored [OF assms(5), of 0 ds "fs(dest \<mapsto> [])" "[]" W'] assms(6) by simp_all
  then show "\<exists>c''. SaveFileToDisk W' None ?fid dest c' = (None, c'') \<and> c_files c'' dest = Some (concat ds)"
    using assms(7) c' sl by (simp add: SaveFileToDisk_def write_file_def mf_def)
next
  fix d mf d' assume "c_manifests d fid = Some mf \<and> SaveFileToDisk W' outErr fid dest d = (None, d')"
  then have "save_loop W' outErr (c_storageDir d) fid dest (fm_Chunks mf) ((c_files d)(dest \<mapsto> [])) = (None, c_files d')"
    using assms(7) by (auto simp: SaveFileToDisk_def write_file_def split: prod.splits)
  from save_loop_verified [OF this, of "[]"]
  show "\<exists>ds'. map (hash_hex (cw_crypto W')) ds' = map cm_Hash (fm_Chunks mf) \<and> c_files d' dest = Some (concat ds')"
    by simp
qed

theorem file_round_trip_witness:
  "\<exists>c' c''. SendFile (ex_cw 1) (Inr (5, [Inr ''abc'', Inr ''de''])) ''bob'' ''/tmp/f''
       (with_session ''bob'' ''key'' 0 (ex_client ''ada'')) = Val (None, c') \<and>
     SaveFileToDisk (ex_cw 2) None (file_id 1) ''out'' c' = (None, c'') \<and> c_files c'' ''out'' = Some ''abcde''"
proof -
  let ?c = "with_session ''bob'' ''key'' 0 (ex_client ''ada'')"
  have dir: "c_storageDir ?c = ''data''" by (simp add: with_session_def)
  obtain c' where c': "SendFile (ex_cw 1) (Inr (5, map Inr [''abc'', ''de''])) ''bob'' ''/tmp/f'' ?c = Val (None, c')"
    using SendFile_online [of ?c "ex_cw 1" "[''abc'', ''de'']" 5 "''bob''" "\<lparr>se_SharedKey = ''key'', se_CreatedAt = 0\<rparr>" "''/tmp/f''"]
    by (auto simp: ex_cw_def is_channel_def with_session_def online_relay)
  obtain prefix where "\<And>name. plain name \<Longrightarrow> path_join [''data'', ''chunks'', name] = prefix @ CHR ''/'' # name"
    using path_join_plain [of "''data''" "''chunks''" "''a''"] by (auto simp: plain_def)
  then have "chunk_path ''data'' (file_id 1) (dec_nat i) = prefix @ CHR ''/'' # chunk_name (file_id 1) i" for i
    using plain_chunk_name [OF file_id_no_slash] by (simp add: chunk_path_def chunk_name_def)
  then have d: "\<forall>i. ''out'' \<noteq> chunk_path (c_storageDir ?c) (file_id (cw_now (ex_cw 1))) (dec_nat i)"
    unfolding dir by (auto simp: ex_cw_def Cons_eq_append_conv)
  show ?thesis
    using file_round_trip [OF c' _ _ _ d, of "ex_cw 2"] c' by (auto simp: dir) (auto simp: ex_cw_def)
qed

end
