(* ===== verification/Cli.thy ===== *)
theory Cli
  imports Client_Props
begin

text \<open>
  \<^verbatim>\<open>cmd/client/main.go\<close>: the command line client. What it prints is a list of lines; the
  callback prints the events of the client. The connections of the core server are
  arguments, and \<open>None\<close> is the end of the process.
\<close>

section \<open>Output\<close>

definition event_line :: "MessageEvent \<Rightarrow> string go" where
  "event_line evt =
     go_bind (slice_to 8 (me_SenderID evt)) (\<lambda>short.
       Val (if me_IsChannel evt then ''['' @ me_TargetID evt @ ''] '' @ short @ '': '' @ me_Content evt
            else ''P2P ['' @ short @ '']: '' @ me_Content evt))"

text \<open>\<open>Format("15:04")\<close>.\<close>

definition clock_text :: "int \<Rightarrow> time \<Rightarrow> string" where
  "clock_text off t = (let day = (t div second + off) mod 86400
     in pad_dec 2 (nat (day div 3600)) @ '':'' @ pad_dec 2 (nat (day div 60 mod 60)))"

fun history_lines :: "int \<Rightarrow> Message list \<Rightarrow> string list go" where
  "history_lines off [] = Val []"
| "history_lines off (m # ms) =
     go_bind (slice_to 8 (m_SenderID m)) (\<lambda>short.
       go_bind (history_lines off ms) (\<lambda>rest.
         Val ((''HIST ['' @ clock_text off (m_Timestamp m) @ ''] '' @ short @ '': '' @ m_Content m) # rest)))"

section \<open>Input\<close>

text \<open>\<open>strings.Fields\<close> on ASCII white space.\<close>

definition is_white :: "char \<Rightarrow> bool" where
  "is_white c \<longleftrightarrow> c \<in> {CHR '' '', CHR 0x09, CHR 0x0A, CHR 0x0B, CHR 0x0C, CHR 0x0D}"

function str_fields :: "string \<Rightarrow> string list" where
  "str_fields s =
     (case dropWhile is_white s of
        [] \<Rightarrow> []
      | c # r \<Rightarrow> (c # takeWhile (\<lambda>d. \<not> is_white d) r) # str_fields (dropWhile (\<lambda>d. \<not> is_white d) r))"
  by pat_completeness auto
termination
proof (relation "measure length")
  fix s c and r :: string assume "dropWhile is_white s = c # r"
  then have "length r < length s" using length_dropWhile_le [of is_white s] by simp
  then show "(dropWhile (\<lambda>d. \<not> is_white d) r, s) \<in> measure length"
    using length_dropWhile_le [of "\<lambda>d. \<not> is_white d" r] by simp
qed simp

declare str_fields.simps [simp del]

record cli_conns =
  cx_create :: "(CreateChannelRequest, CreateChannelResponse) conn"
  cx_promote :: "(PromoteRequest, GovResponse) conn"
  cx_demote :: "(DemoteRequest, GovResponse) conn"
  cx_kick :: "(DemoteRequest, GovResponse) conn"

type_synonym cli_result = "(string list \<times> EnxameClient) option go"

definition say :: "string list \<Rightarrow> EnxameClient \<Rightarrow> cli_result" where
  "say ls c = Val (Some (ls, c))"

definition cmd_join :: "client_world \<Rightarrow> string \<Rightarrow> EnxameClient \<Rightarrow> cli_result" where
  "cmd_join W ch c =
     go_bind (JoinChannel W ch c) (\<lambda>c1.
       go_bind (history_lines (cw_zone W) (case GetMessages (cw_fault W) ch 50 (c_storage c1) of Inl _ \<Rightarrow> [] | Inr ms \<Rightarrow> ms))
         (\<lambda>hist. say ((''Joined '' @ ch) # hist) c1))"

definition cmd_create :: "client_world \<Rightarrow> cli_conns \<Rightarrow> string \<Rightarrow> EnxameClient \<Rightarrow> cli_result" where
  "cmd_create W cx name c =
     go_bind (Client_CreateChannel W (cx_create cx) name c) (\<lambda>(r, c1).
       (case r of
          Inl err \<Rightarrow> say [''Error creating: '' @ err] c1
        | Inr i \<Rightarrow> go_bind (JoinChannel W i c1) (\<lambda>c2. say [''Channel '' @ i @ '' created!''] c2)))"

definition handleInput :: "client_world \<Rightarrow> cli_conns \<Rightarrow> string \<Rightarrow> EnxameClient \<Rightarrow> cli_result" where
  "handleInput W cx line c =
     (if \<not> has_prefix line ''/'' then
        say [''Please use /to <ID> <msg> or /join <chan> then send (Not fully implemented in simple CLI view)''] c
      else (case str_fields line of
          [] \<Rightarrow> Panic ''index out of range''
        | cmd # args \<Rightarrow>
            if cmd = ''/join'' then
              (if args = [] then say [''Usage: /join <#channel>''] c else cmd_join W (hd args) c)
            else if cmd = ''/create'' then
              (if args = [] then say [] c else cmd_create W cx (hd args) c)
            else if cmd = ''/to'' then
              (if length args < 2 then say [] c
               else go_bind (SendMessage W (hd args) (join (CHR '' '') (tl args)) c) (\<lambda>(err, c1). say [] c1))
            else if cmd = ''/promote'' then
              (if length args < 3 then say [''Usage: /promote <NodeID> <Role> <#channel>''] c
               else go_bind (Client_PromoteUser W (cx_promote cx) (args ! 0) (args ! 1) (args ! 2) c) (\<lambda>err. say [] c))
            else if cmd = ''/demote'' then
              (if length args < 2 then say [''Usage: /demote <NodeID> <#channel>''] c
               else go_bind (Client_DemoteUser W (cx_demote cx) (args ! 0) (args ! 1) c) (\<lambda>err. say [] c))
            else if cmd = ''/kick'' then
              (if length args < 2 then say [''Usage: /kick <NodeID> <#channel>''] c
               else go_bind (Client_KickUser W (cx_kick cx) (args ! 0) (args ! 1) c) (\<lambda>err. say [] c))
            else if cmd = ''/quit'' \<or> cmd = ''/exit'' then Val None
            else say [''Unknown command''] c))"

section \<open>Lemmas\<close>

lemma str_fields_nonempty: "c \<in> set s \<Longrightarrow> \<not> is_white c \<Longrightarrow> str_fields s \<noteq> []"
  by (subst str_fields.simps) (auto split: list.split simp: dropWhile_eq_Nil_conv)

text \<open>A command line never indexes past its fields.\<close>

lemma fields_of_command: "has_prefix line ''/'' \<Longrightarrow> str_fields line \<noteq> []"
  by (rule str_fields_nonempty [of "CHR ''/''"]) (auto simp: is_white_def)

text \<open>The event of a key response has no sender, so printing it panics: with the client's
  handling of such envelopes, any peer can end a command line client.\<close>

lemma key_response_ends_cli:
  assumes "online c" "cw_sendErr W = None" "length (c_privateKey c) = 64" "CHR ''|'' \<notin> set ch" "c_onMessage c"
  shows "\<exists>c' ev. handleChannelKeyResponse W sender (ch @ CHR ''|'' # hex_encode k) c = Val c' \<and>
    c_events c' = c_events c @ [ev] \<and> event_line ev = Panic ''slice bounds out of range''"
proof -
  obtain c' where c': "handleChannelKeyResponse W sender (ch @ CHR ''|'' # hex_encode k) c = Val c'"
    using key_response_from_anyone [OF assms(1-4)] by blast
  then obtain c2 c3 where s: "SubscribeToRelayChannel W ch c2 = Val c3" "c_events c2 = c_events c" "c_onMessage c2"
    "c' = notify \<lparr>me_ID = [], me_SenderID = [], me_TargetID = ch, me_Content = ''Joined '' @ ch,
      me_Timestamp = zero_time, me_IsChannel = True\<rparr> c3"
    using assms(5) by (auto simp: handleChannelKeyResponse_def split2_append assms(4) go_Val db_ignore_eq)
  from SubscribeToRelayChannel_effect [OF s(1)] s(2,3) have "c_events c3 = c_events c" "c_onMessage c3" by auto
  then show ?thesis using c' s(4) by (auto simp: notify_def event_line_def slice_to_def)
qed

end
