(* ===== verification/Gui.thy ===== *)
theory Gui
  imports Cli
begin

text \<open>
  \<^verbatim>\<open>cmd/gui/app.go\<close>: the methods the desktop interface calls. The application holds the
  client, which is nil before \<open>Initialize\<close>; each method reports its result as a text, empty
  (or \<open>success\<close>) when it went well. Errors of queries are ignored. Dialogs are their results.
\<close>

section \<open>Calling the client\<close>

record App =
  app_sdk :: "EnxameClient option"

definition not_initialized :: string where
  "not_initialized = ''SDK not initialized''"

text \<open>Run an operation of the client and report its error, or the text for success.\<close>

definition report ::
    "string \<Rightarrow> (EnxameClient \<Rightarrow> (string option \<times> EnxameClient) go) \<Rightarrow> App \<Rightarrow> (string \<times> App) go" where
  "report done_text f a =
     (case app_sdk a of
        None \<Rightarrow> Val (not_initialized, a)
      | Some c \<Rightarrow>
          go_bind (f c) (\<lambda>(err, c1).
            Val (case err of Some e \<Rightarrow> e | None \<Rightarrow> done_text, a\<lparr>app_sdk := Some c1\<rparr>)))"

text \<open>A query whose error is ignored; \<open>dflt\<close> is the result without a client and \<open>none\<close> the one
  on an error.\<close>

definition ask :: "'a \<Rightarrow> 'a \<Rightarrow> (EnxameClient \<Rightarrow> string + 'a) \<Rightarrow> App \<Rightarrow> 'a" where
  "ask dflt none f a =
     (case app_sdk a of None \<Rightarrow> dflt | Some c \<Rightarrow> (case f c of Inl _ \<Rightarrow> none | Inr x \<Rightarrow> x))"

section \<open>Methods\<close>

definition NewApp :: App where
  "NewApp = \<lparr>app_sdk = None\<rparr>"

definition App_shutdown :: "App \<Rightarrow> App" where
  "App_shutdown a = a\<lparr>app_sdk := map_option Client_Close (app_sdk a)\<rparr>"

text \<open>\<open>new\<close> is the result of creating a client for the profile.\<close>

definition App_Initialize ::
    "(string \<Rightarrow> EnxameClient result) \<Rightarrow> (EnxameClient \<Rightarrow> (string option \<times> EnxameClient) go) \<Rightarrow> string \<Rightarrow> App
     \<Rightarrow> (string \<times> App) go" where
  "App_Initialize new initialize profile a =
     (case new profile of
        Inl err \<Rightarrow> Val (''Error creating client: '' @ err, a)
      | Inr client \<Rightarrow>
          go_bind (initialize (client\<lparr>c_onMessage := True, c_onGridStatus := True\<rparr>)) (\<lambda>(err, c1).
            Val (case err of Some e \<Rightarrow> ''Error connecting: '' @ e | None \<Rightarrow> [], a\<lparr>app_sdk := Some c1\<rparr>)))"

definition App_GetNodeID :: "App \<Rightarrow> string" where
  "App_GetNodeID a = (case app_sdk a of None \<Rightarrow> [] | Some c \<Rightarrow> c_nodeID c)"

definition App_JoinChannel :: "client_world \<Rightarrow> string \<Rightarrow> App \<Rightarrow> (string \<times> App) go" where
  "App_JoinChannel W channel a = report [] (\<lambda>c. go_bind (JoinChannel W channel c) (\<lambda>c1. Val (None, c1))) a"

definition App_GetJoinedChannels :: "client_world \<Rightarrow> App \<Rightarrow> string list" where
  "App_GetJoinedChannels W a = ask [] [] (\<lambda>c. GetAllChannels (cw_fault W) (c_storage c)) a"

definition App_GetRecentChats :: "client_world \<Rightarrow> (time \<Rightarrow> time option) \<Rightarrow> App \<Rightarrow> ChatItem list" where
  "App_GetRecentChats W scan_max a = ask [] [] (\<lambda>c. GetRecentChats (cw_fault W) scan_max (c_storage c)) a"

definition StartDM :: "client_world \<Rightarrow> string \<Rightarrow> App \<Rightarrow> string" where
  "StartDM W targetNodeID a =
     (case app_sdk a of None \<Rightarrow> [] | Some c \<Rightarrow> GetDMChannelID (cw_crypto W) targetNodeID c)"

definition App_GetChannelMembers :: "client_world \<Rightarrow> string \<Rightarrow> App \<Rightarrow> client_Member list" where
  "App_GetChannelMembers W channelID a = ask [] [] (Client_GetChannelMembers W channelID) a"

definition App_SendMessage :: "client_world \<Rightarrow> string \<Rightarrow> string \<Rightarrow> App \<Rightarrow> (string \<times> App) go" where
  "App_SendMessage W targetID message a = report [] (SendMessage W targetID message) a"

definition App_SendFile ::
    "client_world \<Rightarrow> string + int \<times> (string + bytes) list \<Rightarrow> string \<Rightarrow> string \<Rightarrow> App \<Rightarrow> (string \<times> App) go" where
  "App_SendFile W opened targetID filePath a = report [] (SendFile W opened targetID filePath) a"

text \<open>\<open>dialog\<close> is the chosen path (empty when cancelled) or the error of the dialog.\<close>

definition DownloadAttachment ::
    "client_world \<Rightarrow> string option \<Rightarrow> string + string \<Rightarrow> string \<Rightarrow> App \<Rightarrow> string \<times> App" where
  "DownloadAttachment W outErr dialog fileID a =
     (case app_sdk a of
        None \<Rightarrow> (not_initialized, a)
      | Some c \<Rightarrow>
          (case dialog of
             Inl err \<Rightarrow> (err, a)
           | Inr dest \<Rightarrow>
               if dest = [] then (''cancelled'', a)
               else (case SaveFileToDisk W outErr fileID dest c of
                   (Some err, c1) \<Rightarrow> (err, a\<lparr>app_sdk := Some c1\<rparr>)
                 | (None, c1) \<Rightarrow> (''success'', a\<lparr>app_sdk := Some c1\<rparr>))))"

definition App_GetHistory :: "client_world \<Rightarrow> string \<Rightarrow> App \<Rightarrow> Message list" where
  "App_GetHistory W target a = ask [] [] (\<lambda>c. GetMessages (cw_fault W) target 50 (c_storage c)) a"

definition App_PromoteUser ::
    "client_world \<Rightarrow> (PromoteRequest, GovResponse) conn \<Rightarrow> string \<Rightarrow> string \<Rightarrow> string \<Rightarrow> App \<Rightarrow> (string \<times> App) go" where
  "App_PromoteUser W cc target role channel a =
     report [] (\<lambda>c. go_bind (Client_PromoteUser W cc target role channel c) (\<lambda>err. Val (err, c))) a"

definition App_KickUser ::
    "client_world \<Rightarrow> (DemoteRequest, GovResponse) conn \<Rightarrow> string \<Rightarrow> string \<Rightarrow> App \<Rightarrow> (string \<times> App) go" where
  "App_KickUser W cc target channel a =
     report [] (\<lambda>c. go_bind (Client_KickUser W cc target channel c) (\<lambda>err. Val (err, c))) a"

text \<open>The identity file is copied to the chosen path; \<open>copyErr\<close> is the error of copying.\<close>

definition ExportIdentity ::
    "client_world \<Rightarrow> string option \<Rightarrow> string + string \<Rightarrow> App \<Rightarrow> string \<times> App" where
  "ExportIdentity W copyErr dialog a =
     (case app_sdk a of
        None \<Rightarrow> (not_initialized, a)
      | Some c \<Rightarrow>
          (case dialog of
             Inl err \<Rightarrow> (''Cancelled or Error'', a)
           | Inr path \<Rightarrow>
               if path = [] then (''Cancelled or Error'', a)
               else (case read_file (GetIdentityPath c) (c_files c) of
                   Inl err \<Rightarrow> (''Failed to open source: '' @ err, a)
                 | Inr data \<Rightarrow>
                     (case write_file (cw_writeErr W) path [] (c_files c) of
                        (Some err, fs) \<Rightarrow> (''Failed to create destination: '' @ err, a)
                      | (None, fs) \<Rightarrow>
                          (case copyErr of
                             Some err \<Rightarrow> (''Failed to copy: '' @ err, a\<lparr>app_sdk := Some (c\<lparr>c_files := fs\<rparr>)\<rparr>)
                           | None \<Rightarrow> ([], a\<lparr>app_sdk := Some (c\<lparr>c_files := fs(path \<mapsto> data)\<rparr>)\<rparr>))))))"

definition GetRole :: "App \<Rightarrow> string" where
  "GetRole a = ''User (Admin Candidate)''"

definition App_GetGridStats :: "App \<Rightarrow> (string \<times> int) list" where
  "App_GetGridStats a = (case app_sdk a of None \<Rightarrow> [(''jobs_processed'', 0)] | Some c \<Rightarrow> GetGridStats c)"

definition App_SaveWikiPage :: "client_world \<Rightarrow> string \<Rightarrow> string \<Rightarrow> string \<Rightarrow> App \<Rightarrow> (string \<times> App) go" where
  "App_SaveWikiPage W channelID title content a = report ''success'' (Client_SaveWikiPage W channelID title content) a"

definition App_GetWikiPages :: "client_world \<Rightarrow> string \<Rightarrow> App \<Rightarrow> WikiPage list" where
  "App_GetWikiPages W channelID a = ask [] [] (\<lambda>c. GetWikiPages (cw_fault W) channelID (c_storage c)) a"

definition App_SetChannelConfig :: "client_world \<Rightarrow> string \<Rightarrow> string \<Rightarrow> string \<Rightarrow> App \<Rightarrow> (string \<times> App) go" where
  "App_SetChannelConfig W channelID key value a = report ''success'' (Client_SetChannelConfig W channelID key value) a"

definition App_GetChannelConfig :: "client_world \<Rightarrow> string \<Rightarrow> string \<Rightarrow> App \<Rightarrow> string" where
  "App_GetChannelConfig W channelID key a = ask [] [] (\<lambda>c. GetChannelConfig (cw_fault W) channelID key (c_storage c)) a"

definition App_UpdateChannelAvatar ::
    "client_world \<Rightarrow> (UpdateChannelAvatarRequest, GovResponse) conn \<Rightarrow> string \<Rightarrow> string \<Rightarrow> App \<Rightarrow> (string \<times> App) go" where
  "App_UpdateChannelAvatar W cc channelID avatar a = report [] (Client_UpdateChannelAvatar W cc channelID avatar) a"

definition App_CreateTag :: "client_world \<Rightarrow> string \<Rightarrow> string \<Rightarrow> string \<Rightarrow> App \<Rightarrow> (string \<times> App) go" where
  "App_CreateTag W channelID name color a = report ''success'' (Client_CreateTag W channelID name color) a"

definition App_TagMessage :: "client_world \<Rightarrow> string \<Rightarrow> string \<Rightarrow> string \<Rightarrow> App \<Rightarrow> (string \<times> App) go" where
  "App_TagMessage W channelID messageID tagID a = report ''success'' (TagMessage W channelID messageID tagID) a"

definition App_GetTags :: "client_world \<Rightarrow> string \<Rightarrow> App \<Rightarrow> ChannelTag list" where
  "App_GetTags W channelID a = ask [] [] (\<lambda>c. GetTags (cw_fault W) channelID (c_storage c)) a"

definition App_GetMessageTags :: "client_world \<Rightarrow> string \<Rightarrow> App \<Rightarrow> (string \<times> MessageTag list) list" where
  "App_GetMessageTags W channelID a = ask [] [] (\<lambda>c. GetMessageTags (cw_fault W) channelID (c_storage c)) a"

section \<open>Lemmas\<close>

text \<open>Without a client nothing happens; with one, the interface reports exactly the client's
  error.\<close>

lemma report_nil [simp]: "app_sdk a = None \<Longrightarrow> report t f a = Val (not_initialized, a)"
  by (simp add: report_def)

lemma report_client:
  assumes "app_sdk a = Some c" "f c = Val (err, c')"
  shows "report t f a = Val (case err of Some e \<Rightarrow> e | None \<Rightarrow> t, a\<lparr>app_sdk := Some c'\<rparr>)"
  using assms by (simp add: report_def)

end
