(* ===== verification/Client_Net.thy ===== *)
theory Client_Net
  imports Client_Props "HOL-Library.Multiset_Order"
begin

text \<open>
  Clients that answer each other: a network of clients and the commands in flight between
  them. A client that handles an envelope may send at most one other, and the kinds of
  envelopes are ranked so that an answer always has a lower rank than what it answers.
  With the multiset ordering on the ranks in flight, the traffic that follows a user's
  action dies out, however many clients an envelope is distributed to.
\<close>

section \<open>Ranks\<close>

text \<open>Requests are answered by a key exchange or a response, a key exchange by its second half,
  a channel key by a subscription at the relay; nothing else is answered.\<close>

definition type_rank :: "string \<Rightarrow> nat" where
  "type_rank ty =
     (if ty = MsgTypeJoinRequest \<or> ty = MsgTypeChunkRequest then 2
      else if ty = MsgTypeKeyExchangeInit \<or> ty = MsgTypeKeyResponse then 1 else 0)"

definition envelope_rank :: "Envelope \<Rightarrow> nat" where
  "envelope_rank e =
     (case unmarshal_obj payload_of (EncryptedPayload e) of None \<Rightarrow> 0 | Some p \<Rightarrow> type_rank (pl_Type p))"

definition command_rank :: "NodeCommand \<Rightarrow> nat" where
  "command_rank cmd = (case CommandToEnvelope cmd of Inr (Some e) \<Rightarrow> envelope_rank e | _ \<Rightarrow> 0)"

lemma letter_rank: "envelope_rank (letter W t p c) = type_rank (pl_Type p)"
  by (simp add: envelope_rank_def payload.of_members_members del: json_text.simps)

lemma rank_envelope_cmd: "envelope_ok e \<Longrightarrow> command_rank (envelope_cmd e) = envelope_rank e"
  by (simp add: command_rank_def command_round_trip)

section \<open>What a client sends\<close>

text \<open>\<open>replies r c m\<close>: when the computation \<open>m\<close>, started by the client \<open>c\<close>, returns, it has sent at
  most one command, of a rank below \<open>r\<close>.\<close>

definition replied :: "nat \<Rightarrow> EnxameClient \<Rightarrow> EnxameClient \<Rightarrow> bool" where
  "replied r c c' \<longleftrightarrow> sent c' = sent c \<or> (\<exists>cmd. sent c' = sent c @ [cmd] \<and> command_rank cmd < r)"

abbreviation replies :: "nat \<Rightarrow> EnxameClient \<Rightarrow> EnxameClient go \<Rightarrow> bool" where
  "replies r c m \<equiv> wlp (replied r c) m"

lemma replied_refl [simp]: "replied r c c"
  by (simp add: replied_def)

lemma sent_cong: "c_relay c' = c_relay c \<Longrightarrow> sent c' = sent c"
  by (simp add: sent_def)

lemma replied_relay: "c_relay c' = c_relay c \<Longrightarrow> replied r c c'"
  using sent_cong [of c' c] by (simp add: replied_def)

lemma send_envelope_replied:
  assumes "send_envelope W e c = Val c'" "envelope_ok e" "envelope_rank e < r"
  shows "replied r c c'"
proof -
  obtain err r' where "RelayClient_Send (cw_sendErr W) (Some e) (c_relay c) = Val (err, r')" "c' = c\<lparr>c_relay := r'\<rparr>"
    using assms(1) by (auto simp: send_envelope_def go_Val)
  then have "sent c' = sent c \<or> sent c' = sent c @ [envelope_cmd e]"
    using RelayClient_Send_Val [of "cw_sendErr W" e "c_relay c"]
    by (auto simp: sent_def split: option.splits if_splits)
  then show ?thesis using rank_envelope_cmd [OF assms(2)] assms(3) by (auto simp: replied_def)
qed

lemma sendPayload_letter:
  assumes "sendPayload W t p c = Val (i, c')"
  shows "send_envelope W (letter W t p c) c = Val c'"
  using assms
  by (auto simp: sendPayload_def payload_envelope_def ed25519_Sign_def go_Val letter_def Let_def simp del: json_text.simps
      split: if_splits)

lemma sendPayload_replied:
  assumes "in_int64 (cw_now W)" "type_rank (pl_Type p) < r" "c_relay c = c_relay c0"
  shows "wlp (\<lambda>(i, c'). replied r c0 c') (sendPayload W t p c)"
  unfolding wlp_def
proof (intro allI impI)
  fix x assume "sendPayload W t p c = Val x"
  moreover obtain i c' where x: "x = (i, c')" by (cases x)
  ultimately have "send_envelope W (letter W t p c) c = Val c'" using sendPayload_letter by blast
  then have "replied r c c'"
    using send_envelope_replied letter_ok [OF assms(1)] assms(2) by (simp add: letter_rank)
  then show "case x of (i, c') \<Rightarrow> replied r c0 c'"
    using assms(3) by (simp add: x replied_def sent_def)
qed

lemma sends_one:
  assumes "in_int64 (cw_now W)" "c_relay c = c_relay c0"
  shows "1 < r \<Longrightarrow> replies r c0 (initiateHandshake W t c)"
    and "0 < r \<Longrightarrow> replies r c0 (handleKeyExchangeInit W t pub c)"
    and "1 < r \<Longrightarrow> type_rank ty < r \<Longrightarrow> replies r c0 (sendSecureMessage W t ty ct c)"
proof -
  have payload: "wlp (\<lambda>x. replied r c0 (snd x)) (sendPayload W t p c1)"
    if "type_rank (pl_Type p) < r" "c_relay c1 = c_relay c" for p c1 r
    using sendPayload_replied [OF assms(1) that(1), of c1 c0 t] that(2) assms(2) by (simp add: case_prod_unfold)
  have rank: "type_rank MsgTypeKeyExchangeInit = 1" "type_rank MsgTypeKeyExchangeAck = 0"
    by (simp_all add: type_rank_def MsgType_defs)
  show init: "1 < r \<Longrightarrow> replies r c0 (initiateHandshake W t c)" for r
    unfolding initiateHandshake_def
    by (auto simp: case_prod_beta Let_def rank plain_payload_def split: sum.split intro!: payload)
  show "0 < r \<Longrightarrow> replies r c0 (handleKeyExchangeInit W t pub c)"
    unfolding handleKeyExchangeInit_def
    by (auto simp: case_prod_beta Let_def rank plain_payload_def split: sum.split intro!: payload)
  show "1 < r \<Longrightarrow> type_rank ty < r \<Longrightarrow> replies r c0 (sendSecureMessage W t ty ct c)"
    unfolding sendSecureMessage_def
    by (auto simp: case_prod_beta plain_payload_def split: option.split intro!: payload init)
qed

text \<open>The subscription is addressed to the relay; a client that got it would not know its type.\<close>

lemma Subscribe_replied:
  assumes "in_int64 (cw_now W)" "c_relay c = c_relay c0" "0 < r"
  shows "replies r c0 (SubscribeToRelayChannel W ch c)"
proof -
  have "payload_of (relay_command_members m) = Some \<lparr>pl_Type = [], pl_Content = [], pl_IV = []\<rparr>" for m
    by (simp add: payload_of_def relay_command_members_def jfield_Cons_other lower_def)
  then have "type_rank (pl_Type p) = 0"
    if "unmarshal_obj payload_of (json_text (JObj (relay_command_members m))) = Some p" for m p
    using that by (auto simp: type_rank_def MsgType_defs simp del: json_text.simps)
  then show ?thesis
    using send_envelope_replied [of W _ c] pb_now_range [OF assms(1)] assms(2,3)
    by (fastforce simp: wlp_def SubscribeToRelayChannel_def ed25519_Sign_def go_Val Let_def envelope_ok_def
        envelope_rank_def pb_now_def in_int32_def MESSAGE_TYPE_CONTROL_def replied_def sent_def
        simp del: json_text.simps split: if_splits option.splits)
qed

text \<open>The other handlers leave the relay alone.\<close>

lemma relay_kept [simp]:
  "c_relay (db_ignore f c) = c_relay c" "c_relay (notify ev c) = c_relay c"
  "c_relay (snd (channel_key W ch c)) = c_relay c" "c_relay (snd (decryptPayload W sd t ct c)) = c_relay c"
  "c_relay (snd (storage_target W t peer c)) = c_relay c"
  by (simp_all add: db_ignore_eq notify_def channel_key_def decryptPayload_def storage_target_def Let_def
      split: option.split sum.split)

lemma handler_relay:
  "c_relay (handleKeyExchangeAck W sd pub c) = c_relay c"
  "c_relay (handleChatMessage W sd t ct e c) = c_relay c"
  "c_relay (handleFilePayload W sd t ct e c) = c_relay c"
  "c_relay (handleChunkResponse W ct c) = c_relay c"
  "c_relay (handleWikiUpdate W sd t ct c) = c_relay c"
  "c_relay (handleMetadataUpdate W sd t ct c) = c_relay c"
  "c_relay (handleTagCreated W sd t ct c) = c_relay c"
  "c_relay (handleTagAdded W sd t ct c) = c_relay c"
  by (auto simp: handleKeyExchangeAck_def handleChatMessage_def handleFilePayload_def handleChunkResponse_def
      handleWikiUpdate_def handleMetadataUpdate_def handleTagCreated_def handleTagAdded_def case_prod_beta Let_def
      split: option.split sum.split)

lemma handler_replies:
  assumes "in_int64 (cw_now W)"
  shows "replies 2 c (handleChannelJoinRequest W sd ct c)" "replies 2 c (handleChunkRequest W sd ct c)"
    and "replies 1 c (handleChannelKeyResponse W sd ct c)"
proof -
  have rank: "type_rank MsgTypeKeyResponse = 1" "type_rank MsgTypeChunkResponse = 0"
    by (simp_all add: type_rank_def MsgType_defs)
  show "replies 2 c (handleChannelJoinRequest W sd ct c)" "replies 2 c (handleChunkRequest W sd ct c)"
    unfolding handleChannelJoinRequest_def handleChunkRequest_def
    by (auto simp: Let_def rank replied_relay split: option.split sum.split list.split intro!: sends_one(3) [OF assms])
  have "replied r c (notify ev c') = replied r c c'" for r c' ev
    by (simp add: replied_def sent_def)
  then show "replies 1 c (handleChannelKeyResponse W sd ct c)"
    unfolding handleChannelKeyResponse_def
    by (auto simp: Let_def split: list.split intro!: Subscribe_replied [OF assms])
qed

lemma dispatch_replies:
  assumes "in_int64 (cw_now W)"
  shows "replies (type_rank (pl_Type p)) c (dispatch W p e c)"
proof -
  have rank: "type_rank MsgTypeKeyExchangeInit = 1" "type_rank MsgTypeJoinRequest = 2"
    "type_rank MsgTypeKeyResponse = 1" "type_rank MsgTypeChunkRequest = 2"
    by (simp_all add: type_rank_def MsgType_defs)
  show ?thesis
    unfolding dispatch_def Let_def
    by (simp add: rank handler_replies [OF assms] sends_one(2) [OF assms refl] replied_relay [OF handler_relay(1)]
        replied_relay [OF handler_relay(2)] replied_relay [OF handler_relay(3)] replied_relay [OF handler_relay(4)]
        replied_relay [OF handler_relay(5)] replied_relay [OF handler_relay(6)] replied_relay [OF handler_relay(7)]
        replied_relay [OF handler_relay(8)] handleSyncRequest_def handleSyncResponse_def handleFileManifest_def
        del: One_nat_def)
qed

lemma handleMessage_replies:
  "in_int64 (cw_now W) \<Longrightarrow> replies (envelope_rank e) c (handleMessage W e c)"
  by (simp add: handleMessage_def envelope_rank_def dispatch_replies split: option.split)

section \<open>The network\<close>

text \<open>One command of what a client receives.\<close>

definition handle_command :: "client_world \<Rightarrow> NodeCommand \<Rightarrow> EnxameClient \<Rightarrow> (string option \<times> EnxameClient) go" where
  "handle_command W cmd c = receive_loop (handleMessage W) relay_disconnect [Cmd cmd] c"

lemma handle_command_replies:
  assumes "in_int64 (cw_now W)" "handle_command W cmd c = Val (err, c')"
  shows "replied (command_rank cmd) c c'"
  using assms(2) wlpD [OF handleMessage_replies [OF assms(1)]]
  by (auto simp: handle_command_def command_rank_def go_Val split: sum.splits option.splits)

type_synonym network = "(string \<rightharpoonup> EnxameClient) \<times> (string \<times> NodeCommand) multiset"

text \<open>A command that arrives at a client is handled; what the client sends is distributed to any
  number of clients. A handler that panics ends its client. Commands get lost when a queue is
  full or nobody is connected under the target.\<close>

inductive net_step :: "network \<Rightarrow> network \<Rightarrow> bool" where
  deliver: "\<lbrakk> clients n = Some c; in_int64 (cw_now W); handle_command W cmd c = Val (err, c');
     sent c' = sent c @ cmds; snd ` set_mset copies \<subseteq> set cmds \<rbrakk>
    \<Longrightarrow> net_step (clients, add_mset (n, cmd) flight) (clients(n \<mapsto> c'), flight + copies)"
| crash: "\<lbrakk> clients n = Some c; handle_command W cmd c = Panic p \<rbrakk>
    \<Longrightarrow> net_step (clients, add_mset (n, cmd) flight) (clients(n := None), flight)"
| lost: "net_step (clients, add_mset (n, cmd) flight) (clients, flight)"

definition flight_ranks :: "network \<Rightarrow> nat multiset" where
  "flight_ranks s = image_mset (\<lambda>x. command_rank (snd x)) (snd s)"

lemma net_step_decreases: "net_step s t \<Longrightarrow> flight_ranks t < flight_ranks s"
proof (induction rule: net_step.induct)
  case (deliver clients n c W cmd err c' cmds copies flight)
  have "command_rank x < command_rank cmd" if "x \<in> set cmds" for x
    using handle_command_replies [OF deliver(2,3)] deliver(4) that by (auto simp: replied_def)
  then have "image_mset (\<lambda>x. command_rank (snd x)) copies < {#command_rank cmd#}"
    using deliver(5) by (fastforce simp: image_subset_iff intro: ex_gt_imp_less_multiset)
  then show ?case by (simp add: flight_ranks_def)
qed (simp_all add: flight_ranks_def)

text \<open>C13. The traffic between clients dies out: from every state of a network of clients, with any
  commands in flight (also forged ones), every sequence of deliveries and losses is finite.\<close>

theorem traffic_dies_out: "wfp (\<lambda>t s. net_step s t)"
  using wfp_less_multiset [OF wfp_on_less] net_step_decreases
  by (rule wfp_if_convertible_to_wfp)

end
