(* ===== verification/Client_Start.thy ===== *)
theory Client_Start
  imports Client_Core
begin

text \<open>
  A client and its disk: \<open>NewStorage\<close> and \<open>Close\<close> of \<^verbatim>\<open>pkg/storage/sqlite.go\<close>, the start of a
  client on the identity file and the database it finds, and the accessors of
  \<^verbatim>\<open>pkg/client_sdk/client.go\<close> that read its storage. The lemmas say that profiles are separate
  and that a client which is started again is the client that was stopped.
\<close>

section \<open>The storage on disk\<close>

text \<open>A database file: the tables that exist and what they hold.\<close>

record db_file =
  df_tables :: "string list"
  df_data :: Storage

type_synonym disk = "files \<times> (string \<rightharpoonup> db_file)"

record start_world =
  st_crypto :: crypto
  st_gen :: "bytes result"
  st_writeErr :: "string option"
  st_configDir :: "string result"
  st_mkdirErr :: "string \<Rightarrow> string option"
  st_openErr :: "string \<Rightarrow> string option"
  st_faults :: faults

definition app_dir :: "start_world \<Rightarrow> string" where
  "app_dir w = path_join [case st_configDir w of Inl _ \<Rightarrow> ''.'' | Inr d \<Rightarrow> d, ''Enxame'']"

definition db_path :: "start_world \<Rightarrow> string \<Rightarrow> string" where
  "db_path w dbFilename = path_join [app_dir w, if dbFilename = [] then ''messages.db'' else dbFilename]"

definition NewStorage ::
    "start_world \<Rightarrow> string \<Rightarrow> (string \<rightharpoonup> db_file) \<Rightarrow> (Storage \<times> string) result \<times> (string \<rightharpoonup> db_file)" where
  "NewStorage w dbFilename dbs =
     (case st_mkdirErr w (app_dir w) of
         Some err \<Rightarrow> (Inl err, dbs)
       | None \<Rightarrow>
           let dbPath = db_path w dbFilename in
           (case st_openErr w dbPath of
              Some err \<Rightarrow> (Inl err, dbs)
            | None \<Rightarrow>
                let file = (case dbs dbPath of None \<Rightarrow> \<lparr>df_tables = [], df_data = empty_storage\<rparr> | Some f \<Rightarrow> f) in
                (case initSchema (st_faults w) (df_tables file) of
                   (Some err, tables) \<Rightarrow> (Inl err, dbs(dbPath \<mapsto> file\<lparr>df_tables := tables\<rparr>))
                 | (None, tables) \<Rightarrow> (Inr (df_data file, dbPath), dbs(dbPath \<mapsto> file\<lparr>df_tables := tables\<rparr>)))))"

definition DBPath :: "Storage \<times> string \<Rightarrow> string" where
  "DBPath s = snd s"

text \<open>Every statement is in the file when it returns; closing leaves the file as it is.\<close>

definition Storage_Close :: "Storage \<Rightarrow> string \<Rightarrow> (string \<rightharpoonup> db_file) \<Rightarrow> (string \<rightharpoonup> db_file)" where
  "Storage_Close s dbPath dbs =
     (case dbs dbPath of None \<Rightarrow> dbs | Some f \<Rightarrow> dbs(dbPath \<mapsto> f\<lparr>df_data := s\<rparr>))"

section \<open>Starting and stopping a client\<close>

definition profile_name :: "string \<Rightarrow> string" where
  "profile_name profile = (if profile = [] then ''default'' else profile)"

definition profile_db :: "string \<Rightarrow> string" where
  "profile_db profile = ''enxame_'' @ profile_name profile @ ''.db''"

definition start_client :: "start_world \<Rightarrow> string \<Rightarrow> disk \<Rightarrow> EnxameClient result \<times> disk" where
  "start_client w profile d =
     (let path = identity_file (profile_name profile);
          load = loadOrGenerateIdentity (st_crypto w) (fst d path) (st_gen w) (st_writeErr w);
          open_store = NewStorage w (profile_db profile) (snd d)
      in (NewEnxameClient (st_faults w)
            (\<lambda>p. fst (loadOrGenerateIdentity (st_crypto w) (fst d p) (st_gen w) (st_writeErr w)))
            (\<lambda>name. fst (NewStorage w name (snd d))) profile,
          (case snd load of None \<Rightarrow> fst d | Some priv \<Rightarrow> (fst d)(path \<mapsto> priv)),
          (case fst load of Inl _ \<Rightarrow> snd d | Inr _ \<Rightarrow> snd open_store)))"

definition stop_client :: "string \<Rightarrow> EnxameClient \<Rightarrow> disk \<Rightarrow> disk" where
  "stop_client dbPath c d = (fst d, Storage_Close (c_storage (Client_Close c)) dbPath (snd d))"

section \<open>Accessors\<close>

definition SetMessageCallback :: "bool \<Rightarrow> EnxameClient \<Rightarrow> EnxameClient" where
  "SetMessageCallback cb c = c\<lparr>c_onMessage := cb\<rparr>"

definition SetGridCallback :: "bool \<Rightarrow> EnxameClient \<Rightarrow> EnxameClient" where
  "SetGridCallback cb c = c\<lparr>c_onGridStatus := cb\<rparr>"

definition GetNodeID :: "EnxameClient \<Rightarrow> string" where
  "GetNodeID c = c_nodeID c"

definition GetHistory :: "client_world \<Rightarrow> string \<Rightarrow> EnxameClient \<Rightarrow> string + Message list" where
  "GetHistory W target c = GetMessages (cw_fault W) target 50 (c_storage c)"

definition GetJoinedChannels :: "client_world \<Rightarrow> EnxameClient \<Rightarrow> string + string list" where
  "GetJoinedChannels W c = GetAllChannels (cw_fault W) (c_storage c)"

definition Client_GetRecentChats :: "client_world \<Rightarrow> (time \<Rightarrow> time option) \<Rightarrow> EnxameClient \<Rightarrow> string + ChatItem list" where
  "Client_GetRecentChats W scan_max c = GetRecentChats (cw_fault W) scan_max (c_storage c)"

definition Client_GetTags :: "client_world \<Rightarrow> string \<Rightarrow> EnxameClient \<Rightarrow> string + ChannelTag list" where
  "Client_GetTags W channelID c = GetTags (cw_fault W) channelID (c_storage c)"

definition Client_GetMessageTags :: "client_world \<Rightarrow> string \<Rightarrow> EnxameClient \<Rightarrow> string + (string \<times> MessageTag list) list" where
  "Client_GetMessageTags W channelID c = GetMessageTags (cw_fault W) channelID (c_storage c)"

section \<open>Profiles\<close>

text \<open>A plain name in a directory: the path is the name after something that depends on the directory
  only.\<close>

lemma path_join_in_dir:
  assumes "dir \<noteq> []"
  shows "\<exists>prefix. \<forall>name. plain name \<longrightarrow> path_join [dir, name] = prefix @ name"
proof -
  let ?rooted = "has_prefix dir ''/''"
  let ?acc = "fold (clean_step ?rooted) (split_on (CHR ''/'') dir) []"
  let ?prefix = "(if ?rooted then ''/'' else []) @ (if ?acc = [] then [] else join (CHR ''/'') (rev ?acc) @ ''/'')"
  have "path_join [dir, name] = ?prefix @ name" if "plain name" for name
  proof -
    have s: "split_on (CHR ''/'') (dir @ CHR ''/'' # name) = split_on (CHR ''/'') dir @ [name]"
      using that by (simp add: split_on_snoc split_on_free plain_def)
    have r: "has_prefix (dir @ CHR ''/'' # name) ''/'' = ?rooted" using assms by (cases dir) auto
    have "path_join [dir, name] = Clean (dir @ CHR ''/'' # name)"
      using assms that by (simp add: path_join_def plain_def)
    also have "\<dots> = ?prefix @ name"
      using that unfolding Clean_def r s Let_def by (simp add: join_snoc)
    finally show ?thesis .
  qed
  then show ?thesis by blast
qed

lemma app_dir_nonempty: "app_dir w \<noteq> []"
proof -
  have "plain ''Enxame''" by (simp add: plain_def)
  have "path_join [dir, ''Enxame''] \<noteq> []" for dir
  proof (cases "dir = []")
    case True
    moreover have "path_join [[], ''Enxame''] \<noteq> []" by code_simp
    ultimately show ?thesis by simp
  next
    case False
    then show ?thesis using path_join_in_dir [of dir] \<open>plain ''Enxame''\<close> by auto
  qed
  then show ?thesis by (simp add: app_dir_def)
qed

lemma identity_file_inject: "identity_file p = identity_file q \<longleftrightarrow> p = q"
  by (auto simp: identity_file_def)

lemma plain_profile_db: "CHR ''/'' \<notin> set p \<Longrightarrow> plain (profile_db p)"
  by (auto simp: plain_def profile_db_def profile_name_def)

lemma db_path_inject:
  assumes "CHR ''/'' \<notin> set p" "CHR ''/'' \<notin> set q" "db_path w (profile_db p) = db_path w (profile_db q)"
  shows "profile_name p = profile_name q"
proof -
  obtain prefix where "\<And>name. plain name \<Longrightarrow> path_join [app_dir w, name] = prefix @ name"
    using path_join_in_dir [OF app_dir_nonempty] by blast
  moreover have "profile_db p \<noteq> []" "profile_db q \<noteq> []" by (simp_all add: profile_db_def)
  ultimately have "profile_db p = profile_db q" using plain_profile_db assms by (simp add: db_path_def)
  then show ?thesis by (simp add: profile_db_def)
qed

lemma NewStorage_frame: "p \<noteq> db_path w name \<Longrightarrow> snd (NewStorage w name dbs) p = dbs p"
  by (simp add: NewStorage_def Let_def split: option.split prod.split)

text \<open>Starting a client writes to the two files of its profile only: those of every other profile
  with a plain name are what they were.\<close>

lemma start_client_profiles:
  assumes "start_client w p d = (r, d')" "CHR ''/'' \<notin> set p" "CHR ''/'' \<notin> set q" "profile_name p \<noteq> profile_name q"
  shows "fst d' (identity_file (profile_name q)) = fst d (identity_file (profile_name q))"
    and "snd d' (db_path w (profile_db q)) = snd d (db_path w (profile_db q))"
proof -
  have "db_path w (profile_db q) \<noteq> db_path w (profile_db p)" using db_path_inject [OF assms(3,2)] assms(4) by metis
  from NewStorage_frame [OF this] show "snd d' (db_path w (profile_db q)) = snd d (db_path w (profile_db q))"
    using assms(1) by (auto simp: start_client_def Let_def split: sum.split)
  show "fst d' (identity_file (profile_name q)) = fst d (identity_file (profile_name q))"
    using assms(1,4) by (auto simp: start_client_def Let_def identity_file_inject split: option.split)
qed

section \<open>Starting again\<close>

text \<open>A world in which nothing fails.\<close>

definition start_ok :: "start_world \<Rightarrow> bool" where
  "start_ok w \<longleftrightarrow> (\<forall>p. st_mkdirErr w p = None) \<and> (\<forall>p. st_openErr w p = None) \<and> (\<forall>q. st_faults w q = None)"

lemma initSchema_ok: "start_ok w \<Longrightarrow> fst (initSchema (st_faults w) tables) = None"
  using create_tables_no_fault
  by (fastforce simp: start_ok_def initSchema_def split: prod.split option.split)

text \<open>What a started client was made of, and what it leaves on the disk.\<close>

lemma start_client_Inr:
  assumes "start_client w p d = (Inr c, d')"
  shows "fst (loadOrGenerateIdentity (st_crypto w) (fst d (identity_file (profile_name p))) (st_gen w) (st_writeErr w)) =
      Inr (c_privateKey c, c_publicKey c, c_nodeID c)"
    and "fst d' (identity_file (profile_name p)) = Some (c_privateKey c)"
    and "fst (NewStorage w (profile_db p) (snd d)) = Inr (c_storage c, db_path w (profile_db p))"
    and "\<exists>f. snd d' (db_path w (profile_db p)) = Some f \<and> df_data f = c_storage c"
    and "GetConfig (st_faults w) ''auth_token'' (c_storage c) \<in> {Inr (c_authToken c)} \<union> range Inl"
proof -
  let ?load = "loadOrGenerateIdentity (st_crypto w) (fst d (identity_file (profile_name p))) (st_gen w) (st_writeErr w)"
  have new: "NewEnxameClient (st_faults w)
      (\<lambda>p. fst (loadOrGenerateIdentity (st_crypto w) (fst d p) (st_gen w) (st_writeErr w)))
      (\<lambda>name. fst (NewStorage w name (snd d))) p = Inr c"
    and d': "fst d' = (case snd ?load of None \<Rightarrow> fst d | Some priv \<Rightarrow> (fst d)(identity_file (profile_name p) \<mapsto> priv))"
      "snd d' = (case fst ?load of Inl _ \<Rightarrow> snd d | Inr _ \<Rightarrow> snd (NewStorage w (profile_db p) (snd d)))"
    using assms by (auto simp: start_client_def Let_def)
  obtain s path where made: "fst ?load = Inr (c_privateKey c, c_publicKey c, c_nodeID c)"
    "fst (NewStorage w (profile_db p) (snd d)) = Inr (s, path)" "c_storage c = s"
    "c_authToken c = (case GetConfig (st_faults w) ''auth_token'' s of Inr savedToken \<Rightarrow> savedToken | Inl _ \<Rightarrow> [])"
    using new unfolding NewEnxameClient_def profile_name_def [symmetric] Let_def profile_db_def [symmetric]
    by (auto split: sum.splits)
  show "fst ?load = Inr (c_privateKey c, c_publicKey c, c_nodeID c)" by (rule made)
  then show "fst d' (identity_file (profile_name p)) = Some (c_privateKey c)"
    unfolding d'(1) by (auto simp: loadOrGenerateIdentity_def Let_def split: option.splits if_splits sum.splits)
  show "fst (NewStorage w (profile_db p) (snd d)) = Inr (c_storage c, db_path w (profile_db p))"
    using made(2,3) by (auto simp: NewStorage_def Let_def split: option.splits prod.splits)
  then show "\<exists>f. snd d' (db_path w (profile_db p)) = Some f \<and> df_data f = c_storage c"
    unfolding d'(2) made(1) by (auto simp: NewStorage_def Let_def split: option.splits prod.splits)
  show "GetConfig (st_faults w) ''auth_token'' (c_storage c) \<in> {Inr (c_authToken c)} \<union> range Inl"
    using made(3,4) by (auto split: sum.splits)
qed

lemma NewStorage_ok:
  assumes "start_ok w" "dbs (db_path w name) = Some f"
  shows "fst (NewStorage w name dbs) = Inr (df_data f, db_path w name)"
  using assms initSchema_ok [OF assms(1), of "df_tables f"]
  by (auto simp: NewStorage_def start_ok_def Let_def split: prod.split)

lemma db_path_world: "st_configDir w' = st_configDir w \<Longrightarrow> db_path w' name = db_path w name"
  by (simp add: db_path_def app_dir_def)

lemma login_stores_token:
  assumes "\<forall>q. fault q = None" "Client_Login fault dial cc email password c1 = (Inr resp, c2)" "as_Success resp"
  shows "GetConfig fault ''auth_token'' (c_storage c2) = Inr (as_Token resp)"
  using assms
  by (auto simp: Client_Login_def keep_token_def Let_def GetConfig_def SetConfig_def db_ignore_def db_def query_row_def
      split: prod.splits option.splits sum.splits)

text \<open>C14. A client that is started again is the same client: stopped in any later state and started
  with the same profile on the disk it left, it has the node id and the keys it had before, it
  reads the storage it last wrote, and it has the session token that is stored there; a
  token obtained by a login is stored.\<close>

theorem client_restarts:
  assumes "start_client w p d = (Inr c, d')" "length (c_privateKey c) = 64"
    and "start_ok w'" "st_crypto w' = st_crypto w" "st_configDir w' = st_configDir w"
    and "Client_Login (st_faults w') dial cc email password c1 = (Inr resp, c2)" "as_Success resp"
    and "start_client w' p (stop_client (db_path w (profile_db p)) c2 d') = (r, d'')"
  shows "\<exists>c3. r = Inr c3 \<and> c_nodeID c3 = c_nodeID c \<and> c_privateKey c3 = c_privateKey c \<and>
    c_publicKey c3 = c_publicKey c \<and> c_storage c3 = c_storage c2 \<and> c_authToken c3 = as_Token resp"
proof -
  note i = start_client_Inr [OF assms(1)]
  let ?d = "stop_client (db_path w (profile_db p)) c2 d'"
  obtain f where f: "snd ?d (db_path w' (profile_db p)) = Some f" "df_data f = c_storage c2"
    using i(4) db_path_world [OF assms(5)] by (auto simp: stop_client_def Storage_Close_def Client_Close_def)
  have store: "fst (NewStorage w' (profile_db p) (snd ?d)) = Inr (df_data f, db_path w' (profile_db p))"
    by (rule NewStorage_ok) (rule assms(3), rule f(1))
  have key: "fst ?d (identity_file (profile_name p)) = Some (c_privateKey c)" using i(2) by (simp add: stop_client_def)
  have "c_publicKey c = ed_public (st_crypto w) (c_privateKey c) \<and> c_nodeID c = deriveNodeID (st_crypto w) (c_publicKey c)"
    using i(1) by (auto simp: loadOrGenerateIdentity_def Let_def split: option.splits if_splits sum.splits)
  then have load: "fst (loadOrGenerateIdentity (st_crypto w') (fst ?d (identity_file (profile_name p))) (st_gen w') (st_writeErr w')) =
      Inr (c_privateKey c, c_publicKey c, c_nodeID c)"
    unfolding key using assms(2,4) by (simp add: loadOrGenerateIdentity_def)
  have new: "\<exists>c3. NewEnxameClient (st_faults w')
      (\<lambda>q. fst (loadOrGenerateIdentity (st_crypto w') (fst ?d q) (st_gen w') (st_writeErr w')))
      (\<lambda>name. fst (NewStorage w' name (snd ?d))) p = Inr c3"
    unfolding NewEnxameClient_def profile_name_def [symmetric] Let_def profile_db_def [symmetric] load store
    by simp
  then obtain c3 where c3: "start_client w' p ?d = (Inr c3, d'')" "r = Inr c3"
    using assms(8) by (auto simp: start_client_def Let_def)
  note j = start_client_Inr [OF c3(1)]
  have s: "c_storage c3 = c_storage c2" using j(3) store f(2) by simp
  have "GetConfig (st_faults w') ''auth_token'' (c_storage c2) = Inr (as_Token resp)"
    using login_stores_token [OF _ assms(6,7)] assms(3) by (simp add: start_ok_def)
  then have "c_authToken c3 = as_Token resp" using j(5) s by auto
  then show ?thesis using c3(2) s j(1) load by auto
qed

definition ex_start :: start_world where
  "ex_start = \<lparr>st_crypto = ex_crypto, st_gen = Inr (replicate 64 CHR ''k''), st_writeErr = None,
     st_configDir = Inr ''/home/u/.config'', st_mkdirErr = (\<lambda>_. None), st_openErr = (\<lambda>_. None), st_faults = (\<lambda>_. None)\<rparr>"

definition ex_logged_in :: AuthResponse where
  "ex_logged_in = \<lparr>as_Success = True, as_Message = [], as_Token = ''token'', as_User =
     \<lparr>pu_Id = ''1'', pu_Email = ''a'', pu_FullName = [], pu_Nickname = [], pu_Role = ''member''\<rparr>\<rparr>"

lemma ex_first_start:
  "\<exists>c d'. start_client ex_start [] (Map.empty, Map.empty) = (Inr c, d') \<and> length (c_privateKey c) = 64"
proof -
  have "start_ok ex_start" by (simp add: start_ok_def ex_start_def)
  from initSchema_ok [OF this, of "[]"]
  have "\<exists>s path. fst (NewStorage ex_start (profile_db []) Map.empty) = Inr (s, path)"
    using \<open>start_ok ex_start\<close> by (auto simp: NewStorage_def start_ok_def Let_def split: prod.split)
  then obtain s path where n: "fst (NewStorage ex_start (profile_db []) Map.empty) = Inr (s, path)" by blast
  show ?thesis
    unfolding start_client_def NewEnxameClient_def profile_name_def [symmetric] Let_def profile_db_def [symmetric]
    using n by (simp add: loadOrGenerateIdentity_def ex_start_def)
qed

theorem client_restarts_witness:
  "\<exists>c d' c2 c3 d''. start_client ex_start [] (Map.empty, Map.empty) = (Inr c, d') \<and>
    start_client ex_start [] (stop_client (db_path ex_start (profile_db [])) c2 d') = (Inr c3, d'') \<and>
    c_nodeID c3 = c_nodeID c \<and> c_authToken c3 = ''token''"
proof -
  obtain c d' where c: "start_client ex_start [] (Map.empty, Map.empty) = (Inr c, d')" "length (c_privateKey c) = 64"
    using ex_first_start by blast
  have ok: "start_ok ex_start" by (simp add: start_ok_def ex_start_def)
  let ?c1 = "c\<lparr>c_coreConn := Some ''localhost:50051''\<rparr>"
  obtain c2 where login: "Client_Login (st_faults ex_start) (\<lambda>_. None) (\<lambda>_ _. Inr ex_logged_in) ''a'' ''b'' ?c1 = (Inr ex_logged_in, c2)"
    by (simp add: Client_Login_def getCoreConn_def authServiceClient_Login_def invoke_def)
  obtain r d'' where again: "start_client ex_start [] (stop_client (db_path ex_start (profile_db [])) c2 d') = (r, d'')"
    by (rule that) (rule surjective_pairing)
  have "as_Success ex_logged_in" by (simp add: ex_logged_in_def)
  from client_restarts [OF c ok refl refl login this again] obtain c3 where "r = Inr c3" "c_nodeID c3 = c_nodeID c"
    "c_authToken c3 = ''token''" by (auto simp: ex_logged_in_def)
  then show ?thesis using again c(1) by blast
qed

end
