(* ===== verification/Cli_Main.thy ===== *)
theory Cli_Main
  imports Cli Client_Start
begin

text \<open>
  \<open>main\<close> of \<^verbatim>\<open>cmd/client/main.go\<close>: the command line client from its arguments to the signal that
  ends it. The terminal is the list of the lines that are typed, each with the world and the
  connections the client then has; what the goroutines of the client do meanwhile are
  operations of the client's theories.
\<close>

section \<open>The input loop\<close>

text \<open>\<open>strings.TrimSpace\<close> on ASCII white space.\<close>

definition trim_space :: "string \<Rightarrow> string" where
  "trim_space s = rev (dropWhile is_white (rev (dropWhile is_white s)))"

type_synonym cli_input = "(client_world \<times> cli_conns \<times> string) list"

text \<open>The lines printed, the client, and whether a command ended the process.\<close>

fun cli_loop :: "cli_input \<Rightarrow> EnxameClient \<Rightarrow> (string list \<times> EnxameClient \<times> bool) go" where
  "cli_loop [] c = Val ([], c, False)"
| "cli_loop ((W, cx, text) # rest) c =
     (let line = trim_space text in
      if line = [] then go_bind (cli_loop rest c) (\<lambda>(out, c', ended). Val (''> '' # out, c', ended))
      else go_bind (handleInput W cx line c) (\<lambda>r.
        (case r of
           None \<Rightarrow> Val ([], c, True)
         | Some (ls, c1) \<Rightarrow> go_bind (cli_loop rest c1) (\<lambda>(out, c', ended). Val (ls @ ''> '' # out, c', ended)))))"

section \<open>The program\<close>

record cli_world =
  cl_args :: "string list"
  cl_start :: start_world
  cl_nodeidErr :: "string option"
  cl_dial :: "string \<Rightarrow> string option"
  cl_register :: "RegisterNodeRequest \<Rightarrow> status + RegisterNodeResponse"
  cl_relays :: "GetActiveRelaysRequest \<Rightarrow> status + GetActiveRelaysResponse"

datatype cli_end = CliFatal string | CliExited "string list" | CliStopped "string list"

definition cli_profile :: "string list \<Rightarrow> string" where
  "cli_profile args = (if length args > 1 then args ! 1 else ''default'')"

definition cli_main :: "cli_world \<Rightarrow> cli_input \<Rightarrow> disk \<Rightarrow> (cli_end \<times> disk) go" where
  "cli_main w inputs d =
     (let profile = cli_profile (cl_args w); dbPath = db_path (cl_start w) (profile_db profile) in
      (case start_client (cl_start w) profile d of
         (Inl err, d1) \<Rightarrow> Val (CliFatal (''Failed to create client: '' @ err), d1)
       | (Inr c, d1) \<Rightarrow>
           go_bind (slice_to 8 (GetNodeID c)) (\<lambda>short.
             let d2 = (snd (write_file (cl_nodeidErr w) (short @ ''.nodeid'') (GetNodeID c) (fst d1)), snd d1) in
             go_bind (Initialize (st_crypto (cl_start w)) (cl_dial w) (cl_register w) (cl_relays w) (SetMessageCallback True c))
               (\<lambda>(err, c1).
               (case err of
                  Some e \<Rightarrow> Val (CliFatal (''Failed to initialize: '' @ e), stop_client dbPath c1 d2)
                | None \<Rightarrow>
                    go_bind (cli_loop inputs c1) (\<lambda>(out, c2, ended).
                      Val (if ended then CliExited out else CliStopped (''> '' # out), stop_client dbPath c2 d2)))))))"

section \<open>Lemmas\<close>

lemma trim_space_blank: "trim_space s = [] \<longleftrightarrow> (\<forall>c \<in> set s. is_white c)"
proof (cases "dropWhile is_white s")
  case Nil
  then show ?thesis unfolding trim_space_def dropWhile_eq_Nil_conv [symmetric] by (simp only: Nil rev.simps dropWhile.simps)
next
  case (Cons y ys)
  then have "\<not> is_white y" "y \<in> set s" by (auto simp: dropWhile_eq_Cons_conv dest: set_dropWhileD) (metis in_set_conv_decomp set_dropWhileD)
  then show ?thesis using Cons by (auto simp: trim_space_def dropWhile_eq_Nil_conv)
qed

text \<open>What is typed after a command that ends the process is not read.\<close>

lemma cli_loop_quit:
  assumes "trim_space text \<in> {''/quit'', ''/exit''}"
  shows "cli_loop ((W, cx, text) # rest) c = Val ([], c, True)"
proof -
  have "str_fields ''/quit'' = [''/quit'']" "str_fields ''/exit'' = [''/exit'']"
    by (subst str_fields.simps; simp add: is_white_def; subst str_fields.simps; simp)+
  then show ?thesis using assms by (auto simp: handleInput_def)
qed

text \<open>The white space around a line does not matter to its fields.\<close>

lemma str_fields_drop: "str_fields (dropWhile is_white s) = str_fields s"
  by (subst (1 2) str_fields.simps) simp

lemma str_fields_white: "\<forall>c \<in> set w. is_white c \<Longrightarrow> str_fields (s @ w) = str_fields s"
proof (induction s rule: str_fields.induct)
  case (1 s)
  show ?case
  proof (cases "dropWhile is_white s")
    case Nil
    then have w: "dropWhile is_white (s @ w) = []" using 1(2) by (auto simp: dropWhile_eq_Nil_conv)
    show ?thesis by (simp only: str_fields.simps [of s] str_fields.simps [of "s @ w"] Nil w list.case)
  next
    case (Cons c r)
    have d: "dropWhile is_white (s @ w) = c # (r @ w)"
      using Cons by (metis append_Cons dropWhile_append dropWhile_eq_Nil_conv list.distinct(1))
    have t: "takeWhile (\<lambda>d. \<not> is_white d) (r @ w) = takeWhile (\<lambda>d. \<not> is_white d) r"
      using 1(2) by (cases w) (auto simp: takeWhile_append takeWhile_eq_all_conv [THEN iffD2])
    have "dropWhile (\<lambda>d. \<not> is_white d) (r @ w) = dropWhile (\<lambda>d. \<not> is_white d) r @ w"
      using 1(2) by (cases w) (auto simp: dropWhile_append dropWhile_eq_Nil_conv)
    then show ?thesis using 1(1) [OF Cons 1(2)] d t Cons str_fields.simps [of s] str_fields.simps [of "s @ w"] by simp
  qed
qed

lemma str_fields_trim: "str_fields (trim_space s) = str_fields s"
proof -
  let ?s = "dropWhile is_white s"
  have "?s = trim_space s @ rev (takeWhile is_white (rev ?s))"
    unfolding trim_space_def by (metis rev_append rev_rev_ident takeWhile_dropWhile_id)
  moreover have "\<forall>c \<in> set (rev (takeWhile is_white (rev ?s))). is_white c" by (auto dest: set_takeWhileD)
  ultimately have "str_fields ?s = str_fields (trim_space s)" by (metis str_fields_white)
  then show ?thesis by (simp add: str_fields_drop)
qed

end
