(* ===== verification/Self_Update.thy ===== *)
theory Self_Update
  imports Go_Path
begin

text \<open>
  \<open>DoUpdate\<close> of \<^verbatim>\<open>pkg/client_sdk/client.go\<close>: the client downloads a new program beside its own
  executable, moves the running program aside, puts the new one in its place and restarts.
  Every call of the system may fail; its error is part of the world of the call.
\<close>

text \<open>The answer to the download is an error, or a status, the bytes of the body that arrive and the
  error that ends the copying early, if any.\<close>

record http_response =
  ht_StatusCode :: int
  ht_Body :: bytes
  ht_copyErr :: "string option"

record update_world =
  uw_get :: "string \<Rightarrow> string + http_response"
  uw_exe :: "string + string"
  uw_createErr :: "string option"
  uw_removeErr :: "string option"
  uw_renameErr1 :: "string option"
  uw_renameErr2 :: "string option"
  uw_renameErr3 :: "string option"
  uw_startErr :: "string option"

datatype update_end = Returned string | Exited int

text \<open>\<open>os.Rename\<close> replaces the target in one step or, on an error, changes nothing.\<close>

definition os_Rename :: "string option \<Rightarrow> string \<Rightarrow> string \<Rightarrow> files \<Rightarrow> string option \<times> files" where
  "os_Rename err old new fs =
     (case err of
        Some e \<Rightarrow> (Some e, fs)
      | None \<Rightarrow>
          (case fs old of
             None \<Rightarrow> (Some (''rename '' @ old @ '' '' @ new @ '': no such file or directory''), fs)
           | Some d \<Rightarrow> (None, if old = new then fs else fs(old := None, new \<mapsto> d))))"

definition os_Remove :: "string option \<Rightarrow> string \<Rightarrow> files \<Rightarrow> files" where
  "os_Remove err p fs = (case err of Some e \<Rightarrow> fs | None \<Rightarrow> fs(p := None))"

text \<open>The exchange of the two programs and the restart.\<close>

definition swap_programs :: "update_world \<Rightarrow> string \<Rightarrow> string \<Rightarrow> files \<Rightarrow> update_end \<times> files" where
  "swap_programs w exePath downloadPath fs =
     (let oldPath = exePath @ ''.old'';
          fs1 = os_Remove (uw_removeErr w) oldPath fs
      in (case os_Rename (uw_renameErr1 w) exePath oldPath fs1 of
            (Some err, fs2) \<Rightarrow> (Returned (''failed to rename current exe: '' @ err), fs2)
          | (None, fs2) \<Rightarrow>
              (case os_Rename (uw_renameErr2 w) downloadPath exePath fs2 of
                 (Some err, fs3) \<Rightarrow>
                   (Returned (''failed to replace exe: '' @ err), snd (os_Rename (uw_renameErr3 w) oldPath exePath fs3))
               | (None, fs3) \<Rightarrow>
                   (case uw_startErr w of
                      Some err \<Rightarrow> (Returned (''failed to restart: '' @ err), fs3)
                    | None \<Rightarrow> (Exited 0, fs3)))))"

definition DoUpdate :: "update_world \<Rightarrow> string \<Rightarrow> files \<Rightarrow> update_end \<times> files" where
  "DoUpdate w url fs =
     (case uw_get w url of
        Inl err \<Rightarrow> (Returned (''failed to download: '' @ err), fs)
      | Inr resp \<Rightarrow>
          (case uw_exe w of
             Inl err \<Rightarrow> (Returned err, fs)
           | Inr exePath \<Rightarrow>
               let dir = path_dir exePath; downloadPath = path_join [dir, ''enxame.download''] in
               (case write_file (uw_createErr w) downloadPath [] fs of
                  (Some err, fs1) \<Rightarrow> (Returned err, fs1)
                | (None, fs1) \<Rightarrow>
                    let fs2 = fs1(downloadPath \<mapsto> ht_Body resp) in
                    (case ht_copyErr resp of
                       Some err \<Rightarrow> (Returned err, fs2)
                     | None \<Rightarrow> swap_programs w exePath downloadPath fs2))))"

section \<open>Safety\<close>

definition download_path :: "string \<Rightarrow> string" where
  "download_path exe = path_join [path_dir exe, ''enxame.download'']"

text \<open>A program whose own files do not collide with the name of the download.\<close>

definition separate_download :: "string \<Rightarrow> bool" where
  "separate_download exe \<longleftrightarrow> download_path exe \<noteq> exe \<and> download_path exe \<noteq> exe @ ''.old''"

lemma swap_programs_keeps:
  assumes "d \<noteq> exe" "d \<noteq> exe @ ''.old''" "fs exe = Some prog" "fs d = Some new"
    and "swap_programs w exe d fs = (r, fs')"
  shows "fs' exe = Some prog \<or> fs' (exe @ ''.old'') = Some prog"
    and "fs' exe \<noteq> Some prog \<Longrightarrow> fs' exe = Some new \<or> uw_renameErr2 w \<noteq> None \<and> uw_renameErr3 w \<noteq> None \<and> fs' exe = None"
    and "r = Exited 0 \<Longrightarrow> fs' exe = Some new"
    and "p \<notin> {exe, exe @ ''.old'', d} \<Longrightarrow> fs' p = fs p"
proof -
  have "exe @ ''.old'' \<noteq> exe" by simp
  then show "fs' exe = Some prog \<or> fs' (exe @ ''.old'') = Some prog"
    "fs' exe \<noteq> Some prog \<Longrightarrow> fs' exe = Some new \<or> uw_renameErr2 w \<noteq> None \<and> uw_renameErr3 w \<noteq> None \<and> fs' exe = None"
    "r = Exited 0 \<Longrightarrow> fs' exe = Some new" "p \<notin> {exe, exe @ ''.old'', d} \<Longrightarrow> fs' p = fs p"
    using assms
    by (auto simp: swap_programs_def os_Rename_def os_Remove_def Let_def split: option.splits if_splits)
qed

text \<open>C12. An update never loses the running program: whatever fails, it is still in its place or
  under its name with \<open>.old\<close>. Its place is empty only if the renames of the new program and of
  the roll-back both fail, and otherwise holds the old program or a completely downloaded one;
  when the client exits to restart, it is the downloaded one. No other file is touched.\<close>

theorem update_keeps_program:
  assumes "uw_exe w = Inr exe" "separate_download exe" "fs exe = Some prog"
    and "DoUpdate w url fs = (r, fs')"
  shows "(fs' exe = Some prog \<or> fs' (exe @ ''.old'') = Some prog) \<and>
    (case fs' exe of
       None \<Rightarrow> uw_renameErr2 w \<noteq> None \<and> uw_renameErr3 w \<noteq> None
     | Some p \<Rightarrow> p = prog \<or> (\<exists>resp. uw_get w url = Inr resp \<and> ht_copyErr resp = None \<and> p = ht_Body resp)) \<and>
    (r = Exited 0 \<longrightarrow> (\<exists>resp. uw_get w url = Inr resp \<and> ht_copyErr resp = None \<and> fs' exe = Some (ht_Body resp))) \<and>
    (\<forall>p. p \<notin> {exe, exe @ ''.old'', download_path exe} \<longrightarrow> fs' p = fs p)"
proof (cases "\<exists>resp. uw_get w url = Inr resp \<and> ht_copyErr resp = None \<and> uw_createErr w = None")
  case True
  then obtain resp where r: "uw_get w url = Inr resp" "ht_copyErr resp = None" "uw_createErr w = None" by blast
  let ?fs = "fs(download_path exe \<mapsto> ht_Body resp)"
  have d: "download_path exe \<noteq> exe" "download_path exe \<noteq> exe @ ''.old''"
    using assms(2) by (simp_all add: separate_download_def)
  have s: "swap_programs w exe (download_path exe) ?fs = (r, fs')"
    using assms(1,4) r by (simp add: DoUpdate_def download_path_def write_file_def Let_def)
  have "?fs exe = Some prog" "?fs (download_path exe) = Some (ht_Body resp)" using d(1) assms(3) by simp_all
  note keeps = swap_programs_keeps [OF d this s]
  have "fs' p = fs p" if "p \<notin> {exe, exe @ ''.old'', download_path exe}" for p
    using keeps(4) [OF that] that by simp
  moreover have "case fs' exe of
       None \<Rightarrow> uw_renameErr2 w \<noteq> None \<and> uw_renameErr3 w \<noteq> None
     | Some p \<Rightarrow> p = prog \<or> (\<exists>resp. uw_get w url = Inr resp \<and> ht_copyErr resp = None \<and> p = ht_Body resp)"
    using keeps(2) r(1,2) by (cases "fs' exe = Some prog") (auto split: option.split)
  ultimately show ?thesis using keeps(1,3) r(1,2) by blast
next
  case False
  then have "fs' = fs \<or> (\<exists>v. fs' = fs(download_path exe \<mapsto> v))" "r \<noteq> Exited 0"
    using assms(1,4)
    by (auto simp: DoUpdate_def download_path_def write_file_def Let_def split: sum.splits option.splits)
  moreover have "download_path exe \<noteq> exe" using assms(2) by (simp add: separate_download_def)
  ultimately show ?thesis using assms(3) by auto
qed

text \<open>The status of the download is not looked at: an error page is installed as the program.\<close>

lemma update_installs_error_page:
  assumes "uw_get w url = Inr \<lparr>ht_StatusCode = 404, ht_Body = page, ht_copyErr = None\<rparr>" "uw_exe w = Inr exe"
    "separate_download exe" "fs exe = Some prog" "uw_createErr w = None" "uw_renameErr1 w = None"
    "uw_renameErr2 w = None" "uw_startErr w = None"
  shows "\<exists>fs'. DoUpdate w url fs = (Exited 0, fs') \<and> fs' exe = Some page"
  using assms
  by (auto simp: DoUpdate_def swap_programs_def os_Rename_def os_Remove_def write_file_def separate_download_def
      download_path_def Let_def split: option.split)

definition ex_update :: update_world where
  "ex_update = \<lparr>uw_get = (\<lambda>_. Inr \<lparr>ht_StatusCode = 200, ht_Body = ''new'', ht_copyErr = None\<rparr>),
     uw_exe = Inr ''/opt/enxame'', uw_createErr = None, uw_removeErr = None, uw_renameErr1 = None,
     uw_renameErr2 = Some ''busy'', uw_renameErr3 = None, uw_startErr = None\<rparr>"

theorem update_keeps_program_witness:
  "snd (DoUpdate ex_update ''http://x'' [''/opt/enxame'' \<mapsto> ''old'']) ''/opt/enxame'' = Some ''old'' \<or>
   snd (DoUpdate ex_update ''http://x'' [''/opt/enxame'' \<mapsto> ''old'']) ''/opt/enxame.old'' = Some ''old''"
proof -
  have "separate_download ''/opt/enxame''" by code_simp
  moreover have "uw_exe ex_update = Inr ''/opt/enxame''" by (simp add: ex_update_def)
  ultimately show ?thesis
    using update_keeps_program [of ex_update "''/opt/enxame''" "[''/opt/enxame'' \<mapsto> ''old'']" "''old''" "''http://x''"
        "fst (DoUpdate ex_update ''http://x'' [''/opt/enxame'' \<mapsto> ''old''])"
        "snd (DoUpdate ex_update ''http://x'' [''/opt/enxame'' \<mapsto> ''old''])"]
    by simp
qed

end
