(* ===== verification/Relay_Test.thy ===== *)
theory Relay_Test
  imports Relay_Sessions Client
begin

text \<open>
  \<^verbatim>\<open>tools/relay-test/main.go\<close>: the program that sends one message from one simulated node to
  another through a session manager and then checks that a blacklisted sender is refused.
  It runs on the model of the session manager, so the theorem about it is a test of the
  relay that holds for every pair of keys and not for one run.

  The world of a run holds the outcome of generating the keys, the clock at each reading,
  what the session ids are made of, and whether the receiver's timer of five seconds runs
  out before the message is forwarded. Log lines are reduced to their kind and arguments;
  \<open>log.Fatalf\<close> ends the program with what it reports.
\<close>

section \<open>Simulated nodes\<close>

record SimNode =
  sim_ID :: string
  sim_PrivateKey :: bytes
  sim_PublicKey :: bytes
  sim_RecvChan :: "Envelope chan"
  sim_SendChan :: "Envelope chan"

datatype test_fatal = KeysFailed string string | RegisterFailed string relay_error | ForwardFailed relay_error

definition createSimNode :: "crypto \<Rightarrow> bytes result \<Rightarrow> string \<Rightarrow> test_fatal + SimNode" where
  "createSimNode K gen name =
     (case gen of
        Inl err \<Rightarrow> Inl (KeysFailed name err)
      | Inr priv \<Rightarrow>
          let pub = ed_public K priv; nodeID = hex_encode (take 16 (sha256 K pub))
          in Inr \<lparr>sim_ID = nodeID, sim_PrivateKey = priv, sim_PublicKey = pub,
                  sim_RecvChan = make_chan 10, sim_SendChan = make_chan 10\<rparr>)"

definition signMessage :: "crypto \<Rightarrow> bytes \<Rightarrow> string \<Rightarrow> bytes go" where
  "signMessage K priv message = ed25519_Sign K priv message"

section \<open>The program\<close>

datatype test_line =
    NodeCreated string string
  | NodeRegistered string string
  | ConnectedNodes nat
  | MessageReceived string string int bytes time
  | DecryptedMessage string
  | ReceiveTimeout
  | MessageForwarded
  | Stats int int
  | SenderRejected relay_error
  | SenderNotRejected
  | TestCompleted

record test_world =
  tw_keyA :: "bytes result"
  tw_keyB :: "bytes result"
  tw_sidA :: "string \<times> nat list"
  tw_sidB :: "string \<times> nat list"
  tw_clock :: "nat \<Rightarrow> time"
  tw_late :: bool

text \<open>The goroutine that receives: it waits until the message is queued, for five seconds at most.
  An envelope out of a closed channel would be nil.\<close>

definition node_b_receive :: "bool \<Rightarrow> nat \<Rightarrow> SessionManager \<Rightarrow> (test_line list \<times> SessionManager) go" where
  "node_b_receive late a sm =
     (case heap sm a of
        None \<Rightarrow> Panic ''nil pointer dereference''
      | Some s \<Rightarrow>
          if late then Val ([ReceiveTimeout], sm)
          else (case chan_recv (s_SendChan s) of
              Blocked \<Rightarrow> Val ([ReceiveTimeout], sm)
            | ReceivedZero \<Rightarrow> Panic ''nil pointer dereference''
            | Received e c \<Rightarrow>
                go_bind (slice_to 16 (SenderNodeId e)) (\<lambda>from.
                go_bind (slice_to 16 (TargetNodeId e)) (\<lambda>to.
                  Val ([MessageReceived from to (MessageType e) (EncryptedPayload e) (AsTime (Timestamp e)),
                        DecryptedMessage (EncryptedPayload e)],
                       sm\<lparr>heap := (heap sm)(a \<mapsto> s\<lparr>s_SendChan := c\<rparr>)\<rparr>)))))"

definition test_envelope :: "string \<Rightarrow> string \<Rightarrow> bytes \<Rightarrow> time \<Rightarrow> time \<Rightarrow> Envelope" where
  "test_envelope from to sig now stamp =
     \<lparr>MessageId = ''msg-'' @ dec_int now, SenderNodeId = from, TargetNodeId = to,
      EncryptedPayload = ''Hello'', Nonce = ''random-nonce-12345'', SenderSignature = sig,
      Timestamp = pb_now stamp, MessageType = MESSAGE_TYPE_CHAT, TtlSeconds = 300, Priority = 2\<rparr>"

text \<open>Registration of a node, with the line it logs.\<close>

definition register_sim ::
    "SimNode \<Rightarrow> string \<Rightarrow> string \<times> nat list \<Rightarrow> time \<Rightarrow> SessionManager \<Rightarrow> ((test_fatal + nat \<times> test_line) \<times> SessionManager) go" where
  "register_sim node name sid now sm =
     go_bind (RegisterSession (sim_ID node) (sim_PublicKey node) (generateSessionID (fst sid) (snd sid)) now sm) (\<lambda>(r, sm1).
       (case r of
          Inl err \<Rightarrow> Val (Inl (RegisterFailed name err), sm1)
        | Inr a \<Rightarrow>
            (case heap sm1 a of
               None \<Rightarrow> Panic ''nil pointer dereference''
             | Some s \<Rightarrow> go_bind (slice_to 8 (s_SessionID s)) (\<lambda>short. Val (Inr (a, NodeRegistered name short), sm1)))))"

text \<open>Sending, the wait for the receiver, the statistics and the blacklist.\<close>

definition exchange ::
    "crypto \<Rightarrow> test_world \<Rightarrow> SimNode \<Rightarrow> SimNode \<Rightarrow> nat \<Rightarrow> SessionManager \<Rightarrow> (test_fatal + test_line list) go" where
  "exchange K w nodeA nodeB sessionB sm =
     go_bind (signMessage K (sim_PrivateKey nodeA) ''Hello'') (\<lambda>sig.
       let envelope = test_envelope (sim_ID nodeA) (sim_ID nodeB) sig (tw_clock w 2) (tw_clock w 3) in
       go_bind (ForwardEnvelope envelope (tw_clock w 4) sm) (\<lambda>(err, sm1).
         (case err of
            Some e \<Rightarrow> Val (Inl (ForwardFailed e))
          | None \<Rightarrow>
              go_bind (node_b_receive (tw_late w) sessionB sm1) (\<lambda>(received, sm2).
                let (active, relayed) = GetStats sm2 in
                go_bind (AddToBlacklist (sim_ID nodeA) (tw_clock w 5) sm2) (\<lambda>sm3.
                  go_bind (ForwardEnvelope envelope (tw_clock w 6) sm3) (\<lambda>(err', sm4).
                    Val (Inr ([MessageForwarded] @ received @ [Stats active relayed] @
                      [case err' of Some e \<Rightarrow> SenderRejected e | None \<Rightarrow> SenderNotRejected] @
                      [TestCompleted]))))))))"

definition relay_test_main :: "crypto \<Rightarrow> test_world \<Rightarrow> (test_fatal + test_line list) go" where
  "relay_test_main K w =
     (case createSimNode K (tw_keyA w) ''Node_A'' of
        Inl f \<Rightarrow> Val (Inl f)
      | Inr nodeA \<Rightarrow>
     (case createSimNode K (tw_keyB w) ''Node_B'' of
        Inl f \<Rightarrow> Val (Inl f)
      | Inr nodeB \<Rightarrow>
          go_bind (slice_to 16 (sim_ID nodeA)) (\<lambda>shortA.
          go_bind (slice_to 16 (sim_ID nodeB)) (\<lambda>shortB.
          go_bind (register_sim nodeA ''Node_A'' (tw_sidA w) (tw_clock w 0) NewSessionManager) (\<lambda>(ra, sm1).
            (case ra of
               Inl f \<Rightarrow> Val (Inl f)
             | Inr (sessionA, lineA) \<Rightarrow>
                 go_bind (register_sim nodeB ''Node_B'' (tw_sidB w) (tw_clock w 1) sm1) (\<lambda>(rb, sm2).
                   (case rb of
                      Inl f \<Rightarrow> Val (Inl f)
                    | Inr (sessionB, lineB) \<Rightarrow>
                        go_bind (exchange K w nodeA nodeB sessionB sm2) (\<lambda>out.
                          (case out of
                             Inl f \<Rightarrow> Val (Inl f)
                           | Inr lines \<Rightarrow>
                               Val (Inr ([NodeCreated ''Node_A'' shortA, NodeCreated ''Node_B'' shortB, lineA, lineB,
                                 ConnectedNodes (length (GetConnectedNodeIDs sm2))] @ lines))))))))))))"

section \<open>Correctness\<close>

text \<open>What the program needs of its world: keys of the size \<open>ed25519.GenerateKey\<close> documents and
  session ids that start with a formatted time of 14 digits.\<close>

definition test_world_ok :: "test_world \<Rightarrow> bytes \<Rightarrow> bytes \<Rightarrow> bool" where
  "test_world_ok w privA privB \<longleftrightarrow>
     tw_keyA w = Inr privA \<and> tw_keyB w = Inr privB \<and> length privA = 64 \<and> length privB = 64 \<and>
     length (fst (tw_sidA w)) = 14 \<and> length (fst (tw_sidB w)) = 14"

lemma hex_encode_hd: "bs \<noteq> [] \<Longrightarrow> hd (hex_encode bs) \<noteq> CHR ''#''"
  using hex_encode_chars [of "hd (hex_encode bs)" bs] by (cases bs) (auto simp: is_hex_char_def)

lemma register_sim_new:
  assumes "8 \<le> length (sim_ID node)" "length (fst sid) = 14" "\<not> IsBlacklisted sm (sim_ID node)"
    and "map_of (sessions sm) (sim_ID node) = None"
  shows "register_sim node name sid now sm =
    Val (Inr (nxt sm, NodeRegistered name (take 8 (fst sid))),
      sm\<lparr>heap := (heap sm)(nxt sm \<mapsto> \<lparr>s_NodeID = sim_ID node, s_PublicKey = sim_PublicKey node,
            s_SessionID = generateSessionID (fst sid) (snd sid), s_ConnectedAt = now, s_LastActivity = now,
            s_SendChan = make_chan 100\<rparr>),
         nxt := Suc (nxt sm), sessions := AList.update (sim_ID node) (nxt sm) (sessions sm),
         activeConnections := activeConnections sm + 1\<rparr>)"
  using assms by (simp add: register_sim_def RegisterSession_def Let_def generateSessionID_def)

definition test_lines :: "crypto \<Rightarrow> test_world \<Rightarrow> bytes \<Rightarrow> bytes \<Rightarrow> test_line list \<Rightarrow> test_line list" where
  "test_lines K w privA privB received =
     (let A = DeriveNodeID K (ed_public K privA); B = DeriveNodeID K (ed_public K privB) in
      [NodeCreated ''Node_A'' (take 16 A), NodeCreated ''Node_B'' (take 16 B),
       NodeRegistered ''Node_A'' (take 8 (fst (tw_sidA w))), NodeRegistered ''Node_B'' (take 8 (fst (tw_sidB w))),
       ConnectedNodes (if A = B then 1 else 2), MessageForwarded] @ received @
      [Stats 2 1, SenderRejected ErrNodeBlacklisted, TestCompleted])"

lemma relay_test_run:
  assumes "crypto_ok K" "test_world_ok w privA privB"
  shows "relay_test_main K w = Val (Inr (test_lines K w privA privB
    (if tw_late w then [ReceiveTimeout]
     else [MessageReceived (take 16 (DeriveNodeID K (ed_public K privA))) (take 16 (DeriveNodeID K (ed_public K privB)))
             MESSAGE_TYPE_CHAT ''Hello'' (AsTime (pb_now (tw_clock w 3))), DecryptedMessage ''Hello''])))"
proof -
  define A where "A = DeriveNodeID K (ed_public K privA)"
  define B where "B = DeriveNodeID K (ed_public K privB)"
  have w: "tw_keyA w = Inr privA" "tw_keyB w = Inr privB" "length privA = 64"
    "length (fst (tw_sidA w)) = 14" "length (fst (tw_sidB w)) = 14"
    using assms(2) by (simp_all add: test_world_ok_def)
  have len: "length A = 32" "length B = 32" using assms(1) by (simp_all add: A_def B_def length_DeriveNodeID)
  have "take 16 (sha256 K (ed_public K privB)) \<noteq> []"
    using crypto_okD(1) [OF assms(1), of "ed_public K privB"] by auto
  then have B: "hd B \<noteq> CHR ''#''" "B \<noteq> []"
    using hex_encode_hd by (simp_all add: B_def DeriveNodeID_def)
  have ids: "hex_encode (take 16 (sha256 K (ed_public K privA))) = A"
    "hex_encode (take 16 (sha256 K (ed_public K privB))) = B"
    by (simp_all add: A_def B_def DeriveNodeID_def)
  note run = relay_test_main_def createSimNode_def register_sim_new NewSessionManager_def IsBlacklisted_def
    exchange_def signMessage_def ed25519_Sign_def test_envelope_def ForwardEnvelope_def GetSession_def
    sendToSession_def offer_def try_send_def make_chan_def session_node_def node_b_receive_def chan_recv_def
    GetStats_def AddToBlacklist_def UnregisterSession_def close_session_def close_chan_def GetConnectedNodeIDs_def Let_def
  show ?thesis
  proof (cases "A = B")
    case True
    then show ?thesis
      using w len B ids
      by (simp add: run test_lines_def register_sim_def RegisterSession_def generateSessionID_def flip: A_def B_def)
  next
    case False
    then show ?thesis using w len B ids by (simp add: run test_lines_def flip: A_def B_def)
  qed
qed

text \<open>The program reports success in every case, also when the message never arrived.\<close>

lemma relay_test_late:
  assumes "crypto_ok K" "test_world_ok w privA privB" "tw_late w"
  shows "relay_test_main K w = Val (Inr (test_lines K w privA privB [ReceiveTimeout]))"
  using relay_test_run [OF assms(1,2)] assms(3) by simp

text \<open>The relay's test program always succeeds: for every pair of keys, every clock and all
  session ids it registers both nodes, node B receives the message \<open>Hello\<close> from node A, two
  connections and one relayed message are counted, and the second message of node A, which
  is on the blacklist by then, is refused.\<close>

lemma relay_test_succeeds:
  assumes "crypto_ok K" "test_world_ok w privA privB" "\<not> tw_late w"
  shows "relay_test_main K w = Val (Inr
    [NodeCreated ''Node_A'' (take 16 (DeriveNodeID K (ed_public K privA))),
     NodeCreated ''Node_B'' (take 16 (DeriveNodeID K (ed_public K privB))),
     NodeRegistered ''Node_A'' (take 8 (fst (tw_sidA w))), NodeRegistered ''Node_B'' (take 8 (fst (tw_sidB w))),
     ConnectedNodes (if DeriveNodeID K (ed_public K privA) = DeriveNodeID K (ed_public K privB) then 1 else 2),
     MessageForwarded,
     MessageReceived (take 16 (DeriveNodeID K (ed_public K privA))) (take 16 (DeriveNodeID K (ed_public K privB)))
       MESSAGE_TYPE_CHAT ''Hello'' (AsTime (pb_now (tw_clock w 3))),
     DecryptedMessage ''Hello'', Stats 2 1, SenderRejected ErrNodeBlacklisted, TestCompleted])"
  using relay_test_run [OF assms(1,2)] assms(3) by (simp add: test_lines_def Let_def)

definition ex_test_world :: test_world where
  "ex_test_world = \<lparr>tw_keyA = Inr (replicate 64 CHR ''a''), tw_keyB = Inr (replicate 64 CHR ''b''),
     tw_sidA = (''20260101120000'', [1, 2, 3, 4, 5, 6, 7, 8]), tw_sidB = (''20260101120000'', [8, 7, 6, 5, 4, 3, 2, 1]),
     tw_clock = (\<lambda>i. int i * second), tw_late = False\<rparr>"

lemma relay_test_succeeds_witness:
  "\<exists>lines. relay_test_main ex_crypto ex_test_world =
     Val (Inr (lines @ [DecryptedMessage ''Hello'', Stats 2 1, SenderRejected ErrNodeBlacklisted, TestCompleted]))"
proof -
  have "test_world_ok ex_test_world (replicate 64 CHR ''a'') (replicate 64 CHR ''b'')" "\<not> tw_late ex_test_world"
    by (simp_all add: test_world_ok_def ex_test_world_def)
  from relay_test_succeeds [OF ex_crypto_ok this] show ?thesis by (simp add: append_eq_Cons_conv)
qed

end
