(* ===== verification/Relay_Service.thy ===== *)
theory Relay_Service
  imports Relay_Server Services
begin

text \<open>
  \<^verbatim>\<open>pkg/relay/grpc_manual.go\<close> and the registration of services at a gRPC server: the handlers of
  the relay's service, its descriptor, the wrappers of its stream, and the descriptors of the
  generated services. A server is the list of the descriptors registered with it;
  \<open>RegisterService\<close> refuses a second service of the same name by ending the process.
\<close>

section \<open>Handlers\<close>

record ConnectRequest =
  cq_NodeId :: string
  cq_PublicKey :: bytes
  cq_Signature :: bytes
  cq_Capabilities :: "string list"

definition RelayService_ConnectToRelay_Handler where
  "RelayService_ConnectToRelay_Handler sid now = method_handler ''/relay.v1.RelayService/ConnectToRelay''
     (lift_method (\<lambda>ctx req sm. from_go (ConnectToRelay (cq_NodeId req) (cq_PublicKey req) sid now sm) sm))"

definition RelayService_IsNodeConnected_Handler where
  "RelayService_IsNodeConnected_Handler now = method_handler ''/relay.v1.RelayService/IsNodeConnected''
     (lift_method (\<lambda>ctx nodeId sm. from_go (IsNodeConnected nodeId now sm) sm))"

text \<open>The stream is handed to the server wrapped; the wrapper sends and receives commands, and an
  error of \<open>RecvMsg\<close> comes back without a command.\<close>

record ('c, 'm) server_stream =
  ss_SendMsg :: "'m \<Rightarrow> 'c \<Rightarrow> string option \<times> 'c"
  ss_RecvMsg :: "'c \<Rightarrow> (string + 'm) \<times> 'c"

definition relayStream_Send :: "('c, NodeCommand) server_stream \<Rightarrow> NodeCommand \<Rightarrow> 'c \<Rightarrow> string option \<times> 'c" where
  "relayStream_Send x m c = ss_SendMsg x m c"

definition relayStream_Recv :: "('c, NodeCommand) server_stream \<Rightarrow> 'c \<Rightarrow> (string + NodeCommand) \<times> 'c" where
  "relayStream_Recv x c =
     (case ss_RecvMsg x c of (Inl err, c') \<Rightarrow> (Inl err, c') | (Inr m, c') \<Rightarrow> (Inr m, c'))"

definition RelayService_StreamMessages_Handler ::
    "((NodeCommand \<Rightarrow> 'c \<Rightarrow> string option \<times> 'c) \<Rightarrow> ('c \<Rightarrow> (string + NodeCommand) \<times> 'c) \<Rightarrow> 'r)
     \<Rightarrow> ('c, NodeCommand) server_stream \<Rightarrow> 'r" where
  "RelayService_StreamMessages_Handler streamMessages stream =
     streamMessages (relayStream_Send stream) (relayStream_Recv stream)"

section \<open>Registration\<close>

definition RelayService_desc :: ServiceDesc where
  "RelayService_desc = \<lparr>sd_ServiceName = ''relay.v1.RelayService'',
     sd_Methods = [''ConnectToRelay'', ''IsNodeConnected''], sd_Streams = [''StreamMessages'']\<rparr>"

definition NetworkService_desc :: ServiceDesc where
  "NetworkService_desc = \<lparr>sd_ServiceName = ''network.v1.NetworkService'',
     sd_Methods = [''RegisterNode'', ''Heartbeat'', ''GetActiveRelays''], sd_Streams = [''SubscribeToGlobalEvents'']\<rparr>"

definition AdminService_desc :: ServiceDesc where
  "AdminService_desc = \<lparr>sd_ServiceName = ''network.v1.AdminService'',
     sd_Methods = [''GetNetworkStats'', ''ListNodes'', ''ListUsers'', ''UpdateUserRole'', ''BanNode'', ''UnbanNode'',
       ''SendGlobalAlert'', ''VerifyMasterKey''], sd_Streams = []\<rparr>"

definition UpdateService_desc :: ServiceDesc where
  "UpdateService_desc = \<lparr>sd_ServiceName = ''network.v1.UpdateService'', sd_Methods = [''CheckForUpdate''], sd_Streams = []\<rparr>"

text \<open>The service of \<open>google.golang.org/grpc/health\<close>, known by its name only.\<close>

definition Health_desc :: ServiceDesc where
  "Health_desc = \<lparr>sd_ServiceName = ''grpc.health.v1.Health'', sd_Methods = [], sd_Streams = []\<rparr>"

type_synonym registry = "ServiceDesc list"

definition RegisterService :: "ServiceDesc \<Rightarrow> registry \<Rightarrow> string + registry" where
  "RegisterService d reg =
     (if sd_ServiceName d \<in> set (map sd_ServiceName reg)
      then Inl (''grpc: Server.RegisterService found duplicate service registration for '' @ sd_ServiceName d)
      else Inr (reg @ [d]))"

definition RegisterChannelService :: "registry \<Rightarrow> string + registry" where
  "RegisterChannelService = RegisterService ChannelService_desc"

definition RegisterGridService :: "registry \<Rightarrow> string + registry" where
  "RegisterGridService = RegisterService GridService_desc"

definition ClusterServer_Register :: "registry \<Rightarrow> string + registry" where
  "ClusterServer_Register = RegisterService ClusterService_desc"

definition AuthServer_RegisterGRPC :: "registry \<Rightarrow> string + registry" where
  "AuthServer_RegisterGRPC = RegisterService AuthService_desc"

definition AdminServer_Register :: "registry \<Rightarrow> string + registry" where
  "AdminServer_Register = RegisterService AdminService_desc"

definition UpdateServer_Register :: "registry \<Rightarrow> string + registry" where
  "UpdateServer_Register = RegisterService UpdateService_desc"

definition RegisterRelayServiceServer :: "registry \<Rightarrow> string + registry" where
  "RegisterRelayServiceServer = RegisterService RelayService_desc"

text \<open>Registering one service after the other; the first refusal ends it.\<close>

fun register_each :: "(registry \<Rightarrow> string + registry) list \<Rightarrow> registry \<Rightarrow> string + registry" where
  "register_each [] reg = Inr reg"
| "register_each (f # fs) reg = (case f reg of Inl err \<Rightarrow> Inl err | Inr reg' \<Rightarrow> register_each fs reg')"

section \<open>Lemmas\<close>

lemmas register_defs = RegisterChannelService_def RegisterGridService_def ClusterServer_Register_def
  AuthServer_RegisterGRPC_def AdminServer_Register_def UpdateServer_Register_def RegisterRelayServiceServer_def

lemmas desc_defs = ChannelService_desc_def GridService_desc_def ClusterService_desc_def AuthService_desc_def
  RelayService_desc_def NetworkService_desc_def AdminService_desc_def UpdateService_desc_def Health_desc_def

text \<open>Registering descriptors with different names succeeds and keeps their order.\<close>

lemma register_each_distinct:
  assumes "distinct (map sd_ServiceName (reg @ ds))"
  shows "register_each (map RegisterService ds) reg = Inr (reg @ ds)"
  using assms by (induction ds arbitrary: reg) (auto simp: RegisterService_def)

lemma served_paths_append [simp]: "served_paths (ds @ es) = served_paths ds @ served_paths es"
  by (simp add: served_paths_def)

text \<open>The methods of a service that panics end the relay: it registers no interceptor, so the panic
  of a handler is that of the call.\<close>

lemma relay_handler_panics:
  "ConnectToRelay (cq_NodeId req) (cq_PublicKey req) sid now sm = Panic p \<Longrightarrow>
     fst (RelayService_ConnectToRelay_Handler sid now ctx (Inr req) None (sm, l)) = Panic p"
  by (simp add: RelayService_ConnectToRelay_Handler_def method_handler_def from_go_def)

end
