(* ===== verification/Go_Url.thy ===== *)
theory Go_Url
  imports Go_Base
begin

text \<open>
  \<open>net/url\<close> as far as a connection text needs it: the escaping of the parts of a URL,
  \<open>URL.String\<close> for a URL with user, password, host, path and query, and \<open>url.Parse\<close> for
  such texts. Parsing fails (\<open>None\<close>) where the package returns an error and also for what
  is not needed here: a fragment, a relative URL, an IPv6 literal in brackets.
\<close>

section \<open>Escaping\<close>

datatype url_mode = encodePath | encodeHost | encodeUserPassword | encodeQueryComponent

definition is_alnum :: "char \<Rightarrow> bool" where
  "is_alnum c \<longleftrightarrow> (let n = (of_char c :: nat) in
     48 \<le> n \<and> n < 58 \<or> 65 \<le> n \<and> n < 91 \<or> 97 \<le> n \<and> n < 123)"

definition shouldEscape :: "url_mode \<Rightarrow> char \<Rightarrow> bool" where
  "shouldEscape mode c =
     (if is_alnum c then False
      else if mode = encodeHost \<and> c \<in> set (CHR 0x22 # CHR 0x27 # ''!$&()*+,;=:[]<>'') then False
      else if c \<in> set ''-_.~'' then False
      else if c \<in> set ''$&+,/:;=?@'' \<and> mode \<noteq> encodeHost then
        (case mode of
           encodePath \<Rightarrow> c = CHR ''?''
         | encodeUserPassword \<Rightarrow> c \<in> set ''@/?:''
         | _ \<Rightarrow> True)
      else True)"

definition upper_hex :: "nat \<Rightarrow> char" where
  "upper_hex n = (if n < 10 then char_of (48 + n) else char_of (55 + n))"

definition escape_char :: "url_mode \<Rightarrow> char \<Rightarrow> string" where
  "escape_char mode c =
     (if c = CHR '' '' \<and> mode = encodeQueryComponent then ''+''
      else if shouldEscape mode c then [CHR ''%'', upper_hex (of_char c div 16), upper_hex (of_char c mod 16)]
      else [c])"

definition escape :: "url_mode \<Rightarrow> string \<Rightarrow> string" where
  "escape mode s = concat (map (escape_char mode) s)"

text \<open>In a host only bytes outside ASCII and the percent sign may be written as escapes, and the
  other bytes must be those that need none.\<close>

fun unescape :: "url_mode \<Rightarrow> string \<Rightarrow> string option" where
  "unescape mode [] = Some []"
| "unescape mode (c # s) =
     (if c = CHR ''%'' then
        (case s of
           a # b # s' \<Rightarrow>
             (case (hex_val a, hex_val b) of
                (Some x, Some y) \<Rightarrow>
                  if mode = encodeHost \<and> x < 8 \<and> \<not> (x = 2 \<and> y = 5) then None
                  else map_option (\<lambda>t. char_of (16 * x + y) # t) (unescape mode s')
              | _ \<Rightarrow> None)
         | _ \<Rightarrow> None)
      else if mode = encodeHost \<and> (of_char c :: nat) < 128 \<and> shouldEscape mode c then None
      else map_option (\<lambda>t. (if c = CHR ''+'' \<and> mode = encodeQueryComponent then CHR '' '' else c) # t)
             (unescape mode s))"

section \<open>Writing a URL\<close>

record URL =
  u_Scheme :: string
  u_User :: "(string \<times> string) option"
  u_Host :: string
  u_Path :: string
  u_RawQuery :: string

definition EscapedPath :: "URL \<Rightarrow> string" where
  "EscapedPath u = (if u_Path u = ''*'' then ''*'' else escape encodePath (u_Path u))"

definition Userinfo_String :: "string \<times> string \<Rightarrow> string" where
  "Userinfo_String ui = escape encodeUserPassword (fst ui) @ '':'' @ escape encodeUserPassword (snd ui)"

definition URL_String :: "URL \<Rightarrow> string" where
  "URL_String u =
     (let scheme = (if u_Scheme u \<noteq> [] then u_Scheme u @ '':'' else []);
          authority =
            (if u_Scheme u \<noteq> [] \<or> u_Host u \<noteq> [] \<or> u_User u \<noteq> None then
               (if u_Host u \<noteq> [] \<or> u_Path u \<noteq> [] \<or> u_User u \<noteq> None then ''//'' else []) @
               (case u_User u of None \<Rightarrow> [] | Some ui \<Rightarrow> Userinfo_String ui @ ''@'') @
               (if u_Host u \<noteq> [] then escape encodeHost (u_Host u) else [])
             else []);
          path = EscapedPath u;
          slash = (if path \<noteq> [] \<and> hd path \<noteq> CHR ''/'' \<and> u_Host u \<noteq> [] then ''/'' else []);
          query = (if u_RawQuery u \<noteq> [] then ''?'' @ u_RawQuery u else [])
      in scheme @ authority @ slash @ path @ query)"

text \<open>\<open>Values.Encode\<close> of one key and its value.\<close>

definition Values_Encode1 :: "string \<Rightarrow> string \<Rightarrow> string" where
  "Values_Encode1 k v = escape encodeQueryComponent k @ ''='' @ escape encodeQueryComponent v"

section \<open>Reading a URL\<close>

text \<open>\<open>strings.Cut\<close>: the parts before and after the first separator, and whether there was one.\<close>

definition cut :: "char \<Rightarrow> string \<Rightarrow> string \<times> string \<times> bool" where
  "cut d s =
     (case dropWhile (\<lambda>c. c \<noteq> d) s of
        [] \<Rightarrow> (s, [], False)
      | _ # r \<Rightarrow> (takeWhile (\<lambda>c. c \<noteq> d) s, r, True))"

definition is_ctl :: "char \<Rightarrow> bool" where
  "is_ctl c \<longleftrightarrow> (of_char c :: nat) < 32 \<or> of_char c = (127 :: nat)"

definition validUserinfo :: "string \<Rightarrow> bool" where
  "validUserinfo s = list_all (\<lambda>c. is_alnum c \<or> c \<in> set (CHR 0x27 # ''-._:~!$&()*+,;=%@'')) s"

text \<open>The part after the last separator, with the part before it, if there is one.\<close>

definition cut_last :: "char \<Rightarrow> string \<Rightarrow> string option \<times> string" where
  "cut_last d s =
     (case cut d (rev s) of (a, b, found) \<Rightarrow> if found then (Some (rev b), rev a) else (None, s))"

definition all_digits :: "string \<Rightarrow> bool" where
  "all_digits s = list_all (\<lambda>c. 48 \<le> (of_char c :: nat) \<and> (of_char c :: nat) < 58) s"

definition parseHost :: "string \<Rightarrow> string option" where
  "parseHost host =
     (if has_prefix host ''['' then None
      else (case cut_last (CHR '':'') host of
          (Some _, port) \<Rightarrow> if all_digits port then unescape encodeHost host else None
        | (None, _) \<Rightarrow> unescape encodeHost host))"

definition parseUserinfo :: "string \<Rightarrow> (string \<times> string) option" where
  "parseUserinfo ui =
     (if \<not> validUserinfo ui then None
      else (case cut (CHR '':'') ui of
          (user, pass, found) \<Rightarrow>
            if \<not> found then None
            else (case (unescape encodeUserPassword user, unescape encodeUserPassword pass) of
                (Some u, Some p) \<Rightarrow> Some (u, p) | _ \<Rightarrow> None)))"

definition parseAuthority :: "string \<Rightarrow> ((string \<times> string) option \<times> string) option" where
  "parseAuthority authority =
     (case cut_last (CHR ''@'') authority of
        (None, host) \<Rightarrow> map_option (\<lambda>h. (None, h)) (parseHost host)
      | (Some ui, host) \<Rightarrow>
          (case (parseHost host, parseUserinfo ui) of
             (Some h, Some up) \<Rightarrow> Some (Some up, h) | _ \<Rightarrow> None))"

definition url_Parse :: "string \<Rightarrow> URL option" where
  "url_Parse raw =
     (if list_ex is_ctl raw \<or> CHR ''#'' \<in> set raw then None
      else (case cut (CHR '':'') raw of
          (scheme, rest, found) \<Rightarrow>
            if \<not> found \<or> scheme = [] \<or> \<not> list_all (\<lambda>c. 97 \<le> (of_char c :: nat) \<and> (of_char c :: nat) < 123) scheme then None
            else (case cut (CHR ''?'') rest of
                (rest', query, _) \<Rightarrow>
                  if \<not> has_prefix rest' ''//'' then None
                  else (case cut (CHR ''/'') (drop 2 rest') of
                      (authority, path, slash) \<Rightarrow>
                        (case (parseAuthority authority, unescape encodePath (if slash then CHR ''/'' # path else [])) of
                           (Some (user, host), Some p) \<Rightarrow>
                             Some \<lparr>u_Scheme = scheme, u_User = user, u_Host = host, u_Path = p, u_RawQuery = query\<rparr>
                         | _ \<Rightarrow> None)))))"

text \<open>\<open>ParseQuery\<close>: the pairs in the order of the text. A semicolon or a bad escape is an error.\<close>

fun query_pairs :: "string list \<Rightarrow> (string \<times> string) list option" where
  "query_pairs [] = Some []"
| "query_pairs (w # ws) =
     (if CHR '';'' \<in> set w then None
      else if w = [] then query_pairs ws
      else (case cut (CHR ''='') w of
          (k, v, _) \<Rightarrow>
            (case (unescape encodeQueryComponent k, unescape encodeQueryComponent v, query_pairs ws) of
               (Some k', Some v', Some r) \<Rightarrow> Some ((k', v') # r) | _ \<Rightarrow> None)))"

definition ParseQuery :: "string \<Rightarrow> (string \<times> string) list option" where
  "ParseQuery q = query_pairs (split_on (CHR ''&'') q)"

section \<open>Lemmas\<close>

lemma upper_hex_val: "n < 16 \<Longrightarrow> hex_val (upper_hex n) = Some n"
  by (auto simp: hex_val_def upper_hex_def Let_def)

lemma upper_hex_alnum: "n < 16 \<Longrightarrow> is_alnum (upper_hex n)"
  by (auto simp: upper_hex_def is_alnum_def Let_def)

lemma of_char_div_16: "(of_char c :: nat) div 16 < 16"
  using nat_of_char_less_256 [of c] by arith

text \<open>The characters with a meaning in the text of a URL are escaped where they must not occur.\<close>

lemma escape_marks:
  "shouldEscape mode (CHR ''%'')" "shouldEscape mode (CHR ''#'')"
  "shouldEscape encodeQueryComponent (CHR ''+'')" "shouldEscape encodeQueryComponent (CHR ''&'')"
  "shouldEscape encodeQueryComponent (CHR '';'')"  "shouldEscape mode (CHR ''?'')"
  "shouldEscape encodeUserPassword (CHR '':'')" "shouldEscape encodeUserPassword (CHR ''@'')"
  "shouldEscape encodeUserPassword (CHR ''/'')" "shouldEscape encodeHost (CHR ''/'')"
  "shouldEscape encodeHost (CHR ''@'')"
  by (cases mode; simp add: shouldEscape_def is_alnum_def)+

lemma ctl_escaped: "is_ctl c \<Longrightarrow> shouldEscape mode c"
proof -
  assume "is_ctl c"
  then have "of_char c \<in> set (127 # [0..<32 :: nat])" by (auto simp: is_ctl_def)
  then have "char_of (of_char c :: nat) \<in> char_of ` set (127 # [0..<32 :: nat])" by (rule imageI)
  then have "c \<in> set (map char_of (127 # [0..<32 :: nat]))" by (simp only: char_of_char set_map)
  moreover have "list_all (\<lambda>m. list_all (shouldEscape m) (map char_of (127 # [0..<32 :: nat])))
      [encodePath, encodeHost, encodeUserPassword, encodeQueryComponent]"
    by code_simp
  ultimately show ?thesis by (cases mode) (auto simp: list_all_iff simp del: upt_rec_numeral)
qed

text \<open>Unescaping inverts escaping, outside hosts without condition, in a host for bytes that need no
  escape.\<close>

lemma unescape_escape_char:
  assumes "mode \<noteq> encodeHost \<or> \<not> shouldEscape mode c"
  shows "unescape mode (escape_char mode c @ s) = map_option (\<lambda>t. c # t) (unescape mode s)"
proof -
  have "16 * (of_char c div 16) + of_char c mod 16 = (of_char c :: nat)" by simp
  then have "char_of (16 * (of_char c div 16) + of_char c mod 16 :: nat) = c" by (simp only: char_of_char)
  then have "unescape mode (escape_char mode c @ s) = map_option (\<lambda>t. c # t) (unescape mode s)"
    if "shouldEscape mode c" "\<not> (c = CHR '' '' \<and> mode = encodeQueryComponent)"
    using that assms by (simp add: escape_char_def upper_hex_val of_char_div_16)
  moreover have "c \<noteq> CHR ''%'' \<and> (mode = encodeQueryComponent \<longrightarrow> c \<noteq> CHR ''+'')" if "\<not> shouldEscape mode c"
    using that escape_marks by metis
  ultimately show ?thesis by (cases "shouldEscape mode c") (auto simp: escape_char_def)
qed

lemma unescape_escape:
  assumes "mode \<noteq> encodeHost \<or> list_all (\<lambda>c. \<not> shouldEscape mode c) s"
  shows "unescape mode (escape mode s) = Some s"
  using assms
proof (induction s)
  case (Cons c s)
  then have "unescape mode (escape_char mode c @ escape mode s) = Some (c # s)"
    by (subst unescape_escape_char) auto
  then show ?case by (simp add: escape_def)
qed (simp add: escape_def)

text \<open>The bytes an escaped part consists of: those it may contain and the digits of the escapes.\<close>

lemma escape_chars:
  assumes "d \<in> set (escape mode s)" "d \<noteq> CHR ''%''" "\<not> is_alnum d"
  shows "mode = encodeQueryComponent \<and> d = CHR ''+'' \<or> \<not> shouldEscape mode d"
proof -
  obtain c where "d \<in> set (escape_char mode c)" using assms(1) by (auto simp: escape_def)
  then show ?thesis
    using assms(2,3) upper_hex_alnum [of "of_char c div 16"] upper_hex_alnum [of "of_char c mod 16"] of_char_div_16 [of c]
    by (auto simp: escape_char_def simp del: upper_hex_alnum split: if_splits)
qed

lemma escape_free:
  "shouldEscape mode d \<Longrightarrow> d \<noteq> CHR ''%'' \<Longrightarrow> d \<noteq> CHR ''+'' \<Longrightarrow> \<not> is_alnum d \<Longrightarrow> d \<notin> set (escape mode s)"
  using escape_chars by blast

lemma cut_append: "d \<notin> set w \<Longrightarrow> cut d (w @ d # s) = (w, s, True)"
  by (simp add: cut_def takeWhile_append dropWhile_append)

lemma cut_last_append: "d \<notin> set s \<Longrightarrow> cut_last d (w @ d # s) = (Some w, s)"
  by (simp add: cut_last_def cut_append)

end
