(* ===== verification/Core_Config.thy ===== *)
theory Core_Config
  imports Go_Url
begin

text \<open>
  \<^verbatim>\<open>internal/config/config.go\<close>: the settings of the core server. \<open>envconfig.Process\<close> is a
  parameter: it gets the variables and defaults of the struct tags and delivers the settings
  or an error. \<open>PostgresDSN\<close> writes the settings of the database as a URL.
\<close>

record Config =
  cf_GRPCPort :: int
  cf_Environment :: string
  cf_LogLevel :: string
  cf_PostgresHost :: string
  cf_PostgresPort :: int
  cf_PostgresUser :: string
  cf_PostgresPassword :: string
  cf_PostgresDB :: string
  cf_PostgresSSL :: string
  cf_PostgresPoolSize :: int
  cf_RedisHost :: string
  cf_RedisPort :: int
  cf_RedisPassword :: string
  cf_RedisDB :: int
  cf_RedisPoolSize :: int
  cf_HeartbeatInterval :: duration
  cf_HeartbeatTTL :: duration
  cf_MaxRelaysPerResponse :: int
  cf_MasterPublicKeys :: "string list"

text \<open>The struct tags: the variable of each field and its default, in the order of the fields.\<close>

definition config_tags :: "(string \<times> string) list" where
  "config_tags =
     [(''GRPC_PORT'', ''50051''), (''ENVIRONMENT'', ''development''), (''LOG_LEVEL'', ''info''),
      (''POSTGRES_HOST'', ''localhost''), (''POSTGRES_PORT'', ''5432''), (''POSTGRES_USER'', ''core''),
      (''POSTGRES_PASSWORD'', ''core_secret''), (''POSTGRES_DB'', ''core_network''), (''POSTGRES_SSL'', ''disable''),
      (''POSTGRES_POOL_SIZE'', ''25''), (''REDIS_HOST'', ''localhost''), (''REDIS_PORT'', ''6379''),
      (''REDIS_PASSWORD'', ''''), (''REDIS_DB'', ''0''), (''REDIS_POOL_SIZE'', ''100''),
      (''HEARTBEAT_INTERVAL'', ''30s''), (''HEARTBEAT_TTL'', ''60s''), (''MAX_RELAYS_PER_RESPONSE'', ''10''),
      (''MASTER_PUBLIC_KEYS'', '''')]"

definition config_Load :: "((string \<times> string) list \<Rightarrow> string + Config) \<Rightarrow> string + Config" where
  "config_Load process = (case process config_tags of Inl err \<Rightarrow> Inl err | Inr cfg \<Rightarrow> Inr cfg)"

definition PostgresDSN :: "Config \<Rightarrow> string" where
  "PostgresDSN c =
     (let u = \<lparr>u_Scheme = ''postgres'', u_User = Some (cf_PostgresUser c, cf_PostgresPassword c),
            u_Host = cf_PostgresHost c @ '':'' @ dec_int (cf_PostgresPort c),
            u_Path = ''/'' @ cf_PostgresDB c, u_RawQuery = []\<rparr>
      in URL_String (u\<lparr>u_RawQuery := Values_Encode1 ''sslmode'' (cf_PostgresSSL c)\<rparr>))"

definition RedisAddr :: "Config \<Rightarrow> string" where
  "RedisAddr c = cf_RedisHost c @ '':'' @ dec_int (cf_RedisPort c)"

section \<open>The connection text\<close>

text \<open>A host name without characters that a host part cannot carry, not an IPv6 literal.\<close>

definition plain_host :: "string \<Rightarrow> bool" where
  "plain_host h \<longleftrightarrow> list_all (\<lambda>c. \<not> shouldEscape encodeHost c) h \<and> \<not> has_prefix h ''[''"

lemma escape_plain: "list_all (\<lambda>c. \<not> shouldEscape encodeHost c) h \<Longrightarrow> escape encodeHost h = h"
  by (induction h) (auto simp: escape_def escape_char_def)

lemma digit_alnum: "48 \<le> (of_char c :: nat) \<and> (of_char c :: nat) < 58 \<Longrightarrow> is_alnum c"
  by (simp add: is_alnum_def Let_def)

lemma alnum_plain: "is_alnum c \<Longrightarrow> \<not> shouldEscape mode c"
  by (simp add: shouldEscape_def)

text \<open>The parts of the text between its marks.\<close>

lemma dsn_parts:
  "PostgresDSN c = ''postgres'' @ CHR '':'' # CHR ''/'' # CHR ''/'' #
     (escape encodeUserPassword (cf_PostgresUser c) @ CHR '':'' # escape encodeUserPassword (cf_PostgresPassword c)) @
     CHR ''@'' # escape encodeHost (cf_PostgresHost c @ '':'' @ dec_int (cf_PostgresPort c)) @
     CHR ''/'' # escape encodePath (cf_PostgresDB c) @ CHR ''?'' #
     (''sslmode'' @ CHR ''='' # escape encodeQueryComponent (cf_PostgresSSL c))"
proof -
  have slash: "escape encodePath (CHR ''/'' # s) = CHR ''/'' # escape encodePath s" for s
    by (simp add: escape_def escape_char_def shouldEscape_def is_alnum_def)
  have "escape encodeQueryComponent ''sslmode'' = ''sslmode''" by code_simp
  then show ?thesis
    by (simp add: PostgresDSN_def URL_String_def EscapedPath_def Userinfo_String_def Values_Encode1_def slash Let_def)
qed

lemma escape_part:
  assumes "d \<in> set (escape mode s)"
  shows "\<not> is_ctl d" "d \<noteq> CHR ''#''" "d \<noteq> CHR ''?''"
proof -
  consider "is_alnum d" | "d = CHR ''%''" | "d = CHR ''+''" | "\<not> shouldEscape mode d"
    using escape_chars [OF assms] by blast
  then show "\<not> is_ctl d" "d \<noteq> CHR ''#''" "d \<noteq> CHR ''?''"
    using ctl_escaped [of d mode] escape_marks(1,2,6) [of mode] alnum_plain [of d mode] by (cases; auto simp: is_ctl_def)+
qed

lemma user_part:
  assumes "d \<in> set (escape encodeUserPassword s)"
  shows "d \<noteq> CHR '':''" "d \<noteq> CHR ''@''" "d \<noteq> CHR ''/''"
    and "is_alnum d \<or> d \<in> set (CHR 0x27 # ''-._:~!$&()*+,;=%@'')"
proof -
  show "d \<noteq> CHR '':''" "d \<noteq> CHR ''@''" "d \<noteq> CHR ''/''"
    using escape_free [OF escape_marks(7), of s] escape_free [OF escape_marks(8), of s]
      escape_free [OF escape_marks(9), of s] assms by (auto simp: is_alnum_def)
  show "is_alnum d \<or> d \<in> set (CHR 0x27 # ''-._:~!$&()*+,;=%@'')"
    using escape_chars [OF assms] by (cases "d = CHR ''%''") (auto simp: shouldEscape_def split: if_splits)
qed

lemma parse_user: "parseUserinfo (escape encodeUserPassword u @ CHR '':'' # escape encodeUserPassword p) = Some (u, p)"
proof -
  have "CHR '':'' \<notin> set (escape encodeUserPassword u)" using user_part(1) by blast
  moreover have "validUserinfo (escape encodeUserPassword u @ CHR '':'' # escape encodeUserPassword p)"
  proof -
    have "validUserinfo (escape encodeUserPassword s)" for s
      unfolding validUserinfo_def list_all_iff using user_part(4) by blast
    then show ?thesis by (simp add: validUserinfo_def)
  qed
  ultimately show ?thesis by (simp add: parseUserinfo_def cut_append unescape_escape)
qed

lemma digits_of_port: "0 \<le> i \<Longrightarrow> all_digits (dec_int i)"
  using dec_digit_range by (auto simp: all_digits_def dec_int_def list_all_iff)

lemma plain_port: "0 \<le> i \<Longrightarrow> list_all (\<lambda>c. \<not> shouldEscape encodeHost c) (dec_int i)"
  using digits_of_port [of i] digit_alnum alnum_plain by (fastforce simp: all_digits_def list_all_iff)

lemma parse_host:
  assumes "plain_host h" "0 \<le> i"
  shows "parseHost (h @ CHR '':'' # dec_int i) = Some (h @ CHR '':'' # dec_int i)"
proof -
  let ?H = "h @ CHR '':'' # dec_int i"
  have ok: "list_all (\<lambda>c. \<not> shouldEscape encodeHost c) ?H"
    using assms plain_port [of i] by (simp add: plain_host_def shouldEscape_def)
  then have "unescape encodeHost ?H = Some ?H"
    using unescape_escape [of encodeHost ?H] escape_plain [of ?H] by simp
  moreover have "CHR '':'' \<notin> set (dec_int i)"
    using digits_of_port [OF assms(2)] by (auto simp: all_digits_def list_all_iff)
  moreover have "\<not> has_prefix ?H ''[''" using assms(1) by (cases h) (auto simp: plain_host_def)
  ultimately show ?thesis
    using digits_of_port [OF assms(2)] by (simp add: parseHost_def cut_last_append)
qed

lemma userinfo_chars:
  assumes "d \<in> set (escape encodeUserPassword u @ CHR '':'' # escape encodeUserPassword p)"
  shows "\<not> is_ctl d" "d \<noteq> CHR ''#''" "d \<noteq> CHR ''?''" "d \<noteq> CHR ''/''"
proof -
  consider "d = CHR '':''" | x where "d \<in> set (escape encodeUserPassword x)" using assms by auto
  then show "\<not> is_ctl d" "d \<noteq> CHR ''#''" "d \<noteq> CHR ''?''" "d \<noteq> CHR ''/''"
    using escape_part user_part(3) by (cases; simp add: is_ctl_def; blast)+
qed

lemma host_chars:
  assumes "list_all (\<lambda>c. \<not> shouldEscape encodeHost c) h" "d \<in> set h"
  shows "\<not> is_ctl d" "d \<noteq> CHR ''#''" "d \<noteq> CHR ''?''" "d \<noteq> CHR ''/''" "d \<noteq> CHR ''@''"
  using assms ctl_escaped [of d encodeHost] escape_marks(2,6) [of encodeHost] escape_marks(10,11)
  by (auto simp: list_all_iff)

lemma parse_sslmode: "ParseQuery (''sslmode'' @ CHR ''='' # escape encodeQueryComponent m) = Some [(''sslmode'', m)]"
proof -
  have "CHR ''&'' \<notin> set (escape encodeQueryComponent m)" "CHR '';'' \<notin> set (escape encodeQueryComponent m)"
    using escape_free [OF escape_marks(4)] escape_free [OF escape_marks(5)] by (auto simp: is_alnum_def)
  then show ?thesis
    using cut_append [of "CHR ''=''" "''sslmode''" "escape encodeQueryComponent m"] unescape_escape [of encodeQueryComponent m]
    by (simp add: ParseQuery_def split_on_free)
qed

text \<open>C34. The connection text keeps what it was made of: read as a URL it gives back the user, the
  password, host and port, the database and the SSL mode, whatever bytes the user, the
  password, the database and the mode contain, as long as the host is a plain name and the
  port is not negative.\<close>

theorem dsn_round_trip:
  assumes "plain_host (cf_PostgresHost c)" "0 \<le> cf_PostgresPort c"
  shows "\<exists>q. url_Parse (PostgresDSN c) = Some
      \<lparr>u_Scheme = ''postgres'', u_User = Some (cf_PostgresUser c, cf_PostgresPassword c),
       u_Host = cf_PostgresHost c @ '':'' @ dec_int (cf_PostgresPort c), u_Path = ''/'' @ cf_PostgresDB c,
       u_RawQuery = q\<rparr> \<and>
    ParseQuery q = Some [(''sslmode'', cf_PostgresSSL c)]"
proof -
  define UP where "UP = escape encodeUserPassword (cf_PostgresUser c) @ CHR '':'' #
    escape encodeUserPassword (cf_PostgresPassword c)"
  define H where "H = cf_PostgresHost c @ CHR '':'' # dec_int (cf_PostgresPort c)"
  define D where "D = escape encodePath (cf_PostgresDB c)"
  define S where "S = escape encodeQueryComponent (cf_PostgresSSL c)"
  have ok: "list_all (\<lambda>c. \<not> shouldEscape encodeHost c) H"
    using assms plain_port by (simp add: H_def plain_host_def shouldEscape_def)
  then have esc: "escape encodeHost H = H" by (rule escape_plain)
  have raw: "PostgresDSN c = ''postgres'' @ CHR '':'' # (''//'' @ UP @ CHR ''@'' # H @ CHR ''/'' # D) @
      CHR ''?'' # ''sslmode'' @ CHR ''='' # S"
    using esc by (simp add: dsn_parts UP_def H_def D_def S_def)
  have up: "\<not> is_ctl d" "d \<noteq> CHR ''#''" "d \<noteq> CHR ''?''" "d \<noteq> CHR ''/''" if "d \<in> set UP" for d
    using that userinfo_chars unfolding UP_def by blast+
  note h = host_chars [OF ok]
  have dd: "\<not> is_ctl d" "d \<noteq> CHR ''#''" "d \<noteq> CHR ''?''" if "d \<in> set D" for d
    using that escape_part unfolding D_def by blast+
  have s: "\<not> is_ctl d" "d \<noteq> CHR ''#''" if "d \<in> set S" for d
    using that escape_part unfolding S_def by blast+
  have "unescape encodePath (CHR ''/'' # D) = Some (CHR ''/'' # cf_PostgresDB c)"
    using unescape_escape [of encodePath "cf_PostgresDB c"] by (simp add: D_def)
  moreover have "parseAuthority (UP @ CHR ''@'' # H) = Some (Some (cf_PostgresUser c, cf_PostgresPassword c), H)"
  proof -
    have "CHR ''@'' \<notin> set H" using h(5) by blast
    moreover have "parseHost H = Some H" using parse_host [OF assms] by (simp add: H_def)
    moreover have "parseUserinfo UP = Some (cf_PostgresUser c, cf_PostgresPassword c)" by (simp add: UP_def parse_user)
    ultimately show ?thesis by (simp add: parseAuthority_def cut_last_append)
  qed
  moreover have "cut (CHR ''/'') ((UP @ CHR ''@'' # H) @ CHR ''/'' # D) = (UP @ CHR ''@'' # H, D, True)"
    using up(4) h(4) by (intro cut_append) auto
  moreover have "cut (CHR ''?'') ((''//'' @ UP @ CHR ''@'' # H @ CHR ''/'' # D) @ CHR ''?'' # ''sslmode'' @ CHR ''='' # S) =
      (''//'' @ UP @ CHR ''@'' # H @ CHR ''/'' # D, ''sslmode'' @ CHR ''='' # S, True)"
    using up(3) h(3) dd(3) by (intro cut_append) auto
  moreover have "\<not> list_ex is_ctl (PostgresDSN c)"
    using up(1) h(1) dd(1) s(1) by (auto simp: raw list_ex_iff is_ctl_def)
  moreover have "CHR ''#'' \<notin> set (PostgresDSN c)"
    using up(2) h(2) dd(2) s(2) by (simp add: raw) blast
  moreover have "cut (CHR '':'') (PostgresDSN c) =
      (''postgres'', (''//'' @ UP @ CHR ''@'' # H @ CHR ''/'' # D) @ CHR ''?'' # ''sslmode'' @ CHR ''='' # S, True)"
    unfolding raw by (rule cut_append) simp
  ultimately have "url_Parse (PostgresDSN c) = Some
      \<lparr>u_Scheme = ''postgres'', u_User = Some (cf_PostgresUser c, cf_PostgresPassword c),
       u_Host = H, u_Path = CHR ''/'' # cf_PostgresDB c, u_RawQuery = ''sslmode'' @ CHR ''='' # S\<rparr>"
    by (simp add: url_Parse_def has_prefix_def)
  with parse_sslmode [of "cf_PostgresSSL c"] show ?thesis by (simp add: H_def S_def)
qed

definition ex_config :: Config where
  "ex_config = \<lparr>cf_GRPCPort = 50051, cf_Environment = ''development'', cf_LogLevel = ''info'',
     cf_PostgresHost = ''db.internal'', cf_PostgresPort = 5432, cf_PostgresUser = ''core'',
     cf_PostgresPassword = ''p@ss/w:rd?#%'', cf_PostgresDB = ''core_network'', cf_PostgresSSL = ''disable'',
     cf_PostgresPoolSize = 25, cf_RedisHost = ''localhost'', cf_RedisPort = 6379, cf_RedisPassword = [],
     cf_RedisDB = 0, cf_RedisPoolSize = 100, cf_HeartbeatInterval = 30 * second, cf_HeartbeatTTL = 60 * second,
     cf_MaxRelaysPerResponse = 10, cf_MasterPublicKeys = []\<rparr>"

theorem dsn_round_trip_witness:
  "\<exists>u. url_Parse (PostgresDSN ex_config) = Some u \<and> u_User u = Some (''core'', ''p@ss/w:rd?#%'') \<and>
     u_Path u = ''/core_network''"
proof -
  have "plain_host (cf_PostgresHost ex_config)"
    by (simp add: plain_host_def ex_config_def shouldEscape_def is_alnum_def has_prefix_def)
  from dsn_round_trip [OF this] show ?thesis by (auto simp: ex_config_def)
qed

end
