(* ===== verification/Processes.thy ===== *)
theory Processes
  imports Relay_Service Core_Config Core_Client Server_Props
begin

text \<open>
  The two server processes, \<^verbatim>\<open>cmd/core-server/main.go\<close> and \<^verbatim>\<open>relay/cmd/relay/main.go\<close>, with the
  \<open>Start\<close> and \<open>Stop\<close> of their gRPC servers: how the components are built from the settings and
  connected with each other, and which failures end the start. What the processes need of
  the outside (the environment, the drivers, the listener) is a record of the outcomes;
  \<open>log.Fatalf\<close> ends the start with the failure it reports. The goroutines that run afterwards
  (streams, heartbeats, the event broadcaster, health checks) are operations of the component
  theories; a running process is the record of its components.
\<close>

section \<open>The gRPC server of the core\<close>

text \<open>The options that are set, with their values; durations in nanoseconds.\<close>

type_synonym server_options = "(string \<times> int) list"

definition keepalive_options :: server_options where
  "keepalive_options = [(''MaxConcurrentStreams'', 10000), (''MaxRecvMsgSize'', 4 * 1024 * 1024),
     (''MaxSendMsgSize'', 4 * 1024 * 1024), (''MaxConnectionIdle'', 5 * minute), (''MaxConnectionAge'', 30 * minute),
     (''MaxConnectionAgeGrace'', 5 * second), (''Time'', minute), (''Timeout'', 20 * second)]"

definition core_options :: server_options where
  "core_options = keepalive_options @ [(''MinTime'', 10 * second), (''PermitWithoutStream'', 1)]"

datatype start = StartErr string | StartFatal string | Serving server_options registry

definition GRPCServer_Start ::
    "(string \<Rightarrow> string option) \<Rightarrow> (registry \<Rightarrow> string + registry) list \<Rightarrow> bool \<Rightarrow> string
     \<Rightarrow> start" where
  "GRPCServer_Start listen extraServices healthChecker port =
     (case listen ('':'' @ port) of
        Some err \<Rightarrow> StartErr err
      | None \<Rightarrow>
          (case register_each ([RegisterService NetworkService_desc] @ extraServices @
              (if healthChecker then [RegisterService Health_desc] else [])) [] of
             Inl err \<Rightarrow> StartFatal err
           | Inr reg \<Rightarrow> Serving core_options reg))"

text \<open>\<open>Stop\<close> before a start does nothing.\<close>

definition GRPCServer_Stop :: "start option \<Rightarrow> start option" where
  "GRPCServer_Stop s = (case s of Some (Serving opts reg) \<Rightarrow> None | _ \<Rightarrow> s)"

section \<open>The core server\<close>

record PoolConfig =
  pc_ConnString :: string
  pc_MaxConns :: int
  pc_MinConns :: int
  pc_MaxConnLifetime :: duration
  pc_MaxConnIdleTime :: duration
  pc_HealthCheckPeriod :: duration

record RedisOptions =
  ro_Addr :: string
  ro_Password :: string
  ro_DB :: int
  ro_PoolSize :: int
  ro_MinIdleConns :: int
  ro_MaxRetries :: int
  ro_DialTimeout :: duration
  ro_ReadTimeout :: duration
  ro_WriteTimeout :: duration
  ro_PoolTimeout :: duration

record boot_world =
  bw_envconfig :: "(string \<times> string) list \<Rightarrow> string + Config"
  bw_ParseConfig :: "string \<Rightarrow> string option"
  bw_NewPool :: "PoolConfig \<Rightarrow> string option"
  bw_pgPing :: "string option"
  bw_redisPing :: "RedisOptions \<Rightarrow> string option"
  bw_faults :: faults
  bw_crypto :: crypto
  bw_getenv :: "string \<Rightarrow> string"
  bw_listen :: "string \<Rightarrow> string option"

definition connectPostgres :: "boot_world \<Rightarrow> Config \<Rightarrow> string + PoolConfig" where
  "connectPostgres w cfg =
     (let dsn = PostgresDSN cfg in
      (case bw_ParseConfig w dsn of
         Some err \<Rightarrow> Inl (''failed to parse postgres config: '' @ err)
       | None \<Rightarrow>
           let poolConfig = \<lparr>pc_ConnString = dsn, pc_MaxConns = int32 (cf_PostgresPoolSize cfg), pc_MinConns = 5,
                 pc_MaxConnLifetime = 30 * minute, pc_MaxConnIdleTime = 5 * minute, pc_HealthCheckPeriod = minute\<rparr> in
           (case bw_NewPool w poolConfig of
              Some err \<Rightarrow> Inl (''failed to create postgres pool: '' @ err)
            | None \<Rightarrow>
                (case bw_pgPing w of
                   Some err \<Rightarrow> Inl (''failed to ping postgres: '' @ err)
                 | None \<Rightarrow> Inr poolConfig))))"

definition connectRedis :: "boot_world \<Rightarrow> Config \<Rightarrow> string + RedisOptions" where
  "connectRedis w cfg =
     (let opts = \<lparr>ro_Addr = cf_RedisHost cfg @ '':'' @ dec_int (cf_RedisPort cfg), ro_Password = cf_RedisPassword cfg,
            ro_DB = cf_RedisDB cfg, ro_PoolSize = cf_RedisPoolSize cfg, ro_MinIdleConns = 10, ro_MaxRetries = 3,
            ro_DialTimeout = 5 * second, ro_ReadTimeout = 3 * second, ro_WriteTimeout = 3 * second,
            ro_PoolTimeout = 4 * second\<rparr>
      in (case bw_redisPing w opts of Some err \<Rightarrow> Inl (''failed to ping redis: '' @ err) | None \<Rightarrow> Inr opts))"

definition NewNodeManager :: "duration \<Rightarrow> NodeManager" where
  "NewNodeManager heartbeatTTL = \<lparr>nm_heartbeatTTL = heartbeatTTL\<rparr>"

definition NewUpdateServer :: "(string \<Rightarrow> string) \<Rightarrow> UpdateServer" where
  "NewUpdateServer getenv = \<lparr>up_latestVersion = getenv ''LATEST_VERSION'', up_updateURL = getenv ''UPDATE_URL''\<rparr>"

datatype boot_fatal = ConfigFailed string | PostgresFailed string | RedisFailed string | TablesFailed string
  | VerifierFailed crypto_error | StartFailed string | DuplicateService string

text \<open>The services share the two stores; the models of the channel server and of the gRPC server carry
  them both. \<open>pr_masterKey\<close> is what \<open>NewAdminServer\<close> reads from the environment.\<close>

record 'r core_process =
  pr_cfg :: Config
  pr_pool :: PoolConfig
  pr_redis :: RedisOptions
  pr_verifier :: Verifier
  pr_nodeService :: NodeService
  pr_health :: HealthChecker
  pr_grpc :: "'r GRPCServer"
  pr_channels :: "'r ChannelServer"
  pr_masterKey :: string
  pr_update :: UpdateServer
  pr_cluster :: ClusterServer
  pr_server :: "start option"

text \<open>The services registered by the hook that \<open>main\<close> installs with \<open>RegisterExtraService\<close>.\<close>

definition core_extra_services :: "(registry \<Rightarrow> string + registry) list" where
  "core_extra_services = [RegisterChannelService, RegisterGridService, ClusterServer_Register,
     AuthServer_RegisterGRPC, AdminServer_Register, UpdateServer_Register]"

text \<open>From the connected stores on; \<open>r\<close> and \<open>d\<close> are what the stores hold.\<close>

definition core_services ::
    "boot_world \<Rightarrow> time \<Rightarrow> Config \<Rightarrow> PoolConfig \<Rightarrow> RedisOptions \<Rightarrow> 'r \<Rightarrow> db \<Rightarrow> boot_fatal + 'r core_process" where
  "core_services w now cfg pool opts r d =
     (let redisManager = NewNodeManager (cf_HeartbeatTTL cfg) in
      (case NewVerifier (bw_crypto w) (cf_MasterPublicKeys cfg) of
         Inl err \<Rightarrow> Inl (VerifierFailed err)
       | Inr verifier \<Rightarrow>
           let nodeService = NewNodeService redisManager (cf_HeartbeatTTL cfg) (cf_MaxRelaysPerResponse cfg);
               core = \<lparr>c_redis = r, c_db = d, c_broadcasts = []\<rparr>;
               clusterServer = NewClusterServer (''core-'' @ dec_int (cf_GRPCPort cfg))
                 (''127.0.0.1:'' @ dec_int (cf_GRPCPort cfg)) [];
               nodeService' = nodeService\<lparr>ns_ClusterBroadcast := True\<rparr>
           in (case GRPCServer_Start (bw_listen w) core_extra_services True (dec_int (cf_GRPCPort cfg)) of
                 StartErr err \<Rightarrow> Inl (StartFailed err)
               | StartFatal err \<Rightarrow> Inl (DuplicateService err)
               | Serving sopts reg \<Rightarrow>
                   Inr \<lparr>pr_cfg = cfg, pr_pool = pool, pr_redis = opts, pr_verifier = verifier,
                        pr_nodeService = nodeService', pr_health = NewHealthChecker, pr_grpc = NewGRPCServer core,
                        pr_channels = NewChannelServer now core,
                        pr_masterKey = bw_getenv w ''ADMIN_MASTER_KEY'', pr_update = NewUpdateServer (bw_getenv w),
                        pr_cluster = clusterServer, pr_server = Some (Serving sopts reg)\<rparr>)))"

definition core_main :: "boot_world \<Rightarrow> time \<Rightarrow> 'r \<Rightarrow> db option \<Rightarrow> boot_fatal + 'r core_process" where
  "core_main w now r d =
     (case config_Load (bw_envconfig w) of
        Inl err \<Rightarrow> Inl (ConfigFailed err)
      | Inr cfg \<Rightarrow>
          (case connectPostgres w cfg of
             Inl err \<Rightarrow> Inl (PostgresFailed err)
           | Inr pool \<Rightarrow>
               (case connectRedis w cfg of
                  Inl err \<Rightarrow> Inl (RedisFailed err)
                | Inr opts \<Rightarrow>
                    (case CreateTables (bw_faults w) d of
                       (Some err, _) \<Rightarrow> Inl (TablesFailed err)
                     | (None, d') \<Rightarrow> core_services w now cfg pool opts r (case d' of None \<Rightarrow> empty_db | Some t \<Rightarrow> t)))))"

text \<open>The signal ends the server; the process then waits ten seconds and returns.\<close>

definition core_shutdown :: "'r core_process \<Rightarrow> 'r core_process" where
  "core_shutdown p = p\<lparr>pr_server := GRPCServer_Stop (pr_server p)\<rparr>"

section \<open>The relay\<close>

text \<open>The struct tags of the relay's settings: the variable, and its default unless it is required.\<close>

definition relay_config_tags :: "(string \<times> string option) list" where
  "relay_config_tags =
     [(''CORE_ADDRESS'', Some ''localhost:50051''), (''RELAY_IP'', None), (''RELAY_PORT'', Some ''50052''),
      (''PRIVATE_KEY_PATH'', Some ''relay.key''), (''RELAY_REGION'', Some ''default''),
      (''HEARTBEAT_INTERVAL'', Some ''30''), (''RELAY_CAPABILITIES'', Some ''relay,nat-traversal'')]"

definition relay_Load :: "((string \<times> string option) list \<Rightarrow> string + relay_Config) \<Rightarrow> string + relay_Config" where
  "relay_Load process = (case process relay_config_tags of Inl err \<Rightarrow> Inl err | Inr cfg \<Rightarrow> Inr cfg)"

record RelayServer =
  rv_sessionManager :: SessionManager
  rv_server :: "start option"
  rv_port :: int

definition NewRelayServer :: "int \<Rightarrow> SessionManager \<Rightarrow> RelayServer" where
  "NewRelayServer port sm = \<lparr>rv_sessionManager = sm, rv_server = None, rv_port = port\<rparr>"

definition RelayServer_Start :: "(string \<Rightarrow> string option) \<Rightarrow> RelayServer \<Rightarrow> string option \<times> RelayServer" where
  "RelayServer_Start listen rs =
     (case listen ('':'' @ dec_int (rv_port rs)) of
        Some err \<Rightarrow> (Some (''failed to listen: '' @ err), rs)
      | None \<Rightarrow>
          (None, rs\<lparr>rv_server := Some (case RegisterRelayServiceServer [] of
             Inl err \<Rightarrow> StartFatal err | Inr reg \<Rightarrow> Serving keepalive_options reg)\<rparr>))"

definition RelayServer_Stop :: "RelayServer \<Rightarrow> RelayServer" where
  "RelayServer_Stop rs = rs\<lparr>rv_server := GRPCServer_Stop (rv_server rs)\<rparr>"

record relay_world =
  rw_envconfig :: "(string \<times> string option) list \<Rightarrow> string + relay_Config"
  rw_keyFile :: "string \<Rightarrow> bytes option"
  rw_gen :: "bytes result"
  rw_keyWriteErr :: "string option"
  rw_listen :: "string \<Rightarrow> string option"
  rw_dialErr :: "string \<Rightarrow> string option"
  rw_crypto :: crypto
  rw_errText :: "status \<Rightarrow> string"
  rw_register :: "RegisterNodeRequest \<Rightarrow> status + RegisterNodeResponse"

datatype relay_fatal = RelayConfigFailed string | RelayKeysFailed string | ListenFailed string | RelayDuplicate string

text \<open>\<open>rp_loops\<close>: the heartbeat loop and the subscription to events have been started.\<close>

record relay_process =
  rp_cfg :: relay_Config
  rp_keyPair :: KeyPair
  rp_relay :: RelayServer
  rp_server :: start
  rp_core :: CoreClient
  rp_loops :: bool

definition relay_main_options :: server_options where
  "relay_main_options = [(''MaxConcurrentStreams'', 10000), (''Time'', minute), (''Timeout'', 20 * second)]"

text \<open>Connecting to the core server and registering; neither failure ends the relay.\<close>

definition relay_join :: "relay_world \<Rightarrow> CoreClient \<Rightarrow> CoreClient \<times> bool" where
  "relay_join w c =
     (case CoreClient_Connect (rw_dialErr w (rcf_CoreAddress (co_cfg c))) c of
        (Some err, c1) \<Rightarrow> (c1, False)
      | (None, c1) \<Rightarrow>
          (case CoreClient_Register (rw_crypto w) (rw_errText w) (rw_register w) c1 of
             Some err \<Rightarrow> (c1, False)
           | None \<Rightarrow> (c1, True)))"

definition relay_main :: "relay_world \<Rightarrow> relay_fatal + relay_process" where
  "relay_main w =
     (case relay_Load (rw_envconfig w) of
        Inl err \<Rightarrow> Inl (RelayConfigFailed err)
      | Inr cfg \<Rightarrow>
          (case fst (LoadOrGenerateKeyPair (rw_crypto w) (rw_keyFile w (rcf_PrivateKeyPath cfg)) (rw_gen w) (rw_keyWriteErr w)) of
             Inl err \<Rightarrow> Inl (RelayKeysFailed err)
           | Inr keyPair \<Rightarrow>
               let relayServer = NewRelayServer (rcf_RelayPort cfg) NewSessionManager in
               (case rw_listen w ('':'' @ dec_int (rcf_RelayPort cfg)) of
                  Some err \<Rightarrow> Inl (ListenFailed err)
                | None \<Rightarrow>
                    (case RegisterRelayServiceServer [] of
                       Inl err \<Rightarrow> Inl (RelayDuplicate err)
                     | Inr reg \<Rightarrow>
                         (case relay_join w (NewCoreClient cfg keyPair) of
                            (coreClient, loops) \<Rightarrow>
                              Inr \<lparr>rp_cfg = cfg, rp_keyPair = keyPair, rp_relay = relayServer,
                                   rp_server = Serving relay_main_options reg, rp_core = coreClient, rp_loops = loops\<rparr>)))))"

text \<open>The signal stops the server; the deferred \<open>Close\<close> runs if the relay had connected.\<close>

definition relay_shutdown :: "relay_process \<Rightarrow> start option \<times> CoreClient" where
  "relay_shutdown p =
     (GRPCServer_Stop (Some (rp_server p)), if co_conn (rp_core p) then CoreClient_Close (rp_core p) else rp_core p)"

section \<open>Lemmas\<close>

lemma core_register:
  "register_each ([RegisterService NetworkService_desc] @ core_extra_services @ [RegisterService Health_desc]) [] =
     Inr [NetworkService_desc, ChannelService_desc, GridService_desc, ClusterService_desc, AuthService_desc,
       AdminService_desc, UpdateService_desc, Health_desc]"
proof -
  let ?ds = "[NetworkService_desc, ChannelService_desc, GridService_desc, ClusterService_desc, AuthService_desc,
       AdminService_desc, UpdateService_desc, Health_desc]"
  have "register_each (map RegisterService ?ds) [] = Inr ([] @ ?ds)"
    by (rule register_each_distinct) (simp add: desc_defs)
  then show ?thesis by (simp add: core_extra_services_def register_defs)
qed

text \<open>What a process that runs was built from.\<close>

lemma core_main_Inr:
  assumes "core_main w now r d = Inr p"
  shows "bw_envconfig w config_tags = Inr (pr_cfg p)"
    and "pr_pool p = \<lparr>pc_ConnString = PostgresDSN (pr_cfg p), pc_MaxConns = int32 (cf_PostgresPoolSize (pr_cfg p)),
           pc_MinConns = 5, pc_MaxConnLifetime = 30 * minute, pc_MaxConnIdleTime = 5 * minute, pc_HealthCheckPeriod = minute\<rparr>"
    and "NewVerifier (bw_crypto w) (cf_MasterPublicKeys (pr_cfg p)) = Inr (pr_verifier p)"
    and "ns_ClusterBroadcast (pr_nodeService p)" "gs_streamManager (pr_grpc p) = None"
    and "pr_server p = Some (Serving core_options [NetworkService_desc, ChannelService_desc, GridService_desc,
           ClusterService_desc, AuthService_desc, AdminService_desc, UpdateService_desc, Health_desc])"
  using assms core_register
  by (auto simp: core_main_def core_services_def config_Load_def connectPostgres_def GRPCServer_Start_def
      NewGRPCServer_def NewNodeService_def Let_def split: sum.splits option.splits prod.splits)

lemma relay_main_Inr:
  assumes "relay_main w = Inr p"
  shows "rw_envconfig w relay_config_tags = Inr (rp_cfg p)"
    and "co_cfg (rp_core p) = rp_cfg p" "co_keyPair (rp_core p) = rp_keyPair p"
    and "rp_server p = Serving relay_main_options [RelayService_desc]"
    and "rp_loops p \<Longrightarrow> CoreClient_Register (rw_crypto w) (rw_errText w) (rw_register w) (rp_core p) = None"
  using assms
  by (auto simp: relay_main_def relay_Load_def relay_join_def CoreClient_Connect_def NewCoreClient_def
      RegisterRelayServiceServer_def RegisterService_def Let_def split: sum.splits option.splits prod.splits)

text \<open>A relay whose connection or registration failed at start stays without heartbeats and events:
  nothing tries again.\<close>

lemma relay_without_core:
  assumes "relay_main w = Inr p" "rw_dialErr w (rcf_CoreAddress (rp_cfg p)) \<noteq> None"
  shows "\<not> rp_loops p" "\<not> co_conn (rp_core p)"
  using assms
  by (auto simp: relay_main_def relay_Load_def relay_join_def CoreClient_Connect_def NewCoreClient_def Let_def
      split: sum.splits option.splits prod.splits)

text \<open>Without master keys nobody can moderate.\<close>

lemma no_master_keys:
  assumes "NewVerifier (w_crypto W) [] = Inr v"
  shows "\<exists>e. check_moderator W v action = Val (Some e)"
proof -
  have "masterKeys v = Map.empty" using assms by (auto simp: NewVerifier_def)
  then show ?thesis by (simp add: check_moderator_def VerifyMasterSignature_def go_bind.simps)
qed

section \<open>Wiring\<close>

text \<open>A stub reaches a handler: both name the same path, for requests and responses of the same type,
  and the server serves that path.\<close>

definition reaches ::
    "registry \<Rightarrow> (('q, 'r) conn \<Rightarrow> 'q \<Rightarrow> status + 'r)
     \<Rightarrow> (ctx \<Rightarrow> status + 'q \<Rightarrow> ('q, 'r, 's) UnaryServerInterceptor option \<Rightarrow> 's \<times> log_line list \<Rightarrow> ('r, 's) outcome)
     \<Rightarrow> 'q \<Rightarrow> 's \<Rightarrow> bool" where
  "reaches reg stub h req s \<longleftrightarrow> stub_path stub req = handler_path h req s \<and>
     (case stub_path stub req of Inl (Status c path) \<Rightarrow> path \<in> set (served_paths reg) | Inr r \<Rightarrow> False)"

lemma reaches_path:
  "p \<in> set (served_paths reg) \<Longrightarrow> reaches reg (\<lambda>cc req. invoke cc p req) (method_handler p f) req s"
  by (simp add: reaches_def)

definition core_registry :: registry where
  "core_registry = [NetworkService_desc, ChannelService_desc, GridService_desc, ClusterService_desc, AuthService_desc,
     AdminService_desc, UpdateService_desc, Health_desc]"

lemma core_paths:
  "distinct (served_paths core_registry)" "admin_full_method a \<in> set (served_paths core_registry)"
proof -
  show "distinct (served_paths core_registry)" by (simp add: core_registry_def desc_defs served_paths_def)
  show "admin_full_method a \<in> set (served_paths core_registry)"
    by (cases a) (simp_all add: core_registry_def desc_defs served_paths_def admin_full_method_def admin_method_name_def)
qed


text \<open>Settings, and the world of two processes that start.\<close>

definition ex_boot :: boot_world where
  "ex_boot = \<lparr>bw_envconfig = (\<lambda>_. Inr ex_config), bw_ParseConfig = (\<lambda>_. None), bw_NewPool = (\<lambda>_. None),
     bw_pgPing = None, bw_redisPing = (\<lambda>_. None), bw_faults = (\<lambda>_. None), bw_crypto = ex_crypto,
     bw_getenv = (\<lambda>_. []), bw_listen = (\<lambda>_. None)\<rparr>"

definition ex_relay_cfg :: relay_Config where
  "ex_relay_cfg = \<lparr>rcf_CoreAddress = ''localhost:50051'', rcf_RelayIP = ''10.0.0.7'', rcf_RelayPort = 50052,
     rcf_PrivateKeyPath = ''relay.key'', rcf_Region = ''eu'', rcf_HeartbeatInterval = 30, rcf_Capabilities = [''relay'']\<rparr>"

definition ex_relay_key :: bytes where "ex_relay_key = replicate 64 CHR ''k''"

definition ex_relay_world :: "(RegisterNodeRequest \<Rightarrow> status + RegisterNodeResponse) \<Rightarrow> relay_world" where
  "ex_relay_world rpc = \<lparr>rw_envconfig = (\<lambda>_. Inr ex_relay_cfg), rw_keyFile = (\<lambda>_. Some ex_relay_key),
     rw_gen = Inl [], rw_keyWriteErr = None, rw_listen = (\<lambda>_. None), rw_dialErr = (\<lambda>_. None),
     rw_crypto = ex_crypto, rw_errText = (\<lambda>_. []), rw_register = rpc\<rparr>"

lemma ex_core_runs: "\<exists>p. core_main ex_boot 0 [] None = Inr p \<and> pr_server p = Some (Serving core_options core_registry)"
  using core_register
  by (simp add: ex_boot_def core_main_def config_Load_def connectPostgres_def connectRedis_def CreateTables_def
      core_services_def NewVerifier_def ex_config_def GRPCServer_Start_def core_registry_def Let_def)

lemma ex_relay_runs:
  "\<exists>p. relay_main (ex_relay_world rpc) = Inr p \<and> rp_server p = Serving relay_main_options [RelayService_desc] \<and>
     rp_cfg p = ex_relay_cfg \<and> rp_keyPair p = newKeyPairFromPrivate ex_crypto ex_relay_key \<and>
     rp_loops p = (CoreClient_Register ex_crypto (\<lambda>_. []) rpc (rp_core p) = None)"
  by (simp add: ex_relay_world_def ex_relay_key_def relay_main_def relay_Load_def LoadOrGenerateKeyPair_def
      relay_join_def CoreClient_Connect_def RegisterRelayServiceServer_def RegisterService_def Let_def split: option.split)


end
