(* ===== verification/Process_Props.thy ===== *)
theory Process_Props
  imports Processes
begin

text \<open>
  A relay and a core server together: a relay whose registration was accepted is offered to
  the clients that ask for relays.
\<close>

lemma active_relay_listed:
  assumes "redis_laws R" "is_perm perm" "NodeManager_GetActiveRelays R perm now region l ex s = Inr relays"
    and "0 < l" "int (length relays) < l" "i \<notin> set ex" "n_Type n = NodeTypeRelay"
    and "NodeManager_GetNode R now i s = Inr (Some n)"
  shows "n \<in> set relays"
proof -
  obtain keys where k: "r_keys R now keyPrefixNode s = Inr keys"
    using assms(3) by (auto simp: NodeManager_GetActiveRelays_def split: sum.splits)
  note sp = GetActiveRelays_spec [OF assms(2) k assms(3)]
  let ?found = "List.map_filter (relay_at R now ex s) keys"
  have "keyPrefixNode @ i \<in> set keys"
    using keys_get [OF assms(1) k] assms(8)
    by (auto simp: NodeManager_GetNode_def split: sum.splits option.splits)
  moreover have "relay_at R now ex s (keyPrefixNode @ i) = Some n"
    using assms(6-8) by (simp add: relay_at_def)
  ultimately have "n \<in> set ?found" by (force simp: List.map_filter_def)
  moreover have "int (length ?found) \<le> l" using sp(2) assms(4,5) by linarith
  ultimately show ?thesis using sp(3) by blast
qed

section \<open>A relay registers\<close>

text \<open>The call a relay makes, answered by the core server in the state \<open>st\<close>, and the state it leaves.\<close>

definition register_rpc ::
    "tokens \<Rightarrow> 'r world \<Rightarrow> NodeService \<Rightarrow> duration \<Rightarrow> (Node list \<Rightarrow> Node list) \<Rightarrow> time \<Rightarrow> 'r core \<Rightarrow> RegisterNodeRequest
     \<Rightarrow> status + RegisterNodeResponse" where
  "register_rpc T W svc hi perm now st req = recovered (fst (RegisterNode_call T W svc hi perm now None req (st, [])))"

definition register_state ::
    "tokens \<Rightarrow> 'r world \<Rightarrow> NodeService \<Rightarrow> duration \<Rightarrow> (Node list \<Rightarrow> Node list) \<Rightarrow> time \<Rightarrow> 'r core \<Rightarrow> RegisterNodeRequest
     \<Rightarrow> 'r core" where
  "register_state T W svc hi perm now st req = fst (snd (RegisterNode_call T W svc hi perm now None req (st, [])))"

lemma register_rpc_success:
  assumes "register_rpc T W svc hi perm now st req = Inr resp" "rn_Success resp"
  shows "\<exists>i node rs. rr_Identity req = Some i \<and>
    NodeService_RegisterNode W svc perm now (reg_of_request i req) st =
      (Inr (node, rs), register_state T W svc hi perm now st req)"
proof -
  have v: "validateRegisterNode (w_crypto W) (Some req) = None"
    using assms(1) by (cases "validateRegisterNode (w_crypto W) (Some req)")
      (simp_all add: register_rpc_def RegisterNode_call_effect)
  then obtain i where i: "rr_Identity req = Some i" using validateRegisterNode_identity by blast
  obtain resp' where r: "fst (GRPCServer_RegisterNode W svc hi perm now (authenticateUser T now (incoming None)) req st) =
      Val (Inr resp')"
    "rn_Success resp' \<longleftrightarrow> (\<exists>x. fst (NodeService_RegisterNode W svc perm now (reg_of_request i req) st) = Inr x)"
    using GRPCServer_RegisterNode_identity(1) [OF i] by blast
  have "resp' = resp" using assms(1) v r(1) by (simp add: register_rpc_def RegisterNode_call_effect)
  then obtain node rs where "fst (NodeService_RegisterNode W svc perm now (reg_of_request i req) st) = Inr (node, rs)"
    using r(2) assms(2) by auto
  moreover have "register_state T W svc hi perm now st req =
      snd (NodeService_RegisterNode W svc perm now (reg_of_request i req) st)"
    using v GRPCServer_RegisterNode_identity(2) [OF i] by (simp add: register_state_def RegisterNode_call_effect)
  ultimately show ?thesis using i by (metis prod.collapse)
qed

text \<open>The registration of a relay that joined is in the store until its time to live is over.\<close>

lemma joined_relay_stored:
  assumes "redis_laws (w_redis W)"
    and "rw_crypto rw = w_crypto W" "rw_register rw = register_rpc T W svc hi perm now st"
    and "relay_main rw = Inr p" "rp_loops p"
    and "st' = register_state T W svc hi perm now st (relay_register_request (w_crypto W) (rp_core p))"
    and "now \<le> later" "later < now + nm_heartbeatTTL (ns_redisManager svc)" "in_int64 (unix now)"
  shows "\<exists>n. NodeManager_GetNode (w_redis W) later (kp_NodeID (rp_keyPair p)) (c_redis st') = Inr (Some n) \<and>
    id_NodeID (n_Identity n) = kp_NodeID (rp_keyPair p) \<and> n_Type n = NodeTypeRelay \<and>
    n_Endpoints n = [rcf_RelayIP (rp_cfg p) @ '':'' @ dec_int (rcf_RelayPort (rp_cfg p))] \<and>
    n_Region n = rcf_Region (rp_cfg p)"
proof -
  let ?req = "relay_register_request (w_crypto W) (rp_core p)"
  note rp = relay_main_Inr [OF assms(4)]
  have "CoreClient_Register (w_crypto W) (rw_errText rw) (register_rpc T W svc hi perm now st) (rp_core p) = None"
    using rp(5) [OF assms(5)] assms(2,3) by simp
  then obtain r where "register_rpc T W svc hi perm now st ?req = Inr r" "rn_Success r"
    by (auto simp: CoreClient_Register_def split: sum.splits if_splits)
  from register_rpc_success [OF this] obtain i node rs where i: "rr_Identity ?req = Some i"
    and reg: "NodeService_RegisterNode W svc perm now (reg_of_request i ?req) st = (Inr (node, rs), st')"
    using assms(6) by blast
  note n = RegisterNode_Inr [OF reg]
  have node: "n_Identity node = i" "n_Type node = NodeTypeRelay"
    "n_Endpoints node = [rcf_RelayIP (rp_cfg p) @ '':'' @ dec_int (rcf_RelayPort (rp_cfg p))]"
    "n_Region node = rcf_Region (rp_cfg p)" "n_Status node = NodeStatusOnline" "n_RegisteredAt node = now"
    using n(3) rp(2) by (simp_all add: reg_of_request_def relay_register_request_def pbNodeTypeToDomain_def)
  have id: "id_NodeID i = kp_NodeID (rp_keyPair p)" using i rp(3) by (auto simp: relay_register_request_def)
  have "node_ints_ok now node"
    using assms(9) node by (simp add: node_ints_ok_def in_int64_def NodeType_defs NodeStatus_defs)
  from RegisterNode_then_GetNode [OF assms(1) n(4) assms(7,8) this]
  have "NodeManager_GetNode (w_redis W) later (kp_NodeID (rp_keyPair p)) (c_redis st') =
      Inr (Some (stored_node now node))" by (simp add: node(1) id)
  then show ?thesis by (simp add: stored_node_def node id)
qed

text \<open>What a client is answered that asks for active relays, in terms of the store.\<close>

definition asked_limit :: "NodeService \<Rightarrow> GetActiveRelaysRequest \<Rightarrow> int" where
  "asked_limit svc req = (if gar_Limit req \<le> 0 \<or> gar_Limit req > ns_maxRelays svc then ns_maxRelays svc else gar_Limit req)"

lemma GetActiveRelays_answer:
  assumes "GRPCServer_GetActiveRelays W svc perm now ctx req st = (Val (Inr resp), st')"
  shows "\<exists>relays. NodeManager_GetActiveRelays (w_redis W) perm now (gar_PreferredRegion req) (asked_limit svc req)
      (gar_ExcludeNodeIds req) (c_redis st) = Inr relays \<and> gas_Relays resp = map domainNodeToPb relays"
  using assms unfolding asked_limit_def
  by (auto simp: GRPCServer_GetActiveRelays_def NodeService_GetActiveRelays_def split: sum.splits)

text \<open>C21. A relay that joined is found: when the registration of a relay at start was accepted by a
  core server, then until its time to live is over every client that asks this server for
  active relays, does not exclude the relay and gets fewer than it asked for, gets the relay,
  with the address and the region of its settings.\<close>

theorem relay_discovered:
  assumes "redis_laws (w_redis W)" "is_perm perm'" "0 < ns_maxRelays svc"
    and "rw_crypto rw = w_crypto W" "rw_register rw = register_rpc T W svc hi perm now st"
    and "relay_main rw = Inr p" "rp_loops p"
    and "st' = register_state T W svc hi perm now st (relay_register_request (w_crypto W) (rp_core p))"
    and "now \<le> later" "later < now + nm_heartbeatTTL (ns_redisManager svc)" "in_int64 (unix now)"
    and "GRPCServer_GetActiveRelays W svc perm' later ctx req st' = (Val (Inr resp), st'')"
    and "kp_NodeID (rp_keyPair p) \<notin> set (gar_ExcludeNodeIds req)"
    and "int (length (gas_Relays resp)) < asked_limit svc req"
  shows "\<exists>ni \<in> set (gas_Relays resp). id_NodeID (ni_Identity ni) = kp_NodeID (rp_keyPair p) \<and>
    ni_Endpoints ni = [rcf_RelayIP (rp_cfg p) @ '':'' @ dec_int (rcf_RelayPort (rp_cfg p))] \<and>
    ni_Region ni = rcf_Region (rp_cfg p)"
proof -
  obtain n where n: "NodeManager_GetNode (w_redis W) later (kp_NodeID (rp_keyPair p)) (c_redis st') = Inr (Some n)"
    "id_NodeID (n_Identity n) = kp_NodeID (rp_keyPair p)" "n_Type n = NodeTypeRelay"
    "n_Endpoints n = [rcf_RelayIP (rp_cfg p) @ '':'' @ dec_int (rcf_RelayPort (rp_cfg p))]"
    "n_Region n = rcf_Region (rp_cfg p)"
    using joined_relay_stored [OF assms(1,4-11)] by blast
  obtain relays where relays: "NodeManager_GetActiveRelays (w_redis W) perm' later (gar_PreferredRegion req)
      (asked_limit svc req) (gar_ExcludeNodeIds req) (c_redis st') = Inr relays" "gas_Relays resp = map domainNodeToPb relays"
    using GetActiveRelays_answer [OF assms(12)] by blast
  have "0 < asked_limit svc req" "int (length relays) < asked_limit svc req"
    using assms(3,14) relays(2) by (auto simp: asked_limit_def)
  then have "n \<in> set relays" using active_relay_listed [OF assms(1,2) relays(1) _ _ assms(13) n(3,1)] by blast
  then show ?thesis using n(2,4,5) relays(2) by (auto simp: domainNodeToPb_def intro!: bexI [of _ "domainNodeToPb n"])
qed

section \<open>A relay and a core server that meet\<close>

lemma ex_world_registers:
  assumes "VerifyNodeIdentity ex_crypto (id_NodeID (reg_Identity reg)) (id_PublicKey (reg_Identity reg))
      (id_Signature (reg_Identity reg)) = None"
  shows "\<exists>x. fst (NodeService_RegisterNode ex_world ex_svc id 0 reg ex_core) = Inr x"
    and "length (c_redis (snd (NodeService_RegisterNode ex_world ex_svc id 0 reg ex_core))) = 1"
  using assms
  by (simp_all add: NodeService_RegisterNode_def pg_IsNodeBanned_def ex_core_def ex_world_def empty_db_def Let_def
      NodeManager_RegisterNode_def addToActiveRelays_def mem_redis_def split: prod.split)

lemma mem_relays_length:
  assumes "is_perm perm" "NodeManager_GetActiveRelays mem_redis perm now region l ex s = Inr relays" "0 < l"
  shows "length relays \<le> length s"
proof -
  obtain keys where k: "r_keys mem_redis now keyPrefixNode s = Inr keys"
    using assms(2) by (auto simp: NodeManager_GetActiveRelays_def split: sum.splits)
  have "length keys \<le> length (remdups (map fst s))" using k by (auto simp: mem_redis_def)
  then have "length keys \<le> length s" using length_remdups_leq [of "map fst s"] by simp
  moreover have "length (List.map_filter f xs) \<le> length xs" for f :: "string \<Rightarrow> Node option" and xs
    by (simp add: List.map_filter_def)
  ultimately show ?thesis using GetActiveRelays_spec(2) [OF assms(1) k assms(2,3)]
    by (metis le_trans min.cobounded2)
qed

definition ex_rpc :: "RegisterNodeRequest \<Rightarrow> status + RegisterNodeResponse" where
  "ex_rpc = register_rpc toy_tokens ex_world ex_svc second id 0 ex_core"

lemma ex_relay_joins:
  "\<exists>p. relay_main (ex_relay_world ex_rpc) = Inr p \<and> rp_loops p \<and>
    length (c_redis (register_state toy_tokens ex_world ex_svc second id 0 ex_core
      (relay_register_request ex_crypto (rp_core p)))) = 1"
proof -
  obtain p where p: "relay_main (ex_relay_world ex_rpc) = Inr p"
    "rp_keyPair p = newKeyPairFromPrivate ex_crypto ex_relay_key"
    "rp_loops p = (CoreClient_Register ex_crypto (\<lambda>_. []) ex_rpc (rp_core p) = None)"
    using ex_relay_runs [of ex_rpc] by (elim exE conjE) (rule that)
  let ?req = "relay_register_request ex_crypto (rp_core p)"
  have K: "w_crypto ex_world = ex_crypto" by (simp add: ex_world_def)
  have v: "validateRegisterNode ex_crypto (Some ?req) = None"
    by (rule relay_registration_valid [OF ex_crypto_ok]) (simp_all add: ex_relay_key_def relay_main_Inr(3) [OF p(1)] p(2))
  then obtain i where i: "rr_Identity ?req = Some i"
    "VerifyNodeIdentity ex_crypto (id_NodeID i) (id_PublicKey i) (id_Signature i) = None"
    using validateRegisterNode_identity by blast
  have "reg_Identity (reg_of_request i ?req) = i" by (simp add: reg_of_request_def)
  note reg = ex_world_registers [of "reg_of_request i ?req", unfolded this, OF i(2)]
  from GRPCServer_RegisterNode_identity(1) [OF i(1)] reg(1)
  obtain resp where "fst (GRPCServer_RegisterNode ex_world ex_svc second id 0
      (authenticateUser toy_tokens 0 (incoming None)) ?req ex_core) = Val (Inr resp)" "rn_Success resp" by blast
  then have "ex_rpc ?req = Inr resp \<and> rn_Success resp" using v K by (simp add: ex_rpc_def register_rpc_def RegisterNode_call_effect)
  then have "rp_loops p" using p(3) by (simp add: CoreClient_Register_def)
  moreover have "register_state toy_tokens ex_world ex_svc second id 0 ex_core ?req =
      snd (NodeService_RegisterNode ex_world ex_svc id 0 (reg_of_request i ?req) ex_core)"
    using v K GRPCServer_RegisterNode_identity(2) [OF i(1)] by (simp add: register_state_def RegisterNode_call_effect)
  ultimately show ?thesis using p(1) reg(2) by auto
qed

definition ex_ask :: GetActiveRelaysRequest where
  "ex_ask = \<lparr>gar_PreferredRegion = ''eu'', gar_Limit = 3, gar_ExcludeNodeIds = []\<rparr>"

lemma ex_asked:
  assumes "length (c_redis st) = 1"
  shows "\<exists>resp st'. GRPCServer_GetActiveRelays ex_world ex_svc id 9 ctx ex_ask st = (Val (Inr resp), st') \<and>
    length (gas_Relays resp) \<le> 1"
proof -
  have "\<exists>relays. NodeManager_GetActiveRelays mem_redis id 9 ''eu'' 3 [] (c_redis st) = Inr relays"
    by (simp add: NodeManager_GetActiveRelays_def mem_redis_def Let_def split: prod.split)
  then obtain relays where r: "NodeManager_GetActiveRelays mem_redis id 9 ''eu'' 3 [] (c_redis st) = Inr relays" ..
  have "length relays \<le> 1" using mem_relays_length [OF _ r] assms by (simp add: is_perm_def)
  then show ?thesis using r
    by (simp add: GRPCServer_GetActiveRelays_def NodeService_GetActiveRelays_def ex_ask_def ex_world_def ex_svc_def NewNodeService_def)
qed

theorem relay_discovered_witness:
  "\<exists>p resp st''. relay_main (ex_relay_world ex_rpc) = Inr p \<and>
    GRPCServer_GetActiveRelays ex_world ex_svc id 9 (incoming None) ex_ask
      (register_state toy_tokens ex_world ex_svc second id 0 ex_core (relay_register_request (w_crypto ex_world) (rp_core p))) =
      (Val (Inr resp), st'') \<and>
    (\<exists>ni \<in> set (gas_Relays resp). id_NodeID (ni_Identity ni) = kp_NodeID (rp_keyPair p))"
proof -
  have K: "w_crypto ex_world = ex_crypto" "redis_laws (w_redis ex_world)"
    by (simp_all add: ex_world_def mem_redis_laws)
  obtain p where p: "relay_main (ex_relay_world ex_rpc) = Inr p" "rp_loops p"
    "length (c_redis (register_state toy_tokens ex_world ex_svc second id 0 ex_core
      (relay_register_request (w_crypto ex_world) (rp_core p)))) = 1"
    using ex_relay_joins K(1) by auto
  from ex_asked [OF p(3)] obtain resp st'' where a: "GRPCServer_GetActiveRelays ex_world ex_svc id 9 (incoming None) ex_ask
      (register_state toy_tokens ex_world ex_svc second id 0 ex_core (relay_register_request (w_crypto ex_world) (rp_core p))) =
      (Val (Inr resp), st'')" "length (gas_Relays resp) \<le> 1" by blast
  have "\<exists>ni \<in> set (gas_Relays resp). id_NodeID (ni_Identity ni) = kp_NodeID (rp_keyPair p) \<and>
    ni_Endpoints ni = [rcf_RelayIP (rp_cfg p) @ '':'' @ dec_int (rcf_RelayPort (rp_cfg p))] \<and>
    ni_Region ni = rcf_Region (rp_cfg p)"
    by (rule relay_discovered [OF K(2) _ _ _ _ p(1,2) refl _ _ _ a(1)])
       (use a(2) in \<open>simp_all add: is_perm_def ex_svc_def NewNodeService_def ex_relay_world_def ex_rpc_def K(1) ex_ask_def
          asked_limit_def in_int64_def unix_def\<close>)
  then show ?thesis using p(1) a(1) by blast
qed

end
