(* ===== verification/Load_Sim.thy ===== *)
theory Load_Sim
  imports Core_Client Client
begin

text \<open>
  \<^verbatim>\<open>tools/loadsim/main.go\<close>: the load simulator, which registers a number of simulated relays with a
  core server, keeps them alive with heartbeats and looks at the order in which the server
  lists them.

  The server is a record of three calls on a state, so that the program can run against the
  model of the core server. The goroutines that register run one call each; the order in
  which the calls reach the server is the argument \<open>sched\<close>. After the registrations the
  program is driven by events: the ticker of a relay's heartbeat loop, the ticker of the
  monitor, and the signal that ends it. Log lines are reduced to their kind and arguments.
\<close>

section \<open>Simulated relays\<close>

record SimulatedRelay =
  sr_ID :: int
  sr_NodeID :: string
  sr_PrivateKey :: bytes
  sr_PublicKey :: bytes
  sr_Conn :: bool

record NodeMetrics =
  me_CpuUsage :: int
  me_MemoryUsage :: int
  me_ActiveConnections :: int

record 's sim_server =
  ss_RegisterNode :: "RegisterNodeRequest \<Rightarrow> 's \<Rightarrow> (status + RegisterNodeResponse) \<times> 's"
  ss_Heartbeat :: "HeartbeatRequest \<Rightarrow> NodeMetrics \<Rightarrow> 's \<Rightarrow> (status + HeartbeatResponse) \<times> 's"
  ss_GetActiveRelays :: "GetActiveRelaysRequest \<Rightarrow> 's \<Rightarrow> (status + GetActiveRelaysResponse) \<times> 's"

definition newSimulatedRelay :: "crypto \<Rightarrow> bytes result \<Rightarrow> string option \<Rightarrow> int \<Rightarrow> string + SimulatedRelay" where
  "newSimulatedRelay K gen dialErr i =
     (case gen of
        Inl err \<Rightarrow> Inl (''failed to generate keys: '' @ err)
      | Inr priv \<Rightarrow>
          let pub = ed_public K priv; nodeID = hex_encode (take 16 (sha256 K pub)) in
          (case dialErr of
             Some err \<Rightarrow> Inl (''failed to connect: '' @ err)
           | None \<Rightarrow> Inr \<lparr>sr_ID = i, sr_NodeID = nodeID, sr_PrivateKey = priv, sr_PublicKey = pub, sr_Conn = True\<rparr>))"

text \<open>The remainder of Go has the sign of the dividend.\<close>

definition go_mod :: "int \<Rightarrow> int \<Rightarrow> int" where
  "go_mod a b = sgn a * (\<bar>a\<bar> mod \<bar>b\<bar>)"

definition sim_request :: "bytes \<Rightarrow> SimulatedRelay \<Rightarrow> RegisterNodeRequest" where
  "sim_request signature r =
     \<lparr>rr_Identity = Some \<lparr>id_NodeID = sr_NodeID r, id_PublicKey = sr_PublicKey r, id_Signature = signature\<rparr>,
      rr_Type = 2, rr_Endpoints = [''127.0.0.'' @ dec_int (sr_ID r) @ '':5005'' @ dec_int (sr_ID r)],
      rr_Version = ''1.0.0-sim'', rr_Capabilities = [''relay'', ''loadsim''],
      rr_Region = ''region-'' @ dec_int (go_mod (sr_ID r) 3 + 1)\<rparr>"

definition SimulatedRelay_Register ::
    "crypto \<Rightarrow> (status \<Rightarrow> string) \<Rightarrow> 's sim_server \<Rightarrow> SimulatedRelay \<Rightarrow> 's \<Rightarrow> (string option \<times> 's) go" where
  "SimulatedRelay_Register K errText S r s =
     go_bind (ed25519_Sign K (sr_PrivateKey r) (sr_NodeID r)) (\<lambda>signature.
       (case ss_RegisterNode S (sim_request signature r) s of
          (Inl err, s') \<Rightarrow> Val (Some (errText err), s')
        | (Inr resp, s') \<Rightarrow>
            Val (if \<not> rn_Success resp then Some (''registration failed: '' @ rn_Message resp) else None, s')))"

text \<open>The metrics are computed on \<open>int\<close>; the two that are converted to \<open>float32\<close> are kept as the integers
  they are converted from.\<close>

definition sim_metrics :: "SimulatedRelay \<Rightarrow> NodeMetrics" where
  "sim_metrics r = \<lparr>me_CpuUsage = 10 + sr_ID r * 5, me_MemoryUsage = 20 + sr_ID r * 3,
     me_ActiveConnections = int32 (sr_ID r * 10)\<rparr>"

definition sim_sendHeartbeat ::
    "crypto \<Rightarrow> (status \<Rightarrow> string) \<Rightarrow> 's sim_server \<Rightarrow> time \<Rightarrow> SimulatedRelay \<Rightarrow> 's \<Rightarrow> (string option \<times> 's) go" where
  "sim_sendHeartbeat K errText S now r s =
     go_bind (ed25519_Sign K (sr_PrivateKey r) (''heartbeat:'' @ dec_int (unix now))) (\<lambda>signature.
       (case ss_Heartbeat S \<lparr>hb_NodeId = sr_NodeID r, hb_Signature = signature, hb_Status = 1\<rparr> (sim_metrics r) s of
          (Inl err, s') \<Rightarrow> Val (Some (errText err), s')
        | (Inr resp, s') \<Rightarrow> Val (if \<not> hr_Success resp then Some ''heartbeat not acknowledged'' else None, s')))"

datatype sim_line =
    RelayCreated int string
  | RelayRegistered int
  | RelayNotRegistered int string
  | HeartbeatFailed int string
  | HeartbeatSent int nat
  | LoopStopped int nat
  | IterationFailed nat string
  | IterationEmpty nat
  | IterationOrder nat string
  | FirstPosition string nat nat
  | ShuffleWorking
  | ShuffleNotWorking
  | NoRelaysReturned
  | ShuttingDown

text \<open>One tick of the heartbeat loop with its count, and the loop: a ticker that is not positive panics;
  the ticks come with their times until the context is done.\<close>

definition sim_beat ::
    "crypto \<Rightarrow> (status \<Rightarrow> string) \<Rightarrow> 's sim_server \<Rightarrow> SimulatedRelay \<Rightarrow> time \<Rightarrow> nat \<Rightarrow> 's \<Rightarrow> (sim_line \<times> nat \<times> 's) go" where
  "sim_beat K errText S r now heartbeatCount s =
     go_bind (sim_sendHeartbeat K errText S now r s) (\<lambda>(err, s').
       Val (case err of
          Some e \<Rightarrow> (HeartbeatFailed (sr_ID r) e, heartbeatCount, s')
        | None \<Rightarrow> (HeartbeatSent (sr_ID r) (heartbeatCount + 1), heartbeatCount + 1, s')))"

fun sim_beats ::
    "crypto \<Rightarrow> (status \<Rightarrow> string) \<Rightarrow> 's sim_server \<Rightarrow> SimulatedRelay \<Rightarrow> time list \<Rightarrow> nat \<Rightarrow> 's \<Rightarrow> (sim_line list \<times> 's) go" where
  "sim_beats K errText S r [] heartbeatCount s = Val ([LoopStopped (sr_ID r) heartbeatCount], s)"
| "sim_beats K errText S r (now # ticks) heartbeatCount s =
     go_bind (sim_beat K errText S r now heartbeatCount s) (\<lambda>(line, n, s').
     go_bind (sim_beats K errText S r ticks n s') (\<lambda>(lines, s'').
       Val (line # lines, s'')))"

definition new_ticker :: "duration \<Rightarrow> unit go" where
  "new_ticker d = (if d \<le> 0 then Panic ''non-positive interval for NewTicker'' else Val ())"

definition HeartbeatLoop ::
    "crypto \<Rightarrow> (status \<Rightarrow> string) \<Rightarrow> 's sim_server \<Rightarrow> SimulatedRelay \<Rightarrow> duration \<Rightarrow> time list \<Rightarrow> 's \<Rightarrow> (sim_line list \<times> 's) go" where
  "HeartbeatLoop K errText S r interval ticks s =
     go_bind (new_ticker interval) (\<lambda>_. sim_beats K errText S r ticks 0 s)"

definition SimulatedRelay_Close :: "SimulatedRelay \<Rightarrow> SimulatedRelay" where
  "SimulatedRelay_Close r = (if sr_Conn r then r\<lparr>sr_Conn := False\<rparr> else r)"

section \<open>The order of the relays\<close>

fun formatOrder_from :: "nat \<Rightarrow> string list \<Rightarrow> string \<Rightarrow> string" where
  "formatOrder_from i [] result = result"
| "formatOrder_from i (x # xs) result = formatOrder_from (Suc i) xs ((if i > 0 then result @ '', '' else result) @ x)"

definition formatOrder :: "string list \<Rightarrow> string" where
  "formatOrder order = formatOrder_from 0 order []"

fun short_ids :: "NodeInfo list \<Rightarrow> string list go" where
  "short_ids [] = Val []"
| "short_ids (relay # relays) =
     go_bind (slice_to 8 (id_NodeID (ni_Identity relay))) (\<lambda>shortID.
     go_bind (short_ids relays) (\<lambda>order. Val (shortID # order)))"

text \<open>\<open>firstPositionCount[k]++\<close>.\<close>

definition count_up :: "string \<Rightarrow> (string \<times> nat) list \<Rightarrow> (string \<times> nat) list" where
  "count_up k m = AList.update k (case map_of m k of None \<Rightarrow> 1 | Some n \<Rightarrow> n + 1) m"

definition get_iteration ::
    "(status \<Rightarrow> string) \<Rightarrow> 's sim_server \<Rightarrow> nat \<Rightarrow> (string \<times> nat) list \<Rightarrow> 's
     \<Rightarrow> (sim_line \<times> (string \<times> nat) list \<times> 's) go" where
  "get_iteration errText S i firstPositionCount s =
     (case ss_GetActiveRelays S \<lparr>gar_PreferredRegion = [], gar_Limit = 5, gar_ExcludeNodeIds = []\<rparr> s of
        (Inl err, s') \<Rightarrow> Val (IterationFailed (i + 1) (errText err), firstPositionCount, s')
      | (Inr resp, s') \<Rightarrow>
          if length (gas_Relays resp) = 0 then Val (IterationEmpty (i + 1), firstPositionCount, s')
          else go_bind (short_ids (gas_Relays resp)) (\<lambda>order.
            Val (IterationOrder (i + 1) (formatOrder order), count_up (hd order) firstPositionCount, s')))"

fun get_iterations ::
    "(status \<Rightarrow> string) \<Rightarrow> 's sim_server \<Rightarrow> nat list \<Rightarrow> (string \<times> nat) list \<Rightarrow> 's
     \<Rightarrow> (sim_line list \<times> (string \<times> nat) list \<times> 's) go" where
  "get_iterations errText S [] m s = Val ([], m, s)"
| "get_iterations errText S (i # is) m s =
     go_bind (get_iteration errText S i m s) (\<lambda>(line, m', s').
     go_bind (get_iterations errText S is m' s') (\<lambda>(lines, m'', s'').
       Val (line # lines, m'', s'')))"

text \<open>\<open>range_order\<close> is the order in which the loop over the map visits it. The share in percent is kept as
  the count and the number of iterations.\<close>

definition testGetActiveRelays ::
    "(status \<Rightarrow> string) \<Rightarrow> 's sim_server \<Rightarrow> ((string \<times> nat) list \<Rightarrow> (string \<times> nat) list) \<Rightarrow> nat \<Rightarrow> 's
     \<Rightarrow> (sim_line list \<times> 's) go" where
  "testGetActiveRelays errText S range_order iterations s =
     go_bind (get_iterations errText S [0..<iterations] [] s) (\<lambda>(lines, firstPositionCount, s').
       Val (lines @ map (\<lambda>(nodeID, count). FirstPosition nodeID count iterations) (range_order firstPositionCount) @
         [if length firstPositionCount > 1 then ShuffleWorking
          else if length firstPositionCount = 1 then ShuffleNotWorking
          else NoRelaysReturned], s'))"

section \<open>The program\<close>

record sim_flags =
  fl_core :: string
  fl_relays :: int
  fl_interval :: int
  fl_testGetRelays :: bool

record sim_world =
  sw_crypto :: crypto
  sw_errText :: "status \<Rightarrow> string"
  sw_gen :: "nat \<Rightarrow> bytes result"
  sw_dialErr :: "string \<Rightarrow> string option"
  sw_sched :: "SimulatedRelay list \<Rightarrow> SimulatedRelay list"
  sw_range :: "(string \<times> nat) list \<Rightarrow> (string \<times> nat) list"

text \<open>\<open>log.Fatalf\<close> ends the program with the number of the relay and the error.\<close>

fun create_relays :: "sim_world \<Rightarrow> string \<Rightarrow> nat list \<Rightarrow> ((int \<times> string) + SimulatedRelay list \<times> sim_line list) go" where
  "create_relays w core [] = Val (Inr ([], []))"
| "create_relays w core (i # is) =
     (case newSimulatedRelay (sw_crypto w) (sw_gen w i) (sw_dialErr w core) (int i + 1) of
        Inl err \<Rightarrow> Val (Inl (int i + 1, err))
      | Inr relay \<Rightarrow>
          go_bind (slice_to 16 (sr_NodeID relay)) (\<lambda>short.
          go_bind (create_relays w core is) (\<lambda>r.
            Val (case r of
               Inl f \<Rightarrow> Inl f
             | Inr (relays, lines) \<Rightarrow> Inr (relay # relays, RelayCreated (int i + 1) short # lines)))))"

fun register_relays :: "sim_world \<Rightarrow> 's sim_server \<Rightarrow> SimulatedRelay list \<Rightarrow> 's \<Rightarrow> (sim_line list \<times> 's) go" where
  "register_relays w S [] s = Val ([], s)"
| "register_relays w S (r # rs) s =
     go_bind (SimulatedRelay_Register (sw_crypto w) (sw_errText w) S r s) (\<lambda>(err, s').
     go_bind (register_relays w S rs s') (\<lambda>(lines, s'').
       Val ((case err of Some e \<Rightarrow> RelayNotRegistered (sr_ID r) e | None \<Rightarrow> RelayRegistered (sr_ID r)) # lines, s'')))"

text \<open>\<open>relays[0].Client\<close>.\<close>

definition test_if :: "sim_flags \<Rightarrow> sim_world \<Rightarrow> 's sim_server \<Rightarrow> SimulatedRelay list \<Rightarrow> nat \<Rightarrow> 's \<Rightarrow> (sim_line list \<times> 's) go" where
  "test_if fl w S relays iterations s =
     (if \<not> fl_testGetRelays fl then Val ([], s)
      else if relays = [] then Panic ''index out of range''
      else testGetActiveRelays (sw_errText w) S (sw_range w) iterations s)"

datatype sim_event = Beat nat time | Monitor | Signal

text \<open>The loops of the relays and of the monitor, as the events come; \<open>counts\<close> holds the heartbeats each
  relay has sent. The signal closes the connections and ends the program.\<close>

fun sim_loop ::
    "sim_flags \<Rightarrow> sim_world \<Rightarrow> 's sim_server \<Rightarrow> SimulatedRelay list \<Rightarrow> nat list \<Rightarrow> sim_event list \<Rightarrow> 's
     \<Rightarrow> (sim_line list \<times> SimulatedRelay list \<times> 's) go" where
  "sim_loop fl w S relays counts [] s = Val ([], relays, s)"
| "sim_loop fl w S relays counts (Signal # es) s = Val ([ShuttingDown], map SimulatedRelay_Close relays, s)"
| "sim_loop fl w S relays counts (Monitor # es) s =
     go_bind (test_if fl w S relays 3 s) (\<lambda>(lines, s').
     go_bind (sim_loop fl w S relays counts es s') (\<lambda>(rest, rs, s'').
       Val (lines @ rest, rs, s'')))"
| "sim_loop fl w S relays counts (Beat k now # es) s =
     (if k < length relays \<and> k < length counts
      then go_bind (sim_beat (sw_crypto w) (sw_errText w) S (relays ! k) now (counts ! k) s) (\<lambda>(line, n, s').
        go_bind (sim_loop fl w S relays (counts[k := n]) es s') (\<lambda>(rest, rs, s'').
          Val (line # rest, rs, s'')))
      else sim_loop fl w S relays counts es s)"

definition loadsim_main ::
    "sim_flags \<Rightarrow> sim_world \<Rightarrow> 's sim_server \<Rightarrow> sim_event list \<Rightarrow> 's
     \<Rightarrow> ((int \<times> string) + sim_line list \<times> SimulatedRelay list \<times> 's) go" where
  "loadsim_main fl w S events s =
     (if fl_relays fl < 0 then Panic ''makeslice: len out of range''
      else go_bind (create_relays w (fl_core fl) [0..<nat (fl_relays fl)]) (\<lambda>r.
        (case r of
           Inl f \<Rightarrow> Val (Inl f)
         | Inr (relays, created) \<Rightarrow>
             go_bind (register_relays w S (sw_sched w relays) s) (\<lambda>(registered, s1).
             go_bind (test_if fl w S relays 5 s1) (\<lambda>(tested, s2).
             go_bind (if relays = [] then Val () else new_ticker (fl_interval fl * second)) (\<lambda>_.
             go_bind (sim_loop fl w S relays (replicate (length relays) 0) events s2) (\<lambda>(rest, rs, s3).
               Val (Inr (created @ registered @ tested @ rest, rs, s3)))))))))"

section \<open>Lemmas\<close>

text \<open>The order is printed with a comma and a space between the names.\<close>

lemma formatOrder_from_Suc: "formatOrder_from (Suc i) xs result = result @ concat (map (\<lambda>x. '', '' @ x) xs)"
  by (induction xs arbitrary: i result) simp_all

lemma formatOrder_Cons: "formatOrder (x # xs) = x @ concat (map (\<lambda>x. '', '' @ x) xs)"
  by (simp add: formatOrder_def formatOrder_from_Suc)

text \<open>The registration of a simulated relay is one that the core server's interceptor accepts.\<close>

lemma sim_registration_valid:
  assumes "crypto_ok K" "length priv = 64" "newSimulatedRelay K (Inr priv) None i = Inr r"
  shows "\<exists>sig. ed25519_Sign K (sr_PrivateKey r) (sr_NodeID r) = Val sig \<and>
    validateRegisterNode K (Some (sim_request sig r)) = None"
proof -
  have r: "sr_PrivateKey r = priv" "sr_PublicKey r = ed_public K priv" "sr_NodeID r = DeriveNodeID K (ed_public K priv)"
    using assms(3) by (auto simp: newSimulatedRelay_def Let_def DeriveNodeID_def)
  have "VerifySignature K (sr_PublicKey r) (sr_NodeID r) (ed_sign K priv (sr_NodeID r)) = None"
    unfolding r(2) by (rule VerifySignature_own [OF assms(1,2)])
  then have "VerifyNodeIdentity K (sr_NodeID r) (sr_PublicKey r) (ed_sign K priv (sr_NodeID r)) = None"
    by (simp add: VerifyNodeIdentity_def r)
  moreover have "length (sha256 K (sr_PublicKey r)) = 32" using crypto_okD [OF assms(1)] by simp
  ultimately have "validateRegisterNode K (Some (sim_request (ed_sign K priv (sr_NodeID r)) r)) = None"
    using validateRegisterNode_ok [where r = "sim_request (ed_sign K priv (sr_NodeID r)) r"] by (simp add: sim_request_def)
  then show ?thesis using assms(2) by (simp add: ed25519_Sign_def r)
qed

text \<open>The endpoint of a relay with a number of two digits or more has no port: the text after the colon
  has at least six digits.\<close>

lemma sim_endpoint_port:
  assumes "10 \<le> sr_ID r"
  shows "\<exists>port. rr_Endpoints (sim_request sig r) = [''127.0.0.'' @ dec_int (sr_ID r) @ CHR '':'' # port] \<and> 6 \<le> length port"
proof -
  have "length (dec_int (sr_ID r)) \<noteq> 1" "dec_int (sr_ID r) \<noteq> []"
    using assms length_dec_nat_1 [of "nat (sr_ID r)"] by (auto simp: dec_int_def)
  then have "2 \<le> length (dec_int (sr_ID r))" by (cases "dec_int (sr_ID r)") (auto simp: Suc_le_eq)
  then show ?thesis by (simp add: sim_request_def)
qed

text \<open>Without relays the test of the order panics.\<close>

lemma loadsim_no_relays:
  "fl_relays fl = 0 \<Longrightarrow> fl_testGetRelays fl \<Longrightarrow> sw_sched w [] = [] \<Longrightarrow>
     loadsim_main fl w S events s = Panic ''index out of range''"
  by (simp add: loadsim_main_def test_if_def)

section \<open>The verdict\<close>

text \<open>The names that came first, in the order of the iterations.\<close>

fun firsts :: "'s sim_server \<Rightarrow> nat \<Rightarrow> 's \<Rightarrow> string list" where
  "firsts S 0 s = []"
| "firsts S (Suc n) s =
     (case ss_GetActiveRelays S \<lparr>gar_PreferredRegion = [], gar_Limit = 5, gar_ExcludeNodeIds = []\<rparr> s of
        (Inl err, s') \<Rightarrow> firsts S n s'
      | (Inr resp, s') \<Rightarrow>
          (case gas_Relays resp of [] \<Rightarrow> firsts S n s' | r # rs \<Rightarrow> take 8 (id_NodeID (ni_Identity r)) # firsts S n s'))"

lemma short_ids_Val: "short_ids relays = Val order \<Longrightarrow> order = map (\<lambda>r. take 8 (id_NodeID (ni_Identity r))) relays"
  by (induction relays arbitrary: order) (auto simp: go_Val)

lemma count_up_map: "map_of (count_up k m) = (map_of m)(k \<mapsto> (case map_of m k of None \<Rightarrow> 1 | Some n \<Rightarrow> n + 1))"
  by (simp add: count_up_def update_conv')

lemma count_up_distinct: "distinct (map fst m) \<Longrightarrow> distinct (map fst (count_up k m))"
  by (simp add: count_up_def distinct_update)

lemma get_iterations_counts:
  assumes "get_iterations errText S is m s = Val (lines, m', s')" "distinct (map fst m)"
  shows "distinct (map fst m') \<and> (\<forall>k. (case map_of m' k of None \<Rightarrow> 0 | Some n \<Rightarrow> n) =
      (case map_of m k of None \<Rightarrow> 0 | Some n \<Rightarrow> n) + count_list (firsts S (length is) s) k) \<and>
    dom (map_of m') = dom (map_of m) \<union> set (firsts S (length is) s)"
  using assms
proof (induction "is" arbitrary: m s lines)
  case (Cons i "is")
  from Cons.prems(1) obtain line m1 s1 rest where it: "get_iteration errText S i m s = Val (line, m1, s1)"
    "get_iterations errText S is m1 s1 = Val (rest, m', s')" by (auto simp: go_Val split: prod.splits)
  show ?case
  proof (cases "ss_GetActiveRelays S \<lparr>gar_PreferredRegion = [], gar_Limit = 5, gar_ExcludeNodeIds = []\<rparr> s")
    case (Pair a s2)
    consider "m1 = m" "s1 = s2" "firsts S (Suc (length is)) s = firsts S (length is) s2"
      | k where "m1 = count_up k m" "s1 = s2" "firsts S (Suc (length is)) s = k # firsts S (length is) s2"
      using it(1) Pair by (auto simp: get_iteration_def go_Val dest!: short_ids_Val split: sum.splits if_splits list.splits)
    then show ?thesis
    proof cases
      case 1
      then show ?thesis using Cons.IH [OF it(2)] Cons.prems(2) by simp
    next
      case 2
      then show ?thesis using Cons.IH [OF it(2)] count_up_distinct [OF Cons.prems(2)]
        by (auto simp: count_up_map split: option.splits)
    qed
  qed
qed simp

text \<open>The last line of the test tells whether two different relays came first.\<close>

lemma testGetActiveRelays_verdict:
  assumes "testGetActiveRelays errText S ord n s = Val (lines, s')"
  shows "last lines = (if card (set (firsts S n s)) > 1 then ShuffleWorking
    else if card (set (firsts S n s)) = 1 then ShuffleNotWorking else NoRelaysReturned)"
proof -
  obtain ls m where it: "get_iterations errText S [0..<n] [] s = Val (ls, m, s')"
    and l: "last lines = (if length m > 1 then ShuffleWorking else if length m = 1 then ShuffleNotWorking else NoRelaysReturned)"
    using assms by (auto simp: testGetActiveRelays_def go_Val)
  from get_iterations_counts [OF it] have "distinct (map fst m)" "set (map fst m) = set (firsts S n s)"
    by (auto simp: dom_map_of_conv_image_fst)
  then have "length m = card (set (firsts S n s))" using distinct_card [of "map fst m"] by simp
  then show ?thesis using l by simp
qed

text \<open>The test does not panic against a server that lists nodes with ids of eight characters or more.\<close>

lemma short_ids_total: "\<forall>r \<in> set relays. 8 \<le> length (id_NodeID (ni_Identity r)) \<Longrightarrow> \<exists>order. short_ids relays = Val order"
  by (induction relays) auto

lemma get_iterations_total:
  assumes "\<And>q s resp s'. ss_GetActiveRelays S q s = (Inr resp, s') \<Longrightarrow>
      \<forall>r \<in> set (gas_Relays resp). 8 \<le> length (id_NodeID (ni_Identity r))"
  shows "\<exists>x. get_iterations errText S is m s = Val x"
proof (induction "is" arbitrary: m s)
  case (Cons i "is")
  have "\<exists>y. get_iteration errText S i m s = Val y"
  proof (cases "ss_GetActiveRelays S \<lparr>gar_PreferredRegion = [], gar_Limit = 5, gar_ExcludeNodeIds = []\<rparr> s")
    case (Pair a s')
    show ?thesis
    proof (cases a)
      case (Inr resp)
      then obtain order where "short_ids (gas_Relays resp) = Val order" using Pair assms short_ids_total by blast
      then show ?thesis using Pair Inr by (simp add: get_iteration_def)
    qed (simp add: get_iteration_def Pair)
  qed
  then obtain line m1 s1 where "get_iteration errText S i m s = Val (line, m1, s1)" by (metis prod_cases3)
  moreover obtain z where "get_iterations errText S is m1 s1 = Val z" using Cons.IH by blast
  ultimately show ?case by (cases z) simp
qed simp

end
