(* ===== verification/Registration.thy ===== *)
theory Registration
  imports Process_Props Load_Sim Client_Core
begin

text \<open>
  Everybody who registers with a core server (the clients, the relays, the simulated relays of
  the load simulator) makes a request that its interceptor accepts. The locale states this
  contract and what follows from it; it is interpreted on the three requests of the code.
\<close>

section \<open>The node service with working stores\<close>

definition stores_work :: "'r world \<Rightarrow> bool" where
  "stores_work W \<longleftrightarrow> w_faults W ''IsNodeBanned'' = None \<and>
     (\<forall>now k v ttl s. fst (r_set (w_redis W) now k v ttl s) = None) \<and>
     (\<forall>now z sc m s. fst (r_zadd (w_redis W) now z sc m s) = None)"

lemma NodeManager_RegisterNode_works:
  "stores_work W \<Longrightarrow> fst (NodeManager_RegisterNode (w_redis W) m now node s) = None"
  by (simp add: stores_work_def NodeManager_RegisterNode_def addToActiveRelays_def Let_def
      split: prod.split option.split) (metis fst_conv option.distinct(1))

lemma service_accepts:
  assumes "stores_work W"
    and "VerifyNodeIdentity (w_crypto W) (id_NodeID (reg_Identity reg)) (id_PublicKey (reg_Identity reg))
      (id_Signature (reg_Identity reg)) = None"
  shows "(\<exists>x. fst (NodeService_RegisterNode W svc perm now reg st) = Inr x) \<longleftrightarrow>
    \<not> node_banned (c_db st) now (id_NodeID (reg_Identity reg))"
proof -
  obtain reason d where "pg_IsNodeBanned (w_faults W) now (id_NodeID (reg_Identity reg)) (c_db st) =
      (Inr (node_banned (c_db st) now (id_NodeID (reg_Identity reg)), reason), d)"
    using pg_IsNodeBanned_result [of "w_faults W"] assms(1) by (metis prod.collapse stores_work_def)
  then show ?thesis
    using assms(2) NodeManager_RegisterNode_works [OF assms(1)]
    by (simp add: NodeService_RegisterNode_def Let_def split: prod.split option.split) (metis fst_conv option.distinct(1))
qed

section \<open>The contract\<close>

text \<open>\<open>own\<close>: the keys of the node are those it generated or loaded.\<close>

locale registering_node =
  fixes request :: "crypto \<Rightarrow> 'c \<Rightarrow> RegisterNodeRequest"
    and own :: "crypto \<Rightarrow> 'c \<Rightarrow> bool"
    and node_id :: "'c \<Rightarrow> string"
  assumes accepted: "crypto_ok K \<Longrightarrow> own K c \<Longrightarrow> validateRegisterNode K (Some (request K c)) = None"
    and identity: "\<exists>i. rr_Identity (request K c) = Some i \<and> id_NodeID i = node_id c"
begin

text \<open>The call reaches the node service, and succeeds exactly when the service accepts the node.\<close>

lemma reaches_service:
  assumes "crypto_ok (w_crypto W)" "own (w_crypto W) c"
  shows "\<exists>i resp. rr_Identity (request (w_crypto W) c) = Some i \<and> id_NodeID i = node_id c \<and>
    VerifyNodeIdentity (w_crypto W) (id_NodeID i) (id_PublicKey i) (id_Signature i) = None \<and>
    register_rpc T W svc hi perm now st (request (w_crypto W) c) = Inr resp \<and>
    (rn_Success resp \<longleftrightarrow>
      (\<exists>x. fst (NodeService_RegisterNode W svc perm now (reg_of_request i (request (w_crypto W) c)) st) = Inr x))"
proof -
  let ?req = "request (w_crypto W) c"
  have v: "validateRegisterNode (w_crypto W) (Some ?req) = None" by (rule accepted [OF assms])
  obtain i where i: "rr_Identity ?req = Some i" "id_NodeID i = node_id c" using identity by blast
  then have "VerifyNodeIdentity (w_crypto W) (id_NodeID i) (id_PublicKey i) (id_Signature i) = None"
    using validateRegisterNode_identity [OF v] by simp
  moreover obtain resp where "fst (GRPCServer_RegisterNode W svc hi perm now
      (authenticateUser T now (incoming None)) ?req st) = Val (Inr resp)"
    "rn_Success resp \<longleftrightarrow> (\<exists>x. fst (NodeService_RegisterNode W svc perm now (reg_of_request i ?req) st) = Inr x)"
    using GRPCServer_RegisterNode_identity(1) [OF i(1)] by blast
  ultimately show ?thesis using i v by (auto simp: register_rpc_def RegisterNode_call_effect)
qed

text \<open>With stores that work, only a ban keeps the node out.\<close>

lemma registers_unless_banned:
  assumes "crypto_ok (w_crypto W)" "own (w_crypto W) c" "stores_work W"
  shows "\<exists>resp. register_rpc T W svc hi perm now st (request (w_crypto W) c) = Inr resp \<and>
    (rn_Success resp \<longleftrightarrow> \<not> node_banned (c_db st) now (node_id c))"
proof -
  from reaches_service [OF assms(1,2)] obtain i resp where i: "id_NodeID i = node_id c"
    "VerifyNodeIdentity (w_crypto W) (id_NodeID i) (id_PublicKey i) (id_Signature i) = None"
    "register_rpc T W svc hi perm now st (request (w_crypto W) c) = Inr resp"
    "rn_Success resp \<longleftrightarrow>
      (\<exists>x. fst (NodeService_RegisterNode W svc perm now (reg_of_request i (request (w_crypto W) c)) st) = Inr x)" by blast
  have "reg_Identity (reg_of_request i (request (w_crypto W) c)) = i" by (simp add: reg_of_request_def)
  then show ?thesis using service_accepts [OF assms(3)] i by metis
qed

end

section \<open>Relays, simulated relays and clients\<close>

definition relay_own :: "crypto \<Rightarrow> CoreClient \<Rightarrow> bool" where
  "relay_own K c \<longleftrightarrow> (\<exists>priv. length priv = 64 \<and> co_keyPair c = newKeyPairFromPrivate K priv)"

interpretation relay_node: registering_node relay_register_request relay_own "\<lambda>c. kp_NodeID (co_keyPair c)"
proof
  fix K c
  show "crypto_ok K \<Longrightarrow> relay_own K c \<Longrightarrow> validateRegisterNode K (Some (relay_register_request K c)) = None"
    using relay_registration_valid by (auto simp: relay_own_def)
  show "\<exists>i. rr_Identity (relay_register_request K c) = Some i \<and> id_NodeID i = kp_NodeID (co_keyPair c)"
    by (simp add: relay_register_request_def)
qed

definition sim_own :: "crypto \<Rightarrow> SimulatedRelay \<Rightarrow> bool" where
  "sim_own K r \<longleftrightarrow> length (sr_PrivateKey r) = 64 \<and> newSimulatedRelay K (Inr (sr_PrivateKey r)) None (sr_ID r) = Inr r"

definition sim_signed :: "crypto \<Rightarrow> SimulatedRelay \<Rightarrow> RegisterNodeRequest" where
  "sim_signed K r = sim_request (ed_sign K (sr_PrivateKey r) (sr_NodeID r)) r"

interpretation sim_node: registering_node sim_signed sim_own sr_NodeID
proof
  fix K r
  show "crypto_ok K \<Longrightarrow> sim_own K r \<Longrightarrow> validateRegisterNode K (Some (sim_signed K r)) = None"
    using sim_registration_valid [of K "sr_PrivateKey r" "sr_ID r" r] by (auto simp: sim_own_def sim_signed_def ed25519_Sign_def)
  show "\<exists>i. rr_Identity (sim_signed K r) = Some i \<and> id_NodeID i = sr_NodeID r"
    by (simp add: sim_signed_def sim_request_def)
qed

definition client_own :: "crypto \<Rightarrow> EnxameClient \<Rightarrow> bool" where
  "client_own K c \<longleftrightarrow> length (c_privateKey c) = 64 \<and> c_publicKey c = ed_public K (c_privateKey c) \<and>
     c_nodeID c = deriveNodeID K (c_publicKey c)"

definition client_signed :: "crypto \<Rightarrow> EnxameClient \<Rightarrow> RegisterNodeRequest" where
  "client_signed K c = register_request (ed_sign K (c_privateKey c) (c_nodeID c)) c"

interpretation client_node: registering_node client_signed client_own c_nodeID
proof
  fix K c
  assume K: "crypto_ok K" and c: "client_own K c"
  then have "VerifySignature K (c_publicKey c) (c_nodeID c) (ed_sign K (c_privateKey c) (c_nodeID c)) = None"
    using VerifySignature_own [OF K] by (simp add: client_own_def)
  then have "VerifyNodeIdentity K (c_nodeID c) (c_publicKey c) (ed_sign K (c_privateKey c) (c_nodeID c)) = None"
    using c by (simp add: VerifyNodeIdentity_def client_own_def deriveNodeID_def DeriveNodeID_def)
  then show "validateRegisterNode K (Some (client_signed K c)) = None"
    using validateRegisterNode_ok [where r = "client_signed K c"] crypto_okD [OF K]
    by (simp add: client_signed_def register_request_def)
next
  fix K c
  show "\<exists>i. rr_Identity (client_signed K c) = Some i \<and> id_NodeID i = c_nodeID c"
    by (simp add: client_signed_def register_request_def)
qed

section \<open>Everybody registers\<close>

text \<open>The core server as the load simulator sees it, as far as registrations go.\<close>

definition core_sim_server ::
    "tokens \<Rightarrow> 'r world \<Rightarrow> NodeService \<Rightarrow> duration \<Rightarrow> (Node list \<Rightarrow> Node list) \<Rightarrow> time \<Rightarrow> 'r core sim_server" where
  "core_sim_server T W svc hi perm now =
     \<lparr>ss_RegisterNode = (\<lambda>req st. (register_rpc T W svc hi perm now st req, register_state T W svc hi perm now st req)),
      ss_Heartbeat = (\<lambda>req metrics st.
        (case GRPCServer_Heartbeat W svc now (incoming None) req st of (r, st') \<Rightarrow> (recovered r, st'))),
      ss_GetActiveRelays = (\<lambda>req st.
        (case GRPCServer_GetActiveRelays W svc perm now (incoming None) req st of (r, st') \<Rightarrow> (recovered r, st')))\<rparr>"

text \<open>C15. Everybody can register, and only a ban keeps a node out: as long as the stores of the core
  server work, the registration of a relay, of a client that is connected and of a simulated
  relay, each with the keys it generated or loaded, succeeds exactly when the node is not
  banned.\<close>

theorem everybody_registers:
  fixes W :: "'r world"
  defines "K \<equiv> w_crypto W"
  assumes "crypto_ok K" "stores_work W"
  shows "(relay_own K relay \<longrightarrow>
      (CoreClient_Register K errText (register_rpc T W svc hi perm now st) relay = None \<longleftrightarrow>
        \<not> node_banned (c_db st) now (kp_NodeID (co_keyPair relay)))) \<and>
    (client_own K client \<and> c_coreConn client \<noteq> None \<longrightarrow>
      (Client_register K (register_rpc T W svc hi perm now st) client = Val None \<longleftrightarrow>
        \<not> node_banned (c_db st) now (c_nodeID client))) \<and>
    (sim_own K sim \<longrightarrow>
      ((\<exists>st'. SimulatedRelay_Register K errText (core_sim_server T W svc hi perm now) sim st = Val (None, st')) \<longleftrightarrow>
        \<not> node_banned (c_db st) now (sr_NodeID sim)))"
proof (intro conjI impI)
  assume r: "relay_own K relay"
  obtain resp where "register_rpc T W svc hi perm now st (relay_register_request K relay) = Inr resp"
    "rn_Success resp \<longleftrightarrow> \<not> node_banned (c_db st) now (kp_NodeID (co_keyPair relay))"
    using relay_node.registers_unless_banned [OF assms(2) [unfolded K_def] r [unfolded K_def] assms(3)]
    unfolding K_def by blast
  then show "CoreClient_Register K errText (register_rpc T W svc hi perm now st) relay = None \<longleftrightarrow>
      \<not> node_banned (c_db st) now (kp_NodeID (co_keyPair relay))"
    by (simp add: CoreClient_Register_def)
next
  assume c: "client_own K client \<and> c_coreConn client \<noteq> None"
  then have "length (c_privateKey client) = 64" by (simp add: client_own_def)
  moreover obtain resp where "register_rpc T W svc hi perm now st (client_signed K client) = Inr resp"
    "rn_Success resp \<longleftrightarrow> \<not> node_banned (c_db st) now (c_nodeID client)"
    using client_node.registers_unless_banned [OF assms(2) [unfolded K_def] conjunct1 [OF c, unfolded K_def] assms(3)]
    unfolding K_def by blast
  ultimately show "Client_register K (register_rpc T W svc hi perm now st) client = Val None \<longleftrightarrow>
      \<not> node_banned (c_db st) now (c_nodeID client)"
    using c by (auto simp: Client_register_def ed25519_Sign_def call_core_def client_signed_def)
next
  assume s: "sim_own K sim"
  then have "length (sr_PrivateKey sim) = 64" by (simp add: sim_own_def)
  moreover obtain resp where "register_rpc T W svc hi perm now st (sim_signed K sim) = Inr resp"
    "rn_Success resp \<longleftrightarrow> \<not> node_banned (c_db st) now (sr_NodeID sim)"
    using sim_node.registers_unless_banned [OF assms(2) [unfolded K_def] s [unfolded K_def] assms(3)]
    unfolding K_def by blast
  ultimately show "(\<exists>st'. SimulatedRelay_Register K errText (core_sim_server T W svc hi perm now) sim st = Val (None, st')) \<longleftrightarrow>
      \<not> node_banned (c_db st) now (sr_NodeID sim)"
    by (simp add: SimulatedRelay_Register_def ed25519_Sign_def core_sim_server_def sim_signed_def)
qed

definition ex_joining :: CoreClient where
  "ex_joining = NewCoreClient ex_relay_cfg (newKeyPairFromPrivate ex_crypto ex_relay_key)"

theorem everybody_registers_witness:
  "CoreClient_Register ex_crypto (\<lambda>_. []) (register_rpc toy_tokens ex_world ex_svc second id 0 ex_core) ex_joining = None"
proof -
  have W: "w_crypto ex_world = ex_crypto" by (simp add: ex_world_def)
  have "crypto_ok (w_crypto ex_world)" "stores_work ex_world"
    by (simp_all add: W ex_crypto_ok) (simp add: stores_work_def ex_world_def mem_redis_def)
  from everybody_registers [OF this, where relay = ex_joining]
  have "relay_own ex_crypto ex_joining \<longrightarrow>
      (CoreClient_Register ex_crypto (\<lambda>_. []) (register_rpc toy_tokens ex_world ex_svc second id 0 ex_core) ex_joining = None \<longleftrightarrow>
        \<not> node_banned (c_db ex_core) 0 (kp_NodeID (co_keyPair ex_joining)))" unfolding W by blast
  moreover have "co_keyPair ex_joining = newKeyPairFromPrivate ex_crypto ex_relay_key" "length ex_relay_key = 64"
    by (simp_all add: ex_joining_def NewCoreClient_def) (simp add: ex_relay_key_def)
  then have "relay_own ex_crypto ex_joining" unfolding relay_own_def by blast
  moreover have "\<not> node_banned (c_db ex_core) 0 (kp_NodeID (co_keyPair ex_joining))"
    by (simp add: node_banned_def ex_core_def empty_db_def)
  ultimately show ?thesis by blast
qed

end
