(* ===== verification/Spec2Isabelle.thy ===== *)
theory Spec2Isabelle
  imports Relay_Server Channel_Props Rate_Limiter Server_Props Core_Client Gui Client_Net Cli_Main Self_Update
    Relay_Test Registration
begin

text \<open>
  \<^bold>\<open>Verification of the Enxame overlay network\<close>

  Enxame is a network of nodes (desktop, mobile and web clients, relays) around one or more
  core servers. A node has an Ed25519 key pair and is named by a hash of its public key. The
  core server keeps the directory of nodes (PostgreSQL for what lasts, Redis for who is
  online), users and their sessions, channels and their governance, moderation (bans and
  alerts signed with master keys), and a cluster of peers. Relays carry envelopes between
  clients over streams. Clients exchange keys end to end, chat in direct chats and channels,
  and keep their history in a local SQLite database.

  The development translates the Go code of these parts into HOL functions and proves what
  makes them correct, or how they fail. The sources are under \<^verbatim>\<open>src/\<close>; the names of the
  definitions are those of the Go functions, prefixed by the receiver where two types share
  a method name, and record fields carry a short prefix of their struct.

  \<^bold>\<open>How the code is modelled\<close>

  \<^item> Go (\<open>Go_Base\<close>, \<open>Go_Path\<close>, \<open>Go_Url\<close>, \<open>Go_Chan\<close>, \<open>Json\<close>, \<open>Rfc3339\<close>). Strings and byte slices are lists of
    bytes; times and durations are nanoseconds, as integers, with the wrap-around of \<open>int32\<close>
    and \<open>int64\<close> written out (or 64-bit words) where the code can reach it. A computation that
    can panic has type \<open>go\<close>, an error is the left side of a sum or \<open>Some\<close> text. \<open>Json\<close> is
    \<open>encoding/json\<close> for the structs that are marshalled, with the proof that reading inverts
    writing; its reader has fuel for the nesting, and fuel of the length of the text is proved
    to be enough. Buffered channels, path cleaning, URLs and RFC 3339 times are modelled as far
    as they are used. A handler takes its time from one argument \<open>now\<close>.
  \<^item> Outside the repository. SHA-256, Ed25519, X25519, AES-GCM, bcrypt and JWT are records of
    functions, with the documented laws as the predicates \<open>crypto_ok\<close>, \<open>cipher_ok\<close> and
    \<open>tokens_ok\<close>; the Redis server is a record of commands with \<open>redis_laws\<close>; statements of SQL
    are functions on tables, and an argument \<open>faults\<close> says which ones the driver fails. Each set
    of laws has an instance (\<open>ex_crypto\<close>, \<open>toy_cipher\<close>, \<open>toy_tokens\<close>, \<open>mem_redis\<close>), on which the
    witnesses of the theorems run. Nothing assumes that hashes have no collisions or that
    signatures cannot be forged.
  \<^item> Interfaces are locales: \<open>machine\<close> (an invariant of a step relation, with the reachable
    states), \<open>keyed_store\<close> (last write wins), \<open>codec\<close> (a struct and its JSON members) and
    \<open>registering_node\<close> (a node whose registration the core server accepts), all interpreted on
    the model's own definitions.

  \<^bold>\<open>Parts and theories\<close>

  \<^item> Relay: \<open>Relay_Transport\<close> (\<^verbatim>\<open>pkg/relay/transport.go\<close>), \<open>Relay_Sessions\<close> (the session manager)
    and \<open>Relay_Server\<close> (streams; \<^verbatim>\<open>pkg/relay/server.go\<close>), a state machine over streams that open,
    receive, send and end in any order. C1 to C6: forwarding refines an abstract delivery, the
    invariant of the relay, a unicast arrives end to end, senders cannot be spoofed on a
    stream, a ban is final, and a half-closed stream panics. \<open>Core_Client\<close> is the relay's client
    of the core server (\<^verbatim>\<open>relay/internal/client\<close>).
  \<^item> Core services: \<open>Crypto\<close>, \<open>Domain\<close>, \<open>Tables\<close>, \<open>Pg_Repo\<close>, \<open>Redis_Nodes\<close>, \<open>Node_Service\<close>,
    \<open>Moderation\<close> and \<open>Service_Props\<close> (\<^verbatim>\<open>internal/crypto\<close>, \<^verbatim>\<open>domain\<close>, \<^verbatim>\<open>repository\<close>, \<^verbatim>\<open>service\<close>). C7 to
    C11: bans are enforced at registration, a registered node is found, moderation needs a
    master key, which relays are suggested, the first user becomes owner. Lemmas show the race
    in that rule, what a content ban needs, what is lost of an event on the bus, and that a ban
    of an unknown node has no effect.
  \<^item> Channels: \<open>Channels\<close>, \<open>Channel_Props\<close> (\<^verbatim>\<open>internal/server/channel_manual.go\<close>), a state machine of
    signed governance requests. C16 to C20: who may change what, the invariant, the window for
    timestamps in 64-bit arithmetic, replay of a demotion as a kick, what a signature binds; a
    lemma shows the panic on an unknown requester.
  \<^item> The gRPC server: \<open>Rpc\<close> (interceptors and handlers), \<open>Rate_Limiter\<close>, \<open>Jwt\<close>,
    \<open>Auth_Interceptor\<close>, \<open>Auth_Server\<close>, \<open>Admin_Server\<close>, \<open>Stream_Manager\<close>, \<open>Grpc_Server\<close>, \<open>Cluster\<close>,
    \<open>Aux_Services\<close>, \<open>Services\<close> (descriptors and client stubs) and \<open>Server_Props\<close>
    (\<^verbatim>\<open>internal/server\<close>). C22, C23 and C25 to C33: the rate limiter is a sliding window, the shards
    of the stream manager refine a map, the administration is open to everybody by a wrong
    path test, who creates channels, registration through the interceptors, sessions and vault
    tokens, durations that wrap, the alert that ends the server, every unary call is answered,
    outsiders join the cluster. Lemmas show what a second subscription does and what the
    health service reports.
  \<^item> Processes: \<open>Core_Config\<close> (\<^verbatim>\<open>internal/config\<close>), \<open>Relay_Service\<close> (\<^verbatim>\<open>pkg/relay/grpc_manual.go\<close> and
    the registration of services), \<open>Processes\<close> (\<^verbatim>\<open>cmd/core-server\<close>, \<^verbatim>\<open>relay/cmd/relay\<close>, start and
    stop of the two servers), \<open>Process_Props\<close> and \<open>Registration\<close>. C34: the connection text of the database,
    read as a URL, gives back the settings. C24: every stub reaches the handler of its path at
    the servers that were started. C21: a relay that joined a core server is found by the
    clients. C15: relays, clients and simulated relays register exactly when they are not
    banned.
  \<^item> Tools: \<open>Relay_Test\<close> (\<^verbatim>\<open>tools/relay-test\<close>) and \<open>Load_Sim\<close> (\<^verbatim>\<open>tools/loadsim\<close>) run on the models of
    the session manager and of any core server. Lemmas show that the test of the relay succeeds
    for all keys, what the verdict of the load simulator says and where it panics.
  \<^item> Client: \<open>Storage\<close> (\<^verbatim>\<open>pkg/storage\<close>), \<open>E2E\<close> (\<^verbatim>\<open>pkg/crypto/e2e\<close>), \<open>Relay_Client\<close>
    (\<^verbatim>\<open>pkg/relay/client.go\<close>), \<open>Client_Codec\<close>, \<open>Client\<close>, \<open>Client_Files\<close>, \<open>Client_Hub\<close>, \<open>Client_Core\<close>
    (\<^verbatim>\<open>pkg/client_sdk/client.go\<close>), \<open>Client_Machine\<close> (its operations as a state machine),
    \<open>Client_Props\<close>, \<open>Client_Net\<close> (clients that answer each other), \<open>Client_Start\<close> (a client and its
    disk), \<open>Self_Update\<close>, and the two front ends \<open>Cli\<close> with \<open>Cli_Main\<close> and \<open>Gui\<close> (\<^verbatim>\<open>cmd/client\<close>,
    \<^verbatim>\<open>cmd/gui/app.go\<close>). C35 to C40: the administration of channels is out of reach in the client,
    the history of a chat, reads after writes, delivery of a direct message through the key
    exchange, the channel key that is cached and never used, files come back as they were
    sent. C12: an update never loses the running program. C13: the traffic between clients
    dies out, by the multiset ordering on the ranks of the commands in flight. C14: a client
    that is started again is the same client, with its session.

  \<^bold>\<open>What is not modelled\<close>

  \<^item> Goroutines interleave at the granularity of operations: a handler is one step. Mutexes are
    not modelled, nor data races; where the code releases a lock inside an operation and this
    matters (the two statements of the first-user rule) the steps are separate.
  \<^item> The \<open>main\<close> functions are modelled up to the point where the goroutines run; what they ask of
    the system (environment, files, pools, listeners) is a record of outcomes, and the options
    of the gRPC library are values without an effect. The window of the desktop application
    (\<^verbatim>\<open>cmd/gui/main.go\<close>, options of a toolkit), generated protocol code beyond the messages and
    descriptors that are used, and the web interface are left out.
  \<^item> Loops that wait for ever are lists of what they receive; heartbeats and tickers are lists of
    ticks. Log output is modelled only where a theorem speaks of it.
  \<^item> Floating-point metrics of heartbeats, which no modelled code reads.
\<close>

end
